(* ===== verification/Prelude.thy ===== *)
theory Prelude
  imports Main "HOL-Library.Word" "HOL-Library.State_Monad" "HOL-Library.Sublist"
begin

text \<open>
  Shared vocabulary of the development: bytes, the state-monad primitives every operation is
  written with, the interface of a frame relation (a reflexive and transitive relation between the
  world before and after a call), and the generic lemmas on lists and strings that several
  components use.
\<close>

section \<open>Bytes and strings\<close>

text \<open>A Go string is a byte sequence; Isabelle's \<open>char\<close> is a byte.\<close>

type_synonym byte = "8 word"
type_synonym bytes = "byte list"

definition byte_of_char :: "char \<Rightarrow> byte" where
  "byte_of_char c = word_of_nat (of_char c)"

definition char_of_byte :: "byte \<Rightarrow> char" where
  "char_of_byte b = char_of (unat b)"

definition bytes_of :: "string \<Rightarrow> bytes" where
  "bytes_of s = map byte_of_char s"

definition string_of :: "bytes \<Rightarrow> string" where
  "string_of bs = map char_of_byte bs"

lemma char_of_byte_of_char [simp]: "char_of_byte (byte_of_char c) = c"
proof -
  have "of_char c < (256::nat)" by simp
  then have "unat (word_of_nat (of_char c) :: byte) = of_char c"
    by (simp add: unat_of_nat)
  then show ?thesis by (simp add: char_of_byte_def byte_of_char_def)
qed

lemma byte_of_char_of_byte [simp]: "byte_of_char (char_of_byte b) = b"
proof -
  have "unat b < 256" using unsigned_less [of b, where 'a = nat] by simp
  then show ?thesis by (simp add: char_of_byte_def byte_of_char_def)
qed

lemma string_of_bytes_of [simp]: "string_of (bytes_of s) = s"
  by (simp add: string_of_def bytes_of_def comp_def)

lemma bytes_of_string_of [simp]: "bytes_of (string_of bs) = bs"
  by (simp add: string_of_def bytes_of_def comp_def)

lemma length_bytes_of [simp]: "length (bytes_of s) = length s"
  by (simp add: bytes_of_def)

lemma length_string_of [simp]: "length (string_of bs) = length bs"
  by (simp add: string_of_def)

lemma string_of_inject [simp]: "string_of xs = string_of ys \<longleftrightarrow> xs = ys"
  by (metis bytes_of_string_of)

definition ascii :: "string \<Rightarrow> bool" where
  "ascii s \<longleftrightarrow> (\<forall>c \<in> set s. of_char c < (128::nat))"

lemma ascii_append [simp]: "ascii (s @ t) \<longleftrightarrow> ascii s \<and> ascii t"
  by (auto simp: ascii_def)

lemma ascii_Cons [simp]: "ascii (c # s) \<longleftrightarrow> of_char c < (128::nat) \<and> ascii s"
  by (auto simp: ascii_def)

lemma ascii_Nil [simp]: "ascii []"
  by (simp add: ascii_def)

section \<open>State-monad primitives\<close>

text \<open>
  Every operation of the program is a value of the library's state monad over the world it acts on;
  Go's pair of a result and an error is a sum, \<open>Inl\<close> the error.
\<close>

definition reads :: "('s \<Rightarrow> 'a) \<Rightarrow> ('s, 'a) state" where
  "reads f = State (\<lambda>s. (f s, s))"

definition writes :: "('s \<Rightarrow> 's) \<Rightarrow> ('s, unit) state" where
  "writes f = State (\<lambda>s. ((), f s))"

abbreviation ok :: "'a \<Rightarrow> ('s, 'e + 'a) state" where
  "ok x \<equiv> State_Monad.return (Inr x)"

abbreviation fail :: "'e \<Rightarrow> ('s, 'e + 'a) state" where
  "fail e \<equiv> State_Monad.return (Inl e)"

text \<open>The state after a run, and its value.\<close>

abbreviation after :: "('s, 'a) state \<Rightarrow> 's \<Rightarrow> 's" where
  "after m s \<equiv> snd (run_state m s)"

abbreviation result :: "('s, 'a) state \<Rightarrow> 's \<Rightarrow> 'a" where
  "result m s \<equiv> fst (run_state m s)"

lemma run_reads [simp]: "run_state (reads f) s = (f s, s)"
  by (simp add: reads_def)

lemma run_writes [simp]: "run_state (writes f) s = ((), f s)"
  by (simp add: writes_def)

lemma after_bind: "after (State_Monad.bind m f) s = after (f (result m s)) (after m s)"
  by (simp add: case_prod_unfold)

lemma result_bind: "result (State_Monad.bind m f) s = result (f (result m s)) (after m s)"
  by (simp add: case_prod_unfold)

lemma run_of_result: "result m w = x \<Longrightarrow> run_state m w = (x, after m w)"
  by (simp add: prod_eq_iff)

lemma run_bindE:
  assumes "run_state (State_Monad.bind m f) s = (y, s')"
  obtains x s1 where "run_state m s = (x, s1)" and "run_state (f x) s1 = (y, s')"
  using assms by (auto split: prod.splits)

section \<open>Frames\<close>

text \<open>
  \<open>frames\<close> collects the facts \<open>state_io_rel R m\<close>: the structural rules of each frame relation
  and one fact for each operation that respects it.
\<close>

named_theorems frames

text \<open>
  A frame relation says what a call may do to the world. It is reflexive and transitive, so that it
  passes through sequencing and branching; a component then needs one lemma per primitive.
\<close>

locale frame =
  fixes R :: "'s \<Rightarrow> 's \<Rightarrow> bool"
  assumes frame_refl: "R s s"
    and frame_trans: "R s t \<Longrightarrow> R t u \<Longrightarrow> R s u"
begin

lemma return_frame: "state_io_rel R (State_Monad.return x)"
  by (simp add: state_io_rel_def frame_refl)

lemma reads_frame: "state_io_rel R (reads f)"
  by (simp add: state_io_rel_def frame_refl)

lemma bind_frame:
  assumes "state_io_rel R m" and "\<And>x. state_io_rel R (f x)"
  shows "state_io_rel R (State_Monad.bind m f)"
  unfolding state_io_rel_def after_bind
  using assms frame_trans by (blast dest: state_io_rel_def [THEN iffD1, rule_format])

lemma if_frame:
  assumes "b \<Longrightarrow> state_io_rel R m" and "\<not> b \<Longrightarrow> state_io_rel R n"
  shows "state_io_rel R (if b then m else n)"
  using assms by simp

lemma sum_frame:
  assumes "\<And>e. x = Inl e \<Longrightarrow> state_io_rel R (f e)" and "\<And>a. x = Inr a \<Longrightarrow> state_io_rel R (g a)"
  shows "state_io_rel R (case x of Inl e \<Rightarrow> f e | Inr a \<Rightarrow> g a)"
  using assms by (simp split: sum.split)

lemma option_frame:
  assumes "x = None \<Longrightarrow> state_io_rel R f" and "\<And>a. x = Some a \<Longrightarrow> state_io_rel R (g a)"
  shows "state_io_rel R (case x of None \<Rightarrow> f | Some a \<Rightarrow> g a)"
  using assms by (simp split: option.split)

lemma prod_frame:
  assumes "\<And>a b. x = (a, b) \<Longrightarrow> state_io_rel R (f a b)"
  shows "state_io_rel R (case x of (a, b) \<Rightarrow> f a b)"
  using assms by (simp split: prod.split)

lemmas frame_rules = return_frame reads_frame bind_frame if_frame sum_frame option_frame prod_frame

lemma frameD: "state_io_rel R m \<Longrightarrow> R s (after m s)"
  by (simp add: state_io_rel_def)

lemma frame_runD: "state_io_rel R m \<Longrightarrow> run_state m s = (x, s') \<Longrightarrow> R s s'"
  by (metis frameD snd_conv)

end

end
