(* ===== verification/Domain.thy ===== *)
theory Domain
  imports Prelude
begin

text \<open>
  The domain layer, \<open>internal/domain\<close>: the sentinel errors, roles and the permission
  matrix, the user, the token response, the access-token claims, pagination and the SCIM
  resources, each with the JSON encoding its struct tags ask for. Field names carry the prefix of
  their struct, since Isabelle's record fields share one name space.
\<close>

section \<open>Errors\<close>

text \<open>
  Go compares errors by identity (\<open>errors.Is\<close>). The ten sentinels of \<open>domain/errors.go\<close> are
  constructors, and so are the sentinels of the two drivers (\<open>redis.Nil\<close>, \<open>pgx.ErrNoRows\<close>)
  and the server error \<open>*pgconn.PgError\<close> with its code and message. \<open>ErrText\<close> is an
  \<open>errors.New\<close> in place or an error of a dependency; \<open>ErrWrap\<close> is \<open>fmt.Errorf\<close> with \<open>%w\<close>.
\<close>

datatype go_error =
    ErrNotFound | ErrConflict | ErrUnauthorized | ErrInvalidToken | ErrValidation
  | ErrInternalError | ErrMFARequired | ErrInvalidMFACode | ErrEmailNotVerified | ErrOAuthExchange
  | RedisNil | PgNoRows | PgError string string
  | ErrText string | ErrWrap string go_error

fun Error :: "go_error \<Rightarrow> string" where
  "Error ErrNotFound = ''resource not found''"
| "Error ErrConflict = ''resource already exists''"
| "Error ErrUnauthorized = ''invalid email or password''"
| "Error ErrInvalidToken = ''invalid or expired session token''"
| "Error ErrValidation = ''input validation failure''"
| "Error ErrInternalError = ''internal server error''"
| "Error ErrMFARequired = ''multi-factor authentication challenge required''"
| "Error ErrInvalidMFACode = ''invalid or expired two-factor verification code''"
| "Error ErrEmailNotVerified = ''email address is not verified''"
| "Error ErrOAuthExchange = ''failed to exchange authorization code with identity provider''"
| "Error RedisNil = ''redis: nil''"
| "Error PgNoRows = ''no rows in result set''"
| "Error (PgError code msg) = msg"
| "Error (ErrText s) = s"
| "Error (ErrWrap s e) = s @ Error e"

text \<open>\<open>errors.Is\<close> walks the chain of wrapped errors.\<close>

fun errors_Is :: "go_error \<Rightarrow> go_error \<Rightarrow> bool" where
  "errors_Is (ErrWrap s e) t \<longleftrightarrow> ErrWrap s e = t \<or> errors_Is e t"
| "errors_Is e t \<longleftrightarrow> e = t"

text \<open>\<open>errors.As\<close> into a \<open>*pgconn.PgError\<close>: its code.\<close>

fun errors_As_PgCode :: "go_error \<Rightarrow> string option" where
  "errors_As_PgCode (PgError code msg) = Some code"
| "errors_As_PgCode (ErrWrap s e) = errors_As_PgCode e"
| "errors_As_PgCode _ = None"

lemma errors_Is_refl [simp]: "errors_Is e e"
  by (cases e) auto

section \<open>Roles and permissions\<close>

type_synonym role = string
type_synonym permission = string

definition RoleAdmin :: role where "RoleAdmin = ''ADMIN''"
definition RoleUser :: role where "RoleUser = ''USER''"

definition Role_IsValid :: "role \<Rightarrow> bool" where
  "Role_IsValid r = (if r = RoleAdmin then True else if r = RoleUser then True else False)"

definition PermissionReadProfile :: permission where "PermissionReadProfile = ''read:profile''"
definition PermissionUpdateProfile :: permission where "PermissionUpdateProfile = ''update:profile''"
definition PermissionDeleteUser :: permission where "PermissionDeleteUser = ''delete:user''"
definition PermissionManageSystem :: permission where "PermissionManageSystem = ''manage:system''"

lemmas permission_defs =
  PermissionReadProfile_def PermissionUpdateProfile_def PermissionDeleteUser_def
  PermissionManageSystem_def

definition RolePermissions :: "role \<rightharpoonup> permission list" where
  "RolePermissions =
     [RoleAdmin \<mapsto> [PermissionReadProfile, PermissionUpdateProfile, PermissionDeleteUser,
                    PermissionManageSystem],
      RoleUser \<mapsto> [PermissionReadProfile, PermissionUpdateProfile]]"

fun permission_loop :: "permission list \<Rightarrow> permission \<Rightarrow> bool" where
  "permission_loop [] required = False"
| "permission_loop (p # ps) required = (if p = required then True else permission_loop ps required)"

definition HasPermission :: "role \<Rightarrow> permission \<Rightarrow> bool" where
  "HasPermission r required =
     (case RolePermissions r of
        None \<Rightarrow> False
      | Some perms \<Rightarrow> permission_loop perms required)"

lemma permission_loop_set [simp]: "permission_loop ps p \<longleftrightarrow> p \<in> set ps"
  by (induction ps) auto

section \<open>Tenants and users\<close>

text \<open>\<open>uuid.UUID\<close> is an array of 16 bytes; its zero value is \<open>uuid.Nil\<close>.\<close>

type_synonym uuid = "128 word"

text \<open>An instant is a number of nanoseconds since the epoch, a duration a number of them.\<close>

type_synonym time = int
type_synonym duration = int

definition second :: duration where "second = 1000000000"
definition minute :: duration where "minute = 60 * second"
definition hour :: duration where "hour = 60 * minute"

lemmas duration_defs = second_def minute_def hour_def

record user =
  u_ID :: uuid
  u_TenantID :: uuid
  u_Email :: string
  u_Password :: string
  u_Role :: role
  u_IsActive :: bool
  u_MFAEnabled :: bool
  u_MFASecret :: string
  u_EmailVerified :: bool
  u_OAuthProvider :: string
  u_OAuthSubject :: string
  u_ExternalID :: string
  u_CreatedAt :: time
  u_UpdatedAt :: time

text \<open>The zero value of the struct: what a literal leaves unset.\<close>

definition zero_user :: user where
  "zero_user = \<lparr>u_ID = 0, u_TenantID = 0, u_Email = '''', u_Password = '''', u_Role = '''',
     u_IsActive = False, u_MFAEnabled = False, u_MFASecret = '''', u_EmailVerified = False,
     u_OAuthProvider = '''', u_OAuthSubject = '''', u_ExternalID = '''', u_CreatedAt = 0,
     u_UpdatedAt = 0\<rparr>"

lemma zero_user_simps [simp]:
  "u_MFAEnabled zero_user = False" "u_MFASecret zero_user = ''''"
  "u_OAuthProvider zero_user = ''''" "u_OAuthSubject zero_user = ''''"
  "u_ExternalID zero_user = ''''" "u_EmailVerified zero_user = False"
  by (simp_all add: zero_user_def)

record auth_token_response =
  at_AccessToken :: string
  at_RefreshToken :: string
  at_MFAToken :: string
  at_RequiresMFA :: bool
  at_ExpiresIn :: int

definition zero_auth_token_response :: auth_token_response where
  "zero_auth_token_response = \<lparr>at_AccessToken = '''', at_RefreshToken = '''', at_MFAToken = '''',
     at_RequiresMFA = False, at_ExpiresIn = 0\<rparr>"

text \<open>The custom claims, with the registered claims the code fills in.\<close>

record jwt_custom_claims =
  cl_UserID :: uuid
  cl_Email :: string
  cl_Role :: role
  cl_Subject :: string
  cl_Issuer :: string
  cl_ExpiresAt :: "time option"
  cl_IssuedAt :: "time option"

section \<open>Pagination\<close>

text \<open>Go's \<open>int\<close> and \<open>int64\<close> have 64 bits; \<open>sint\<close> reads them.\<close>

type_synonym int64 = "64 word"

record pagination_query =
  pq_Page :: int64
  pq_Limit :: int64
  pq_Sort :: string
  pq_Order :: string

record paginated_result =
  pr_Data :: "user list"
  pr_Page :: int64
  pr_Limit :: int64
  pr_TotalRows :: int64
  pr_TotalPages :: int64

section \<open>SCIM resources\<close>

record scim_email =
  se_Value :: string
  se_Primary :: bool
  se_Type :: string

record scim_meta =
  sm_ResourceType :: string
  sm_Created :: string
  sm_LastModified :: string
  sm_Location :: string

record scim_user =
  su_Schemas :: "string list"
  su_ID :: string
  su_ExternalID :: string
  su_UserName :: string
  su_Active :: bool
  su_Emails :: "scim_email list"
  su_Meta :: scim_meta

record scim_list_response =
  sl_Schemas :: "string list"
  sl_TotalResults :: int64
  sl_ItemsPerPage :: int64
  sl_StartIndex :: int64
  sl_Resources :: "scim_user list"

text \<open>\<open>SCIMServiceProviderConfig\<close>: six nested \<open>supported\<close> flags and the schemes.\<close>

record scim_auth_scheme =
  as_Name :: string
  as_Description :: string
  as_Type :: string

record scim_provider_config =
  sc_Schemas :: "string list"
  sc_Patch :: bool
  sc_Bulk :: bool
  sc_Filter :: bool
  sc_ChangePassword :: bool
  sc_Sort :: bool
  sc_Etag :: bool
  sc_AuthenticationSchemes :: "scim_auth_scheme list"

end
