(* ===== verification/Go_Std.thy ===== *)
theory Go_Std
  imports Domain
begin

text \<open>
  What the source uses of Go's standard library, as executable functions on byte strings:
  \<open>strings\<close>, \<open>strconv\<close>, \<open>encoding/hex\<close>, \<open>encoding/base32\<close>, \<open>encoding/base64\<close>,
  \<open>net/url\<close>, \<open>net/mail\<close>, \<open>math/big\<close> and \<open>time\<close>. Case mapping and white space follow the
  ASCII rules, so they are exact on ASCII strings; beyond ASCII Go consults the Unicode tables.
\<close>

section \<open>strings\<close>

definition is_space :: "char \<Rightarrow> bool" where
  "is_space c \<longleftrightarrow> (let n = of_char c :: nat in n = 32 \<or> 9 \<le> n \<and> n \<le> 13)"

definition TrimSpace :: "string \<Rightarrow> string" where
  "TrimSpace s = rev (dropWhile is_space (rev (dropWhile is_space s)))"

definition lower_char :: "char \<Rightarrow> char" where
  "lower_char c = (let n = of_char c :: nat in if 65 \<le> n \<and> n \<le> 90 then char_of (n + 32) else c)"

definition upper_char :: "char \<Rightarrow> char" where
  "upper_char c = (let n = of_char c :: nat in if 97 \<le> n \<and> n \<le> 122 then char_of (n - 32) else c)"

definition ToLower :: "string \<Rightarrow> string" where
  "ToLower s = map lower_char s"

definition ToUpper :: "string \<Rightarrow> string" where
  "ToUpper s = map upper_char s"

text \<open>\<open>strings.Split(s, c)\<close> for a one-byte separator, and \<open>strings.SplitN(s, c, 2)\<close>.\<close>

fun Split :: "char \<Rightarrow> string \<Rightarrow> string list" where
  "Split c [] = [[]]"
| "Split c (x # xs) =
     (if x = c then [] # Split c xs
      else case Split c xs of [] \<Rightarrow> [[x]] | p # ps \<Rightarrow> (x # p) # ps)"

fun SplitN2 :: "char \<Rightarrow> string \<Rightarrow> string list" where
  "SplitN2 c [] = [[]]"
| "SplitN2 c (x # xs) =
     (if x = c then [[], xs]
      else case SplitN2 c xs of [] \<Rightarrow> [[x]] | p # ps \<Rightarrow> (x # p) # ps)"

lemma lower_char_idem [simp]: "lower_char (lower_char c) = lower_char c"
proof (cases "65 \<le> (of_char c :: nat) \<and> (of_char c :: nat) \<le> 90")
  case True
  then have "(of_char c :: nat) + 32 < 256" by simp
  then have "of_char (char_of (of_char c + 32 :: nat)) = (of_char c :: nat) + 32"
    by simp
  with True show ?thesis by (simp add: lower_char_def Let_def)
next
  case False
  then show ?thesis by (auto simp: lower_char_def Let_def)
qed

lemma ToLower_idem [simp]: "ToLower (ToLower s) = ToLower s"
  by (simp add: ToLower_def)

lemma dropWhile_rev_fixed: "s \<noteq> [] \<Longrightarrow> \<not> P (last s) \<Longrightarrow> rev (dropWhile P (rev s)) = s"
  by (cases s rule: rev_cases) auto

lemma TrimSpace_fixed:
  "s \<noteq> [] \<Longrightarrow> \<not> is_space (hd s) \<Longrightarrow> \<not> is_space (last s) \<Longrightarrow> TrimSpace s = s"
  using dropWhile_rev_fixed [of s is_space] by (cases s) (simp_all add: TrimSpace_def)

lemma set_TrimSpace: "set (TrimSpace s) \<subseteq> set s"
  by (auto simp: TrimSpace_def dest!: set_dropWhileD)

lemma SplitN2_ne [simp]: "SplitN2 c s \<noteq> []"
  by (induction s) (auto split: list.split)

lemma Split_ne [simp]: "Split c s \<noteq> []"
  by (induction s) (auto split: list.split)

text \<open>Splitting at the first separator is exact: the pieces rebuild the string.\<close>

lemma SplitN2_pair:
  "SplitN2 c s = [a, b] \<longleftrightarrow> s = a @ c # b \<and> c \<notin> set a"
proof (induction s arbitrary: a b)
  case Nil
  then show ?case by simp
next
  case (Cons x xs)
  show ?case
  proof (cases "x = c")
    case True
    then show ?thesis by (cases a) auto
  next
    case False
    then have "SplitN2 c (x # xs) = [a, b] \<longleftrightarrow> (\<exists>a'. a = x # a' \<and> SplitN2 c xs = [a', b])"
      by (cases "SplitN2 c xs") auto
    also have "\<dots> \<longleftrightarrow> (\<exists>a'. a = x # a' \<and> xs = a' @ c # b \<and> c \<notin> set a')"
      by (simp add: Cons.IH)
    finally show ?thesis using False by (cases a) auto
  qed
qed

section \<open>strconv and fmt\<close>

definition digit_char :: "nat \<Rightarrow> char" where
  "digit_char d = char_of (48 + d)"

fun dec_nat :: "nat \<Rightarrow> string" where
  "dec_nat n = (if n < 10 then [digit_char n] else dec_nat (n div 10) @ [digit_char (n mod 10)])"

declare dec_nat.simps [simp del]

definition Itoa :: "int \<Rightarrow> string" where
  "Itoa i = (if i < 0 then CHR ''-'' # dec_nat (nat (- i)) else dec_nat (nat i))"

text \<open>\<open>fmt.Sprintf(fmt.Sprintf("%%0%dd", w), n)\<close>: decimal, zero-padded to width \<open>w\<close>.\<close>

definition pad_dec :: "nat \<Rightarrow> nat \<Rightarrow> string" where
  "pad_dec w n = (let s = dec_nat n in replicate (w - length s) CHR ''0'' @ s)"

fun parse_digits :: "string \<Rightarrow> int \<Rightarrow> int option" where
  "parse_digits [] acc = Some acc"
| "parse_digits (c # cs) acc =
     (let n = of_char c :: nat in
      if 48 \<le> n \<and> n \<le> 57 then parse_digits cs (acc * 10 + int (n - 48)) else None)"

text \<open>
  \<open>strconv.ParseInt(s, 10, bits)\<close>: the value and whether there was an error. A syntax error gives
  0, a value out of range the nearest bound; \<open>strconv.Atoi\<close> is the 64-bit instance.
\<close>

definition ParseInt :: "nat \<Rightarrow> string \<Rightarrow> int \<times> bool" where
  "ParseInt bits s =
     (let neg = (s \<noteq> [] \<and> hd s = CHR ''-'');
          body = (if s \<noteq> [] \<and> (hd s = CHR ''-'' \<or> hd s = CHR ''+'') then tl s else s)
      in if body = [] then (0, True)
         else case parse_digits body 0 of
                None \<Rightarrow> (0, True)
              | Some n \<Rightarrow>
                  (let v = (if neg then - n else n) in
                   if v < - (2 ^ (bits - 1)) then (- (2 ^ (bits - 1)), True)
                   else if 2 ^ (bits - 1) \<le> v then (2 ^ (bits - 1) - 1, True)
                   else (v, False)))"

definition Atoi :: "string \<Rightarrow> int64 \<times> bool" where
  "Atoi s = (case ParseInt 64 s of (v, e) \<Rightarrow> (word_of_int v, e))"

lemma dec_nat_length: "n < 10 ^ w \<Longrightarrow> 0 < w \<Longrightarrow> length (dec_nat n) \<le> w"
proof (induction n arbitrary: w rule: dec_nat.induct)
  case (1 n)
  show ?case
  proof (cases "n < 10")
    case True
    then show ?thesis using "1.prems" by (subst dec_nat.simps) simp
  next
    case False
    then obtain v where w: "w = Suc v" and "0 < v"
      using "1.prems" by (cases w; cases "w - 1") auto
    then have "n div 10 < 10 ^ v" using "1.prems" by auto
    then have "length (dec_nat (n div 10)) \<le> v" using "1.IH" False \<open>0 < v\<close> by blast
    then show ?thesis using False w by (subst dec_nat.simps) simp
  qed
qed

lemma length_pad_dec: "n < 10 ^ w \<Longrightarrow> 0 < w \<Longrightarrow> length (pad_dec w n) = w"
  using dec_nat_length [of n w] by (simp add: pad_dec_def Let_def)

lemma set_dec_nat: "set (dec_nat n) \<subseteq> digit_char ` {0..9}"
proof (induction n rule: dec_nat.induct)
  case (1 n)
  then show ?case by (subst dec_nat.simps) (auto simp: subset_iff)
qed

lemma set_pad_dec: "set (pad_dec w n) \<subseteq> digit_char ` {0..9}"
proof -
  have "CHR ''0'' = digit_char 0" by (simp add: digit_char_def char_of_def bit_0)
  then have "CHR ''0'' \<in> digit_char ` {0..9}" by (intro image_eqI [where x = 0]) auto
  then show ?thesis using set_dec_nat [of n] by (auto simp: pad_dec_def Let_def split: if_splits)
qed

text \<open>Reading back what was written.\<close>

lemma digit_char_nat: "d < 10 \<Longrightarrow> of_char (digit_char d) = 48 + d"
  by (simp add: digit_char_def)

lemma parse_digits_append:
  "parse_digits (xs @ ys) acc = (case parse_digits xs acc of None \<Rightarrow> None | Some n \<Rightarrow> parse_digits ys n)"
  by (induction xs arbitrary: acc) (auto simp: Let_def)

lemma parse_dec_nat: "parse_digits (dec_nat n) 0 = Some (int n)"
proof (induction n rule: dec_nat.induct)
  case (1 n)
  show ?case
  proof (cases "n < 10")
    case True
    then show ?thesis by (subst dec_nat.simps) (simp add: digit_char_nat)
  next
    case False
    then show ?thesis using 1
      by (subst dec_nat.simps) (simp add: parse_digits_append digit_char_nat, presburger)
  qed
qed

lemma dec_nat_ne [simp]: "dec_nat n \<noteq> []"
  by (subst dec_nat.simps) simp

lemma dec_nat_ascii: "ascii (dec_nat n)"
  using set_dec_nat [of n] by (auto simp: ascii_def subset_iff image_iff digit_char_nat)

lemma hd_dec_nat [simp]: "hd (dec_nat n) \<noteq> CHR ''-''" "hd (dec_nat n) \<noteq> CHR ''+''"
proof -
  have "hd (dec_nat n) \<in> digit_char ` {0..9}"
    using set_dec_nat [of n] hd_in_set [of "dec_nat n"] by auto
  then obtain d where "d \<in> {0..9}" and d: "hd (dec_nat n) = digit_char d" by blast
  then have "(of_char (hd (dec_nat n)) :: nat) = 48 + d" by (simp add: digit_char_nat)
  moreover have "(of_char CHR ''-'' :: nat) = 45" "(of_char CHR ''+'' :: nat) = 43" by simp_all
  ultimately show "hd (dec_nat n) \<noteq> CHR ''-''" "hd (dec_nat n) \<noteq> CHR ''+''" by force+
qed

lemma ParseInt_Itoa: "0 \<le> n \<Longrightarrow> n < 2 ^ (bits - 1) \<Longrightarrow> ParseInt bits (Itoa n) = (n, False)"
  by (simp add: ParseInt_def Itoa_def parse_dec_nat)

end
