(* ===== verification/Go_Encoding.thy ===== *)
theory Go_Encoding
  imports Go_Std
begin

text \<open>
  The encodings the source takes from the standard library: hexadecimal, base 32 without padding
  (both directions, with the round trip), raw URL base 64, big-endian integers, query escaping,
  and RFC 3339 time stamps.
\<close>

section \<open>Bits and chunks\<close>

definition bits_of_byte :: "byte \<Rightarrow> bool list" where
  "bits_of_byte b = map (bit b) [7, 6, 5, 4, 3, 2, 1, 0]"

definition bits_val :: "bool list \<Rightarrow> nat" where
  "bits_val bs = horner_sum of_bool 2 (rev bs)"

definition byte_of_bits :: "bool list \<Rightarrow> byte" where
  "byte_of_bits bs = word_of_nat (bits_val bs)"

fun chunks :: "nat \<Rightarrow> 'a list \<Rightarrow> 'a list list" where
  "chunks k [] = []"
| "chunks k (x # xs) = (x # take (k - 1) xs) # chunks k (drop (k - 1) xs)"

lemma chunks_induct [consumes 1, case_names Nil step]:
  assumes "0 < k" and "P []"
    and "\<And>xs. xs \<noteq> [] \<Longrightarrow> P (drop k xs) \<Longrightarrow> P xs"
  shows "P xs"
proof (induction xs rule: length_induct)
  case (1 xs)
  then show ?case using assms by (cases "xs = []") auto
qed

lemma chunks_step: "xs \<noteq> [] \<Longrightarrow> 0 < k \<Longrightarrow> chunks k xs = take k xs # chunks k (drop k xs)"
  by (cases xs; cases k) auto

lemma concat_chunks [simp]:
  assumes "0 < k" shows "concat (chunks k xs) = xs"
  using assms by (induction xs rule: chunks_induct) (simp_all add: chunks_step assms)

lemma set_chunks_length:
  assumes "0 < k" shows "c \<in> set (chunks k xs) \<Longrightarrow> length c \<le> k"
  using assms by (induction xs rule: chunks_induct) (auto simp: chunks_step assms)

lemma chunks_append:
  "length xs = k \<Longrightarrow> 0 < k \<Longrightarrow> chunks k (xs @ ys) = xs # chunks k ys"
  by (cases xs) auto

lemma upt_0_8: "[0..<8] = [0, 1, 2, 3, 4, 5, 6, 7 :: nat]"
  by code_simp

lemma bits_val_bits_of_byte: "bits_val (bits_of_byte b) = unat b"
proof -
  have "rev (bits_of_byte b) = map (bit (unat b)) [0..<8]"
    by (simp add: bits_of_byte_def bit_unsigned_iff upt_0_8)
  then have "bits_val (bits_of_byte b) = take_bit 8 (unat b)"
    by (simp only: bits_val_def horner_sum_bit_eq_take_bit)
  also have "\<dots> = unat b"
    using unsigned_less [where 'a = nat, of b] by (simp add: take_bit_nat_eq_self)
  finally show ?thesis .
qed

lemma byte_of_bits_of_byte [simp]: "byte_of_bits (bits_of_byte b) = b"
  by (simp add: byte_of_bits_def bits_val_bits_of_byte)

lemma chunks_bits_of_bytes: "chunks 8 (concat (map bits_of_byte bs)) = map bits_of_byte bs"
  by (induction bs) (simp_all add: chunks_append bits_of_byte_def)

lemma length_concat_bits [simp]: "length (concat (map bits_of_byte bs)) = 8 * length bs"
  by (induction bs) (simp_all add: bits_of_byte_def)

section \<open>encoding/hex\<close>

definition hex_digit :: "nat \<Rightarrow> char" where
  "hex_digit n = (if n < 10 then char_of (48 + n) else char_of (87 + n))"

definition hex_byte :: "byte \<Rightarrow> string" where
  "hex_byte b = [hex_digit (unat b div 16), hex_digit (unat b mod 16)]"

definition hex_EncodeToString :: "bytes \<Rightarrow> string" where
  "hex_EncodeToString bs = concat (map hex_byte bs)"

lemma length_hex_EncodeToString [simp]: "length (hex_EncodeToString bs) = 2 * length bs"
  by (induction bs) (auto simp: hex_EncodeToString_def hex_byte_def)

lemma hex_digit_inj: "m < 16 \<Longrightarrow> n < 16 \<Longrightarrow> hex_digit m = hex_digit n \<Longrightarrow> m = n"
proof -
  assume m: "m < 16" and n: "n < 16" and "hex_digit m = hex_digit n"
  then have "of_char (hex_digit m) = (of_char (hex_digit n) :: nat)" by simp
  then show "m = n" using m n by (auto simp: hex_digit_def split: if_splits)
qed

lemma hex_byte_inj: "hex_byte a = hex_byte b \<Longrightarrow> a = b"
proof -
  assume eq: "hex_byte a = hex_byte b"
  have "unat a < 256" "unat b < 256" using unsigned_less [where 'a = nat, of a] unsigned_less [where 'a = nat, of b] by simp_all
  then have "unat a div 16 = unat b div 16" "unat a mod 16 = unat b mod 16"
    using eq by (auto simp: hex_byte_def intro!: hex_digit_inj)
  then have "unat a = unat b" by (metis div_mult_mod_eq)
  then show "a = b" by (rule unsigned_word_eqI)
qed

lemma hex_EncodeToString_inj: "hex_EncodeToString as = hex_EncodeToString bs \<Longrightarrow> as = bs"
proof (induction as arbitrary: bs)
  case Nil
  then have "length (hex_EncodeToString bs) = 0" by (simp add: hex_EncodeToString_def)
  then show ?case by simp
next
  case (Cons a as)
  then have "length (hex_EncodeToString bs) = 2 * length (a # as)" by (metis length_hex_EncodeToString)
  then obtain b bs' where bs: "bs = b # bs'" by (cases bs) auto
  with Cons.prems have "hex_byte a = hex_byte b" and "hex_EncodeToString as = hex_EncodeToString bs'"
    by (auto simp: hex_EncodeToString_def hex_byte_def)
  with Cons.IH bs show ?case by (auto dest: hex_byte_inj)
qed

section \<open>encoding/base32, standard alphabet, no padding\<close>

definition b32_char :: "nat \<Rightarrow> char" where
  "b32_char n = (if n < 26 then char_of (65 + n) else char_of (24 + n))"

definition b32_value :: "char \<Rightarrow> nat option" where
  "b32_value c =
     (let n = of_char c :: nat in
      if 65 \<le> n \<and> n \<le> 90 then Some (n - 65)
      else if 50 \<le> n \<and> n \<le> 55 then Some (n - 24)
      else None)"

definition pad_bits :: "nat \<Rightarrow> bool list \<Rightarrow> bool list" where
  "pad_bits k bs = bs @ replicate (k - length bs) False"

definition b32_values :: "bytes \<Rightarrow> nat list" where
  "b32_values bs = map (\<lambda>c. bits_val (pad_bits 5 c)) (chunks 5 (concat (map bits_of_byte bs)))"

definition base32_EncodeToString :: "bytes \<Rightarrow> string" where
  "base32_EncodeToString bs = map b32_char (b32_values bs)"

text \<open>
  Decoding works on quanta of eight characters. A last quantum of 7, 5, 4 or 2 characters yields 4,
  3, 2 or 1 bytes; one of any other length yields none, without an error. Line breaks are skipped.
\<close>

definition quantum_bytes :: "nat \<Rightarrow> nat" where
  "quantum_bytes k = (if k = 8 then 5 else if k = 7 then 4 else if k = 5 then 3
                      else if k = 4 then 2 else if k = 2 then 1 else 0)"

definition bits5 :: "nat \<Rightarrow> bool list" where
  "bits5 n = map (bit n) [4, 3, 2, 1, 0]"

definition quantum_decode :: "nat list \<Rightarrow> bytes" where
  "quantum_decode vs =
     map byte_of_bits (chunks 8 (take (8 * quantum_bytes (length vs)) (concat (map bits5 vs))))"

definition base32_DecodeString :: "string \<Rightarrow> bytes option" where
  "base32_DecodeString s =
     (let vs = map b32_value (filter (\<lambda>c. c \<noteq> CHR 0x0A \<and> c \<noteq> CHR 0x0D) s)
      in if None \<in> set vs then None
         else Some (concat (map quantum_decode (chunks 8 (map the vs)))))"

lemma b32_value_char [simp]: "n < 32 \<Longrightarrow> b32_value (b32_char n) = Some n"
  by (auto simp: b32_value_def b32_char_def Let_def)

lemma b32_char_not_break: "n < 32 \<Longrightarrow> b32_char n \<noteq> CHR 0x0A \<and> b32_char n \<noteq> CHR 0x0D"
proof -
  assume "n < 32"
  then have "of_char (b32_char n) \<ge> (50::nat)" by (auto simp: b32_char_def)
  then show ?thesis by auto
qed

lemma bits_val_5_less: "length bs = 5 \<Longrightarrow> bits_val bs < 32"
  by (auto simp: bits_val_def length_Suc_conv numeral_eq_Suc of_bool_def)

lemma bits5_val [simp]: "length bs = 5 \<Longrightarrow> bits5 (bits_val bs) = bs"
proof -
  assume "length bs = 5"
  then obtain a b c d e where bs: "bs = [a, b, c, d, e]"
    by (auto simp: length_Suc_conv numeral_eq_Suc)
  show ?thesis
    by (cases a; cases b; cases c; cases d; cases e) (simp_all add: bs bits5_def bits_val_def bit_iff_odd)
qed

text \<open>The round trip, quantum by quantum.\<close>

lemma length_pad_bits: "length c \<le> 5 \<Longrightarrow> length (pad_bits 5 c) = 5"
  by (simp add: pad_bits_def)

lemma b32_values_less: "v \<in> set (b32_values bs) \<Longrightarrow> v < 32"
  by (auto simp: b32_values_def intro!: bits_val_5_less length_pad_bits set_chunks_length)

lemma concat_bits5_b32_values:
  "concat (map bits5 (b32_values bs)) = concat (map (pad_bits 5) (chunks 5 (concat (map bits_of_byte bs))))"
proof -
  have "bits5 (bits_val (pad_bits 5 c)) = pad_bits 5 c"
    if "c \<in> set (chunks 5 (concat (map bits_of_byte bs)))" for c
    using that by (intro bits5_val length_pad_bits) (auto dest: set_chunks_length [rotated])
  then show ?thesis by (simp add: b32_values_def comp_def cong: map_cong)
qed

lemma take_pad_chunks:
  assumes "0 < k" shows "take (length bs) (concat (map (pad_bits k) (chunks k bs))) = bs"
  using assms
proof (induction bs rule: chunks_induct)
  case Nil
  then show ?case by simp
next
  case (step bs)
  show ?case
  proof (cases "length bs \<le> k")
    case True
    with step assms show ?thesis by (simp add: chunks_step pad_bits_def)
  next
    case False
    then have "pad_bits k (take k bs) = take k bs" by (simp add: pad_bits_def)
    with False step assms show ?thesis by (simp add: chunks_step take_add [symmetric])
  qed
qed

lemma length_chunks5: "length (chunks 5 xs) = (length xs + 4) div 5"
proof (induction xs rule: chunks_induct [of 5, OF zero_less_numeral, case_names Nil step])
  case Nil
  then show ?case by simp
next
  case (step xs)
  then have "length (chunks 5 xs) = Suc ((length xs - 5 + 4) div 5)"
    by (simp add: chunks_step)
  also have "\<dots> = Suc ((length xs - 1) div 5)"
    by (cases "5 \<le> length xs") auto
  also have "\<dots> = (5 + (length xs - 1)) div 5" by simp
  also have "5 + (length xs - 1) = length xs + 4" using step by (cases xs) auto
  finally show ?case .
qed

lemma quantum_decode_b32_values:
  assumes "bs \<noteq> []" and "length bs \<le> 5"
  shows "quantum_decode (b32_values bs) = bs"
proof -
  let ?B = "concat (map bits_of_byte bs)"
  have "length (b32_values bs) = (8 * length bs + 4) div 5"
    by (simp add: b32_values_def length_chunks5)
  moreover have "0 < length bs" "length bs \<le> 5" using assms by simp_all
  then have "length bs = 1 \<or> length bs = 2 \<or> length bs = 3 \<or> length bs = 4 \<or> length bs = 5"
    by linarith
  ultimately have "quantum_bytes (length (b32_values bs)) = length bs"
    by (auto simp: quantum_bytes_def)
  then have "quantum_decode (b32_values bs) = map byte_of_bits (chunks 8 (take (length ?B)
      (concat (map (pad_bits 5) (chunks 5 ?B)))))"
    by (simp add: quantum_decode_def concat_bits5_b32_values)
  also have "\<dots> = bs"
    by (simp add: take_pad_chunks chunks_bits_of_bytes comp_def del: length_concat_bits)
  finally show ?thesis .
qed

lemma b32_values_block:
  assumes "length xs = 5" shows "b32_values (xs @ ys) = b32_values xs @ b32_values ys"
proof -
  have "chunks 5 (us @ vs) = chunks 5 us @ chunks 5 vs" if "length us = 5 * n" for us vs :: "bool list" and n
    using that
  proof (induction n arbitrary: us)
    case 0
    then show ?case by simp
  next
    case (Suc n)
    then have "us \<noteq> []" and "length (take 5 us) = 5" and "length (drop 5 us) = 5 * n" by auto
    then show ?case
      using Suc.IH [of "drop 5 us"] by (simp add: chunks_step)
  qed
  from this [of "concat (map bits_of_byte xs)" 8] show ?thesis
    using assms by (simp add: b32_values_def)
qed

lemma length_b32_values: "length (b32_values bs) = (8 * length bs + 4) div 5"
  by (simp add: b32_values_def length_chunks5)

lemma concat_quantum_decode: "concat (map quantum_decode (chunks 8 (b32_values bs))) = bs"
proof (induction bs rule: chunks_induct [of 5, OF zero_less_numeral, case_names Nil step])
  case Nil
  then show ?case by (simp add: b32_values_def)
next
  case (step bs)
  show ?case
  proof (cases "length bs \<le> 5")
    case True
    then have "length (b32_values bs) \<le> 8" by (simp add: length_b32_values)
    moreover have "b32_values bs \<noteq> []"
      using step by (auto simp: length_b32_values simp flip: length_greater_0_conv)
    ultimately have "chunks 8 (b32_values bs) = [b32_values bs]" by (simp add: chunks_step)
    with step True show ?thesis by (simp add: quantum_decode_b32_values)
  next
    case False
    then have len: "length (take 5 bs) = 5" and "take 5 bs \<noteq> []" by auto
    then have "length (b32_values (take 5 bs)) = 8" by (simp add: length_b32_values)
    then have "chunks 8 (b32_values bs) = b32_values (take 5 bs) # chunks 8 (b32_values (drop 5 bs))"
      using b32_values_block [OF len, of "drop 5 bs"] by (simp add: chunks_append)
    with step \<open>take 5 bs \<noteq> []\<close> show ?thesis by (simp add: quantum_decode_b32_values)
  qed
qed

theorem base32_roundtrip: "base32_DecodeString (base32_EncodeToString bs) = Some bs"
proof -
  let ?s = "base32_EncodeToString bs"
  have "filter (\<lambda>c. c \<noteq> CHR 0x0A \<and> c \<noteq> CHR 0x0D) ?s = ?s"
    using b32_char_not_break b32_values_less by (fastforce simp: base32_EncodeToString_def filter_id_conv)
  moreover have "map b32_value ?s = map Some (b32_values bs)"
    by (simp add: base32_EncodeToString_def b32_values_less)
  ultimately show ?thesis
    by (auto simp: base32_DecodeString_def Let_def comp_def concat_quantum_decode)
qed

text \<open>The encoder writes upper-case letters and digits only, so trimming and upper-casing keep it.\<close>

lemma b32_char_range: "n < 32 \<Longrightarrow> upper_char (b32_char n) = b32_char n \<and> \<not> is_space (b32_char n)"
  by (auto simp: b32_char_def upper_char_def is_space_def Let_def)

lemma ToUpper_base32 [simp]: "ToUpper (base32_EncodeToString bs) = base32_EncodeToString bs"
  using b32_char_range b32_values_less
  by (auto simp: ToUpper_def base32_EncodeToString_def)

lemma TrimSpace_base32 [simp]: "TrimSpace (base32_EncodeToString bs) = base32_EncodeToString bs"
proof (cases "base32_EncodeToString bs = []")
  case True
  then show ?thesis by (simp add: TrimSpace_def)
next
  case False
  moreover have "\<not> is_space c" if "c \<in> set (base32_EncodeToString bs)" for c
    using that b32_char_range b32_values_less by (auto simp: base32_EncodeToString_def)
  ultimately show ?thesis by (intro TrimSpace_fixed) auto
qed

section \<open>encoding/base64, URL alphabet, no padding\<close>

definition b64url_char :: "nat \<Rightarrow> char" where
  "b64url_char n = (if n < 26 then char_of (65 + n) else if n < 52 then char_of (71 + n)
     else if n < 62 then char_of (n - 4) else if n = 62 then CHR ''-'' else CHR ''_'')"

definition base64_RawURL_EncodeToString :: "bytes \<Rightarrow> string" where
  "base64_RawURL_EncodeToString bs =
     map (\<lambda>c. b64url_char (bits_val (pad_bits 6 c))) (chunks 6 (concat (map bits_of_byte bs)))"

lemma b64url_char_inj: "m < 64 \<Longrightarrow> n < 64 \<Longrightarrow> b64url_char m = b64url_char n \<Longrightarrow> m = n"
proof -
  let ?f = "\<lambda>n. if n < 26 then 65 + n else if n < 52 then 71 + n
     else if n < 62 then n - 4 else if n = 62 then 45 else (95 :: nat)"
  assume less: "m < 64" "n < 64" and eq: "b64url_char m = b64url_char n"
  have code: "of_char (b64url_char k) = ?f k" if "k < 64" for k
    using that by (simp add: b64url_char_def)
  from eq have "of_char (b64url_char m) = (of_char (b64url_char n) :: nat)" by (rule arg_cong)
  then have "?f m = ?f n" unfolding code [OF less(1)] code [OF less(2)] .
  with less show "m = n" by (auto split: if_splits)
qed

lemma bits_val_6: "length bs = 6 \<Longrightarrow> bits_val bs < 64 \<and> map (bit (bits_val bs)) [5, 4, 3, 2, 1, 0] = bs"
proof -
  assume "length bs = 6"
  then obtain a b c d e f where bs: "bs = [a, b, c, d, e, f]"
    by (auto simp: length_Suc_conv numeral_eq_Suc)
  show ?thesis
    by (cases a; cases b; cases c; cases d; cases e; cases f)
      (simp_all add: bs bits_val_def bit_iff_odd)
qed

lemma length_chunks6: "length (chunks 6 xs) = (length xs + 5) div 6"
proof (induction xs rule: chunks_induct [of 6, OF zero_less_numeral, case_names Nil step])
  case (step xs)
  then have "length (chunks 6 xs) = Suc ((length xs - 6 + 5) div 6)" by (simp add: chunks_step)
  also have "\<dots> = Suc ((length xs - 1) div 6)" by (cases "6 \<le> length xs") auto
  also have "\<dots> = (6 + (length xs - 1)) div 6" by simp
  also have "6 + (length xs - 1) = length xs + 5" using step by (cases xs) auto
  finally show ?case .
qed simp

lemma map_eq_on: "map f xs = map f ys \<Longrightarrow> inj_on f (set xs \<union> set ys) \<Longrightarrow> xs = ys"
  by (simp add: inj_on_map_eq_map)

lemma base64_RawURL_inj:
  assumes "base64_RawURL_EncodeToString as = base64_RawURL_EncodeToString bs"
  shows "as = bs"
proof -
  let ?bits = "\<lambda>xs. concat (map bits_of_byte xs)"
  let ?pad = "\<lambda>xs. map (pad_bits 6) (chunks 6 (?bits xs))"
  have six: "length c = 6" if "c \<in> set (?pad xs)" for c xs
    using that by (auto simp: pad_bits_def dest: set_chunks_length [rotated])
  have enc: "base64_RawURL_EncodeToString xs = map (\<lambda>c. b64url_char (bits_val c)) (?pad xs)" for xs
    by (simp add: base64_RawURL_EncodeToString_def)
  have "inj_on (\<lambda>c. b64url_char (bits_val c)) (set (?pad as) \<union> set (?pad bs))"
  proof (rule inj_onI)
    fix c d assume "c \<in> set (?pad as) \<union> set (?pad bs)" "d \<in> set (?pad as) \<union> set (?pad bs)"
    then have len: "length c = 6" "length d = 6" using six by blast+
    assume "b64url_char (bits_val c) = b64url_char (bits_val d)"
    then have "bits_val c = bits_val d" using b64url_char_inj bits_val_6 len by blast
    then show "c = d" using bits_val_6 len by metis
  qed
  with assms have pads: "?pad as = ?pad bs" unfolding enc by (rule map_eq_on)
  then have "length (?pad as) = length (?pad bs)" by (rule arg_cong)
  then have "(8 * length as + 5) div 6 = (8 * length bs + 5) div 6" by (simp add: length_chunks6)
  then obtain q where "(8 * length as + 5) div 6 = q" "(8 * length bs + 5) div 6 = q" by simp
  then have len: "length as = length bs" by linarith
  have "?bits as = take (length (?bits as)) (concat (?pad as))" by (rule take_pad_chunks [symmetric]) simp
  also have "\<dots> = take (length (?bits bs)) (concat (?pad bs))" using pads len by simp
  also have "\<dots> = ?bits bs" by (rule take_pad_chunks) simp
  finally have "chunks 8 (?bits as) = chunks 8 (?bits bs)" by (rule arg_cong)
  then have "map byte_of_bits (map bits_of_byte as) = map byte_of_bits (map bits_of_byte bs)"
    unfolding chunks_bits_of_bytes by (rule arg_cong)
  then show ?thesis by (simp add: comp_def)
qed

section \<open>encoding/binary and math/big\<close>

text \<open>\<open>binary.BigEndian.PutUint64\<close>, \<open>binary.BigEndian.Uint32\<close> and \<open>(*big.Int).Bytes\<close>.\<close>

definition PutUint64 :: "64 word \<Rightarrow> bytes" where
  "PutUint64 v = map (\<lambda>i. ucast (drop_bit (8 * i) v)) [7, 6, 5, 4, 3, 2, 1, 0]"

definition Uint32 :: "bytes \<Rightarrow> 32 word" where
  "Uint32 bs = foldl (\<lambda>w b. push_bit 8 w + ucast b) 0 (take 4 bs)"

fun big_Bytes :: "nat \<Rightarrow> bytes" where
  "big_Bytes n = (if n = 0 then [] else big_Bytes (n div 256) @ [word_of_nat (n mod 256)])"

declare big_Bytes.simps [simp del]

definition big_SetBytes :: "bytes \<Rightarrow> nat" where
  "big_SetBytes bs = foldl (\<lambda>n b. 256 * n + unat b) 0 bs"

lemma big_Bytes_roundtrip [simp]: "big_SetBytes (big_Bytes n) = n"
proof (induction n rule: big_Bytes.induct)
  case (1 n)
  have "unat (word_of_nat (n mod 256) :: byte) = n mod 256" by (simp add: unat_of_nat)
  with 1 show ?case by (subst big_Bytes.simps) (auto simp: big_SetBytes_def)
qed

section \<open>net/url\<close>

definition query_unreserved :: "char \<Rightarrow> bool" where
  "query_unreserved c \<longleftrightarrow> (let n = of_char c :: nat in
     48 \<le> n \<and> n \<le> 57 \<or> 65 \<le> n \<and> n \<le> 90 \<or> 97 \<le> n \<and> n \<le> 122 \<or> c \<in> set ''-_.~'')"

definition upper_hex_digit :: "nat \<Rightarrow> char" where
  "upper_hex_digit n = (if n < 10 then char_of (48 + n) else char_of (55 + n))"

definition QueryEscape :: "string \<Rightarrow> string" where
  "QueryEscape s = concat (map (\<lambda>c.
     if query_unreserved c then [c]
     else if c = CHR '' '' then ''+''
     else [CHR ''%'', upper_hex_digit (of_char c div 16), upper_hex_digit (of_char c mod 16)]) s)"

end
