(* ===== verification/Go_Crypto.thy ===== *)
theory Go_Crypto
  imports Go_Encoding
begin

text \<open>
  The hash functions of the standard library the source calls: \<open>crypto/sha1\<close> and
  \<open>crypto/hmac\<close> for the one-time passwords, \<open>crypto/sha256\<close> for the key identifier. They are
  executable on words of 32 bits, whose addition wraps.
\<close>

unbundle bit_operations_syntax

type_synonym word32 = "32 word"

definition rotl32 :: "nat \<Rightarrow> word32 \<Rightarrow> word32" where
  "rotl32 n x = push_bit n x OR drop_bit (32 - n) x"

definition rotr32 :: "nat \<Rightarrow> word32 \<Rightarrow> word32" where
  "rotr32 n x = drop_bit n x OR push_bit (32 - n) x"

text \<open>Big-endian words of a byte list, and back; padding to whole blocks of 64 bytes.\<close>

fun words_of :: "bytes \<Rightarrow> word32 list" where
  "words_of (a # b # c # d # bs) =
     (push_bit 24 (ucast a) + push_bit 16 (ucast b) + push_bit 8 (ucast c) + ucast d) # words_of bs"
| "words_of _ = []"

definition bytes_of_word :: "word32 \<Rightarrow> bytes" where
  "bytes_of_word w = map (\<lambda>i. ucast (drop_bit (8 * i) w)) [3, 2, 1, 0]"

definition pad_message :: "bytes \<Rightarrow> bytes" where
  "pad_message m =
     (let n = length m; z = (119 - n mod 64) mod 64
      in m @ 0x80 # replicate z 0 @ PutUint64 (word_of_nat (8 * n)))"

definition message_blocks :: "bytes \<Rightarrow> word32 list list" where
  "message_blocks m = map words_of (chunks 64 (pad_message m))"

section \<open>crypto/sha1\<close>

datatype sha1_stage = Ch | Parity | Maj | Parity'

fun sha1_f :: "sha1_stage \<Rightarrow> word32 \<Rightarrow> word32 \<Rightarrow> word32 \<Rightarrow> word32" where
  "sha1_f Ch b c d = (b AND c) OR (NOT b AND d)"
| "sha1_f Parity b c d = b XOR c XOR d"
| "sha1_f Maj b c d = (b AND c) OR (b AND d) OR (c AND d)"
| "sha1_f Parity' b c d = b XOR c XOR d"

fun sha1_k :: "sha1_stage \<Rightarrow> word32" where
  "sha1_k Ch = 0x5A827999"
| "sha1_k Parity = 0x6ED9EBA1"
| "sha1_k Maj = 0x8F1BBCDC"
| "sha1_k Parity' = 0xCA62C1D6"

definition sha1_stages :: "sha1_stage list" where
  "sha1_stages = replicate 20 Ch @ replicate 20 Parity @ replicate 20 Maj @ replicate 20 Parity'"

text \<open>The message schedule is kept as a window of the last sixteen words.\<close>

fun sha1_rounds ::
  "sha1_stage list \<Rightarrow> word32 list \<Rightarrow> word32 \<Rightarrow> word32 \<Rightarrow> word32 \<Rightarrow> word32 \<Rightarrow> word32 \<Rightarrow> word32 list" where
  "sha1_rounds (t # ts) (w # ws) a b c d e =
     sha1_rounds ts (ws @ [rotl32 1 (ws ! 12 XOR ws ! 7 XOR ws ! 1 XOR w)])
       (rotl32 5 a + sha1_f t b c d + e + sha1_k t + w) a (rotl32 30 b) c d"
| "sha1_rounds _ _ a b c d e = [a, b, c, d, e]"

fun sha1_block :: "word32 list \<Rightarrow> word32 list \<Rightarrow> word32 list" where
  "sha1_block [h0, h1, h2, h3, h4] ws =
     map2 (+) [h0, h1, h2, h3, h4] (sha1_rounds sha1_stages ws h0 h1 h2 h3 h4)"
| "sha1_block h ws = h"

definition sha1_init :: "word32 list" where
  "sha1_init = [0x67452301, 0xEFCDAB89, 0x98BADCFE, 0x10325476, 0xC3D2E1F0]"

definition sha1_Sum :: "bytes \<Rightarrow> bytes" where
  "sha1_Sum m = concat (map bytes_of_word (foldl sha1_block sha1_init (message_blocks m)))"

lemma length_sha1_rounds [simp]: "length (sha1_rounds ts ws a b c d e) = 5"
  by (induction ts ws a b c d e rule: sha1_rounds.induct) auto

lemma length_sha1_block: "length h = 5 \<Longrightarrow> length (sha1_block h ws) = 5"
  by (cases "(h, ws)" rule: sha1_block.cases) auto

lemma length_sha1_fold: "length h = 5 \<Longrightarrow> length (foldl sha1_block h bs) = 5"
  by (induction bs arbitrary: h) (auto simp: length_sha1_block)

lemma length_concat_bytes_of_word: "length (concat (map bytes_of_word ws)) = 4 * length ws"
  by (induction ws) (auto simp: bytes_of_word_def)

lemma length_sha1_Sum [simp]: "length (sha1_Sum m) = 20"
  by (simp add: sha1_Sum_def length_concat_bytes_of_word length_sha1_fold sha1_init_def)

section \<open>crypto/hmac over SHA-1\<close>

definition hmac_key :: "bytes \<Rightarrow> bytes" where
  "hmac_key k = (let k' = (if 64 < length k then sha1_Sum k else k) in k' @ replicate (64 - length k') 0)"

definition hmac_sha1 :: "bytes \<Rightarrow> bytes \<Rightarrow> bytes" where
  "hmac_sha1 k m =
     (let k0 = hmac_key k;
          inner = sha1_Sum (map (\<lambda>b. b XOR 0x36) k0 @ m)
      in sha1_Sum (map (\<lambda>b. b XOR 0x5C) k0 @ inner))"

lemma length_hmac_sha1 [simp]: "length (hmac_sha1 k m) = 20"
  by (simp add: hmac_sha1_def Let_def)

section \<open>crypto/sha256\<close>

definition sha256_k :: "word32 list" where
  "sha256_k = [
    0x428a2f98, 0x71374491, 0xb5c0fbcf, 0xe9b5dba5, 0x3956c25b, 0x59f111f1, 0x923f82a4, 0xab1c5ed5,
    0xd807aa98, 0x12835b01, 0x243185be, 0x550c7dc3, 0x72be5d74, 0x80deb1fe, 0x9bdc06a7, 0xc19bf174,
    0xe49b69c1, 0xefbe4786, 0x0fc19dc6, 0x240ca1cc, 0x2de92c6f, 0x4a7484aa, 0x5cb0a9dc, 0x76f988da,
    0x983e5152, 0xa831c66d, 0xb00327c8, 0xbf597fc7, 0xc6e00bf3, 0xd5a79147, 0x06ca6351, 0x14292967,
    0x27b70a85, 0x2e1b2138, 0x4d2c6dfc, 0x53380d13, 0x650a7354, 0x766a0abb, 0x81c2c92e, 0x92722c85,
    0xa2bfe8a1, 0xa81a664b, 0xc24b8b70, 0xc76c51a3, 0xd192e819, 0xd6990624, 0xf40e3585, 0x106aa070,
    0x19a4c116, 0x1e376c08, 0x2748774c, 0x34b0bcb5, 0x391c0cb3, 0x4ed8aa4a, 0x5b9cca4f, 0x682e6ff3,
    0x748f82ee, 0x78a5636f, 0x84c87814, 0x8cc70208, 0x90befffa, 0xa4506ceb, 0xbef9a3f7, 0xc67178f2]"

fun sha256_rounds :: "word32 list \<Rightarrow> word32 list \<Rightarrow> word32 \<Rightarrow> word32 \<Rightarrow> word32 \<Rightarrow> word32 \<Rightarrow>
    word32 \<Rightarrow> word32 \<Rightarrow> word32 \<Rightarrow> word32 \<Rightarrow> word32 list" where
  "sha256_rounds (k # ks) (w # ws) a b c d e f g h =
     (let s1 = rotr32 6 e XOR rotr32 11 e XOR rotr32 25 e;
          ch = (e AND f) XOR (NOT e AND g);
          t1 = h + s1 + ch + k + w;
          s0 = rotr32 2 a XOR rotr32 13 a XOR rotr32 22 a;
          mj = (a AND b) XOR (a AND c) XOR (b AND c);
          w1 = ws ! 0; w14 = ws ! 13;
          x0 = rotr32 7 w1 XOR rotr32 18 w1 XOR drop_bit 3 w1;
          x1 = rotr32 17 w14 XOR rotr32 19 w14 XOR drop_bit 10 w14
      in sha256_rounds ks (ws @ [x1 + ws ! 8 + x0 + w]) (t1 + s0 + mj) a b c (d + t1) e f g)"
| "sha256_rounds _ _ a b c d e f g h = [a, b, c, d, e, f, g, h]"

fun sha256_block :: "word32 list \<Rightarrow> word32 list \<Rightarrow> word32 list" where
  "sha256_block [a, b, c, d, e, f, g, h] ws =
     map2 (+) [a, b, c, d, e, f, g, h] (sha256_rounds sha256_k ws a b c d e f g h)"
| "sha256_block hs ws = hs"

definition sha256_init :: "word32 list" where
  "sha256_init = [0x6a09e667, 0xbb67ae85, 0x3c6ef372, 0xa54ff53a, 0x510e527f, 0x9b05688c,
     0x1f83d9ab, 0x5be0cd19]"

definition sha256_Sum256 :: "bytes \<Rightarrow> bytes" where
  "sha256_Sum256 m = concat (map bytes_of_word (foldl sha256_block sha256_init (message_blocks m)))"

lemma length_sha256_rounds [simp]: "length (sha256_rounds ks ws a b c d e f g h) = 8"
  by (induction ks ws a b c d e f g h rule: sha256_rounds.induct) (auto simp: Let_def)

lemma length_sha256_block: "length hs = 8 \<Longrightarrow> length (sha256_block hs ws) = 8"
  by (cases "(hs, ws)" rule: sha256_block.cases) auto

lemma length_sha256_fold: "length hs = 8 \<Longrightarrow> length (foldl sha256_block hs bs) = 8"
  by (induction bs arbitrary: hs) (auto simp: length_sha256_block)

lemma length_sha256_Sum256 [simp]: "length (sha256_Sum256 m) = 32"
  by (simp add: sha256_Sum256_def length_concat_bytes_of_word length_sha256_fold sha256_init_def)

end
