(* ===== verification/Effects.thy ===== *)
theory Effects
  imports Go_Crypto
begin

text \<open>
  The world an operation runs in: the clock, the operating system's randomness, the two data
  stores, the remote identity providers, and what the service has logged and mailed so far.
  Whatever the environment decides (how much time passes before the next clock reading, the next
  random bytes, whether the next read of them fails, the next identifier, the next salt) is a
  stream in the world, so a theorem about every world is a theorem about every behaviour of the
  environment. \<open>logger/audit.go\<close> and \<open>utils/email.go\<close> are here too, being the two
  append-only outputs.
\<close>

section \<open>The world\<close>

record audit_record =
  ar_Event :: string
  ar_ActorEmail :: string
  ar_ActorIP :: string
  ar_Detail :: string
  ar_Timestamp :: time

datatype mail =
    VerificationMail (mail_to: string) (mail_link: string)
  | PasswordResetMail (mail_to: string) (mail_link: string)

text \<open>
  A JSON document as the decoder sees it: the bytes it has to read, the error it reports, and what
  it leaves in a field of string or integer type and in a SCIM user (the zero value when absent).
\<close>

record json_body =
  jb_Size :: nat
  jb_Err :: "go_error option"
  jb_Str :: "string \<Rightarrow> string"
  jb_Int :: "string \<Rightarrow> int"
  jb_SCIMUser :: scim_user

record out_request =
  or_Method :: string
  or_URL :: string
  or_Header :: "(string \<times> string) list"
  or_Body :: string

record out_response =
  os_StatusCode :: int
  os_Body :: json_body

record ('r, 'd) world =
  w_clock :: time
  w_elapse :: "nat \<Rightarrow> nat"
  w_entropy :: "nat \<Rightarrow> byte"
  w_randfail :: "nat \<Rightarrow> bool"
  w_uuids :: "nat \<Rightarrow> uuid"
  w_salts :: "nat \<Rightarrow> nat"
  w_web :: "nat \<Rightarrow> out_request \<Rightarrow> go_error + out_response"
  w_redis :: 'r
  w_db :: 'd
  w_audit :: "audit_record list"
  w_mails :: "mail list"

type_synonym ('r, 'd, 'a) prog = "(('r, 'd) world, 'a) state"
type_synonym ('r, 'd, 'a) go = "(('r, 'd) world, go_error + 'a) state"

section \<open>Clock and randomness\<close>

text \<open>\<open>time.Now()\<close>: some time passes, then the clock is read.\<close>

definition time_Now :: "('r, 'd, time) prog" where
  "time_Now = State (\<lambda>w. let t = w_clock w + int (w_elapse w 0)
                         in (t, w\<lparr>w_clock := t, w_elapse := \<lambda>i. w_elapse w (Suc i)\<rparr>))"

text \<open>\<open>rand.Read(b)\<close> with a buffer of \<open>n\<close> bytes: its contents afterwards, and the error.\<close>

definition rand_Read :: "nat \<Rightarrow> ('r, 'd, bytes \<times> go_error option) prog" where
  "rand_Read n = State (\<lambda>w.
     ((map (w_entropy w) [0..<n],
       if w_randfail w 0 then Some (ErrText ''crypto/rand: read failed'') else None),
      w\<lparr>w_entropy := \<lambda>i. w_entropy w (i + n), w_randfail := \<lambda>i. w_randfail w (Suc i)\<rparr>))"

text \<open>\<open>client.Do(req)\<close>: the next answer of the network.\<close>

definition http_Do :: "out_request \<Rightarrow> ('r, 'd, out_response) go" where
  "http_Do req = State (\<lambda>w. (w_web w 0 req, w\<lparr>w_web := \<lambda>i. w_web w (Suc i)\<rparr>))"

section \<open>Third-party packages\<close>

text \<open>
  \<open>google/uuid\<close> and \<open>x/crypto/bcrypt\<close> are parameters. \<open>uuid.Parse\<close> returns a value even
  when it reports an error, and the source sometimes uses it; \<open>bcrypt\<close> draws a salt.
\<close>

record packages =
  uuid_Parse :: "string \<Rightarrow> uuid \<times> go_error option"
  uuid_String :: "uuid \<Rightarrow> string"
  uuid_MustParse :: "string \<Rightarrow> uuid"
  bcrypt_Hash :: "nat \<Rightarrow> string \<Rightarrow> go_error + string"
  bcrypt_CompareHashAndPassword :: "string \<Rightarrow> string \<Rightarrow> go_error option"

text \<open>What their documentation promises.\<close>

definition packages_ok :: "packages \<Rightarrow> bool" where
  "packages_ok P \<longleftrightarrow>
     (\<forall>u. uuid_Parse P (uuid_String P u) = (u, None)) \<and>
     (\<forall>s u. uuid_Parse P s = (u, None) \<longrightarrow> uuid_MustParse P s = u) \<and>
     (\<forall>salt pw h. bcrypt_Hash P salt pw = Inr h \<longrightarrow> bcrypt_CompareHashAndPassword P h pw = None)"

lemma uuid_Parse_String: "packages_ok P \<Longrightarrow> uuid_Parse P (uuid_String P u) = (u, None)"
  by (simp add: packages_ok_def)

lemma uuid_String_inject: "packages_ok P \<Longrightarrow> uuid_String P u = uuid_String P v \<longleftrightarrow> u = v"
  by (metis Pair_inject uuid_Parse_String)

definition uuid_New :: "('r, 'd, uuid) prog" where
  "uuid_New = State (\<lambda>w. (w_uuids w 0, w\<lparr>w_uuids := \<lambda>i. w_uuids w (Suc i)\<rparr>))"

definition bcrypt_GenerateFromPassword :: "packages \<Rightarrow> string \<Rightarrow> ('r, 'd, string) go" where
  "bcrypt_GenerateFromPassword P pw = State (\<lambda>w.
     (bcrypt_Hash P (w_salts w 0) pw, w\<lparr>w_salts := \<lambda>i. w_salts w (Suc i)\<rparr>))"

definition DefaultTenantID :: "packages \<Rightarrow> uuid" where
  "DefaultTenantID P = uuid_MustParse P ''00000000-0000-0000-0000-000000000001''"

section \<open>utils.GenerateSecureToken\<close>

definition GenerateSecureToken :: "nat \<Rightarrow> ('r, 'd, string) go" where
  "GenerateSecureToken byteLen = do {
     r \<leftarrow> rand_Read byteLen;
     case r of
       (b, Some err) \<Rightarrow> fail err
     | (b, None) \<Rightarrow> ok (hex_EncodeToString b) }"

text \<open>\<open>token, _ := utils.GenerateSecureToken(n)\<close>: the empty string when it fails.\<close>

definition ignore_error :: "'a \<Rightarrow> ('s, go_error + 'a) state \<Rightarrow> ('s, 'a) state" where
  "ignore_error z m = do {
     r \<leftarrow> m;
     State_Monad.return (case r of Inl e \<Rightarrow> z | Inr x \<Rightarrow> x) }"

section \<open>logger/audit.go\<close>

definition EventRegisterSuccess :: string where "EventRegisterSuccess = ''AUTH_REGISTER_SUCCESS''"
definition EventLoginSuccess :: string where "EventLoginSuccess = ''AUTH_LOGIN_SUCCESS''"
definition EventLoginFailed :: string where "EventLoginFailed = ''AUTH_LOGIN_FAILURE''"
definition EventTokenRefreshed :: string where "EventTokenRefreshed = ''AUTH_TOKEN_REFRESH''"
definition EventSessionRevoked :: string where "EventSessionRevoked = ''AUTH_LOGOUT''"

lemmas event_defs =
  EventRegisterSuccess_def EventLoginSuccess_def EventLoginFailed_def EventTokenRefreshed_def
  EventSessionRevoked_def

definition audit_Log :: "string \<Rightarrow> string \<Rightarrow> string \<Rightarrow> string \<Rightarrow> ('r, 'd, unit) prog" where
  "audit_Log event actorEmail actorIP detail = do {
     t \<leftarrow> time_Now;
     writes (\<lambda>w. w\<lparr>w_audit := w_audit w @
       [\<lparr>ar_Event = event, ar_ActorEmail = actorEmail, ar_ActorIP = actorIP, ar_Detail = detail,
         ar_Timestamp = t\<rparr>]\<rparr>) }"

section \<open>utils/email.go\<close>

definition verification_link :: "string \<Rightarrow> string" where
  "verification_link token = ''http://localhost:8080/api/v1/auth/verify-email?token='' @ token"

definition reset_link :: "string \<Rightarrow> string" where
  "reset_link token = ''http://localhost:8080/api/v1/auth/password/reset?token='' @ token"

definition SendVerificationEmail :: "string \<Rightarrow> string \<Rightarrow> ('r, 'd, unit) go" where
  "SendVerificationEmail to' token = do {
     writes (\<lambda>w. w\<lparr>w_mails := w_mails w @ [VerificationMail to' (verification_link token)]\<rparr>);
     ok () }"

definition SendPasswordResetEmail :: "string \<Rightarrow> string \<Rightarrow> ('r, 'd, unit) go" where
  "SendPasswordResetEmail to' token = do {
     writes (\<lambda>w. w\<lparr>w_mails := w_mails w @ [PasswordResetMail to' (reset_link token)]\<rparr>);
     ok () }"

text \<open>The interface the use cases see.\<close>

record ('r, 'd) email_sender =
  es_SendVerificationEmail :: "string \<Rightarrow> string \<Rightarrow> ('r, 'd, unit) go"
  es_SendPasswordResetEmail :: "string \<Rightarrow> string \<Rightarrow> ('r, 'd, unit) go"

definition NewConsoleEmailSender :: "('r, 'd) email_sender" where
  "NewConsoleEmailSender = \<lparr>es_SendVerificationEmail = SendVerificationEmail,
     es_SendPasswordResetEmail = SendPasswordResetEmail\<rparr>"

section \<open>Frames of the effects\<close>

interpretation db_frame: frame "\<lambda>w w'. w_db w' = w_db w"
  by unfold_locales auto

interpretation redis_frame: frame "\<lambda>w w'. w_redis w' = w_redis w"
  by unfold_locales auto

interpretation audit_frame: frame "\<lambda>w w'. w_audit w' = w_audit w"
  by unfold_locales auto

interpretation mail_frame: frame "\<lambda>w w'. w_mails w' = w_mails w"
  by unfold_locales auto

interpretation audit_grows: frame "\<lambda>w w'. prefix (w_audit w) (w_audit w')"
  by unfold_locales (auto intro: prefix_order.trans)

interpretation clock_grows: frame "\<lambda>w w'. w_clock w \<le> w_clock w'"
  by unfold_locales auto

lemmas [frames] =
  db_frame.frame_rules redis_frame.frame_rules audit_frame.frame_rules mail_frame.frame_rules
  audit_grows.frame_rules clock_grows.frame_rules

lemma time_Now_frames [frames]:
  "state_io_rel (\<lambda>w w'. w_db w' = w_db w) time_Now"
  "state_io_rel (\<lambda>w w'. w_redis w' = w_redis w) time_Now"
  "state_io_rel (\<lambda>w w'. w_audit w' = w_audit w) time_Now"
  "state_io_rel (\<lambda>w w'. w_mails w' = w_mails w) time_Now"
  "state_io_rel (\<lambda>w w'. prefix (w_audit w) (w_audit w')) time_Now"
  "state_io_rel (\<lambda>w w'. w_clock w \<le> w_clock w') time_Now"
  by (simp_all add: state_io_rel_def time_Now_def Let_def)

lemma rand_Read_frames [frames]:
  "state_io_rel (\<lambda>w w'. w_db w' = w_db w) (rand_Read n)"
  "state_io_rel (\<lambda>w w'. w_redis w' = w_redis w) (rand_Read n)"
  "state_io_rel (\<lambda>w w'. w_audit w' = w_audit w) (rand_Read n)"
  "state_io_rel (\<lambda>w w'. w_mails w' = w_mails w) (rand_Read n)"
  "state_io_rel (\<lambda>w w'. prefix (w_audit w) (w_audit w')) (rand_Read n)"
  "state_io_rel (\<lambda>w w'. w_clock w \<le> w_clock w') (rand_Read n)"
  by (simp_all add: state_io_rel_def rand_Read_def)

lemma http_Do_frames [frames]:
  "state_io_rel (\<lambda>w w'. w_db w' = w_db w) (http_Do q)"
  "state_io_rel (\<lambda>w w'. w_redis w' = w_redis w) (http_Do q)"
  "state_io_rel (\<lambda>w w'. w_audit w' = w_audit w) (http_Do q)"
  "state_io_rel (\<lambda>w w'. w_mails w' = w_mails w) (http_Do q)"
  "state_io_rel (\<lambda>w w'. prefix (w_audit w) (w_audit w')) (http_Do q)"
  "state_io_rel (\<lambda>w w'. w_clock w \<le> w_clock w') (http_Do q)"
  by (simp_all add: state_io_rel_def http_Do_def)

lemma uuid_New_frames [frames]:
  "state_io_rel (\<lambda>w w'. w_db w' = w_db w) uuid_New"
  "state_io_rel (\<lambda>w w'. w_redis w' = w_redis w) uuid_New"
  "state_io_rel (\<lambda>w w'. w_audit w' = w_audit w) uuid_New"
  "state_io_rel (\<lambda>w w'. w_mails w' = w_mails w) uuid_New"
  "state_io_rel (\<lambda>w w'. prefix (w_audit w) (w_audit w')) uuid_New"
  "state_io_rel (\<lambda>w w'. w_clock w \<le> w_clock w') uuid_New"
  by (simp_all add: state_io_rel_def uuid_New_def)

lemma bcrypt_frames [frames]:
  "state_io_rel (\<lambda>w w'. w_db w' = w_db w) (bcrypt_GenerateFromPassword P pw)"
  "state_io_rel (\<lambda>w w'. w_redis w' = w_redis w) (bcrypt_GenerateFromPassword P pw)"
  "state_io_rel (\<lambda>w w'. w_audit w' = w_audit w) (bcrypt_GenerateFromPassword P pw)"
  "state_io_rel (\<lambda>w w'. w_mails w' = w_mails w) (bcrypt_GenerateFromPassword P pw)"
  "state_io_rel (\<lambda>w w'. prefix (w_audit w) (w_audit w')) (bcrypt_GenerateFromPassword P pw)"
  "state_io_rel (\<lambda>w w'. w_clock w \<le> w_clock w') (bcrypt_GenerateFromPassword P pw)"
  by (simp_all add: state_io_rel_def bcrypt_GenerateFromPassword_def)

lemma GenerateSecureToken_frames [frames]:
  "state_io_rel (\<lambda>w w'. w_db w' = w_db w) (GenerateSecureToken n)"
  "state_io_rel (\<lambda>w w'. w_redis w' = w_redis w) (GenerateSecureToken n)"
  "state_io_rel (\<lambda>w w'. w_audit w' = w_audit w) (GenerateSecureToken n)"
  "state_io_rel (\<lambda>w w'. w_mails w' = w_mails w) (GenerateSecureToken n)"
  "state_io_rel (\<lambda>w w'. prefix (w_audit w) (w_audit w')) (GenerateSecureToken n)"
  "state_io_rel (\<lambda>w w'. w_clock w \<le> w_clock w') (GenerateSecureToken n)"
  by (simp_all add: state_io_rel_def GenerateSecureToken_def rand_Read_def)

lemma audit_Log_frames [frames]:
  "state_io_rel (\<lambda>w w'. w_db w' = w_db w) (audit_Log e a i d)"
  "state_io_rel (\<lambda>w w'. w_redis w' = w_redis w) (audit_Log e a i d)"
  "state_io_rel (\<lambda>w w'. w_mails w' = w_mails w) (audit_Log e a i d)"
  "state_io_rel (\<lambda>w w'. prefix (w_audit w) (w_audit w')) (audit_Log e a i d)"
  "state_io_rel (\<lambda>w w'. w_clock w \<le> w_clock w') (audit_Log e a i d)"
  by (simp_all add: state_io_rel_def audit_Log_def time_Now_def Let_def)

lemma mail_frames [frames]:
  "state_io_rel (\<lambda>w w'. w_db w' = w_db w) (SendVerificationEmail t k)"
  "state_io_rel (\<lambda>w w'. w_redis w' = w_redis w) (SendVerificationEmail t k)"
  "state_io_rel (\<lambda>w w'. w_audit w' = w_audit w) (SendVerificationEmail t k)"
  "state_io_rel (\<lambda>w w'. prefix (w_audit w) (w_audit w')) (SendVerificationEmail t k)"
  "state_io_rel (\<lambda>w w'. w_clock w \<le> w_clock w') (SendVerificationEmail t k)"
  "state_io_rel (\<lambda>w w'. w_db w' = w_db w) (SendPasswordResetEmail t k)"
  "state_io_rel (\<lambda>w w'. w_redis w' = w_redis w) (SendPasswordResetEmail t k)"
  "state_io_rel (\<lambda>w w'. w_audit w' = w_audit w) (SendPasswordResetEmail t k)"
  "state_io_rel (\<lambda>w w'. prefix (w_audit w) (w_audit w')) (SendPasswordResetEmail t k)"
  "state_io_rel (\<lambda>w w'. w_clock w \<le> w_clock w') (SendPasswordResetEmail t k)"
  by (simp_all add: state_io_rel_def SendVerificationEmail_def SendPasswordResetEmail_def)

lemma ignore_error_frame:
  "state_io_rel R m \<Longrightarrow> state_io_rel R (ignore_error z m)"
  by (auto simp: state_io_rel_def ignore_error_def case_prod_unfold)

lemmas [frames] = ignore_error_frame

text \<open>The length of a token is twice its number of random bytes, and it is never empty.\<close>

lemma GenerateSecureToken_length:
  "run_state (GenerateSecureToken n) w = (Inr tok, w') \<Longrightarrow> length tok = 2 * n"
  by (auto simp: GenerateSecureToken_def rand_Read_def split: if_splits)

end
