(* ===== verification/Keys.thy ===== *)
theory Keys
  imports Effects
begin

text \<open>
  \<open>utils/jwt.go\<close>: the RSA key, the access tokens and the published key set. The PEM, X.509 and RSA
  readers and the JWT library are parameters; \<open>jwt_laws\<close> states what the library promises of a
  token that it signs or accepts.
\<close>

section \<open>Keys\<close>

record rsa_public_key =
  pk_N :: nat
  pk_E :: int64

record rsa_private_key =
  rk_PublicKey :: rsa_public_key
  rk_D :: nat

text \<open>What \<open>x509.ParsePKCS8PrivateKey\<close> may return: an RSA key, or another kind of key.\<close>

datatype pkcs8_key = RSAKey rsa_private_key | OtherKey

record key_manager =
  km_PrivateKey :: rsa_private_key
  km_PublicKey :: rsa_public_key
  km_KeyID :: string

record key_readers =
  os_ReadFile :: "string \<Rightarrow> go_error + bytes"
  pem_Decode :: "bytes \<Rightarrow> bytes option"
  x509_ParsePKCS1PrivateKey :: "bytes \<Rightarrow> go_error + rsa_private_key"
  x509_ParsePKCS8PrivateKey :: "bytes \<Rightarrow> go_error + pkcs8_key"
  rsa_GenerateKey :: "nat \<Rightarrow> go_error + rsa_private_key"

text \<open>The key itself: from a file, or generated.\<close>

definition load_private_key :: "key_readers \<Rightarrow> string \<Rightarrow> go_error + rsa_private_key" where
  "load_private_key io privateKeyPath =
     (if privateKeyPath \<noteq> '''' then
        (case os_ReadFile io privateKeyPath of
           Inl err \<Rightarrow> Inl (ErrWrap ''failed to read RSA private key file: '' err)
         | Inr pemBytes \<Rightarrow>
             (case pem_Decode io pemBytes of
                None \<Rightarrow> Inl (ErrText ''failed to decode PEM block from private key file'')
              | Some block \<Rightarrow>
                  (case x509_ParsePKCS1PrivateKey io block of
                     Inr k \<Rightarrow> Inr k
                   | Inl _ \<Rightarrow>
                       (case x509_ParsePKCS8PrivateKey io block of
                          Inr (RSAKey k) \<Rightarrow> Inr k
                        | Inr OtherKey \<Rightarrow> Inl (ErrText ''PKCS#8 key is not an RSA private key'')
                        | Inl err \<Rightarrow> Inl (ErrWrap ''could not parse private key as PKCS#1 or PKCS#8: '' err)))))
      else
        (case rsa_GenerateKey io 4096 of
           Inl err \<Rightarrow> Inl (ErrWrap ''failed to generate fallback RSA key: '' err)
         | Inr k \<Rightarrow> Inr k))"

definition NewKeyManager :: "key_readers \<Rightarrow> string \<Rightarrow> go_error + key_manager" where
  "NewKeyManager io privateKeyPath =
     (case load_private_key io privateKeyPath of
        Inl err \<Rightarrow> Inl err
      | Inr privKey \<Rightarrow>
          (let pubKey = rk_PublicKey privKey;
               hash = sha256_Sum256 (big_Bytes (pk_N pubKey));
               kid = hex_EncodeToString (take 8 hash)
           in Inr \<lparr>km_PrivateKey = privKey, km_PublicKey = pubKey, km_KeyID = kid\<rparr>))"

section \<open>The JWT library\<close>

datatype signing_method = SigningMethodRSA string | SigningMethodOther string

text \<open>The parsed token: its claims, when they have the type the caller asked for, and \<open>Valid\<close>.\<close>

record jwt_token =
  tk_Claims :: "jwt_custom_claims option"
  tk_Valid :: bool

record jwt_lib =
  jwt_NewNumericDate :: "time \<Rightarrow> time"
  jwt_SignedString :: "signing_method \<Rightarrow> (string \<times> string) list \<Rightarrow> jwt_custom_claims \<Rightarrow>
    rsa_private_key \<Rightarrow> go_error + string"
  jwt_ParseWithClaims :: "string \<Rightarrow> (signing_method \<Rightarrow> go_error + rsa_public_key) \<Rightarrow> time \<Rightarrow>
    go_error + jwt_token"

text \<open>
  \<open>verifies m p s c\<close>: the signature of the text \<open>s\<close> verifies by method \<open>m\<close> under the public key
  \<open>p\<close>, and its payload is \<open>c\<close>. JSON text is UTF-8, so a law about a signed payload speaks of
  ASCII claims at whole seconds only.
\<close>

type_synonym verifies = "signing_method \<Rightarrow> rsa_public_key \<Rightarrow> string \<Rightarrow> jwt_custom_claims \<Rightarrow> bool"

definition claims_plain :: "jwt_custom_claims \<Rightarrow> bool" where
  "claims_plain c \<longleftrightarrow> ascii (cl_Email c) \<and> ascii (cl_Role c) \<and> ascii (cl_Subject c) \<and> ascii (cl_Issuer c) \<and>
     (\<forall>t. cl_ExpiresAt c = Some t \<or> cl_IssuedAt c = Some t \<longrightarrow> second dvd t)"

definition unexpired :: "time \<Rightarrow> jwt_custom_claims \<Rightarrow> bool" where
  "unexpired now c \<longleftrightarrow> (\<forall>t. cl_ExpiresAt c = Some t \<longrightarrow> now < t)"

definition jwt_sign_law :: "jwt_lib \<Rightarrow> verifies \<Rightarrow> bool" where
  "jwt_sign_law J verifies \<longleftrightarrow> (\<forall>m hdr c k s. jwt_SignedString J m hdr c k = Inr s \<longrightarrow> claims_plain c \<longrightarrow>
     verifies m (rk_PublicKey k) s c \<and>
     (\<forall>kf now. kf m = Inr (rk_PublicKey k) \<longrightarrow> unexpired now c \<longrightarrow>
        jwt_ParseWithClaims J s kf now = Inr \<lparr>tk_Claims = Some c, tk_Valid = True\<rparr>))"

definition jwt_parse_law :: "jwt_lib \<Rightarrow> verifies \<Rightarrow> bool" where
  "jwt_parse_law J verifies \<longleftrightarrow> (\<forall>s kf now tok. jwt_ParseWithClaims J s kf now = Inr tok \<longrightarrow> tk_Valid tok \<longrightarrow>
     (\<forall>c. tk_Claims tok = Some c \<longrightarrow>
        unexpired now c \<and> (\<exists>m p. kf m = Inr p \<and> verifies m p s c)))"

text \<open>One text carries one payload.\<close>

definition jwt_payload_law :: "verifies \<Rightarrow> bool" where
  "jwt_payload_law verifies \<longleftrightarrow> (\<forall>m p s c m' p' c'. verifies m p s c \<longrightarrow> verifies m' p' s c' \<longrightarrow> c = c')"

definition jwt_laws :: "jwt_lib \<Rightarrow> verifies \<Rightarrow> bool" where
  "jwt_laws J verifies \<longleftrightarrow> (\<forall>t. jwt_NewNumericDate J t = t div second * second) \<and>
     jwt_sign_law J verifies \<and> jwt_parse_law J verifies \<and> jwt_payload_law verifies"

section \<open>Access tokens\<close>

definition GenerateAccessToken ::
  "packages \<Rightarrow> jwt_lib \<Rightarrow> key_manager \<Rightarrow> uuid \<Rightarrow> string \<Rightarrow> role \<Rightarrow> duration \<Rightarrow> ('r, 'd, string) go" where
  "GenerateAccessToken P J km userID email r ttl = do {
     t1 \<leftarrow> time_Now;
     t2 \<leftarrow> time_Now;
     let claims = \<lparr>cl_UserID = userID, cl_Email = email, cl_Role = r,
       cl_Subject = uuid_String P userID, cl_Issuer = ''auth-service'',
       cl_ExpiresAt = Some (jwt_NewNumericDate J (t1 + ttl)),
       cl_IssuedAt = Some (jwt_NewNumericDate J t2)\<rparr>;
     State_Monad.return
       (jwt_SignedString J (SigningMethodRSA ''RS256'') [(''kid'', km_KeyID km)] claims (km_PrivateKey km)) }"

fun access_keyfunc :: "key_manager \<Rightarrow> signing_method \<Rightarrow> go_error + rsa_public_key" where
  "access_keyfunc km (SigningMethodRSA alg) = Inr (km_PublicKey km)"
| "access_keyfunc km (SigningMethodOther alg) = Inl (ErrText ''unexpected signing method: expected RS256'')"

definition ValidateAccessToken ::
  "jwt_lib \<Rightarrow> key_manager \<Rightarrow> string \<Rightarrow> ('r, 'd, jwt_custom_claims) go" where
  "ValidateAccessToken J km tokenString = do {
     now \<leftarrow> time_Now;
     case jwt_ParseWithClaims J tokenString (access_keyfunc km) now of
       Inl err \<Rightarrow> fail err
     | Inr token \<Rightarrow>
         (case tk_Claims token of
            Some claims \<Rightarrow> if tk_Valid token then ok claims else fail (ErrText ''invalid token claims'')
          | None \<Rightarrow> fail (ErrText ''invalid token claims'')) }"

section \<open>The key set\<close>

record jwk =
  jwk_Kty :: string
  jwk_Kid :: string
  jwk_Use :: string
  jwk_Alg :: string
  jwk_N :: string
  jwk_E :: string

type_synonym jwks = "jwk list"

definition GetJWKS :: "key_manager \<Rightarrow> jwks" where
  "GetJWKS km =
     (let nBytes = big_Bytes (pk_N (km_PublicKey km));
          eBytes = big_Bytes (nat \<bar>sint (pk_E (km_PublicKey km))\<bar>)
      in [\<lparr>jwk_Kty = ''RSA'', jwk_Kid = km_KeyID km, jwk_Use = ''sig'', jwk_Alg = ''RS256'',
           jwk_N = base64_RawURL_EncodeToString nBytes, jwk_E = base64_RawURL_EncodeToString eBytes\<rparr>])"

section \<open>Lemmas\<close>

lemma jwt_sign_verifies:
  "jwt_laws J verifies \<Longrightarrow> jwt_SignedString J m hdr c k = Inr s \<Longrightarrow> claims_plain c \<Longrightarrow> verifies m (rk_PublicKey k) s c"
  unfolding jwt_laws_def jwt_sign_law_def by blast

lemma jwt_sign_parse:
  "jwt_laws J verifies \<Longrightarrow> jwt_SignedString J m hdr c k = Inr s \<Longrightarrow> claims_plain c \<Longrightarrow>
   kf m = Inr (rk_PublicKey k) \<Longrightarrow> unexpired now c \<Longrightarrow>
   jwt_ParseWithClaims J s kf now = Inr \<lparr>tk_Claims = Some c, tk_Valid = True\<rparr>"
  unfolding jwt_laws_def jwt_sign_law_def by blast

lemma jwt_parse_sound:
  "jwt_laws J verifies \<Longrightarrow> jwt_ParseWithClaims J s kf now = Inr tok \<Longrightarrow> tk_Valid tok \<Longrightarrow> tk_Claims tok = Some c \<Longrightarrow>
   unexpired now c \<and> (\<exists>m p. kf m = Inr p \<and> verifies m p s c)"
  unfolding jwt_laws_def jwt_parse_law_def by blast

lemma jwt_payload:
  "jwt_laws J verifies \<Longrightarrow> verifies m p s c \<Longrightarrow> verifies m' p' s c' \<Longrightarrow> c = c'"
  unfolding jwt_laws_def jwt_payload_law_def by blast

lemma access_keyfunc_Inr: "access_keyfunc km m = Inr p \<longleftrightarrow> (\<exists>alg. m = SigningMethodRSA alg) \<and> p = km_PublicKey km"
  by (cases m) auto

text \<open>What an accepted token is: signed by an RSA method under the service's own key, unexpired.\<close>

lemma ValidateAccessToken_Inr:
  assumes "jwt_laws J verifies" "run_state (ValidateAccessToken J km s) w = (Inr c, w')"
  shows "unexpired (w_clock w') c" and "\<exists>alg. verifies (SigningMethodRSA alg) (km_PublicKey km) s c"
proof -
  obtain tok where "jwt_ParseWithClaims J s (access_keyfunc km) (w_clock w') = Inr tok"
    "tk_Valid tok" "tk_Claims tok = Some c"
    using assms(2)
    by (auto simp: ValidateAccessToken_def time_Now_def Let_def split: sum.splits option.splits if_splits)
  from jwt_parse_sound [OF assms(1) this]
  show "unexpired (w_clock w') c" "\<exists>alg. verifies (SigningMethodRSA alg) (km_PublicKey km) s c"
    by (auto simp: access_keyfunc_Inr)
qed

lemma ValidateAccessToken_run:
  "run_state (ValidateAccessToken J km s) w =
     (case jwt_ParseWithClaims J s (access_keyfunc km) (w_clock w + int (w_elapse w 0)) of
        Inl err \<Rightarrow> Inl err
      | Inr token \<Rightarrow> (case tk_Claims token of
            Some claims \<Rightarrow> if tk_Valid token then Inr claims else Inl (ErrText ''invalid token claims'')
          | None \<Rightarrow> Inl (ErrText ''invalid token claims'')),
      after time_Now w)"
  by (auto simp: ValidateAccessToken_def time_Now_def Let_def split: sum.split option.split)

lemma after_time_Now [simp]: "w_clock (after time_Now w) = w_clock w + int (w_elapse w 0)"
  by (simp add: time_Now_def Let_def)

text \<open>What a generated token carries.\<close>

definition access_claims :: "packages \<Rightarrow> uuid \<Rightarrow> string \<Rightarrow> role \<Rightarrow> time \<Rightarrow> time \<Rightarrow> jwt_custom_claims" where
  "access_claims P i email r e t = \<lparr>cl_UserID = i, cl_Email = email, cl_Role = r, cl_Subject = uuid_String P i,
     cl_Issuer = ''auth-service'', cl_ExpiresAt = Some (e div second * second),
     cl_IssuedAt = Some (t div second * second)\<rparr>"

lemma access_claims_plain:
  "ascii email \<Longrightarrow> ascii r \<Longrightarrow> ascii (uuid_String P i) \<Longrightarrow> claims_plain (access_claims P i email r e t)"
  by (auto simp: claims_plain_def access_claims_def)

lemma GenerateAccessToken_run:
  assumes "jwt_laws J verifies"
  shows "run_state (GenerateAccessToken P J km i email r ttl) w =
    (jwt_SignedString J (SigningMethodRSA ''RS256'') [(''kid'', km_KeyID km)]
       (access_claims P i email r (w_clock w + int (w_elapse w 0) + ttl)
          (w_clock w + int (w_elapse w 0) + int (w_elapse w 1))) (km_PrivateKey km),
     after time_Now (after time_Now w))"
proof -
  have "jwt_NewNumericDate J t = t div second * second" for t
    using assms by (simp add: jwt_laws_def)
  then show ?thesis
    by (simp add: GenerateAccessToken_def access_claims_def time_Now_def Let_def)
qed

lemma generated_signed:
  assumes "jwt_laws J verifies" "run_state (GenerateAccessToken P J km i email r ttl) w = (Inr tok, w1)"
  shows "jwt_SignedString J (SigningMethodRSA ''RS256'') [(''kid'', km_KeyID km)]
    (access_claims P i email r (w_clock w + int (w_elapse w 0) + ttl) (w_clock w + int (w_elapse w 0) + int (w_elapse w 1)))
    (km_PrivateKey km) = Inr tok"
  using assms(2) unfolding GenerateAccessToken_run [OF assms(1)] by simp

lemma generated_validates:
  assumes laws: "jwt_laws J verifies" and key: "km_PublicKey km = rk_PublicKey (km_PrivateKey km)"
    and plain: "ascii email" "ascii r" "ascii (uuid_String P i)"
    and gen: "run_state (GenerateAccessToken P J km i email r ttl) w = (Inr tok, w1)"
    and time: "w_clock w2 + int (w_elapse w2 0) < (w_clock w + int (w_elapse w 0) + ttl) div second * second"
  shows "run_state (ValidateAccessToken J km tok) w2 = (Inr (access_claims P i email r (w_clock w + int (w_elapse w 0) + ttl)
    (w_clock w + int (w_elapse w 0) + int (w_elapse w 1))), after time_Now w2)"
proof -
  define c where "c = access_claims P i email r (w_clock w + int (w_elapse w 0) + ttl) (w_clock w + int (w_elapse w 0) + int (w_elapse w 1))"
  note sign = generated_signed [OF laws gen, folded c_def]
  have cp: "claims_plain c" unfolding c_def by (intro access_claims_plain plain)
  have exp: "cl_ExpiresAt c = Some ((w_clock w + int (w_elapse w 0) + ttl) div second * second)"
    by (simp add: c_def access_claims_def)
  have "jwt_ParseWithClaims J tok (access_keyfunc km) (w_clock w2 + int (w_elapse w2 0)) = Inr \<lparr>tk_Claims = Some c, tk_Valid = True\<rparr>"
    using time exp key by (intro jwt_sign_parse [OF laws sign cp]) (auto simp: unexpired_def)
  then show ?thesis unfolding ValidateAccessToken_run c_def [symmetric] by simp
qed

lemma NewKeyManager_Inr:
  "NewKeyManager io path = Inr km \<Longrightarrow> km_PublicKey km = rk_PublicKey (km_PrivateKey km)"
  by (auto simp: NewKeyManager_def Let_def split: sum.splits)

lemma GenerateAccessToken_frames [frames]:
  "state_io_rel (\<lambda>w w'. w_db w' = w_db w) (GenerateAccessToken P J km i e r ttl)"
  "state_io_rel (\<lambda>w w'. w_redis w' = w_redis w) (GenerateAccessToken P J km i e r ttl)"
  "state_io_rel (\<lambda>w w'. w_audit w' = w_audit w) (GenerateAccessToken P J km i e r ttl)"
  "state_io_rel (\<lambda>w w'. w_mails w' = w_mails w) (GenerateAccessToken P J km i e r ttl)"
  "state_io_rel (\<lambda>w w'. prefix (w_audit w) (w_audit w')) (GenerateAccessToken P J km i e r ttl)"
  "state_io_rel (\<lambda>w w'. w_clock w \<le> w_clock w') (GenerateAccessToken P J km i e r ttl)"
  unfolding GenerateAccessToken_def Let_def by (intro frames)+

lemma ValidateAccessToken_frames [frames]:
  "state_io_rel (\<lambda>w w'. w_db w' = w_db w) (ValidateAccessToken J km s)"
  "state_io_rel (\<lambda>w w'. w_redis w' = w_redis w) (ValidateAccessToken J km s)"
  "state_io_rel (\<lambda>w w'. w_audit w' = w_audit w) (ValidateAccessToken J km s)"
  "state_io_rel (\<lambda>w w'. w_mails w' = w_mails w) (ValidateAccessToken J km s)"
  "state_io_rel (\<lambda>w w'. prefix (w_audit w) (w_audit w')) (ValidateAccessToken J km s)"
  "state_io_rel (\<lambda>w w'. w_clock w \<le> w_clock w') (ValidateAccessToken J km s)"
  unfolding ValidateAccessToken_def by (intro frames)+

end
