(* ===== verification/Oauth.thy ===== *)
theory Oauth
  imports Effects "HOL-Library.List_Lexorder" "HOL-Library.Char_ord"
begin

text \<open>
  \<open>infrastructure/oauth/provider.go\<close>: the authorization URL and the code exchange of the two
  identity providers. Their answers come from the network of the world.
\<close>

record user_info =
  ui_Subject :: string
  ui_Email :: string

text \<open>The fields that \<open>googleProvider\<close> and \<open>githubProvider\<close> both have.\<close>

record provider_config =
  pc_clientID :: string
  pc_clientSecret :: string
  pc_redirectURI :: string

text \<open>The interface \<open>Provider\<close>.\<close>

record ('r, 'd) provider =
  pv_GetAuthURL :: "string \<Rightarrow> string"
  pv_ExchangeCode :: "string \<Rightarrow> ('r, 'd, user_info) go"

text \<open>\<open>url.Values.Encode\<close>: the pairs sorted by key, each escaped.\<close>

fun join :: "string \<Rightarrow> string list \<Rightarrow> string" where
  "join sep [] = ''''"
| "join sep [x] = x"
| "join sep (x # xs) = x @ sep @ join sep xs"

definition Values_Encode :: "(string \<times> string) list \<Rightarrow> string" where
  "Values_Encode vs =
     join ''&'' (map (\<lambda>(k, v). QueryEscape k @ ''='' @ QueryEscape v) (sort_key fst vs))"

definition google_config :: "(string \<Rightarrow> string) \<Rightarrow> provider_config" where
  "google_config getenv = \<lparr>pc_clientID = getenv ''GOOGLE_CLIENT_ID'',
     pc_clientSecret = getenv ''GOOGLE_CLIENT_SECRET'', pc_redirectURI = getenv ''GOOGLE_REDIRECT_URI''\<rparr>"

definition google_GetAuthURL :: "provider_config \<Rightarrow> string \<Rightarrow> string" where
  "google_GetAuthURL g state =
     ''https://accounts.google.com/o/oauth2/v2/auth?client_id='' @ pc_clientID g @ ''&redirect_uri='' @
     QueryEscape (pc_redirectURI g) @ ''&response_type=code&scope=openid%20email&state='' @ state"

definition google_ExchangeCode :: "provider_config \<Rightarrow> string \<Rightarrow> ('r, 'd, user_info) go" where
  "google_ExchangeCode g code = do {
     let data = [(''code'', code), (''client_id'', pc_clientID g), (''client_secret'', pc_clientSecret g),
       (''redirect_uri'', pc_redirectURI g), (''grant_type'', ''authorization_code'')];
     let req = \<lparr>or_Method = ''POST'', or_URL = ''https://oauth2.googleapis.com/token'',
       or_Header = [(''Content-Type'', ''application/x-www-form-urlencoded'')], or_Body = Values_Encode data\<rparr>;
     res \<leftarrow> http_Do req;
     case res of
       Inl err \<Rightarrow> fail (ErrText ''failed to exchange code with google'')
     | Inr resp \<Rightarrow>
         if os_StatusCode resp \<noteq> 200 then fail (ErrText ''failed to exchange code with google'')
         else do {
           let accessToken = jb_Str (os_Body resp) ''access_token'';
           let reqUser = \<lparr>or_Method = ''GET'', or_URL = ''https://www.googleapis.com/oauth2/v2/userinfo'',
             or_Header = [(''Authorization'', ''Bearer '' @ accessToken)], or_Body = ''''\<rparr>;
           res2 \<leftarrow> http_Do reqUser;
           case res2 of
             Inl err \<Rightarrow> fail (ErrText ''failed to fetch userinfo from google'')
           | Inr userResp \<Rightarrow>
               if os_StatusCode userResp \<noteq> 200 then fail (ErrText ''failed to fetch userinfo from google'')
               else ok \<lparr>ui_Subject = jb_Str (os_Body userResp) ''id'',
                       ui_Email = jb_Str (os_Body userResp) ''email''\<rparr> } }"

definition NewGoogleProvider :: "(string \<Rightarrow> string) \<Rightarrow> ('r, 'd) provider" where
  "NewGoogleProvider getenv = (let g = google_config getenv in
     \<lparr>pv_GetAuthURL = google_GetAuthURL g, pv_ExchangeCode = google_ExchangeCode g\<rparr>)"

definition github_config :: "(string \<Rightarrow> string) \<Rightarrow> provider_config" where
  "github_config getenv = \<lparr>pc_clientID = getenv ''GITHUB_CLIENT_ID'',
     pc_clientSecret = getenv ''GITHUB_CLIENT_SECRET'', pc_redirectURI = getenv ''GITHUB_REDIRECT_URI''\<rparr>"

definition github_GetAuthURL :: "provider_config \<Rightarrow> string \<Rightarrow> string" where
  "github_GetAuthURL gh state =
     ''https://github.com/login/oauth/authorize?client_id='' @ pc_clientID gh @ ''&redirect_uri='' @
     QueryEscape (pc_redirectURI gh) @ ''&scope=user:email&state='' @ state"

definition github_ExchangeCode :: "provider_config \<Rightarrow> string \<Rightarrow> ('r, 'd, user_info) go" where
  "github_ExchangeCode gh code = do {
     let data = [(''code'', code), (''client_id'', pc_clientID gh), (''client_secret'', pc_clientSecret gh),
       (''redirect_uri'', pc_redirectURI gh)];
     let req = \<lparr>or_Method = ''POST'', or_URL = ''https://github.com/login/oauth/access_token'',
       or_Header = [(''Accept'', ''application/json''), (''Content-Type'', ''application/x-www-form-urlencoded'')],
       or_Body = Values_Encode data\<rparr>;
     res \<leftarrow> http_Do req;
     case res of
       Inl err \<Rightarrow> fail (ErrText ''failed to exchange code with github'')
     | Inr resp \<Rightarrow>
         if os_StatusCode resp \<noteq> 200 then fail (ErrText ''failed to exchange code with github'')
         else do {
           let accessToken = jb_Str (os_Body resp) ''access_token'';
           let reqUser = \<lparr>or_Method = ''GET'', or_URL = ''https://api.github.com/user'',
             or_Header = [(''Authorization'', ''Bearer '' @ accessToken)], or_Body = ''''\<rparr>;
           res2 \<leftarrow> http_Do reqUser;
           case res2 of
             Inl err \<Rightarrow> fail (ErrText ''failed to fetch userinfo from github'')
           | Inr userResp \<Rightarrow>
               if os_StatusCode userResp \<noteq> 200 then fail (ErrText ''failed to fetch userinfo from github'')
               else do {
                 let ident = jb_Int (os_Body userResp) ''id'';
                 let email = jb_Str (os_Body userResp) ''email'';
                 let email' = (if email = '''' then ''gh_'' @ Itoa ident @ ''@users.noreply.github.com'' else email);
                 ok \<lparr>ui_Subject = Itoa ident, ui_Email = email'\<rparr> } } }"

definition NewGitHubProvider :: "(string \<Rightarrow> string) \<Rightarrow> ('r, 'd) provider" where
  "NewGitHubProvider getenv = (let gh = github_config getenv in
     \<lparr>pv_GetAuthURL = github_GetAuthURL gh, pv_ExchangeCode = github_ExchangeCode gh\<rparr>)"

text \<open>An exchange touches neither store, writes no audit record and sends no mail.\<close>

lemma google_ExchangeCode_frames [frames]:
  "state_io_rel (\<lambda>w w'. w_db w' = w_db w) (google_ExchangeCode g c)"
  "state_io_rel (\<lambda>w w'. w_redis w' = w_redis w) (google_ExchangeCode g c)"
  "state_io_rel (\<lambda>w w'. w_audit w' = w_audit w) (google_ExchangeCode g c)"
  "state_io_rel (\<lambda>w w'. w_mails w' = w_mails w) (google_ExchangeCode g c)"
  "state_io_rel (\<lambda>w w'. prefix (w_audit w) (w_audit w')) (google_ExchangeCode g c)"
  "state_io_rel (\<lambda>w w'. w_clock w \<le> w_clock w') (google_ExchangeCode g c)"
  unfolding google_ExchangeCode_def Let_def by (intro frames)+

lemma github_ExchangeCode_frames [frames]:
  "state_io_rel (\<lambda>w w'. w_db w' = w_db w) (github_ExchangeCode g c)"
  "state_io_rel (\<lambda>w w'. w_redis w' = w_redis w) (github_ExchangeCode g c)"
  "state_io_rel (\<lambda>w w'. w_audit w' = w_audit w) (github_ExchangeCode g c)"
  "state_io_rel (\<lambda>w w'. w_mails w' = w_mails w) (github_ExchangeCode g c)"
  "state_io_rel (\<lambda>w w'. prefix (w_audit w) (w_audit w')) (github_ExchangeCode g c)"
  "state_io_rel (\<lambda>w w'. w_clock w \<le> w_clock w') (github_ExchangeCode g c)"
  unfolding github_ExchangeCode_def Let_def by (intro frames)+

text \<open>A successful GitHub exchange always names an address.\<close>

lemma github_email_ne:
  assumes "result (github_ExchangeCode g c) w = Inr info"
  shows "ui_Email info \<noteq> ''''"
  using assms by (auto simp: github_ExchangeCode_def Let_def case_prod_unfold split: sum.splits if_splits)

end
