(* ===== verification/Go_Float.thy ===== *)
theory Go_Float
  imports Complex_Main "HOL-Library.Log_Nat"
begin

text \<open>
  Go's \<open>float64\<close>: rounding to 53 binary digits, ties to even. The values are rationals; none that the
  program computes with comes near the ends of the exponent range.
\<close>

definition round_even :: "rat \<Rightarrow> int" where
  "round_even x = (let f = \<lfloor>x\<rfloor>; r = x - of_int f in
     if r < 1/2 then f else if 1/2 < r then f + 1 else if even f then f else f + 1)"

text \<open>The exponent that leaves 53 digits before the point.\<close>

definition float_exp :: "rat \<Rightarrow> int" where
  "float_exp x = (case quotient_of x of (n, d) \<Rightarrow>
     let e = int (floorlog 2 (nat n)) - int (floorlog 2 (nat d)) - 53
     in if x < 2 powi e * 2 ^ 53 then e else e + 1)"

definition float64 :: "rat \<Rightarrow> rat" where
  "float64 x = (if x = 0 then 0
     else sgn x * (of_int (round_even (\<bar>x\<bar> / 2 powi (float_exp \<bar>x\<bar>))) * 2 powi (float_exp \<bar>x\<bar>)))"

text \<open>The conversion of a float to an integer truncates.\<close>

definition int_of_float :: "rat \<Rightarrow> int" where
  "int_of_float x = (if 0 \<le> x then \<lfloor>x\<rfloor> else \<lceil>x\<rceil>)"

text \<open>\<open>float64(a) / float64(b)\<close> for integers.\<close>

definition float64_div :: "int \<Rightarrow> int \<Rightarrow> rat" where
  "float64_div a b = float64 (float64 (of_int a) / float64 (of_int b))"

lemma round_even_int [simp]: "round_even (of_int n) = n"
  by (simp add: round_even_def)

lemma round_even_error: "\<bar>of_int (round_even x) - x\<bar> \<le> 1/2"
proof -
  have "0 \<le> x - of_int \<lfloor>x\<rfloor>" "x - of_int \<lfloor>x\<rfloor> < 1" by linarith+
  then show ?thesis by (auto simp: round_even_def Let_def abs_if) linarith
qed

lemma powi_shift: "2 powi e * 2 ^ k = (2 powi (e + int k) :: rat)"
  by (simp add: power_int_add)

lemma floorlog_powi:
  assumes "0 < n"
  shows "2 powi (int (floorlog 2 (nat n)) - 1) \<le> (of_int n :: rat)"
    and "of_int n < (2 powi int (floorlog 2 (nat n)) :: rat)"
proof -
  let ?a = "floorlog 2 (nat n)"
  have a: "2 ^ (?a - 1) \<le> nat n" "nat n < 2 ^ ?a"
    using floorlog_bounds [of "nat n" 2] assms by auto
  have pos: "0 < ?a" using assms by (simp add: floorlog_eq_zero_iff zero_less_iff_neq_zero)
  have "(2 :: rat) ^ (?a - 1) \<le> of_nat (nat n)" using a(1) by (metis of_nat_le_iff of_nat_numeral of_nat_power)
  with assms pos show "2 powi (int ?a - 1) \<le> (of_int n :: rat)"
    by (simp add: power_int_def nat_diff_distrib)
  have "of_nat (nat n) < (2 :: rat) ^ ?a" using a(2) by (metis of_nat_less_iff of_nat_numeral of_nat_power)
  with assms show "of_int n < (2 powi int ?a :: rat)" by simp
qed

lemma float_exp_bounds:
  assumes "0 < x"
  shows "2 powi float_exp x * 2 ^ 52 \<le> x" and "x < 2 powi float_exp x * 2 ^ 53"
proof -
  obtain n d where q: "quotient_of x = (n, d)" by (cases "quotient_of x")
  then have d: "0 < d" and x: "x = of_int n / of_int d"
    by (rule quotient_of_denom_pos, rule quotient_of_div)
  with assms have n: "0 < n" by (simp add: zero_less_divide_iff)
  let ?a = "int (floorlog 2 (nat n))" and ?b = "int (floorlog 2 (nat d))"
  have "2 powi (?a - 1) / 2 powi ?b \<le> x" unfolding x
    by (rule frac_le) (use floorlog_powi [OF n] floorlog_powi [OF d] d n in auto)
  moreover have "2 powi (?a - 1) / 2 powi ?b = (2 powi (?a - 1 - ?b) :: rat)" by (simp add: power_int_diff)
  ultimately have low: "2 powi (?a - ?b - 1) \<le> x" by (simp add: diff_right_commute)
  have "x < 2 powi ?a / 2 powi (?b - 1)" unfolding x
    by (rule frac_less) (use floorlog_powi [OF n] floorlog_powi [OF d] d n in auto)
  moreover have "2 powi ?a / 2 powi (?b - 1) = (2 powi (?a - (?b - 1)) :: rat)" by (simp add: power_int_diff)
  ultimately have up: "x < 2 powi (?a - ?b + 1)" by (simp add: algebra_simps)
  have e: "float_exp x = (if x < 2 powi (?a - ?b) then ?a - ?b - 53 else ?a - ?b - 52)"
    unfolding float_exp_def q Let_def prod.case powi_shift by simp
  show "2 powi float_exp x * 2 ^ 52 \<le> x" using low unfolding e powi_shift by auto
  show "x < 2 powi float_exp x * 2 ^ 53" using up unfolding e powi_shift by (auto simp: add.commute)
qed

text \<open>The relative error of one rounding, and the integers that survive it.\<close>

lemma float64_error: "0 \<le> x \<Longrightarrow> \<bar>float64 x - x\<bar> * 2 ^ 53 \<le> x"
proof (cases "x = 0")
  case False
  assume "0 \<le> x"
  with False have x: "0 < x" by simp
  let ?p = "2 powi float_exp x :: rat"
  have p: "0 < ?p" by (simp add: zero_less_power_int)
  have "\<bar>float64 x - x\<bar> = \<bar>of_int (round_even (x / ?p)) - x / ?p\<bar> * ?p"
    using x p by (simp add: float64_def abs_mult_pos left_diff_distrib)
  also have "\<dots> \<le> 1/2 * ?p" by (intro mult_right_mono round_even_error) (use p in simp)
  finally show ?thesis using float_exp_bounds(1) [OF x] by simp
qed (simp add: float64_def)

lemma float64_int:
  assumes "0 \<le> n" "n < 2 ^ 53"
  shows "float64 (of_int n) = of_int n"
proof (cases "n = 0")
  case False
  with assms have x: "0 < (of_int n :: rat)" by simp
  let ?e = "float_exp (of_int n)"
  have "2 powi ?e * 2 ^ 52 < (2 :: rat) ^ 53"
  proof -
    have "(of_int n :: rat) < of_int (2 ^ 53)" using assms(2) by (simp only: of_int_less_iff)
    then show ?thesis using float_exp_bounds(1) [OF x] by (simp del: of_int_less_iff)
  qed
  then have "2 powi ?e < (2 powi 1 :: rat)" by simp
  then have "?e < 1" using power_int_increasing [of 1 ?e "2 :: rat"] by linarith
  then have "(of_int n / 2 powi ?e :: rat) = of_int (n * 2 ^ nat (- ?e))"
    by (simp add: power_int_def field_simps power_inverse)
  then have "of_int (round_even (of_int n / 2 powi ?e)) = (of_int n / 2 powi ?e :: rat)"
    by (metis round_even_int)
  then show ?thesis using x by (simp add: float64_def)
qed (simp add: float64_def)

text \<open>
  The ceiling of a quotient survives the rounding: a quotient that is not whole is further from the
  next whole number than the error.
\<close>

lemma ceiling_float64_div:
  assumes a: "0 \<le> a" "a < 2 ^ 53" and b: "0 < b" "b < 2 ^ 53"
  shows "\<lceil>float64_div a b\<rceil> = (a + b - 1) div b"
proof -
  let ?x = "of_int a / of_int b :: rat"
  have ints: "float64 (of_int a) = of_int a" "float64 (of_int b) = of_int b"
    using assms by (simp_all add: float64_int)
  then have div: "float64_div a b = float64 ?x" by (simp add: float64_div_def)
  show ?thesis
  proof (cases "b dvd a")
    case True
    then obtain c where c: "a = b * c" by auto
    with b a(1) have c0: "0 \<le> c" by (simp add: zero_le_mult_iff)
    have "c * 1 \<le> c * b" using b c0 by (intro mult_left_mono) auto
    with a(2) c have "c < 2 ^ 53" by (simp add: mult.commute)
    moreover have "?x = of_int c" using b c by simp
    ultimately have "float64_div a b = of_int c" using c0 by (simp add: div float64_int)
    moreover have "(b * c + b - 1) div b = c + (b - 1) div b"
      using b by (metis add_diff_eq add.commute div_mult_self2 less_irrefl)
    ultimately show ?thesis using b c by simp
  next
    case False
    define q where "q = a div b"
    define r where "r = a mod b"
    have "r \<noteq> 0" using False by (simp add: r_def dvd_eq_mod_eq_0)
    moreover have "0 \<le> r" "r < b" using b(1) by (simp_all add: r_def)
    ultimately have r: "0 < r" "r < b" by simp_all
    have ab: "a = q * b + r" by (simp add: q_def r_def)
    have "\<bar>float64 ?x - ?x\<bar> * 2 ^ 53 * of_int b \<le> ?x * of_int b"
      using float64_error [of ?x] a b by (intro mult_right_mono) auto
    also have "\<dots> = of_int a" using b by simp
    also have "\<dots> < of_int (2 ^ 53)" using a(2) by (simp only: of_int_less_iff)
    finally have "\<bar>(float64 ?x - ?x) * of_int b\<bar> < 1" using b by (simp add: abs_mult)
    then have err: "- 1 < float64 ?x * of_int b - of_int a" "float64 ?x * of_int b - of_int a < 1"
      using b by (simp_all add: left_diff_distrib abs_less_iff)
    have r': "(1 :: rat) \<le> of_int r" "(of_int r :: rat) \<le> of_int b - 1"
      using r by (metis of_int_1_le_iff zless_iff_Suc_zadd int_one_le_iff_zero_less,
        metis of_int_1 of_int_diff of_int_le_iff zle_diff1_eq)
    have ab': "(of_int a :: rat) = of_int q * of_int b + of_int r" by (simp add: ab)
    have "of_int q * of_int b < float64 ?x * of_int b"
      "float64 ?x * of_int b < of_int q * of_int b + (of_int b :: rat)"
      using err r' ab' by linarith+
    then have "of_int q * of_int b < float64 ?x * of_int b" "float64 ?x * of_int b < (of_int q + 1) * (of_int b :: rat)"
      by (simp_all only: distrib_right mult_1)
    then have "of_int q < float64 ?x" "float64 ?x < of_int q + 1"
      using b by (simp_all only: mult_less_cancel_right)
    then have "\<lceil>float64 ?x\<rceil> = q + 1" by (intro ceiling_unique) auto
    moreover have "(a + b - 1) div b = q + 1"
    proof -
      have "a + b - 1 = b * (q + 1) + (r - 1)" by (simp add: ab algebra_simps)
      then show ?thesis using r by (intro int_div_pos_eq [of _ b _ "r - 1"]) simp_all
    qed
    ultimately show ?thesis by (simp add: div)
  qed
qed

end
