(* ===== verification/Config.thy ===== *)
theory Config
  imports Go_Float Go_Std Domain "HOL-Library.Signed_Division"
begin

text \<open>
  \<open>internal/config/config.go\<close>: the settings read from the environment, with \<open>time.ParseDuration\<close>
  of the standard library. The environment is a function from names to values, the empty string for
  a name that is not set.
\<close>

section \<open>time.ParseDuration\<close>

definition is_dec :: "char \<Rightarrow> bool" where
  "is_dec c \<longleftrightarrow> (let n = of_char c :: nat in 48 \<le> n \<and> n \<le> 57)"

text \<open>\<open>leadingInt\<close>: the digits at the front, their value, and the rest; \<open>None\<close> on overflow.\<close>

fun leadingInt :: "string \<Rightarrow> nat \<Rightarrow> (nat \<times> string) option" where
  "leadingInt [] x = Some (x, [])"
| "leadingInt (c # s) x =
     (if \<not> is_dec c then Some (x, c # s)
      else if 2 ^ 63 div 10 < x then None
      else let x' = x * 10 + (of_char c - 48) in
           if 2 ^ 63 < x' then None else leadingInt s x')"

text \<open>\<open>leadingFraction\<close>: value, scale and rest; digits that no longer fit are dropped.\<close>

fun leadingFraction :: "string \<Rightarrow> nat \<Rightarrow> nat \<Rightarrow> bool \<Rightarrow> nat \<times> nat \<times> string" where
  "leadingFraction [] x scale overflow = (x, scale, [])"
| "leadingFraction (c # s) x scale overflow =
     (if \<not> is_dec c then (x, scale, c # s)
      else if overflow then leadingFraction s x scale True
      else if (2 ^ 63 - 1) div 10 < x then leadingFraction s x scale True
      else let y = x * 10 + (of_char c - 48) in
           if 2 ^ 63 < y then leadingFraction s x scale True
           else leadingFraction s y (scale * 10) False)"

text \<open>The units; the micro sign is U+00B5, the Greek mu U+03BC, each two bytes.\<close>

definition unitMap :: "string \<Rightarrow> nat option" where
  "unitMap = map_of [(''ns'', 1), (''us'', 1000), ([char_of (194 :: nat), char_of (181 :: nat), CHR ''s''], 1000),
     ([char_of (206 :: nat), char_of (188 :: nat), CHR ''s''], 1000), (''ms'', 1000000), (''s'', 1000000000),
     (''m'', 60000000000), (''h'', 3600000000000)]"

text \<open>One term \<open>[0-9]*(\.[0-9]*)?unit\<close>: its value and the rest.\<close>

definition duration_term :: "string \<Rightarrow> (nat \<times> string) option" where
  "duration_term s =
     (if s = [] \<or> \<not> (hd s = CHR ''.'' \<or> is_dec (hd s)) then None
      else case leadingInt s 0 of
        None \<Rightarrow> None
      | Some (v, s1) \<Rightarrow>
          (let pre = (length s1 \<noteq> length s);
               dot = (s1 \<noteq> [] \<and> hd s1 = CHR ''.'');
               fr = (if dot then leadingFraction (tl s1) 0 1 False else (0, 1, s1));
               post = (dot \<and> length (snd (snd fr)) \<noteq> length (tl s1));
               s2 = snd (snd fr);
               u = takeWhile (\<lambda>c. \<not> (c = CHR ''.'' \<or> is_dec c)) s2;
               s3 = dropWhile (\<lambda>c. \<not> (c = CHR ''.'' \<or> is_dec c)) s2
           in if \<not> pre \<and> \<not> post then None
              else if u = [] then None
              else case unitMap u of
                None \<Rightarrow> None
              | Some unit \<Rightarrow>
                  if 2 ^ 63 div unit < v then None
                  else let v' = v * unit +
                         (if 0 < fst fr
                          then nat (int_of_float (float64 (float64 (of_nat (fst fr)) *
                                  float64 (float64 (of_nat unit) / float64 (of_nat (fst (snd fr)))))))
                          else 0)
                       in if 2 ^ 63 < v' then None else Some (v', s3)))"

text \<open>The sum of the terms; every term consumes at least one character, so the length is fuel enough.\<close>

fun duration_terms :: "nat \<Rightarrow> string \<Rightarrow> nat \<Rightarrow> nat option" where
  "duration_terms fuel [] d = Some d"
| "duration_terms 0 (c # s) d = None"
| "duration_terms (Suc fuel) (c # s) d =
     (case duration_term (c # s) of
        None \<Rightarrow> None
      | Some (v, s') \<Rightarrow> if 2 ^ 63 < d + v then None else duration_terms fuel s' (d + v))"

text \<open>The duration in nanoseconds, \<open>None\<close> for an error.\<close>

definition ParseDuration :: "string \<Rightarrow> duration option" where
  "ParseDuration s =
     (let neg = (s \<noteq> [] \<and> hd s = CHR ''-'');
          body = (if s \<noteq> [] \<and> (hd s = CHR ''-'' \<or> hd s = CHR ''+'') then tl s else s)
      in if body = ''0'' then Some 0
         else if body = [] then None
         else case duration_terms (length body) body 0 of
                None \<Rightarrow> None
              | Some d \<Rightarrow>
                  if neg then Some (- int d)
                  else if 2 ^ 63 - 1 < d then None
                  else Some (int d))"

text \<open>\<open>d.Seconds()\<close>: whole seconds and the rest, added as floats.\<close>

definition Seconds :: "duration \<Rightarrow> rat" where
  "Seconds d = float64 (float64 (of_int (d sdiv second)) + float64 (float64 (of_int (d smod second)) / 1000000000))"

section \<open>The configuration\<close>

record config =
  cfg_AppPort :: string
  cfg_DBHost :: string
  cfg_DBPort :: string
  cfg_DBUser :: string
  cfg_DBPassword :: string
  cfg_DBName :: string
  cfg_DBSSLMode :: string
  cfg_DBMaxConns :: "32 word"
  cfg_DBMinConns :: "32 word"
  cfg_DBMaxConnIdle :: duration
  cfg_DBMaxConnLife :: duration
  cfg_RedisHost :: string
  cfg_RedisPort :: string
  cfg_RedisPassword :: string
  cfg_RSAPrivateKeyPath :: string
  cfg_AccessTokenTTL :: duration
  cfg_RefreshTokenTTL :: duration

definition getEnv :: "(string \<Rightarrow> string) \<Rightarrow> string \<Rightarrow> string \<Rightarrow> string" where
  "getEnv getenv key defaultVal = (let val = getenv key in if val \<noteq> '''' then val else defaultVal)"

definition getEnvAsInt32 :: "(string \<Rightarrow> string) \<Rightarrow> string \<Rightarrow> 32 word \<Rightarrow> 32 word" where
  "getEnvAsInt32 getenv key defaultVal =
     (case ParseInt 32 (getenv key) of (val, err) \<Rightarrow> if \<not> err then word_of_int val else defaultVal)"

definition getEnvAsDuration :: "(string \<Rightarrow> string) \<Rightarrow> string \<Rightarrow> duration \<Rightarrow> duration" where
  "getEnvAsDuration getenv key defaultVal =
     (case ParseDuration (getenv key) of Some val \<Rightarrow> val | None \<Rightarrow> defaultVal)"

definition config_Load :: "(string \<Rightarrow> string) \<Rightarrow> go_error + config" where
  "config_Load getenv =
     (let cfg = \<lparr>
        cfg_AppPort = getEnv getenv ''APP_PORT'' ''8080'',
        cfg_DBHost = getEnv getenv ''DB_HOST'' ''localhost'',
        cfg_DBPort = getEnv getenv ''DB_PORT'' ''5432'',
        cfg_DBUser = getEnv getenv ''DB_USER'' ''postgres'',
        cfg_DBPassword = getenv ''DB_PASSWORD'',
        cfg_DBName = getEnv getenv ''DB_NAME'' ''auth_db'',
        cfg_DBSSLMode = getEnv getenv ''DB_SSLMODE'' ''disable'',
        cfg_DBMaxConns = getEnvAsInt32 getenv ''DB_MAX_CONNS'' 25,
        cfg_DBMinConns = getEnvAsInt32 getenv ''DB_MIN_CONNS'' 5,
        cfg_DBMaxConnIdle = getEnvAsDuration getenv ''DB_MAX_CONN_IDLE'' (15 * minute),
        cfg_DBMaxConnLife = getEnvAsDuration getenv ''DB_MAX_CONN_LIFE'' (1 * hour),
        cfg_RedisHost = getEnv getenv ''REDIS_HOST'' ''localhost'',
        cfg_RedisPort = getEnv getenv ''REDIS_PORT'' ''6379'',
        cfg_RedisPassword = getenv ''REDIS_PASSWORD'',
        cfg_RSAPrivateKeyPath = getenv ''RSA_PRIVATE_KEY_PATH'',
        cfg_AccessTokenTTL = 15 * minute,
        cfg_RefreshTokenTTL = 7 * 24 * hour\<rparr>
      in if cfg_DBPassword cfg = '''' then Inl (ErrText ''DB_PASSWORD environment variable is required'')
         else Inr cfg)"

definition PostgresDSN :: "config \<Rightarrow> string" where
  "PostgresDSN c = ''postgres://'' @ cfg_DBUser c @ '':'' @ cfg_DBPassword c @ ''@'' @ cfg_DBHost c @ '':'' @
     cfg_DBPort c @ ''/'' @ cfg_DBName c @ ''?sslmode='' @ cfg_DBSSLMode c"

section \<open>Lemmas\<close>

lemma leadingInt_length: "leadingInt s x = Some (v, s') \<Longrightarrow> length s' \<le> length s"
  by (induction s x rule: leadingInt.induct) (auto simp: Let_def split: if_splits)

lemma leadingFraction_length: "length (snd (snd (leadingFraction s x k b))) \<le> length s"
  by (induction s arbitrary: x k b) (auto simp: Let_def intro: le_SucI)

lemma length_dropWhile_less: "takeWhile P xs \<noteq> [] \<Longrightarrow> length (dropWhile P xs) < length xs"
  by (cases xs) (auto simp: length_dropWhile_le le_imp_less_Suc split: if_splits)

text \<open>Every term consumes at least one character: the fuel of \<open>ParseDuration\<close> is never used up.\<close>

lemma duration_term_shrinks: "duration_term s = Some (v, s') \<Longrightarrow> length s' < length s"
proof -
  assume t: "duration_term s = Some (v, s')"
  then obtain n s1 where s1: "leadingInt s 0 = Some (n, s1)"
    by (auto simp: duration_term_def split: if_splits option.splits)
  let ?fr = "if s1 \<noteq> [] \<and> hd s1 = CHR ''.'' then leadingFraction (tl s1) 0 1 False else (0, 1, s1)"
  let ?s2 = "snd (snd ?fr)" and ?P = "\<lambda>c. \<not> (c = CHR ''.'' \<or> is_dec c)"
  have "takeWhile ?P ?s2 \<noteq> []" and s': "s' = dropWhile ?P ?s2"
    using t s1 by (auto simp: duration_term_def Let_def split: if_splits option.splits)
  then have "length s' < length ?s2" unfolding s' by (intro length_dropWhile_less)
  also have "length ?s2 \<le> length s1"
    using leadingFraction_length [of "tl s1" 0 1 False] by (auto intro: order_trans)
  also have "\<dots> \<le> length s" using s1 by (rule leadingInt_length)
  finally show ?thesis .
qed

lemma duration_terms_fuel:
  "length s \<le> f \<Longrightarrow> length s \<le> g \<Longrightarrow> duration_terms f s d = duration_terms g s d"
proof (induction f s d arbitrary: g rule: duration_terms.induct)
  case (3 f c s d)
  then obtain g' where g: "g = Suc g'" by (cases g) auto
  show ?case
  proof (cases "duration_term (c # s)")
    case (Some p)
    then obtain v s' where p: "duration_term (c # s) = Some (v, s')" by (cases p) auto
    from duration_term_shrinks [OF p] 3 g p show ?thesis by auto
  qed (simp add: g)
qed auto

lemma config_Load_Inr:
  "config_Load getenv = Inr cfg \<Longrightarrow> cfg_AccessTokenTTL cfg = 15 * minute \<and> cfg_RefreshTokenTTL cfg = 7 * 24 * hour"
  by (auto simp: config_Load_def Let_def split: if_splits)

end
