(* ===== verification/Validator.thy ===== *)
theory Validator
  imports Effects
begin

text \<open>
  \<open>utils/validator.go\<close>, with the part of \<open>net/mail\<close> it rests on. \<open>ParseAddress\<close> also accepts
  display names, comments, quoted local parts and angle brackets, but then the address it returns
  differs from its input (it is shorter), and the validator rejects those. So the model says which
  inputs parse to themselves: a dot-atom, \<open>@\<close>, and a dot-atom or an IP address in square brackets.
\<close>

section \<open>net/mail\<close>

text \<open>Visible ASCII characters but the specials; the dot is allowed between atoms only.\<close>

definition is_atext :: "char \<Rightarrow> bool" where
  "is_atext c \<longleftrightarrow>
     (let n = of_char c :: nat in 33 \<le> n \<and> n \<le> 126 \<and> c \<notin> set ''()<>[]:;@,.'' \<and> n \<noteq> 92 \<and> n \<noteq> 34)"

fun no_double_dot :: "string \<Rightarrow> bool" where
  "no_double_dot (a # b # s) \<longleftrightarrow> \<not> (a = CHR ''.'' \<and> b = CHR ''.'') \<and> no_double_dot (b # s)"
| "no_double_dot _ \<longleftrightarrow> True"

definition dot_atom :: "string \<Rightarrow> bool" where
  "dot_atom s \<longleftrightarrow> s \<noteq> [] \<and> (\<forall>c \<in> set s. is_atext c \<or> c = CHR ''.'') \<and>
     hd s \<noteq> CHR ''.'' \<and> no_double_dot s \<and> last s \<noteq> CHR ''.''"

definition is_digit :: "char \<Rightarrow> bool" where
  "is_digit c \<longleftrightarrow> (let n = of_char c :: nat in 48 \<le> n \<and> n \<le> 57)"

definition is_hex :: "char \<Rightarrow> bool" where
  "is_hex c \<longleftrightarrow> (let n = of_char c :: nat in
     48 \<le> n \<and> n \<le> 57 \<or> 65 \<le> n \<and> n \<le> 70 \<or> 97 \<le> n \<and> n \<le> 102)"

definition ipv4_field :: "string \<Rightarrow> bool" where
  "ipv4_field s \<longleftrightarrow> s \<noteq> [] \<and> (\<forall>c \<in> set s. is_digit c) \<and>
     (length s = 1 \<or> hd s \<noteq> CHR ''0'') \<and>
     (case parse_digits s 0 of None \<Rightarrow> False | Some n \<Rightarrow> n \<le> 255)"

definition is_ipv4 :: "string \<Rightarrow> bool" where
  "is_ipv4 s \<longleftrightarrow> (let fs = Split (CHR ''.'') s in length fs = 4 \<and> (\<forall>f \<in> set fs. ipv4_field f))"

text \<open>
  \<open>netip.ParseAddr\<close> on IPv6: \<open>n\<close> groups are still missing, \<open>e\<close> says that an ellipsis was seen.
\<close>

fun ipv6_groups :: "nat \<Rightarrow> bool \<Rightarrow> string \<Rightarrow> bool" where
  "ipv6_groups 0 e s \<longleftrightarrow> s = [] \<and> \<not> e"
| "ipv6_groups (Suc n) e s \<longleftrightarrow>
     (let ds = takeWhile is_hex s; rest = dropWhile is_hex s in
      if ds = [] \<or> 4 < length ds then False
      else case rest of
        [] \<Rightarrow> (if n = 0 then \<not> e else e)
      | c # s' \<Rightarrow>
          if c = CHR ''.'' then
            (if \<not> e \<and> n \<noteq> 1 then False else if n = 0 then False
             else is_ipv4 s \<and> (if n = 1 then \<not> e else e))
          else if c \<noteq> CHR '':'' then False
          else case s' of
            [] \<Rightarrow> False
          | d # s'' \<Rightarrow>
              if d = CHR '':'' then
                (if e then False else if s'' = [] then 0 < n else ipv6_groups n True s'')
              else ipv6_groups n e s')"

definition is_ipv6 :: "string \<Rightarrow> bool" where
  "is_ipv6 s \<longleftrightarrow>
     (if take 2 s = ''::'' then s = ''::'' \<or> ipv6_groups 8 True (drop 2 s)
      else ipv6_groups 8 False s)"

definition is_ip :: "string \<Rightarrow> bool" where
  "is_ip s \<longleftrightarrow> CHR ''%'' \<notin> set s \<and>
     (case dropWhile (\<lambda>c. c \<noteq> CHR ''.'' \<and> c \<noteq> CHR '':'') s of
        [] \<Rightarrow> False
      | c # _ \<Rightarrow> if c = CHR ''.'' then is_ipv4 s else is_ipv6 s)"

definition domain_literal :: "string \<Rightarrow> bool" where
  "domain_literal s \<longleftrightarrow> 2 \<le> length s \<and> hd s = CHR ''['' \<and> last s = CHR '']'' \<and> is_ip (butlast (tl s))"

definition mail_ParseAddress :: "string \<Rightarrow> string option" where
  "mail_ParseAddress s =
     (case SplitN2 (CHR ''@'') s of
        [local, domain] \<Rightarrow>
          if dot_atom local \<and> (dot_atom domain \<or> domain_literal domain) then Some s else None
      | _ \<Rightarrow> None)"

section \<open>ValidateAndCleanEmail and ValidatePassword\<close>

definition ValidateAndCleanEmail :: "string \<Rightarrow> go_error + string" where
  "ValidateAndCleanEmail email =
     (let cleaned = TrimSpace (ToLower email) in
      if cleaned = '''' then Inl (ErrText ''email is required'')
      else case mail_ParseAddress cleaned of
             None \<Rightarrow> Inl (ErrText ''invalid email format'')
           | Some addr \<Rightarrow>
               if addr \<noteq> cleaned then Inl (ErrText ''invalid email format'') else Inr cleaned)"

definition ValidatePassword :: "string \<Rightarrow> go_error option" where
  "ValidatePassword password =
     (if length password < 8 then Some (ErrText ''password must be at least 8 characters long'')
      else if 72 < length (bytes_of password) then Some (ErrText ''password cannot exceed 72 bytes'')
      else None)"

lemma ValidatePassword_None: "ValidatePassword p = None \<longleftrightarrow> 8 \<le> length p \<and> length p \<le> 72"
  by (auto simp: ValidatePassword_def)

lemma TrimSpace_ends:
  "TrimSpace s \<noteq> [] \<Longrightarrow> \<not> is_space (hd (TrimSpace s)) \<and> \<not> is_space (last (TrimSpace s))"
proof
  let ?d = "dropWhile is_space s"
  assume ne: "TrimSpace s \<noteq> []"
  then have "dropWhile is_space (rev ?d) \<noteq> []" by (simp add: TrimSpace_def)
  from hd_dropWhile [OF this] show "\<not> is_space (last (TrimSpace s))"
    by (simp add: TrimSpace_def last_rev)
  obtain us where us: "?d = TrimSpace s @ us"
    unfolding TrimSpace_def
    by (metis rev_append rev_rev_ident takeWhile_dropWhile_id)
  then have "hd (TrimSpace s) = hd ?d" and "?d \<noteq> []" using ne by auto
  then show "\<not> is_space (hd (TrimSpace s))" by (simp add: hd_dropWhile)
qed

lemma TrimSpace_idem [simp]: "TrimSpace (TrimSpace s) = TrimSpace s"
proof (cases "TrimSpace s = []")
  case True
  have "TrimSpace [] = []" by (simp add: TrimSpace_def)
  with True show ?thesis by simp
next
  case False
  then show ?thesis using TrimSpace_ends [OF False] by (intro TrimSpace_fixed) auto
qed

lemma ToLower_TrimSpace_ToLower [simp]:
  "ToLower (TrimSpace (ToLower s)) = TrimSpace (ToLower s)"
proof -
  have "lower_char c = c" if "c \<in> set (TrimSpace (ToLower s))" for c
    using that set_TrimSpace [of "ToLower s"] by (auto simp: ToLower_def)
  then show ?thesis unfolding ToLower_def [of "TrimSpace _"] by (simp add: map_idI)
qed

lemma ValidateAndCleanEmail_Inr:
  "ValidateAndCleanEmail e = Inr c \<longleftrightarrow>
     c = TrimSpace (ToLower e) \<and> c \<noteq> '''' \<and> mail_ParseAddress c = Some c"
  by (auto simp: ValidateAndCleanEmail_def Let_def split: option.splits if_splits)

lemma mail_ParseAddress_Some:
  "mail_ParseAddress s = Some a \<longleftrightarrow>
     a = s \<and> (\<exists>local domain. s = local @ CHR ''@'' # domain \<and> CHR ''@'' \<notin> set local \<and>
        dot_atom local \<and> (dot_atom domain \<or> domain_literal domain))"
proof -
  have "mail_ParseAddress s = Some a \<longleftrightarrow> a = s \<and> (\<exists>l d. SplitN2 (CHR ''@'') s = [l, d] \<and>
          dot_atom l \<and> (dot_atom d \<or> domain_literal d))"
    by (auto simp: mail_ParseAddress_def split: list.splits if_splits)
  then show ?thesis by (auto simp: SplitN2_pair)
qed

lemma lower_upper_char: "lower_char (upper_char c) = lower_char c"
proof (cases "97 \<le> (of_char c :: nat) \<and> (of_char c :: nat) \<le> 122")
  case True
  then have "((of_char c :: nat) - 32) mod 256 = of_char c - 32" by (intro mod_less) linarith
  with True have "of_char (upper_char c) = (of_char c :: nat) - 32"
    by (simp add: upper_char_def)
  moreover from True have "char_of ((of_char c :: nat) - 32 + 32) = c" by simp
  ultimately show ?thesis using True by (auto simp: lower_char_def Let_def)
next
  case False
  then show ?thesis by (auto simp: upper_char_def Let_def)
qed

lemma ToLower_ToUpper [simp]: "ToLower (ToUpper s) = ToLower s"
  by (simp add: ToLower_def ToUpper_def lower_upper_char)

end
