(* ===== verification/Totp.thy ===== *)
theory Totp
  imports Validator "HOL-Library.Signed_Division"
begin

text \<open>
  \<open>utils/totp.go\<close>: the RFC 6238 one-time-password engine. A slice out of range is a panic in Go;
  here it is an error value that the bounds lemma below shows unreachable.
\<close>

record totp_manager =
  tm_Issuer :: string
  tm_Period :: int
  tm_Digits :: nat

definition NewTOTPManager :: "string \<Rightarrow> totp_manager" where
  "NewTOTPManager issuer = \<lparr>tm_Issuer = issuer, tm_Period = 30, tm_Digits = 6\<rparr>"

definition GenerateSecret :: "('r, 'd, string) go" where
  "GenerateSecret = do {
     r \<leftarrow> rand_Read 20;
     case r of
       (b, Some err) \<Rightarrow> fail err
     | (b, None) \<Rightarrow> ok (base32_EncodeToString b) }"

text \<open>\<open>timestamp.Unix()\<close>: whole seconds since the epoch, rounded down.\<close>

definition Unix :: "time \<Rightarrow> int" where
  "Unix t = t div second"

text \<open>\<open>h[lo:hi]\<close>; \<open>None\<close> is the run-time panic.\<close>

definition go_slice :: "nat \<Rightarrow> nat \<Rightarrow> 'a list \<Rightarrow> 'a list option" where
  "go_slice lo hi xs = (if lo \<le> hi \<and> hi \<le> length xs then Some (take (hi - lo) (drop lo xs)) else None)"

definition totp_counter :: "totp_manager \<Rightarrow> time \<Rightarrow> 64 word" where
  "totp_counter t timestamp = word_of_int (Unix timestamp sdiv tm_Period t)"

definition totp_offset :: "bytes \<Rightarrow> nat" where
  "totp_offset h = unat (last h AND 0x0F)"

definition GenerateCode :: "totp_manager \<Rightarrow> string \<Rightarrow> time \<Rightarrow> go_error + string" where
  "GenerateCode t secret timestamp =
     (case base32_DecodeString (ToUpper (TrimSpace secret)) of
        None \<Rightarrow> Inl (ErrText ''illegal base32 data'')
      | Some key \<Rightarrow>
          (let buf = PutUint64 (totp_counter t timestamp);
               h = hmac_sha1 key buf;
               offset = totp_offset h
           in case go_slice offset (offset + 4) h of
                None \<Rightarrow> Inl (ErrText ''panic: slice bounds out of range'')
              | Some bs \<Rightarrow>
                  (let truncatedHash = Uint32 bs AND 0x7FFFFFFF;
                       code = truncatedHash mod word_of_nat (10 ^ tm_Digits t)
                   in Inr (pad_dec (tm_Digits t) (unat code)))))"

fun validate_loop :: "totp_manager \<Rightarrow> string \<Rightarrow> string \<Rightarrow> time \<Rightarrow> int list \<Rightarrow> bool" where
  "validate_loop t secret code now [] = False"
| "validate_loop t secret code now (offset # offsets) =
     (case GenerateCode t secret (now + offset * tm_Period t * second) of
        Inl e \<Rightarrow> validate_loop t secret code now offsets
      | Inr expected \<Rightarrow>
          if bytes_of expected = bytes_of code then True
          else validate_loop t secret code now offsets)"

definition ValidateCode :: "totp_manager \<Rightarrow> string \<Rightarrow> string \<Rightarrow> ('r, 'd, bool) prog" where
  "ValidateCode t secret code = do {
     now \<leftarrow> time_Now;
     State_Monad.return (validate_loop t secret code now [-1, 0, 1]) }"

definition ProvisioningURI :: "totp_manager \<Rightarrow> string \<Rightarrow> string \<Rightarrow> string" where
  "ProvisioningURI t email secret =
     ''otpauth://totp/'' @ tm_Issuer t @ '':'' @ email @ ''?secret='' @ secret @ ''&issuer='' @
     tm_Issuer t @ ''&algorithm=SHA1&digits=6&period=30''"

section \<open>Lemmas\<close>

lemma bytes_of_inject [simp]: "bytes_of s = bytes_of t \<longleftrightarrow> s = t"
  by (metis string_of_bytes_of)

lemma validate_loop_iff:
  "validate_loop t secret code now offs \<longleftrightarrow>
     (\<exists>k \<in> set offs. GenerateCode t secret (now + k * tm_Period t * second) = Inr code)"
  by (induction offs) (auto split: sum.splits)

lemma validate_loop_codes:
  "validate_loop (NewTOTPManager issuer) secret code t [-1, 0, 1] \<longleftrightarrow>
     (\<exists>k \<in> {-1, 0, 1}. GenerateCode (NewTOTPManager issuer) secret (t + k * 30 * second) = Inr code)"
  unfolding validate_loop_iff by (simp add: NewTOTPManager_def)

lemma totp_offset_bound: "totp_offset h \<le> 15"
proof -
  have "last h AND 0x0F \<le> (0x0F :: byte)" by (rule word_and_le1)
  then show ?thesis by (simp add: totp_offset_def word_le_nat_alt)
qed

text \<open>The truncation never runs past the 20 bytes of the MAC.\<close>

lemma totp_slice: "\<exists>bs. go_slice (totp_offset (hmac_sha1 k m)) (totp_offset (hmac_sha1 k m) + 4) (hmac_sha1 k m) = Some bs"
  using totp_offset_bound [of "hmac_sha1 k m"] by (simp add: go_slice_def)

lemma GenerateCode_cases:
  "(base32_DecodeString (ToUpper (TrimSpace secret)) = None \<and>
      GenerateCode t secret ts = Inl (ErrText ''illegal base32 data'')) \<or>
   (\<exists>n. base32_DecodeString (ToUpper (TrimSpace secret)) \<noteq> None \<and>
      GenerateCode t secret ts = Inr (pad_dec (tm_Digits t) (unat (n mod word_of_nat (10 ^ tm_Digits t) :: word32))))"
proof (cases "base32_DecodeString (ToUpper (TrimSpace secret))")
  case None
  then show ?thesis by (simp add: GenerateCode_def)
next
  case (Some key)
  obtain bs where "go_slice (totp_offset (hmac_sha1 key (PutUint64 (totp_counter t ts))))
      (totp_offset (hmac_sha1 key (PutUint64 (totp_counter t ts))) + 4)
      (hmac_sha1 key (PutUint64 (totp_counter t ts))) = Some bs"
    using totp_slice by blast
  with Some show ?thesis by (auto simp: GenerateCode_def Let_def)
qed

text \<open>Codes depend on the time step only.\<close>

lemma GenerateCode_six:
  assumes "GenerateCode (NewTOTPManager issuer) secret ts = Inr code"
  shows "length code = 6 \<and> set code \<subseteq> digit_char ` {0..9}"
proof -
  have "unat (n mod word_of_nat (10 ^ 6) :: word32) < 10 ^ 6" for n :: word32
    by (simp add: unat_mod)
  then show ?thesis
    using GenerateCode_cases [of secret "NewTOTPManager issuer" ts] assms
    by (auto simp: NewTOTPManager_def length_pad_dec dest: set_pad_dec [THEN subsetD])
qed

lemma GenerateCode_counter:
  assumes "totp_counter t ts = totp_counter t ts'"
  shows "GenerateCode t secret ts = GenerateCode t secret ts'"
  unfolding GenerateCode_def assms by (rule refl)

lemma sdiv_nonneg: "0 \<le> a \<Longrightarrow> 0 < b \<Longrightarrow> a sdiv b = a div (b :: int)"
  by (cases "a = 0") (simp_all add: signed_divide_int_def)

lemma totp_counter_step:
  assumes "0 \<le> ts" "tm_Period t = 30"
  shows "totp_counter t ts = word_of_int (ts div (30 * second))"
proof -
  have "ts div second div 30 = ts div (30 * second)"
    by (simp add: zdiv_zmult2_eq mult.commute)
  with assms show ?thesis
    by (simp add: totp_counter_def Unix_def sdiv_nonneg pos_imp_zdiv_nonneg_iff second_def)
qed

lemma ValidateCode_frames [frames]:
  "state_io_rel (\<lambda>w w'. w_db w' = w_db w) (ValidateCode t s c)"
  "state_io_rel (\<lambda>w w'. w_redis w' = w_redis w) (ValidateCode t s c)"
  "state_io_rel (\<lambda>w w'. w_audit w' = w_audit w) (ValidateCode t s c)"
  "state_io_rel (\<lambda>w w'. w_mails w' = w_mails w) (ValidateCode t s c)"
  "state_io_rel (\<lambda>w w'. prefix (w_audit w) (w_audit w')) (ValidateCode t s c)"
  "state_io_rel (\<lambda>w w'. w_clock w \<le> w_clock w') (ValidateCode t s c)"
  unfolding ValidateCode_def by (intro frames)+

lemma GenerateSecret_frames [frames]:
  "state_io_rel (\<lambda>w w'. w_db w' = w_db w) GenerateSecret"
  "state_io_rel (\<lambda>w w'. w_redis w' = w_redis w) GenerateSecret"
  "state_io_rel (\<lambda>w w'. w_audit w' = w_audit w) GenerateSecret"
  "state_io_rel (\<lambda>w w'. w_mails w' = w_mails w) GenerateSecret"
  "state_io_rel (\<lambda>w w'. prefix (w_audit w) (w_audit w')) GenerateSecret"
  "state_io_rel (\<lambda>w w'. w_clock w \<le> w_clock w') GenerateSecret"
  unfolding GenerateSecret_def by (intro frames)+

lemma ValidateCode_result:
  assumes "run_state (ValidateCode t secret code) w = (b, w')"
  shows "b = validate_loop t secret code (w_clock w') [-1, 0, 1]"
  using assms unfolding ValidateCode_def time_Now_def Let_def by (auto simp del: validate_loop.simps)

lemma ValidateCode_run:
  "run_state (ValidateCode t secret code) w =
     (validate_loop t secret code (w_clock w + int (w_elapse w 0)) [-1, 0, 1],
      after time_Now w)"
  by (simp add: ValidateCode_def time_Now_def Let_def)

end
