(* ===== verification/User_Store.thy ===== *)
theory User_Store
  imports Effects
begin

text \<open>
  \<open>repository/postgres/user_repo.go\<close>: the SQL statements it sends, and how it scans the answers.
  The connection pool is a parameter; a statement is sent to it as a value of \<open>sql\<close>, which keeps
  the column lists and their arguments in the order the source writes them.
\<close>

section \<open>Statements\<close>

datatype column =
    C_id | C_tenant_id | C_email | C_password | C_role | C_is_active | C_mfa_enabled | C_mfa_secret
  | C_email_verified | C_oauth_provider | C_oauth_subject | C_external_id | C_created_at
  | C_updated_at

datatype sqlval = VUuid uuid | VText string | VBool bool | VTime time | VInt int64

text \<open>All statements are on the table \<open>users\<close>; a condition is a conjunction of equations.\<close>

datatype sql =
    INSERT "(column \<times> sqlval) list"
  | SELECT "column list" "(column \<times> sqlval) list"
  | SELECT_COUNT "(column \<times> sqlval) list"
  | SELECT_PAGE "column list" "(column \<times> sqlval) list" column int64 int64
  | UPDATE "(column \<times> sqlval) list" "(column \<times> sqlval) list"
  | DELETE "(column \<times> sqlval) list"

text \<open>
  \<open>Query\<close> yields the rows that \<open>Next\<close> finds and the error \<open>rows.Err()\<close> would report after the
  last one.
\<close>

record 'd pgx_pool =
  pg_Exec :: "sql \<Rightarrow> 'd \<Rightarrow> go_error option \<times> 'd"
  pg_QueryRow :: "sql \<Rightarrow> 'd \<Rightarrow> (go_error + sqlval list) \<times> 'd"
  pg_Query :: "sql \<Rightarrow> 'd \<Rightarrow> (go_error + sqlval list list \<times> go_error option) \<times> 'd"
  pg_Ping :: "'d \<Rightarrow> go_error option"

definition db_do :: "('d \<Rightarrow> 'a \<times> 'd) \<Rightarrow> ('r, 'd, 'a) prog" where
  "db_do f = State (\<lambda>w. case f (w_db w) of (x, d') \<Rightarrow> (x, w\<lparr>w_db := d'\<rparr>))"

section \<open>The repository\<close>

definition user_columns :: "column list" where
  "user_columns = [C_id, C_tenant_id, C_email, C_password, C_role, C_is_active, C_mfa_enabled,
     C_mfa_secret, C_email_verified, C_oauth_provider, C_oauth_subject, C_external_id,
     C_created_at, C_updated_at]"

definition Create :: "'d pgx_pool \<Rightarrow> user \<Rightarrow> ('r, 'd, unit) go" where
  "Create db u = do {
     let query = INSERT (zip
       [C_id, C_tenant_id, C_email, C_password, C_role, C_is_active, C_mfa_enabled, C_mfa_secret,
        C_email_verified, C_oauth_provider, C_oauth_subject, C_external_id, C_created_at,
        C_updated_at]
       [VUuid (u_ID u), VUuid (u_TenantID u), VText (u_Email u), VText (u_Password u),
        VText (u_Role u), VBool (u_IsActive u), VBool (u_MFAEnabled u), VText (u_MFASecret u),
        VBool (u_EmailVerified u), VText (u_OAuthProvider u), VText (u_OAuthSubject u),
        VText (u_ExternalID u), VTime (u_CreatedAt u), VTime (u_UpdatedAt u)]);
     res \<leftarrow> db_do (pg_Exec db query);
     case res of
       None \<Rightarrow> ok ()
     | Some err \<Rightarrow>
         if errors_As_PgCode err = Some ''23505'' then fail ErrConflict else fail err }"

text \<open>\<open>Scan(&u.ID, &u.TenantID, \<dots>)\<close>: the values of a row, in the order of the columns.\<close>

fun dest_uuid :: "sqlval \<Rightarrow> uuid option" where
  "dest_uuid (VUuid x) = Some x" | "dest_uuid _ = None"

fun dest_text :: "sqlval \<Rightarrow> string option" where
  "dest_text (VText x) = Some x" | "dest_text _ = None"

fun dest_bool :: "sqlval \<Rightarrow> bool option" where
  "dest_bool (VBool x) = Some x" | "dest_bool _ = None"

fun dest_time :: "sqlval \<Rightarrow> time option" where
  "dest_time (VTime x) = Some x" | "dest_time _ = None"

definition scan_fields :: "sqlval list \<Rightarrow> user option" where
  "scan_fields vs =
     (case vs of
        [c0, c1, c2, c3, c4, c5, c6, c7, c8, c9, c10, c11, c12, c13] \<Rightarrow> do {
          i \<leftarrow> dest_uuid c0; tenant \<leftarrow> dest_uuid c1; email \<leftarrow> dest_text c2; password \<leftarrow> dest_text c3;
          r \<leftarrow> dest_text c4; active \<leftarrow> dest_bool c5; mfa \<leftarrow> dest_bool c6; secret \<leftarrow> dest_text c7;
          verified \<leftarrow> dest_bool c8; provider \<leftarrow> dest_text c9; subject \<leftarrow> dest_text c10;
          external \<leftarrow> dest_text c11; created \<leftarrow> dest_time c12; updated \<leftarrow> dest_time c13;
          Some \<lparr>u_ID = i, u_TenantID = tenant, u_Email = email, u_Password = password, u_Role = r,
            u_IsActive = active, u_MFAEnabled = mfa, u_MFASecret = secret,
            u_EmailVerified = verified, u_OAuthProvider = provider, u_OAuthSubject = subject,
            u_ExternalID = external, u_CreatedAt = created, u_UpdatedAt = updated\<rparr> }
      | _ \<Rightarrow> None)"

definition scan_user :: "sqlval list \<Rightarrow> go_error + user" where
  "scan_user vs = (case scan_fields vs of
     None \<Rightarrow> Inl (ErrText ''cannot scan into destination'') | Some u \<Rightarrow> Inr u)"

text \<open>The four lookups differ in their condition only; this is their common body.\<close>

definition select_user :: "'d pgx_pool \<Rightarrow> (column \<times> sqlval) list \<Rightarrow> ('r, 'd, user) go" where
  "select_user db conds = do {
     row \<leftarrow> db_do (pg_QueryRow db (SELECT user_columns conds));
     let res = (case row of Inl err \<Rightarrow> Inl err | Inr vs \<Rightarrow> scan_user vs);
     case res of
       Inl err \<Rightarrow> if errors_Is err PgNoRows then fail ErrNotFound else fail err
     | Inr u \<Rightarrow> ok u }"

definition GetByEmail :: "'d pgx_pool \<Rightarrow> uuid \<Rightarrow> string \<Rightarrow> ('r, 'd, user) go" where
  "GetByEmail db tenantID email = select_user db [(C_tenant_id, VUuid tenantID), (C_email, VText email)]"

definition GetByID :: "'d pgx_pool \<Rightarrow> uuid \<Rightarrow> ('r, 'd, user) go" where
  "GetByID db i = select_user db [(C_id, VUuid i)]"

definition GetByOAuth :: "'d pgx_pool \<Rightarrow> uuid \<Rightarrow> string \<Rightarrow> string \<Rightarrow> ('r, 'd, user) go" where
  "GetByOAuth db tenantID provider subject = select_user db
     [(C_tenant_id, VUuid tenantID), (C_oauth_provider, VText provider), (C_oauth_subject, VText subject)]"

definition GetByExternalID :: "'d pgx_pool \<Rightarrow> uuid \<Rightarrow> string \<Rightarrow> ('r, 'd, user) go" where
  "GetByExternalID db tenantID externalID = select_user db
     [(C_tenant_id, VUuid tenantID), (C_external_id, VText externalID)]"

definition Update :: "'d pgx_pool \<Rightarrow> user \<Rightarrow> ('r, 'd, unit) go" where
  "Update db u = do {
     let query = UPDATE
       [(C_email, VText (u_Email u)), (C_role, VText (u_Role u)), (C_is_active, VBool (u_IsActive u)),
        (C_mfa_enabled, VBool (u_MFAEnabled u)), (C_mfa_secret, VText (u_MFASecret u)),
        (C_email_verified, VBool (u_EmailVerified u)), (C_external_id, VText (u_ExternalID u)),
        (C_updated_at, VTime (u_UpdatedAt u)), (C_password, VText (u_Password u))]
       [(C_id, VUuid (u_ID u))];
     res \<leftarrow> db_do (pg_Exec db query);
     State_Monad.return (case res of None \<Rightarrow> Inr () | Some err \<Rightarrow> Inl err) }"

definition Delete :: "'d pgx_pool \<Rightarrow> uuid \<Rightarrow> ('r, 'd, unit) go" where
  "Delete db i = do {
     res \<leftarrow> db_do (pg_Exec db (DELETE [(C_id, VUuid i)]));
     State_Monad.return (case res of None \<Rightarrow> Inr () | Some err \<Rightarrow> Inl err) }"

text \<open>The scanning loop of \<open>List\<close>, with the slice built so far.\<close>

fun scan_all :: "sqlval list list \<Rightarrow> user list \<Rightarrow> go_error + user list" where
  "scan_all [] users = Inr users"
| "scan_all (vs # vss) users =
     (case scan_user vs of Inl err \<Rightarrow> Inl err | Inr u \<Rightarrow> scan_all vss (users @ [u]))"

definition List :: "'d pgx_pool \<Rightarrow> uuid \<Rightarrow> pagination_query \<Rightarrow> ('r, 'd, user list \<times> int64) go" where
  "List db tenantID pq = do {
     let page = (if sint (pq_Page pq) < 1 then 1 else pq_Page pq);
     let limit = (if sint (pq_Limit pq) < 1 then 10 else pq_Limit pq);
     let offset = (page - 1) * limit;
     c \<leftarrow> db_do (pg_QueryRow db (SELECT_COUNT [(C_tenant_id, VUuid tenantID)]));
     case c of
       Inr [VInt cnt] \<Rightarrow> do {
         r \<leftarrow> db_do (pg_Query db (SELECT_PAGE user_columns [(C_tenant_id, VUuid tenantID)] C_created_at limit offset));
         case r of
           Inl err \<Rightarrow> fail err
         | Inr (rows, rows_Err) \<Rightarrow>
             (case scan_all rows [] of
                Inl err \<Rightarrow> fail err
              | Inr users \<Rightarrow> ok (users, cnt)) }
     | Inr _ \<Rightarrow> fail (ErrText ''cannot scan into destination'')
     | Inl err \<Rightarrow> fail err }"

text \<open>\<open>domain.UserRepository\<close>, and the value \<open>NewUserRepository\<close> returns for it.\<close>

record ('r, 'd) user_repository =
  ur_Create :: "user \<Rightarrow> ('r, 'd, unit) go"
  ur_GetByEmail :: "uuid \<Rightarrow> string \<Rightarrow> ('r, 'd, user) go"
  ur_GetByID :: "uuid \<Rightarrow> ('r, 'd, user) go"
  ur_GetByOAuth :: "uuid \<Rightarrow> string \<Rightarrow> string \<Rightarrow> ('r, 'd, user) go"
  ur_GetByExternalID :: "uuid \<Rightarrow> string \<Rightarrow> ('r, 'd, user) go"
  ur_Update :: "user \<Rightarrow> ('r, 'd, unit) go"
  ur_Delete :: "uuid \<Rightarrow> ('r, 'd, unit) go"
  ur_List :: "uuid \<Rightarrow> pagination_query \<Rightarrow> ('r, 'd, user list \<times> int64) go"

definition NewUserRepository :: "'d pgx_pool \<Rightarrow> ('r, 'd) user_repository" where
  "NewUserRepository db = \<lparr>ur_Create = Create db, ur_GetByEmail = GetByEmail db,
     ur_GetByID = GetByID db, ur_GetByOAuth = GetByOAuth db, ur_GetByExternalID = GetByExternalID db,
     ur_Update = Update db, ur_Delete = Delete db, ur_List = List db\<rparr>"

end
