(* ===== verification/User_Laws.thy ===== *)
theory User_Laws
  imports User_Store
begin

text \<open>
  What PostgreSQL promises for the statements of \<open>user_repo.go\<close>, on the set of rows of the table
  \<open>users\<close>, and the contract of the user repository that follows: the operations read and write a
  set of users in which identifiers, and addresses within a tenant, are unique. The contract is an
  interface; the repository over any pool that keeps the laws meets it.
\<close>

section \<open>Rows\<close>

type_synonym row = "column \<Rightarrow> sqlval"
type_synonym 'd table = "'d \<Rightarrow> row set"

text \<open>\<open>timestamptz\<close> keeps microseconds; every other column keeps its value.\<close>

definition micros :: "time \<Rightarrow> time" where
  "micros t = t div 1000 * 1000"

fun pg_norm :: "sqlval \<Rightarrow> sqlval" where
  "pg_norm (VTime t) = VTime (micros t)"
| "pg_norm v = v"

definition pg_matches :: "(column \<times> sqlval) list \<Rightarrow> row \<Rightarrow> bool" where
  "pg_matches conds r \<longleftrightarrow> (\<forall>(c, v) \<in> set conds. r c = pg_norm v)"

definition pg_assign :: "(column \<times> sqlval) list \<Rightarrow> row \<Rightarrow> row" where
  "pg_assign sets r = (\<lambda>c. case map_of sets c of None \<Rightarrow> r c | Some v \<Rightarrow> pg_norm v)"

text \<open>The constraints of \<open>migrations/*.sql\<close>: the primary key and the unique index.\<close>

definition conflicts :: "row \<Rightarrow> row \<Rightarrow> bool" where
  "conflicts r s \<longleftrightarrow> r C_id = s C_id \<or> (r C_tenant_id = s C_tenant_id \<and> r C_email = s C_email)"

definition unique_rows :: "row set \<Rightarrow> bool" where
  "unique_rows S \<longleftrightarrow> (\<forall>r \<in> S. \<forall>s \<in> S. conflicts r s \<longrightarrow> r = s)"

fun row_of_user :: "user \<Rightarrow> row" where
  "row_of_user u C_id = VUuid (u_ID u)"
| "row_of_user u C_tenant_id = VUuid (u_TenantID u)"
| "row_of_user u C_email = VText (u_Email u)"
| "row_of_user u C_password = VText (u_Password u)"
| "row_of_user u C_role = VText (u_Role u)"
| "row_of_user u C_is_active = VBool (u_IsActive u)"
| "row_of_user u C_mfa_enabled = VBool (u_MFAEnabled u)"
| "row_of_user u C_mfa_secret = VText (u_MFASecret u)"
| "row_of_user u C_email_verified = VBool (u_EmailVerified u)"
| "row_of_user u C_oauth_provider = VText (u_OAuthProvider u)"
| "row_of_user u C_oauth_subject = VText (u_OAuthSubject u)"
| "row_of_user u C_external_id = VText (u_ExternalID u)"
| "row_of_user u C_created_at = VTime (u_CreatedAt u)"
| "row_of_user u C_updated_at = VTime (u_UpdatedAt u)"

text \<open>The table is well formed: finite, typed by the schema, its constraints kept.\<close>

definition table_ok :: "row set \<Rightarrow> bool" where
  "table_ok S \<longleftrightarrow> finite S \<and> unique_rows S \<and> S \<subseteq> range row_of_user"

section \<open>The laws\<close>

text \<open>A statement that writes: its effect, and whether the constraints allow it.\<close>

fun pg_effect :: "sql \<Rightarrow> row set \<Rightarrow> row set" where
  "pg_effect (INSERT cvs) S = insert (pg_assign cvs (\<lambda>c. VBool False)) S"
| "pg_effect (UPDATE sets conds) S = (\<lambda>r. if pg_matches conds r then pg_assign sets r else r) ` S"
| "pg_effect (DELETE conds) S = {r \<in> S. \<not> pg_matches conds r}"
| "pg_effect _ S = S"

fun pg_allowed :: "sql \<Rightarrow> row set \<Rightarrow> bool" where
  "pg_allowed (INSERT cvs) S \<longleftrightarrow> (\<forall>s \<in> S. \<not> conflicts (pg_assign cvs (\<lambda>c. VBool False)) s)"
| "pg_allowed st S \<longleftrightarrow> unique_rows (pg_effect st S)"

text \<open>An error of the driver is not one of the program's own sentinels.\<close>

definition driver_error :: "go_error \<Rightarrow> bool" where
  "driver_error e \<longleftrightarrow> (\<forall>s \<in> {ErrNotFound, ErrConflict}. \<not> errors_Is e s)"

text \<open>
  \<open>Exec\<close> either applies the statement, which the constraints must then allow, or fails; when the
  server itself reports the error nothing was applied, and 23505 is reported for a violation only.
\<close>

definition pg_exec_law :: "'d pgx_pool \<Rightarrow> 'd table \<Rightarrow> bool" where
  "pg_exec_law db tbl \<longleftrightarrow> (\<forall>st d. table_ok (tbl d) \<longrightarrow>
     (let res = fst (pg_Exec db st d); S' = tbl (snd (pg_Exec db st d)) in
      (\<forall>e. res = Some e \<longrightarrow> driver_error e) \<and>
      (pg_allowed st (tbl d) \<and> S' = pg_effect st (tbl d) \<and> (\<forall>e. res = Some e \<longrightarrow> errors_As_PgCode e = None) \<or>
      res \<noteq> None \<and> S' = tbl d \<and>
      (\<forall>e. res = Some e \<longrightarrow> errors_As_PgCode e = Some ''23505'' \<longrightarrow> \<not> pg_allowed st (tbl d)))))"

definition pg_select_law :: "'d pgx_pool \<Rightarrow> 'd table \<Rightarrow> bool" where
  "pg_select_law db tbl \<longleftrightarrow> (\<forall>cols conds d. table_ok (tbl d) \<longrightarrow>
     tbl (snd (pg_QueryRow db (SELECT cols conds) d)) = tbl d \<and>
     (case fst (pg_QueryRow db (SELECT cols conds) d) of
        Inr vs \<Rightarrow> \<exists>r \<in> tbl d. pg_matches conds r \<and> vs = map r cols
      | Inl e \<Rightarrow> driver_error e \<and> (errors_Is e PgNoRows \<longrightarrow> (\<forall>r \<in> tbl d. \<not> pg_matches conds r))))"

definition pg_count_law :: "'d pgx_pool \<Rightarrow> 'd table \<Rightarrow> bool" where
  "pg_count_law db tbl \<longleftrightarrow> (\<forall>conds d. table_ok (tbl d) \<longrightarrow>
     tbl (snd (pg_QueryRow db (SELECT_COUNT conds) d)) = tbl d \<and>
     (\<forall>vs. fst (pg_QueryRow db (SELECT_COUNT conds) d) = Inr vs \<longrightarrow>
        (\<exists>n. vs = [VInt n] \<and> sint n = int (card {r \<in> tbl d. pg_matches conds r}))))"

text \<open>
  \<open>ORDER BY c DESC LIMIT l OFFSET o\<close>: a page of some listing of the matching rows that descends
  in \<open>c\<close>. A negative limit or offset is refused. A row stream that breaks off shows a prefix, and
  only \<open>rows.Err()\<close> tells.
\<close>

fun col_time :: "sqlval \<Rightarrow> int" where
  "col_time (VTime t) = t"
| "col_time _ = 0"

definition pg_page_law :: "'d pgx_pool \<Rightarrow> 'd table \<Rightarrow> bool" where
  "pg_page_law db tbl \<longleftrightarrow> (\<forall>cols conds c l off d. table_ok (tbl d) \<longrightarrow>
     tbl (snd (pg_Query db (SELECT_PAGE cols conds c l off) d)) = tbl d \<and>
     (\<forall>vss err. fst (pg_Query db (SELECT_PAGE cols conds c l off) d) = Inr (vss, err) \<longrightarrow>
        0 \<le> sint l \<and> 0 \<le> sint off \<and>
        (\<exists>rs. distinct rs \<and> set rs = {r \<in> tbl d. pg_matches conds r} \<and>
           sorted_wrt (\<lambda>r s. col_time (s c) \<le> col_time (r c)) rs \<and>
           (let full = map (\<lambda>r. map r cols) (take (nat (sint l)) (drop (nat (sint off)) rs)) in
            prefix vss full \<and> (err = None \<longrightarrow> vss = full)))))"

definition pg_laws :: "'d pgx_pool \<Rightarrow> 'd table \<Rightarrow> bool" where
  "pg_laws db tbl \<longleftrightarrow> pg_exec_law db tbl \<and> pg_select_law db tbl \<and> pg_count_law db tbl \<and> pg_page_law db tbl"

section \<open>From rows to users\<close>

lemma row_of_user_inject [simp]: "row_of_user u = row_of_user v \<longleftrightarrow> u = v"
proof
  assume eq: "row_of_user u = row_of_user v"
  have "row_of_user u c = row_of_user v c" for c using eq by simp
  from this [of C_id] this [of C_tenant_id] this [of C_email] this [of C_password] this [of C_role]
    this [of C_is_active] this [of C_mfa_enabled] this [of C_mfa_secret] this [of C_email_verified]
    this [of C_oauth_provider] this [of C_oauth_subject] this [of C_external_id]
    this [of C_created_at] this [of C_updated_at]
  show "u = v" by (cases u; cases v) simp
qed simp

lemma scan_row_of_user [simp]: "scan_user (map (row_of_user u) user_columns) = Inr u"
  by (simp add: scan_user_def scan_fields_def user_columns_def)

text \<open>The users in the table.\<close>

definition users_in :: "row set \<Rightarrow> user set" where
  "users_in S = {u. row_of_user u \<in> S}"

text \<open>What the table keeps of a user, and of an update: creation data is never rewritten.\<close>

definition stored_user :: "user \<Rightarrow> user" where
  "stored_user u = u\<lparr>u_CreatedAt := micros (u_CreatedAt u), u_UpdatedAt := micros (u_UpdatedAt u)\<rparr>"

definition updated_user :: "user \<Rightarrow> user \<Rightarrow> user" where
  "updated_user u v = v\<lparr>u_Email := u_Email u, u_Role := u_Role u, u_IsActive := u_IsActive u,
     u_MFAEnabled := u_MFAEnabled u, u_MFASecret := u_MFASecret u,
     u_EmailVerified := u_EmailVerified u, u_ExternalID := u_ExternalID u,
     u_UpdatedAt := micros (u_UpdatedAt u), u_Password := u_Password u\<rparr>"

lemma users_in_insert: "users_in (insert (row_of_user u) S) = insert u (users_in S)"
  by (auto simp: users_in_def)

lemma users_in_image:
  assumes "S \<subseteq> range row_of_user" "\<And>u. f (row_of_user u) = row_of_user (g u)"
  shows "users_in (f ` S) = g ` users_in S"
proof (intro equalityI subsetI)
  fix u assume "u \<in> users_in (f ` S)"
  then obtain r where "r \<in> S" and r: "row_of_user u = f r" by (auto simp: users_in_def)
  then obtain v where "r = row_of_user v" using assms(1) by auto
  with r \<open>r \<in> S\<close> show "u \<in> g ` users_in S" by (auto simp: users_in_def assms(2))
next
  fix u assume "u \<in> g ` users_in S"
  then obtain v where "row_of_user v \<in> S" and "u = g v" by (auto simp: users_in_def)
  then show "u \<in> users_in (f ` S)"
    by (auto simp: users_in_def assms(2) [symmetric])
qed

lemma conflicts_row_of_user [simp]:
  "conflicts (row_of_user u) (row_of_user v) \<longleftrightarrow>
     u_ID u = u_ID v \<or> (u_TenantID u = u_TenantID v \<and> u_Email u = u_Email v)"
  by (simp add: conflicts_def)

end
