(* ===== verification/User_Contract.thy ===== *)
theory User_Contract
  imports User_Laws
begin

text \<open>
  The contract of the user repository as an interface, what follows from it, and the proof that the
  repository of \<open>user_repo.go\<close> over any pool that keeps the laws of PostgreSQL meets it.
\<close>

section \<open>The interface\<close>

locale user_store =
  fixes Inv :: "'w \<Rightarrow> bool"
    and users :: "'w \<Rightarrow> user set"
    and Create :: "user \<Rightarrow> ('w, go_error + unit) state"
    and ByEmail :: "uuid \<Rightarrow> string \<Rightarrow> ('w, go_error + user) state"
    and ByID :: "uuid \<Rightarrow> ('w, go_error + user) state"
    and ByOAuth :: "uuid \<Rightarrow> string \<Rightarrow> string \<Rightarrow> ('w, go_error + user) state"
    and ByExternalID :: "uuid \<Rightarrow> string \<Rightarrow> ('w, go_error + user) state"
    and Update :: "user \<Rightarrow> ('w, go_error + unit) state"
    and Delete :: "uuid \<Rightarrow> ('w, go_error + unit) state"
  assumes unique_id: "Inv w \<Longrightarrow> u \<in> users w \<Longrightarrow> v \<in> users w \<Longrightarrow> u_ID u = u_ID v \<Longrightarrow> u = v"
    and unique_email: "Inv w \<Longrightarrow> u \<in> users w \<Longrightarrow> v \<in> users w \<Longrightarrow>
      u_TenantID u = u_TenantID v \<Longrightarrow> u_Email u = u_Email v \<Longrightarrow> u = v"
    and inv_create: "Inv w \<Longrightarrow> Inv (after (Create u) w)"
    and inv_email: "Inv w \<Longrightarrow> Inv (after (ByEmail t e) w)"
    and inv_id: "Inv w \<Longrightarrow> Inv (after (ByID i) w)"
    and inv_oauth: "Inv w \<Longrightarrow> Inv (after (ByOAuth t p s) w)"
    and inv_external: "Inv w \<Longrightarrow> Inv (after (ByExternalID t x) w)"
    and inv_update: "Inv w \<Longrightarrow> Inv (after (Update u) w)"
    and inv_delete: "Inv w \<Longrightarrow> Inv (after (Delete i) w)"
    and keep_email: "Inv w \<Longrightarrow> users (after (ByEmail t e) w) = users w"
    and keep_id: "Inv w \<Longrightarrow> users (after (ByID i) w) = users w"
    and keep_oauth: "Inv w \<Longrightarrow> users (after (ByOAuth t p s) w) = users w"
    and keep_external: "Inv w \<Longrightarrow> users (after (ByExternalID t x) w) = users w"
    and email_found: "Inv w \<Longrightarrow> result (ByEmail t e) w = Inr u \<Longrightarrow>
      u \<in> users w \<and> u_TenantID u = t \<and> u_Email u = e"
    and email_missing: "Inv w \<Longrightarrow> result (ByEmail t e) w = Inl ErrNotFound \<Longrightarrow> u \<in> users w \<Longrightarrow>
      \<not> (u_TenantID u = t \<and> u_Email u = e)"
    and id_found: "Inv w \<Longrightarrow> result (ByID i) w = Inr u \<Longrightarrow> u \<in> users w \<and> u_ID u = i"
    and id_missing: "Inv w \<Longrightarrow> result (ByID i) w = Inl ErrNotFound \<Longrightarrow> u \<in> users w \<Longrightarrow> u_ID u \<noteq> i"
    and oauth_found: "Inv w \<Longrightarrow> result (ByOAuth t p s) w = Inr u \<Longrightarrow>
      u \<in> users w \<and> u_TenantID u = t \<and> u_OAuthProvider u = p \<and> u_OAuthSubject u = s"
    and oauth_missing: "Inv w \<Longrightarrow> result (ByOAuth t p s) w = Inl ErrNotFound \<Longrightarrow> u \<in> users w \<Longrightarrow>
      \<not> (u_TenantID u = t \<and> u_OAuthProvider u = p \<and> u_OAuthSubject u = s)"
    and external_found: "Inv w \<Longrightarrow> result (ByExternalID t x) w = Inr u \<Longrightarrow>
      u \<in> users w \<and> u_TenantID u = t \<and> u_ExternalID u = x"
    and external_missing: "Inv w \<Longrightarrow> result (ByExternalID t x) w = Inl ErrNotFound \<Longrightarrow> u \<in> users w \<Longrightarrow>
      \<not> (u_TenantID u = t \<and> u_ExternalID u = x)"
    and create_ok: "Inv w \<Longrightarrow> result (Create u) w = Inr () \<Longrightarrow>
      users (after (Create u) w) = insert (stored_user u) (users w) \<and>
      (\<forall>v \<in> users w. u_ID v \<noteq> u_ID u \<and> \<not> (u_TenantID v = u_TenantID u \<and> u_Email v = u_Email u))"
    and create_conflict: "Inv w \<Longrightarrow> result (Create u) w = Inl ErrConflict \<Longrightarrow>
      users (after (Create u) w) = users w \<and>
      (\<exists>v \<in> users w. u_ID v = u_ID u \<or> (u_TenantID v = u_TenantID u \<and> u_Email v = u_Email u))"
    and create_any: "Inv w \<Longrightarrow> users (after (Create u) w) = users w \<or>
      users (after (Create u) w) = insert (stored_user u) (users w)"
    and update_ok: "Inv w \<Longrightarrow> result (Update u) w = Inr () \<Longrightarrow>
      users (after (Update u) w) = (\<lambda>v. if u_ID v = u_ID u then updated_user u v else v) ` users w"
    and update_any: "Inv w \<Longrightarrow> users (after (Update u) w) = users w \<or>
      users (after (Update u) w) = (\<lambda>v. if u_ID v = u_ID u then updated_user u v else v) ` users w"
    and delete_ok: "Inv w \<Longrightarrow> result (Delete i) w = Inr () \<Longrightarrow>
      users (after (Delete i) w) = {v \<in> users w. u_ID v \<noteq> i}"
    and delete_any: "Inv w \<Longrightarrow> users (after (Delete i) w) = users w \<or>
      users (after (Delete i) w) = {v \<in> users w. u_ID v \<noteq> i}"

text \<open>The part of a user that no update rewrites.\<close>

definition identity_of :: "user \<Rightarrow> uuid \<times> uuid \<times> string \<times> string \<times> time" where
  "identity_of u = (u_ID u, u_TenantID u, u_OAuthProvider u, u_OAuthSubject u, u_CreatedAt u)"

lemma identity_of_updated [simp]: "identity_of (updated_user u v) = identity_of v"
  by (simp add: identity_of_def updated_user_def)

lemma stored_user_simps [simp]:
  "u_ID (stored_user u) = u_ID u" "u_TenantID (stored_user u) = u_TenantID u"
  "u_Email (stored_user u) = u_Email u" "u_Password (stored_user u) = u_Password u"
  "u_Role (stored_user u) = u_Role u" "u_IsActive (stored_user u) = u_IsActive u"
  "u_MFAEnabled (stored_user u) = u_MFAEnabled u" "u_MFASecret (stored_user u) = u_MFASecret u"
  "u_EmailVerified (stored_user u) = u_EmailVerified u"
  "u_OAuthProvider (stored_user u) = u_OAuthProvider u"
  "u_OAuthSubject (stored_user u) = u_OAuthSubject u" "u_ExternalID (stored_user u) = u_ExternalID u"
  by (simp_all add: stored_user_def)

lemma updated_user_simps [simp]:
  "u_ID (updated_user u v) = u_ID v" "u_TenantID (updated_user u v) = u_TenantID v"
  "u_Email (updated_user u v) = u_Email u" "u_Password (updated_user u v) = u_Password u"
  "u_Role (updated_user u v) = u_Role u" "u_IsActive (updated_user u v) = u_IsActive u"
  "u_MFAEnabled (updated_user u v) = u_MFAEnabled u" "u_MFASecret (updated_user u v) = u_MFASecret u"
  "u_EmailVerified (updated_user u v) = u_EmailVerified u"
  "u_OAuthProvider (updated_user u v) = u_OAuthProvider v"
  "u_OAuthSubject (updated_user u v) = u_OAuthSubject v" "u_ExternalID (updated_user u v) = u_ExternalID u"
  by (simp_all add: updated_user_def)

text \<open>Calls on a user store, and a run of them.\<close>

datatype user_call = UCreate user | UByEmail uuid string | UByID uuid | UUpdate user | UDelete uuid

context user_store
begin

fun ucall :: "user_call \<Rightarrow> 'w \<Rightarrow> 'w" where
  "ucall (UCreate u) w = after (Create u) w"
| "ucall (UByEmail t e) w = after (ByEmail t e) w"
| "ucall (UByID i) w = after (ByID i) w"
| "ucall (UUpdate u) w = after (Update u) w"
| "ucall (UDelete i) w = after (Delete i) w"

text \<open>An update by identifier replaces one user.\<close>

lemma update_replaces:
  assumes "Inv w" "v \<in> users w" "u_ID x = u_ID v" "result (Update x) w = Inr ()"
  shows "users (after (Update x) w) = insert (updated_user x v) (users w - {v})"
proof -
  have "(\<lambda>v'. if u_ID v' = u_ID x then updated_user x v' else v') ` users w = insert (updated_user x v) (users w - {v})"
    using assms(1-3) unique_id [OF assms(1)] by (fastforce simp: image_iff)
  then show ?thesis using update_ok [OF assms(1,4)] by simp
qed

lemma inv_ucall: "Inv w \<Longrightarrow> Inv (ucall c w)"
  by (cases c) (simp_all add: inv_create inv_email inv_id inv_update inv_delete)

lemma identity_ucall:
  assumes "Inv w" "u \<in> users w" "c \<noteq> UDelete (u_ID u)"
  shows "\<exists>v \<in> users (ucall c w). identity_of v = identity_of u"
proof (cases c)
  case (UCreate x)
  then show ?thesis using create_any [OF assms(1), of x] assms(2) by auto
next
  case (UByEmail t e)
  then show ?thesis using assms by (auto simp: keep_email)
next
  case (UByID i)
  then show ?thesis using assms by (auto simp: keep_id)
next
  case (UUpdate x)
  let ?f = "\<lambda>v. if u_ID v = u_ID x then updated_user x v else v"
  have "?f u \<in> ?f ` users w" using assms(2) by (rule imageI)
  moreover have "identity_of (?f u) = identity_of u" by simp
  ultimately have "\<exists>v \<in> ?f ` users w. identity_of v = identity_of u" by (rule bexI [rotated])
  then show ?thesis
    unfolding UUpdate ucall.simps using update_any [OF assms(1), of x]
  proof (elim disjE)
    assume "users (after (Update x) w) = users w"
    with assms(2) show "\<exists>v \<in> users (after (Update x) w). identity_of v = identity_of u" by blast
  qed (simp only:)
next
  case (UDelete i)
  then show ?thesis using delete_any [OF assms(1), of i] assms(2,3) by auto
qed

text \<open>Whatever calls follow, short of its deletion a user keeps its identity.\<close>

lemma identity_kept:
  "Inv w \<Longrightarrow> u \<in> users w \<Longrightarrow> \<forall>c \<in> set cs. c \<noteq> UDelete (u_ID u) \<Longrightarrow>
   \<exists>v \<in> users (fold ucall cs w). identity_of v = identity_of u"
proof (induction cs arbitrary: w u)
  case (Cons c cs)
  then obtain v where v: "v \<in> users (ucall c w)" "identity_of v = identity_of u"
    using identity_ucall [of w u c] by auto
  then have "u_ID v = u_ID u" by (simp add: identity_of_def)
  then show ?case using Cons.IH [of "ucall c w" v] Cons.prems v by (auto simp: inv_ucall)
qed auto

lemma create_then_email:
  assumes "Inv w" "result (Create u) w = Inr ()"
    "result (ByEmail (u_TenantID u) (u_Email u)) (after (Create u) w) = Inr v"
  shows "v = stored_user u"
proof (rule unique_email [OF inv_create [OF assms(1)]])
  show "v \<in> users (after (Create u) w)" "u_TenantID v = u_TenantID (stored_user u)"
    "u_Email v = u_Email (stored_user u)"
    using email_found [OF inv_create [OF assms(1)] assms(3)] by simp_all
  show "stored_user u \<in> users (after (Create u) w)" using create_ok [OF assms(1,2)] by simp
qed

lemma update_then_id:
  assumes "Inv w" "u \<in> users w" "result (Update x) w = Inr ()" "u_ID x = u_ID u"
    "result (ByID (u_ID u)) (after (Update x) w) = Inr v"
  shows "v = updated_user x u"
proof -
  have "(\<lambda>v. if u_ID v = u_ID x then updated_user x v else v) u \<in> users (after (Update x) w)"
    unfolding update_ok [OF assms(1,3)] using assms(2) by (rule imageI)
  with assms(4) have "updated_user x u \<in> users (after (Update x) w)" by simp
  then show ?thesis
    using id_found [OF inv_update [OF assms(1)] assms(5)]
    by (intro unique_id [OF inv_update [OF assms(1)], of v x]) simp_all
qed

lemma delete_then_id:
  assumes "Inv w" "result (Delete i) w = Inr ()"
  shows "\<exists>e. result (ByID i) (after (Delete i) w) = Inl e"
proof (cases "result (ByID i) (after (Delete i) w)")
  case (Inr v)
  from id_found [OF inv_delete [OF assms(1)] Inr] delete_ok [OF assms] show ?thesis by simp
qed simp

end

section \<open>The repository over PostgreSQL\<close>

lemma run_db_do [simp]: "run_state (db_do f) w = (fst (f (w_db w)), w\<lparr>w_db := snd (f (w_db w))\<rparr>)"
  by (simp add: db_do_def case_prod_unfold)

lemma table_okD:
  assumes "table_ok S" "u \<in> users_in S" "v \<in> users_in S"
  shows "u_ID u = u_ID v \<Longrightarrow> u = v"
    and "u_TenantID u = u_TenantID v \<Longrightarrow> u_Email u = u_Email v \<Longrightarrow> u = v"
proof -
  have "\<forall>r \<in> S. \<forall>s \<in> S. conflicts r s \<longrightarrow> r = s" "row_of_user u \<in> S" "row_of_user v \<in> S"
    using assms by (simp_all add: table_ok_def unique_rows_def users_in_def)
  then have "conflicts (row_of_user u) (row_of_user v) \<longrightarrow> row_of_user u = row_of_user v" by blast
  then show "u_ID u = u_ID v \<Longrightarrow> u = v" "u_TenantID u = u_TenantID v \<Longrightarrow> u_Email u = u_Email v \<Longrightarrow> u = v"
    by simp_all
qed

text \<open>A lookup, through \<open>select_user\<close>.\<close>

lemma select_user_law:
  assumes laws: "pg_laws db tbl" and ok: "table_ok (tbl (w_db w))"
  shows "tbl (w_db (after (select_user db conds) w)) = tbl (w_db w)"
    and "result (select_user db conds) w = Inr u \<Longrightarrow>
      u \<in> users_in (tbl (w_db w)) \<and> pg_matches conds (row_of_user u)"
    and "result (select_user db conds) w = Inl ErrNotFound \<Longrightarrow> u \<in> users_in (tbl (w_db w)) \<Longrightarrow>
      \<not> pg_matches conds (row_of_user u)"
proof -
  let ?q = "pg_QueryRow db (SELECT user_columns conds) (w_db w)"
  have sel: "tbl (snd ?q) = tbl (w_db w)"
    "case fst ?q of Inr vs \<Rightarrow> \<exists>r \<in> tbl (w_db w). pg_matches conds r \<and> vs = map r user_columns
     | Inl e \<Rightarrow> driver_error e \<and> (errors_Is e PgNoRows \<longrightarrow> (\<forall>r \<in> tbl (w_db w). \<not> pg_matches conds r))"
    using laws ok unfolding pg_laws_def pg_select_law_def by blast+
  have aft: "after (select_user db conds) w = w\<lparr>w_db := snd ?q\<rparr>"
    by (simp add: select_user_def Let_def split: sum.split)
  show "tbl (w_db (after (select_user db conds) w)) = tbl (w_db w)" using sel(1) by (simp add: aft)
  show "result (select_user db conds) w = Inr u \<Longrightarrow>
      u \<in> users_in (tbl (w_db w)) \<and> pg_matches conds (row_of_user u)"
  proof -
    assume res: "result (select_user db conds) w = Inr u"
    then obtain vs where vs: "fst ?q = Inr vs" "scan_user vs = Inr u"
      by (auto simp: select_user_def Let_def split: sum.splits if_splits)
    with sel(2) obtain r where r: "r \<in> tbl (w_db w)" "pg_matches conds r" "vs = map r user_columns"
      by auto
    from ok r(1) obtain v where "r = row_of_user v" by (auto simp: table_ok_def)
    with r vs show ?thesis by (simp add: users_in_def)
  qed
  show "result (select_user db conds) w = Inl ErrNotFound \<Longrightarrow> u \<in> users_in (tbl (w_db w)) \<Longrightarrow>
      \<not> pg_matches conds (row_of_user u)"
  proof -
    assume res: "result (select_user db conds) w = Inl ErrNotFound" and u: "u \<in> users_in (tbl (w_db w))"
    show ?thesis
    proof (cases "fst ?q")
      case (Inl e)
      with res have "errors_Is e PgNoRows \<or> e = ErrNotFound"
        by (auto simp: select_user_def Let_def split: if_splits)
      moreover have "e \<noteq> ErrNotFound" using Inl sel(2) by (auto simp: driver_error_def)
      ultimately show ?thesis using Inl sel(2) u by (auto simp: users_in_def)
    next
      case (Inr vs)
      with sel(2) obtain r where r: "r \<in> tbl (w_db w)" "vs = map r user_columns" by auto
      from ok r(1) obtain v where "r = row_of_user v" by (auto simp: table_ok_def)
      with res Inr r show ?thesis by (simp add: select_user_def Let_def)
    qed
  qed
qed

text \<open>A statement that writes.\<close>

lemma pg_exec_cases:
  assumes "pg_laws db tbl" "table_ok (tbl d)"
  obtains (applied) "pg_allowed st (tbl d)" "tbl (snd (pg_Exec db st d)) = pg_effect st (tbl d)"
      "\<And>e. fst (pg_Exec db st d) = Some e \<Longrightarrow> driver_error e \<and> errors_As_PgCode e = None"
  | (refused) e where "fst (pg_Exec db st d) = Some e" "tbl (snd (pg_Exec db st d)) = tbl d"
      "driver_error e" "errors_As_PgCode e = Some ''23505'' \<Longrightarrow> \<not> pg_allowed st (tbl d)"
  using assms unfolding pg_laws_def pg_exec_law_def Let_def by blast

definition user_values :: "user \<Rightarrow> (column \<times> sqlval) list" where
  "user_values u = [(C_id, VUuid (u_ID u)), (C_tenant_id, VUuid (u_TenantID u)),
     (C_email, VText (u_Email u)), (C_password, VText (u_Password u)), (C_role, VText (u_Role u)),
     (C_is_active, VBool (u_IsActive u)), (C_mfa_enabled, VBool (u_MFAEnabled u)),
     (C_mfa_secret, VText (u_MFASecret u)), (C_email_verified, VBool (u_EmailVerified u)),
     (C_oauth_provider, VText (u_OAuthProvider u)), (C_oauth_subject, VText (u_OAuthSubject u)),
     (C_external_id, VText (u_ExternalID u)), (C_created_at, VTime (u_CreatedAt u)),
     (C_updated_at, VTime (u_UpdatedAt u))]"

definition user_changes :: "user \<Rightarrow> (column \<times> sqlval) list" where
  "user_changes u = [(C_email, VText (u_Email u)), (C_role, VText (u_Role u)),
     (C_is_active, VBool (u_IsActive u)), (C_mfa_enabled, VBool (u_MFAEnabled u)),
     (C_mfa_secret, VText (u_MFASecret u)), (C_email_verified, VBool (u_EmailVerified u)),
     (C_external_id, VText (u_ExternalID u)), (C_updated_at, VTime (u_UpdatedAt u)),
     (C_password, VText (u_Password u))]"

lemma assign_user_values: "pg_assign (user_values u) f = row_of_user (stored_user u)"
proof
  fix c show "pg_assign (user_values u) f c = row_of_user (stored_user u) c"
    by (cases c) (simp_all add: pg_assign_def user_values_def stored_user_def)
qed

lemma assign_user_changes: "pg_assign (user_changes u) (row_of_user v) = row_of_user (updated_user u v)"
proof
  fix c show "pg_assign (user_changes u) (row_of_user v) c = row_of_user (updated_user u v) c"
    by (cases c) (simp_all add: pg_assign_def user_changes_def updated_user_def)
qed

lemma matches_id: "pg_matches [(C_id, VUuid i)] (row_of_user u) \<longleftrightarrow> u_ID u = i"
  by (simp add: pg_matches_def)

lemma Create_exec: "Create db u = do {
     res \<leftarrow> db_do (pg_Exec db (INSERT (user_values u)));
     case res of
       None \<Rightarrow> ok ()
     | Some err \<Rightarrow> if errors_As_PgCode err = Some ''23505'' then fail ErrConflict else fail err }"
  by (simp add: Create_def user_values_def Let_def)

lemma Update_exec: "Update db u = do {
     res \<leftarrow> db_do (pg_Exec db (UPDATE (user_changes u) [(C_id, VUuid (u_ID u))]));
     State_Monad.return (case res of None \<Rightarrow> Inr () | Some err \<Rightarrow> Inl err) }"
  by (simp add: Update_def user_changes_def Let_def)

lemma insert_effect:
  "users_in (pg_effect (INSERT (user_values u)) S) = insert (stored_user u) (users_in S)"
  by (simp add: assign_user_values users_in_insert)

lemma update_effect:
  assumes "table_ok S"
  shows "users_in (pg_effect (UPDATE (user_changes u) [(C_id, VUuid (u_ID u))]) S) =
     (\<lambda>v. if u_ID v = u_ID u then updated_user u v else v) ` users_in S"
  unfolding pg_effect.simps
  by (rule users_in_image) (use assms in \<open>simp_all add: table_ok_def assign_user_changes matches_id\<close>)

lemma delete_effect:
  "users_in (pg_effect (DELETE [(C_id, VUuid i)]) S) = {v \<in> users_in S. u_ID v \<noteq> i}"
  by (auto simp: users_in_def matches_id)

lemma insert_ok:
  assumes "table_ok S" "pg_allowed (INSERT (user_values u)) S"
  shows "table_ok (pg_effect (INSERT (user_values u)) S)"
proof -
  have "conflicts r s = conflicts s r" for r s by (auto simp: conflicts_def)
  then show ?thesis using assms
    by (auto simp: table_ok_def unique_rows_def assign_user_values)
qed

lemma update_ok:
  assumes "table_ok S" "pg_allowed (UPDATE (user_changes u) conds) S"
  shows "table_ok (pg_effect (UPDATE (user_changes u) conds) S)"
  using assms by (auto simp: table_ok_def assign_user_changes)

lemma delete_ok: "table_ok S \<Longrightarrow> table_ok (pg_effect (DELETE conds) S)"
  by (auto simp: table_ok_def unique_rows_def)

text \<open>The world side: what the three writing operations do to the users of the table.\<close>

definition pg_inv :: "'d pgx_pool \<Rightarrow> 'd table \<Rightarrow> ('r, 'd) world \<Rightarrow> bool" where
  "pg_inv db tbl w \<longleftrightarrow> pg_laws db tbl \<and> table_ok (tbl (w_db w))"

definition pg_users :: "'d table \<Rightarrow> ('r, 'd) world \<Rightarrow> user set" where
  "pg_users tbl w = users_in (tbl (w_db w))"

lemma Create_law:
  assumes "pg_inv db tbl w"
  shows "pg_inv db tbl (after (Create db u) w)"
    and "result (Create db u) w = Inr () \<Longrightarrow>
      pg_users tbl (after (Create db u) w) = insert (stored_user u) (pg_users tbl w) \<and>
      (\<forall>v \<in> pg_users tbl w. u_ID v \<noteq> u_ID u \<and> \<not> (u_TenantID v = u_TenantID u \<and> u_Email v = u_Email u))"
    and "result (Create db u) w = Inl ErrConflict \<Longrightarrow>
      pg_users tbl (after (Create db u) w) = pg_users tbl w \<and>
      (\<exists>v \<in> pg_users tbl w. u_ID v = u_ID u \<or> (u_TenantID v = u_TenantID u \<and> u_Email v = u_Email u))"
    and "pg_users tbl (after (Create db u) w) = pg_users tbl w \<or>
      pg_users tbl (after (Create db u) w) = insert (stored_user u) (pg_users tbl w)"
proof -
  let ?st = "INSERT (user_values u)" and ?S = "tbl (w_db w)"
  have laws: "pg_laws db tbl" "table_ok ?S" using assms by (simp_all add: pg_inv_def)
  have aft: "w_db (after (Create db u) w) = snd (pg_Exec db ?st (w_db w))"
    by (simp add: Create_exec split: option.split)
  have res: "result (Create db u) w = (case fst (pg_Exec db ?st (w_db w)) of None \<Rightarrow> Inr ()
      | Some e \<Rightarrow> if errors_As_PgCode e = Some ''23505'' then Inl ErrConflict else Inl e)"
    by (simp add: Create_exec split: option.split)
  have allow: "pg_allowed ?st ?S \<longleftrightarrow> (\<forall>v \<in> pg_users tbl w.
      \<not> (u_ID v = u_ID u \<or> (u_TenantID v = u_TenantID u \<and> u_Email v = u_Email u)))"
  proof -
    have "pg_allowed ?st ?S \<longleftrightarrow> (\<forall>v \<in> pg_users tbl w. \<not> conflicts (row_of_user (stored_user u)) (row_of_user v))"
      using laws(2) unfolding pg_allowed.simps assign_user_values pg_users_def users_in_def table_ok_def
      by blast
    then show ?thesis by (auto simp: eq_commute)
  qed
  show "pg_inv db tbl (after (Create db u) w)"
    using laws(1,2)
  proof (cases rule: pg_exec_cases [where st = ?st])
    case applied
    then show ?thesis using laws insert_ok [OF laws(2)] by (simp add: pg_inv_def aft del: pg_effect.simps)
  qed (use laws in \<open>simp add: pg_inv_def aft\<close>)
  show "result (Create db u) w = Inr () \<Longrightarrow>
      pg_users tbl (after (Create db u) w) = insert (stored_user u) (pg_users tbl w) \<and>
      (\<forall>v \<in> pg_users tbl w. u_ID v \<noteq> u_ID u \<and> \<not> (u_TenantID v = u_TenantID u \<and> u_Email v = u_Email u))"
    using laws(1,2)
  proof (cases rule: pg_exec_cases [where st = ?st])
    case applied
    then show ?thesis using allow by (simp add: pg_users_def aft insert_effect del: pg_effect.simps pg_allowed.simps)
  qed (simp add: res split: if_splits)
  show "result (Create db u) w = Inl ErrConflict \<Longrightarrow>
      pg_users tbl (after (Create db u) w) = pg_users tbl w \<and>
      (\<exists>v \<in> pg_users tbl w. u_ID v = u_ID u \<or> (u_TenantID v = u_TenantID u \<and> u_Email v = u_Email u))"
    using laws(1,2)
  proof (cases rule: pg_exec_cases [where st = ?st])
    case applied
    assume "result (Create db u) w = Inl ErrConflict"
    with applied(3) show ?thesis by (auto simp: res driver_error_def split: option.splits)
  next
    case (refused e)
    assume "result (Create db u) w = Inl ErrConflict"
    with refused have "\<not> pg_allowed ?st ?S" by (auto simp: res driver_error_def split: if_splits)
    with refused(2) show ?thesis using allow by (auto simp: pg_users_def aft)
  qed
  show "pg_users tbl (after (Create db u) w) = pg_users tbl w \<or>
      pg_users tbl (after (Create db u) w) = insert (stored_user u) (pg_users tbl w)"
    using laws(1,2)
  proof (cases rule: pg_exec_cases [where st = ?st])
    case applied
    then show ?thesis by (simp add: pg_users_def aft insert_effect del: pg_effect.simps)
  qed (simp add: pg_users_def aft)
qed

text \<open>\<open>Update\<close> and \<open>Delete\<close> send one statement and return its error.\<close>

definition exec_plain :: "'d pgx_pool \<Rightarrow> sql \<Rightarrow> ('r, 'd, unit) go" where
  "exec_plain db st = do {
     res \<leftarrow> db_do (pg_Exec db st);
     State_Monad.return (case res of None \<Rightarrow> Inr () | Some err \<Rightarrow> Inl err) }"

lemma exec_plain_law:
  assumes inv: "pg_inv db tbl w"
    and keep: "pg_allowed st (tbl (w_db w)) \<Longrightarrow> table_ok (pg_effect st (tbl (w_db w)))"
  shows "pg_inv db tbl (after (exec_plain db st) w)"
    and "result (exec_plain db st) w = Inr () \<Longrightarrow>
      pg_users tbl (after (exec_plain db st) w) = users_in (pg_effect st (tbl (w_db w)))"
    and "pg_users tbl (after (exec_plain db st) w) = pg_users tbl w \<or>
      pg_users tbl (after (exec_plain db st) w) = users_in (pg_effect st (tbl (w_db w)))"
proof -
  have laws: "pg_laws db tbl" "table_ok (tbl (w_db w))" using inv by (simp_all add: pg_inv_def)
  show "pg_inv db tbl (after (exec_plain db st) w)"
    using laws(1,2)
    by (cases rule: pg_exec_cases [where st = st]) (use laws keep in \<open>auto simp: pg_inv_def exec_plain_def\<close>)
  show "result (exec_plain db st) w = Inr () \<Longrightarrow>
      pg_users tbl (after (exec_plain db st) w) = users_in (pg_effect st (tbl (w_db w)))"
    using laws(1,2) by (cases rule: pg_exec_cases [where st = st]) (auto simp: pg_users_def exec_plain_def)
  show "pg_users tbl (after (exec_plain db st) w) = pg_users tbl w \<or>
      pg_users tbl (after (exec_plain db st) w) = users_in (pg_effect st (tbl (w_db w)))"
    using laws(1,2) by (cases rule: pg_exec_cases [where st = st]) (auto simp: pg_users_def exec_plain_def)
qed

lemma Update_plain: "Update db u = exec_plain db (UPDATE (user_changes u) [(C_id, VUuid (u_ID u))])"
  by (simp add: Update_exec exec_plain_def)

lemma Delete_plain: "Delete db i = exec_plain db (DELETE [(C_id, VUuid i)])"
  by (simp add: Delete_def exec_plain_def)

lemma select_law:
  assumes "pg_inv db tbl w"
  shows "pg_inv db tbl (after (select_user db conds) w)"
    and "pg_users tbl (after (select_user db conds) w) = pg_users tbl w"
    and "result (select_user db conds) w = Inr u \<Longrightarrow>
      u \<in> pg_users tbl w \<and> pg_matches conds (row_of_user u)"
    and "result (select_user db conds) w = Inl ErrNotFound \<Longrightarrow> u \<in> pg_users tbl w \<Longrightarrow>
      \<not> pg_matches conds (row_of_user u)"
  using assms select_user_law [of db tbl w conds]
  unfolding pg_inv_def pg_users_def by simp_all

lemma select_found:
  "result (select_user db conds) w = Inr u \<Longrightarrow> pg_inv db tbl w \<Longrightarrow>
     u \<in> pg_users tbl w \<and> pg_matches conds (row_of_user u)"
  by (rule select_law(3))

lemma select_missing:
  "result (select_user db conds) w = Inl ErrNotFound \<Longrightarrow> pg_inv db tbl w \<Longrightarrow> u \<in> pg_users tbl w \<Longrightarrow>
     \<not> pg_matches conds (row_of_user u)"
  by (rule select_law(4))

interpretation pg: user_store "pg_inv db tbl" "pg_users tbl" "Create db" "GetByEmail db" "GetByID db"
  "GetByOAuth db" "GetByExternalID db" "Update db" "Delete db" for db tbl
proof (unfold_locales, goal_cases)
  case (1 w u v)
  then show ?case unfolding pg_inv_def pg_users_def by (blast dest: table_okD(1))
next
  case (2 w u v)
  then show ?case unfolding pg_inv_def pg_users_def by (blast dest: table_okD(2))
next
  case (8 w u)
  then show ?case unfolding Update_plain
    by (intro exec_plain_law update_ok) (auto simp: pg_inv_def)
next
  case (9 w i)
  then show ?case unfolding Delete_plain
    by (intro exec_plain_law delete_ok) (auto simp: pg_inv_def)
next
  case (25 w u)
  then have ok: "table_ok (tbl (w_db w))" by (simp add: pg_inv_def)
  from 25 show ?case
    using exec_plain_law(2) [OF 25(1) update_ok [OF ok]] update_effect [OF ok, of u]
    unfolding Update_plain pg_users_def by simp
next
  case (26 w u)
  then have ok: "table_ok (tbl (w_db w))" by (simp add: pg_inv_def)
  show ?case
    using exec_plain_law(3) [OF 26 update_ok [OF ok]]
    unfolding Update_plain pg_users_def update_effect [OF ok, symmetric] .
next
  case (27 w i)
  then have ok: "table_ok (tbl (w_db w))" by (simp add: pg_inv_def)
  from 27 show ?case
    using exec_plain_law(2) [OF 27(1) delete_ok [OF ok]] delete_effect [of i]
    unfolding Delete_plain pg_users_def by simp
next
  case (28 w i)
  then have ok: "table_ok (tbl (w_db w))" by (simp add: pg_inv_def)
  show ?case
    using exec_plain_law(3) [OF 28 delete_ok [OF ok]]
    unfolding Delete_plain pg_users_def delete_effect [symmetric] .
qed (simp_all add: Create_law GetByEmail_def GetByID_def GetByOAuth_def GetByExternalID_def select_law,
     (auto simp: pg_matches_def dest: select_found select_missing)?)

section \<open>Listing\<close>

lemma scan_all_rows:
  "scan_all (map (\<lambda>u. map (row_of_user u) user_columns) us) acc = Inr (acc @ us)"
  by (induction us arbitrary: acc) auto

text \<open>The offset of \<open>List\<close>, in 64-bit arithmetic.\<close>

definition list_page :: "pagination_query \<Rightarrow> int64" where
  "list_page pq = (if sint (pq_Page pq) < 1 then 1 else pq_Page pq)"

definition list_limit :: "pagination_query \<Rightarrow> int64" where
  "list_limit pq = (if sint (pq_Limit pq) < 1 then 10 else pq_Limit pq)"

definition list_offset :: "pagination_query \<Rightarrow> int64" where
  "list_offset pq = (list_page pq - 1) * list_limit pq"

lemma List_run:
  "List db tenantID pq = do {
     c \<leftarrow> db_do (pg_QueryRow db (SELECT_COUNT [(C_tenant_id, VUuid tenantID)]));
     case c of
       Inr [VInt cnt] \<Rightarrow> do {
         r \<leftarrow> db_do (pg_Query db (SELECT_PAGE user_columns [(C_tenant_id, VUuid tenantID)] C_created_at
                (list_limit pq) (list_offset pq)));
         case r of
           Inl err \<Rightarrow> fail err
         | Inr (rows, rows_Err) \<Rightarrow>
             (case scan_all rows [] of
                Inl err \<Rightarrow> fail err
              | Inr users \<Rightarrow> ok (users, cnt)) }
     | Inr _ \<Rightarrow> fail (ErrText ''cannot scan into destination'')
     | Inl err \<Rightarrow> fail err }"
  unfolding List_def list_page_def list_limit_def list_offset_def Let_def by (rule refl)

text \<open>
  What a listing returns: the count of the tenant's users, and part of one page of some listing of
  them, newest first. The rows may stop early, since nobody asks \<open>rows.Err()\<close>.
\<close>

lemma List_law:
  assumes inv: "pg_inv db tbl w" and run: "run_state (List db tenantID pq) w = (Inr (us, cnt), w')"
  obtains all where "pg_inv db tbl w'" and "pg_users tbl w' = pg_users tbl w"
    and "distinct all" and "set all = {u \<in> pg_users tbl w. u_TenantID u = tenantID}"
    and "sint cnt = int (length all)" and "0 \<le> sint (list_offset pq)"
    and "sorted_wrt (\<lambda>u v. u_CreatedAt v \<le> u_CreatedAt u) all"
    and "prefix us (take (nat (sint (list_limit pq))) (drop (nat (sint (list_offset pq))) all))"
proof -
  let ?conds = "[(C_tenant_id, VUuid tenantID)]"
  have laws: "pg_laws db tbl" "table_ok (tbl (w_db w))" using inv by (simp_all add: pg_inv_def)
  let ?c = "pg_QueryRow db (SELECT_COUNT ?conds) (w_db w)"
  let ?d1 = "snd ?c"
  let ?p = "pg_Query db (SELECT_PAGE user_columns ?conds C_created_at (list_limit pq) (list_offset pq)) ?d1"
  have cnt_law: "tbl ?d1 = tbl (w_db w)" "\<And>vs. fst ?c = Inr vs \<Longrightarrow>
      \<exists>n. vs = [VInt n] \<and> sint n = int (card {r \<in> tbl (w_db w). pg_matches ?conds r})"
    using laws unfolding pg_laws_def pg_count_law_def by blast+
  have c: "fst ?c = Inr [VInt cnt]"
  proof (cases "fst ?c")
    case (Inr vs)
    then obtain n where vs: "vs = [VInt n]" using cnt_law(2) by blast
    have "n = cnt" using run Inr vs by (auto simp: List_run split: sum.splits)
    with Inr vs show ?thesis by simp
  qed (use run in \<open>simp add: List_run\<close>)
  obtain rows err where p: "fst ?p = Inr (rows, err)"
    using run c by (cases "fst ?p") (auto simp: List_run)
  with run c have scan: "scan_all rows [] = Inr us" and w': "w_db w' = snd ?p"
    by (auto simp: List_run split: sum.splits)
  have ok1: "table_ok (tbl ?d1)" using laws cnt_law by simp
  have page: "tbl (snd ?p) = tbl ?d1"
    using laws(1) ok1 unfolding pg_laws_def pg_page_law_def by blast
  from laws(1) ok1 p have "0 \<le> sint (list_limit pq) \<and> 0 \<le> sint (list_offset pq) \<and>
    (\<exists>rs. distinct rs \<and> set rs = {r \<in> tbl ?d1. pg_matches ?conds r} \<and>
       sorted_wrt (\<lambda>r s. col_time (s C_created_at) \<le> col_time (r C_created_at)) rs \<and>
       (let full = map (\<lambda>r. map r user_columns) (take (nat (sint (list_limit pq))) (drop (nat (sint (list_offset pq))) rs)) in
        prefix rows full \<and> (err = None \<longrightarrow> rows = full)))"
    unfolding pg_laws_def pg_page_law_def by blast
  then obtain rs where rs: "0 \<le> sint (list_offset pq)" "distinct rs" "set rs = {r \<in> tbl (w_db w). pg_matches ?conds r}"
    "sorted_wrt (\<lambda>r s. col_time (s C_created_at) \<le> col_time (r C_created_at)) rs"
    "prefix rows (map (\<lambda>r. map r user_columns) (take (nat (sint (list_limit pq))) (drop (nat (sint (list_offset pq))) rs)))"
    by (auto simp: Let_def cnt_law(1))
  have "set rs \<subseteq> range row_of_user" using rs(3) laws(2) by (auto simp: table_ok_def)
  then obtain all where all: "rs = map row_of_user all" by (metis subset_image_iff ex_map_conv subset_UNIV image_subset_iff rangeE subsetD)
  show thesis
  proof (rule that [of all])
    show "pg_inv db tbl w'" "pg_users tbl w' = pg_users tbl w"
      using laws w' page cnt_law(1) by (simp_all add: pg_inv_def pg_users_def)
    show "distinct all" using rs(2) all by (simp add: distinct_map)
    show s: "set all = {u \<in> pg_users tbl w. u_TenantID u = tenantID}"
    proof -
      have "u \<in> set all \<longleftrightarrow> row_of_user u \<in> set rs" for u by (auto simp: all image_iff)
      then show ?thesis using rs(3) by (auto simp: pg_users_def users_in_def pg_matches_def)
    qed
    show "sint cnt = int (length all)"
      using cnt_law(2) [OF c] rs(2,3) all by (metis distinct_card length_map list.inject sqlval.inject(5))
    show "sorted_wrt (\<lambda>u v. u_CreatedAt v \<le> u_CreatedAt u) all"
      using rs(4) by (simp add: all sorted_wrt_map)
    show "prefix us (take (nat (sint (list_limit pq))) (drop (nat (sint (list_offset pq))) all))"
    proof -
      obtain k where "rows = take k (map (\<lambda>r. map r user_columns) (take (nat (sint (list_limit pq))) (drop (nat (sint (list_offset pq))) rs)))"
        using rs(5) by (metis append_eq_conv_conj prefix_def)
      then have "rows = map (\<lambda>u. map (row_of_user u) user_columns)
          (take k (take (nat (sint (list_limit pq))) (drop (nat (sint (list_offset pq))) all)))"
        by (simp add: all take_map drop_map)
      with scan have "us = take k (take (nat (sint (list_limit pq))) (drop (nat (sint (list_offset pq))) all))"
        by (simp only: scan_all_rows) simp
      then show ?thesis by (simp only: take_is_prefix)
    qed
  qed (rule rs(1))
qed

text \<open>While the product does not overflow, page \<open>n\<close> starts after \<open>n - 1\<close> full pages.\<close>

lemma list_offset_value:
  assumes "sint (list_page pq) * sint (list_limit pq) < 2 ^ 63"
  shows "sint (list_offset pq) = (sint (list_page pq) - 1) * sint (list_limit pq)"
proof -
  have pos: "1 \<le> sint (list_page pq)" "1 \<le> sint (list_limit pq)"
    by (auto simp: list_page_def list_limit_def)
  have less: "sint (list_page pq) < 2 ^ 63" "sint (list_limit pq) < 2 ^ 63"
    using sint_lt [of "list_page pq"] sint_lt [of "list_limit pq"] by simp_all
  let ?v = "(sint (list_page pq) - 1) * sint (list_limit pq)"
  have "?v \<le> sint (list_page pq) * sint (list_limit pq)" using pos by (intro mult_right_mono) auto
  then have "?v < 2 ^ 63" using assms by (rule order_le_less_trans)
  moreover have "0 \<le> ?v" using pos by simp
  ultimately have v: "0 \<le> ?v" "?v < 2 ^ 63" by blast+
  have "list_offset pq = word_of_int ?v"
    by (simp add: list_offset_def wi_hom_mult [symmetric] wi_hom_sub [symmetric])
  then have "sint (list_offset pq) = sint (word_of_int ?v :: int64)" by (rule arg_cong)
  also have "\<dots> = ?v" unfolding sint_sbintrunc' using v by (intro signed_take_bit_int_eq_self) simp_all
  finally show ?thesis .
qed

end
