(* ===== verification/Session_Store.thy ===== *)
theory Session_Store
  imports Effects
begin

text \<open>
  \<open>repository/redis/session_repo.go\<close>: the five kinds of token kept in Redis, each under its own
  key prefix. The Redis client is a parameter; \<open>redis_laws\<close> states what its commands are
  documented to do, through the value \<open>alive t r k\<close> a key shows at time \<open>t\<close>. Commands may fail;
  a write that fails may or may not have reached the server.
\<close>

section \<open>The client\<close>

text \<open>Every command gets the time at which the server runs it.\<close>

record 'r redis_client =
  rd_Set :: "string \<Rightarrow> string \<Rightarrow> duration \<Rightarrow> time \<Rightarrow> 'r \<Rightarrow> go_error option \<times> 'r"
  rd_Get :: "string \<Rightarrow> time \<Rightarrow> 'r \<Rightarrow> (go_error + string) \<times> 'r"
  rd_Del :: "string \<Rightarrow> time \<Rightarrow> 'r \<Rightarrow> go_error option \<times> 'r"
  rd_IncrBy :: "string \<Rightarrow> int \<Rightarrow> time \<Rightarrow> 'r \<Rightarrow> (go_error + int) \<times> 'r"
  rd_Expire :: "string \<Rightarrow> duration \<Rightarrow> time \<Rightarrow> 'r \<Rightarrow> go_error option \<times> 'r"
  rd_Ping :: "time \<Rightarrow> 'r \<Rightarrow> go_error option"

type_synonym 'r alive = "time \<Rightarrow> 'r \<Rightarrow> string \<Rightarrow> string option"

text \<open>Two server states agree from time \<open>t\<close> on.\<close>

definition same_from :: "'r alive \<Rightarrow> time \<Rightarrow> 'r \<Rightarrow> 'r \<Rightarrow> bool" where
  "same_from alive t r r' \<longleftrightarrow> (\<forall>t' \<ge> t. alive t' r' = alive t' r)"

text \<open>The effect of \<open>SET k v EX ttl\<close> and of \<open>DEL k\<close>, seen from time \<open>t\<close> on.\<close>

definition set_effect :: "'r alive \<Rightarrow> string \<Rightarrow> string \<Rightarrow> duration \<Rightarrow> time \<Rightarrow> 'r \<Rightarrow> 'r \<Rightarrow> bool" where
  "set_effect alive k v ttl t r r' \<longleftrightarrow>
     (\<forall>t' \<ge> t. alive t' r' = (alive t' r)(k := if t' < t + ttl then Some v else None))"

definition del_effect :: "'r alive \<Rightarrow> string \<Rightarrow> time \<Rightarrow> 'r \<Rightarrow> 'r \<Rightarrow> bool" where
  "del_effect alive k t r r' \<longleftrightarrow> (\<forall>t' \<ge> t. alive t' r' = (alive t' r)(k := None))"

definition redis_get_law :: "'r redis_client \<Rightarrow> 'r alive \<Rightarrow> bool" where
  "redis_get_law c alive \<longleftrightarrow> (\<forall>k t r.
     same_from alive t r (snd (rd_Get c k t r)) \<and>
     (case fst (rd_Get c k t r) of
        Inr v \<Rightarrow> alive t r k = Some v
      | Inl e \<Rightarrow> errors_Is e RedisNil \<longrightarrow> alive t r k = None))"

definition redis_set_law :: "'r redis_client \<Rightarrow> 'r alive \<Rightarrow> bool" where
  "redis_set_law c alive \<longleftrightarrow> (\<forall>k v ttl t r. 0 < ttl \<longrightarrow>
     set_effect alive k v ttl t r (snd (rd_Set c k v ttl t r)) \<or>
     fst (rd_Set c k v ttl t r) \<noteq> None \<and> same_from alive t r (snd (rd_Set c k v ttl t r)))"

definition redis_del_law :: "'r redis_client \<Rightarrow> 'r alive \<Rightarrow> bool" where
  "redis_del_law c alive \<longleftrightarrow> (\<forall>k t r.
     del_effect alive k t r (snd (rd_Del c k t r)) \<or>
     fst (rd_Del c k t r) \<noteq> None \<and> same_from alive t r (snd (rd_Del c k t r)))"

text \<open>A key that has expired does not come back by itself.\<close>

definition redis_expiry_law :: "'r alive \<Rightarrow> bool" where
  "redis_expiry_law alive \<longleftrightarrow> (\<forall>t t' r k. t \<le> t' \<longrightarrow> alive t' r k = None \<or> alive t' r k = alive t r k)"

definition redis_laws :: "'r redis_client \<Rightarrow> 'r alive \<Rightarrow> bool" where
  "redis_laws c alive \<longleftrightarrow> redis_get_law c alive \<and> redis_set_law c alive \<and> redis_del_law c alive \<and>
     redis_expiry_law alive"

section \<open>The repository\<close>

text \<open>Sending a command: time passes until the server runs it.\<close>

definition redis_do :: "(time \<Rightarrow> 'r \<Rightarrow> 'a \<times> 'r) \<Rightarrow> ('r, 'd, 'a) prog" where
  "redis_do f = do {
     t \<leftarrow> time_Now;
     State (\<lambda>w. case f t (w_redis w) of (x, r') \<Rightarrow> (x, w\<lparr>w_redis := r'\<rparr>)) }"

text \<open>\<open>.Err()\<close> and \<open>.Result()\<close> of a command.\<close>

definition cmd_Err :: "(time \<Rightarrow> 'r \<Rightarrow> go_error option \<times> 'r) \<Rightarrow> ('r, 'd, unit) go" where
  "cmd_Err f = do {
     e \<leftarrow> redis_do f;
     State_Monad.return (case e of None \<Rightarrow> Inr () | Some err \<Rightarrow> Inl err) }"

definition cmd_Result :: "(time \<Rightarrow> 'r \<Rightarrow> (go_error + string) \<times> 'r) \<Rightarrow> ('r, 'd, string) go" where
  "cmd_Result f = redis_do f"

text \<open>The keys: \<open>fmt.Sprintf("refresh_token:%s", token)\<close> and its four companions.\<close>

definition refresh_key :: "string \<Rightarrow> string" where
  "refresh_key token = ''refresh_token:'' @ token"

definition mfa_key :: "string \<Rightarrow> string" where
  "mfa_key token = ''mfa_challenge:'' @ token"

definition email_verify_key :: "string \<Rightarrow> string" where
  "email_verify_key token = ''email_verify:'' @ token"

definition pwd_reset_key :: "string \<Rightarrow> string" where
  "pwd_reset_key token = ''pwd_reset:'' @ token"

definition oauth_state_key :: "string \<Rightarrow> string" where
  "oauth_state_key token = ''oauth_state:'' @ token"

definition StoreRefreshToken :: "'r redis_client \<Rightarrow> string \<Rightarrow> string \<Rightarrow> duration \<Rightarrow> ('r, 'd, unit) go" where
  "StoreRefreshToken rdb userID token ttl = cmd_Err (rd_Set rdb (refresh_key token) userID ttl)"

definition GetUserIDByRefreshToken :: "'r redis_client \<Rightarrow> string \<Rightarrow> ('r, 'd, string) go" where
  "GetUserIDByRefreshToken rdb token = cmd_Result (rd_Get rdb (refresh_key token))"

definition RevokeRefreshToken :: "'r redis_client \<Rightarrow> string \<Rightarrow> ('r, 'd, unit) go" where
  "RevokeRefreshToken rdb token = cmd_Err (rd_Del rdb (refresh_key token))"

definition StoreMFAToken :: "'r redis_client \<Rightarrow> string \<Rightarrow> string \<Rightarrow> duration \<Rightarrow> ('r, 'd, unit) go" where
  "StoreMFAToken rdb mfaToken userID ttl = cmd_Err (rd_Set rdb (mfa_key mfaToken) userID ttl)"

definition GetUserIDByMFAToken :: "'r redis_client \<Rightarrow> string \<Rightarrow> ('r, 'd, string) go" where
  "GetUserIDByMFAToken rdb mfaToken = cmd_Result (rd_Get rdb (mfa_key mfaToken))"

definition RevokeMFAToken :: "'r redis_client \<Rightarrow> string \<Rightarrow> ('r, 'd, unit) go" where
  "RevokeMFAToken rdb mfaToken = cmd_Err (rd_Del rdb (mfa_key mfaToken))"

definition StoreEmailVerifyToken :: "'r redis_client \<Rightarrow> string \<Rightarrow> string \<Rightarrow> duration \<Rightarrow> ('r, 'd, unit) go" where
  "StoreEmailVerifyToken rdb token userID ttl = cmd_Err (rd_Set rdb (email_verify_key token) userID ttl)"

definition GetUserIDByEmailVerifyToken :: "'r redis_client \<Rightarrow> string \<Rightarrow> ('r, 'd, string) go" where
  "GetUserIDByEmailVerifyToken rdb token = cmd_Result (rd_Get rdb (email_verify_key token))"

definition RevokeEmailVerifyToken :: "'r redis_client \<Rightarrow> string \<Rightarrow> ('r, 'd, unit) go" where
  "RevokeEmailVerifyToken rdb token = cmd_Err (rd_Del rdb (email_verify_key token))"

definition StorePasswordResetToken :: "'r redis_client \<Rightarrow> string \<Rightarrow> string \<Rightarrow> duration \<Rightarrow> ('r, 'd, unit) go" where
  "StorePasswordResetToken rdb token userID ttl = cmd_Err (rd_Set rdb (pwd_reset_key token) userID ttl)"

definition GetUserIDByPasswordResetToken :: "'r redis_client \<Rightarrow> string \<Rightarrow> ('r, 'd, string) go" where
  "GetUserIDByPasswordResetToken rdb token = cmd_Result (rd_Get rdb (pwd_reset_key token))"

definition RevokePasswordResetToken :: "'r redis_client \<Rightarrow> string \<Rightarrow> ('r, 'd, unit) go" where
  "RevokePasswordResetToken rdb token = cmd_Err (rd_Del rdb (pwd_reset_key token))"

definition StoreOAuthState :: "'r redis_client \<Rightarrow> string \<Rightarrow> string \<Rightarrow> duration \<Rightarrow> ('r, 'd, unit) go" where
  "StoreOAuthState rdb state provider ttl = cmd_Err (rd_Set rdb (oauth_state_key state) provider ttl)"

definition ValidateAndConsumeOAuthState :: "'r redis_client \<Rightarrow> string \<Rightarrow> string \<Rightarrow> ('r, 'd, bool) prog" where
  "ValidateAndConsumeOAuthState rdb state provider = do {
     let key = oauth_state_key state;
     r \<leftarrow> cmd_Result (rd_Get rdb key);
     case r of
       Inl err \<Rightarrow> State_Monad.return False
     | Inr val \<Rightarrow>
         if val \<noteq> provider then State_Monad.return False
         else do {
           _ \<leftarrow> redis_do (rd_Del rdb key);
           State_Monad.return True } }"

record ('r, 'd) session_repository =
  sr_StoreRefreshToken :: "string \<Rightarrow> string \<Rightarrow> duration \<Rightarrow> ('r, 'd, unit) go"
  sr_GetUserIDByRefreshToken :: "string \<Rightarrow> ('r, 'd, string) go"
  sr_RevokeRefreshToken :: "string \<Rightarrow> ('r, 'd, unit) go"
  sr_StoreMFAToken :: "string \<Rightarrow> string \<Rightarrow> duration \<Rightarrow> ('r, 'd, unit) go"
  sr_GetUserIDByMFAToken :: "string \<Rightarrow> ('r, 'd, string) go"
  sr_RevokeMFAToken :: "string \<Rightarrow> ('r, 'd, unit) go"
  sr_StoreEmailVerifyToken :: "string \<Rightarrow> string \<Rightarrow> duration \<Rightarrow> ('r, 'd, unit) go"
  sr_GetUserIDByEmailVerifyToken :: "string \<Rightarrow> ('r, 'd, string) go"
  sr_RevokeEmailVerifyToken :: "string \<Rightarrow> ('r, 'd, unit) go"
  sr_StorePasswordResetToken :: "string \<Rightarrow> string \<Rightarrow> duration \<Rightarrow> ('r, 'd, unit) go"
  sr_GetUserIDByPasswordResetToken :: "string \<Rightarrow> ('r, 'd, string) go"
  sr_RevokePasswordResetToken :: "string \<Rightarrow> ('r, 'd, unit) go"
  sr_StoreOAuthState :: "string \<Rightarrow> string \<Rightarrow> duration \<Rightarrow> ('r, 'd, unit) go"
  sr_ValidateAndConsumeOAuthState :: "string \<Rightarrow> string \<Rightarrow> ('r, 'd, bool) prog"

definition NewSessionRepository :: "'r redis_client \<Rightarrow> ('r, 'd) session_repository" where
  "NewSessionRepository rdb = \<lparr>
     sr_StoreRefreshToken = StoreRefreshToken rdb,
     sr_GetUserIDByRefreshToken = GetUserIDByRefreshToken rdb,
     sr_RevokeRefreshToken = RevokeRefreshToken rdb,
     sr_StoreMFAToken = StoreMFAToken rdb,
     sr_GetUserIDByMFAToken = GetUserIDByMFAToken rdb,
     sr_RevokeMFAToken = RevokeMFAToken rdb,
     sr_StoreEmailVerifyToken = StoreEmailVerifyToken rdb,
     sr_GetUserIDByEmailVerifyToken = GetUserIDByEmailVerifyToken rdb,
     sr_RevokeEmailVerifyToken = RevokeEmailVerifyToken rdb,
     sr_StorePasswordResetToken = StorePasswordResetToken rdb,
     sr_GetUserIDByPasswordResetToken = GetUserIDByPasswordResetToken rdb,
     sr_RevokePasswordResetToken = RevokePasswordResetToken rdb,
     sr_StoreOAuthState = StoreOAuthState rdb,
     sr_ValidateAndConsumeOAuthState = ValidateAndConsumeOAuthState rdb\<rparr>"

end
