(* ===== verification/Session_Laws.thy ===== *)
theory Session_Laws
  imports Session_Store
begin

text \<open>
  The contract of a token store and what follows from it: a value read is the value stored, a
  token expires, a revoked token stays revoked. The contract is an interface; the refresh, MFA,
  email-verification and password-reset operations of \<open>session_repo.go\<close> all meet it.
\<close>

section \<open>The interface\<close>

locale token_store =
  fixes Inv :: "'w \<Rightarrow> bool"
    and now :: "'w \<Rightarrow> time"
    and tok :: "time \<Rightarrow> 'w \<Rightarrow> string \<Rightarrow> string option"
    and Store :: "string \<Rightarrow> string \<Rightarrow> duration \<Rightarrow> ('w, go_error + unit) state"
    and Get :: "string \<Rightarrow> ('w, go_error + string) state"
    and Revoke :: "string \<Rightarrow> ('w, go_error + unit) state"
  assumes inv_store: "Inv w \<Longrightarrow> Inv (after (Store k v ttl) w)"
    and inv_get: "Inv w \<Longrightarrow> Inv (after (Get k) w)"
    and inv_revoke: "Inv w \<Longrightarrow> Inv (after (Revoke k) w)"
    and now_store: "now w \<le> now (after (Store k v ttl) w)"
    and now_get: "now w \<le> now (after (Get k) w)"
    and now_revoke: "now w \<le> now (after (Revoke k) w)"
    and get_keeps: "Inv w \<Longrightarrow> now (after (Get k) w) \<le> t \<Longrightarrow> tok t (after (Get k) w) = tok t w"
    and get_value: "Inv w \<Longrightarrow> run_state (Get k) w = (Inr v, w') \<Longrightarrow> tok (now w') w k = Some v"
    and store_ok: "Inv w \<Longrightarrow> 0 < ttl \<Longrightarrow> run_state (Store k v ttl) w = (Inr (), w') \<Longrightarrow> now w' \<le> t \<Longrightarrow>
      tok t w' = (tok t w)(k := if t < now w' + ttl then Some v else None)"
    and store_other: "Inv w \<Longrightarrow> 0 < ttl \<Longrightarrow> now (after (Store k v ttl) w) \<le> t \<Longrightarrow> k' \<noteq> k \<Longrightarrow>
      tok t (after (Store k v ttl) w) k' = tok t w k'"
    and revoke_ok: "Inv w \<Longrightarrow> run_state (Revoke k) w = (Inr (), w') \<Longrightarrow> now w' \<le> t \<Longrightarrow>
      tok t w' = (tok t w)(k := None)"
    and revoke_weak: "Inv w \<Longrightarrow> now (after (Revoke k) w) \<le> t \<Longrightarrow>
      tok t (after (Revoke k) w) = tok t w \<or> tok t (after (Revoke k) w) = (tok t w)(k := None)"
    and expiry: "Inv w \<Longrightarrow> t \<le> t' \<Longrightarrow> tok t' w k = None \<or> tok t' w k = tok t w k"

text \<open>Calls on a token store, and a run of them.\<close>

datatype token_call = CStore string string duration | CGet string | CRevoke string

fun stores :: "token_call \<Rightarrow> string \<Rightarrow> bool" where
  "stores (CStore k v ttl) k' \<longleftrightarrow> k = k' \<or> ttl \<le> 0"
| "stores _ k' \<longleftrightarrow> False"

fun call :: "(string \<Rightarrow> string \<Rightarrow> duration \<Rightarrow> ('w, go_error + unit) state) \<Rightarrow>
    (string \<Rightarrow> ('w, go_error + string) state) \<Rightarrow> (string \<Rightarrow> ('w, go_error + unit) state) \<Rightarrow>
    token_call \<Rightarrow> 'w \<Rightarrow> 'w" where
  "call St G R (CStore k v ttl) w = after (St k v ttl) w"
| "call St G R (CGet k) w = after (G k) w"
| "call St G R (CRevoke k) w = after (R k) w"

context token_store
begin

text \<open>\<open>dead k w\<close>: the token shows nothing now and later.\<close>

definition dead :: "string \<Rightarrow> 'w \<Rightarrow> bool" where
  "dead k w \<longleftrightarrow> (\<forall>t \<ge> now w. tok t w k = None)"

lemma dead_get: "Inv w \<Longrightarrow> dead k w \<Longrightarrow> \<exists>e. result (Get k) w = Inl e"
proof (cases "result (Get k) w")
  case (Inr v)
  assume "Inv w" "dead k w"
  from Inr have "run_state (Get k) w = (Inr v, after (Get k) w)" by (simp add: prod_eq_iff)
  with \<open>Inv w\<close> have "tok (now (after (Get k) w)) w k = Some v" by (rule get_value)
  moreover have "tok (now (after (Get k) w)) w k = None"
    using \<open>dead k w\<close> now_get by (auto simp: dead_def)
  ultimately show ?thesis by simp
qed auto

lemma revoke_dead: "Inv w \<Longrightarrow> run_state (Revoke k) w = (Inr (), w') \<Longrightarrow> dead k w'"
  using revoke_ok by (auto simp: dead_def)

lemma call_inv: "Inv w \<Longrightarrow> Inv (call Store Get Revoke c w)"
  by (cases c) (auto simp: inv_store inv_get inv_revoke)

lemma call_now: "now w \<le> now (call Store Get Revoke c w)"
  by (cases c) (auto simp: now_store now_get now_revoke)

lemma call_dead:
  assumes "Inv w" "dead k w" "\<not> stores c k"
  shows "dead k (call Store Get Revoke c w)"
  unfolding dead_def
proof (intro allI impI)
  fix t assume t: "now (call Store Get Revoke c w) \<le> t"
  then have "tok t w k = None" using assms(2) call_now [of w c] by (auto simp: dead_def)
  then show "tok t (call Store Get Revoke c w) k = None"
  proof (cases c)
    case (CStore k' v ttl)
    then show ?thesis using assms t store_other [of w ttl k' v t k] \<open>tok t w k = None\<close> by auto
  next
    case (CGet k')
    then show ?thesis using assms t get_keeps [of w k' t] \<open>tok t w k = None\<close> by auto
  next
    case (CRevoke k')
    then show ?thesis using assms t revoke_weak [of w k' t] \<open>tok t w k = None\<close> by auto
  qed
qed

text \<open>A revoked token is never accepted again, whatever calls on other tokens follow.\<close>

lemma revoked_for_good:
  assumes "Inv w" "dead k w" "\<forall>c \<in> set cs. \<not> stores c k"
  shows "\<exists>e. result (Get k) (fold (call Store Get Revoke) cs w) = Inl e"
  using assms
proof (induction cs arbitrary: w)
  case Nil
  then show ?case by (simp add: dead_get)
next
  case (Cons c cs)
  then have "Inv (call Store Get Revoke c w)" "dead k (call Store Get Revoke c w)"
    by (auto intro: call_inv call_dead)
  with Cons show ?case by simp
qed

lemma get_stored:
  assumes "Inv w" "0 < ttl" "run_state (Store k v ttl) w = (Inr (), w1)"
    and "run_state (Get k) w1 = (Inr u, w2)"
  shows "u = v \<and> now w2 < now w1 + ttl"
proof -
  have "Inv w1" using inv_store [OF assms(1), of k v ttl] assms(3) by simp
  then have "tok (now w2) w1 k = Some u" using assms(4) by (rule get_value)
  moreover have "now w1 \<le> now w2" using now_get [of w1 k] assms(4) by simp
  ultimately show ?thesis
    using store_ok [OF assms(1-3), of "now w2"] by (auto split: if_splits)
qed

end

section \<open>The repository meets it\<close>

lemma run_redis_do:
  "run_state (redis_do f) w =
     (let t = w_clock w + int (w_elapse w 0); x = f t (w_redis w)
      in (fst x, w\<lparr>w_clock := t, w_elapse := \<lambda>i. w_elapse w (Suc i), w_redis := snd x\<rparr>))"
  by (simp add: redis_do_def time_Now_def Let_def case_prod_unfold)

lemma redis_do_clock [simp]:
  "w_clock (after (redis_do f) w) = w_clock w + int (w_elapse w 0)"
  by (simp add: run_redis_do Let_def)

lemma redis_do_redis [simp]:
  "w_redis (after (redis_do f) w) = snd (f (w_clock w + int (w_elapse w 0)) (w_redis w))"
  by (simp add: run_redis_do Let_def)

lemma result_redis_do [simp]:
  "result (redis_do f) w = fst (f (w_clock w + int (w_elapse w 0)) (w_redis w))"
  by (simp add: run_redis_do Let_def)

lemma after_cmd [simp]:
  "after (cmd_Err f) w = after (redis_do f) w" "after (cmd_Result g) w = after (redis_do g) w"
  by (simp_all add: cmd_Err_def cmd_Result_def case_prod_unfold)

lemma cmd_Err_Inr:
  "run_state (cmd_Err f) w = (Inr (), w') \<longleftrightarrow>
     fst (f (w_clock w + int (w_elapse w 0)) (w_redis w)) = None \<and> w' = after (redis_do f) w"
  by (auto simp: cmd_Err_def case_prod_unfold prod_eq_iff split: option.splits)

lemma cmd_Result_Inr:
  "run_state (cmd_Result f) w = (r, w') \<longleftrightarrow>
     fst (f (w_clock w + int (w_elapse w 0)) (w_redis w)) = r \<and> w' = after (redis_do f) w"
  by (auto simp: cmd_Result_def prod_eq_iff)

lemma redis_getD:
  assumes "redis_laws c alive"
  shows "t \<le> t' \<Longrightarrow> alive t' (snd (rd_Get c k t r)) = alive t' r"
    and "fst (rd_Get c k t r) = Inr v \<Longrightarrow> alive t r k = Some v"
    and "fst (rd_Get c k t r) = Inl e \<Longrightarrow> errors_Is e RedisNil \<Longrightarrow> alive t r k = None"
proof -
  have law: "same_from alive t r (snd (rd_Get c k t r))"
    "case fst (rd_Get c k t r) of Inr v \<Rightarrow> alive t r k = Some v
     | Inl e \<Rightarrow> errors_Is e RedisNil \<longrightarrow> alive t r k = None"
    using assms unfolding redis_laws_def redis_get_law_def by blast+
  show "t \<le> t' \<Longrightarrow> alive t' (snd (rd_Get c k t r)) = alive t' r"
    using law(1) unfolding same_from_def by blast
  show "fst (rd_Get c k t r) = Inr v \<Longrightarrow> alive t r k = Some v"
    "fst (rd_Get c k t r) = Inl e \<Longrightarrow> errors_Is e RedisNil \<Longrightarrow> alive t r k = None"
    using law(2) by simp_all
qed

lemma redis_setD:
  assumes "redis_laws c alive" "0 < ttl" "t \<le> t'"
  shows "alive t' (snd (rd_Set c k v ttl t r)) = (alive t' r)(k := if t' < t + ttl then Some v else None) \<or>
     fst (rd_Set c k v ttl t r) \<noteq> None \<and> alive t' (snd (rd_Set c k v ttl t r)) = alive t' r"
  using assms unfolding redis_laws_def redis_set_law_def set_effect_def same_from_def by blast

lemma redis_delD:
  assumes "redis_laws c alive" "t \<le> t'"
  shows "alive t' (snd (rd_Del c k t r)) = (alive t' r)(k := None) \<or>
     fst (rd_Del c k t r) \<noteq> None \<and> alive t' (snd (rd_Del c k t r)) = alive t' r"
  using assms unfolding redis_laws_def redis_del_law_def del_effect_def same_from_def by blast

lemma redis_expiryD:
  "redis_laws c alive \<Longrightarrow> t \<le> t' \<Longrightarrow> alive t' r k = None \<or> alive t' r k = alive t r k"
  by (auto simp: redis_laws_def redis_expiry_law_def)

text \<open>One instance for any key prefix; the four kinds of token differ in the prefix only.\<close>

interpretation keyed: token_store "\<lambda>w. redis_laws rdb alive" w_clock
  "\<lambda>t w k. alive t (w_redis w) (pre @ k)"
  "\<lambda>k v ttl. cmd_Err (rd_Set rdb (pre @ k) v ttl)"
  "\<lambda>k. cmd_Result (rd_Get rdb (pre @ k))"
  "\<lambda>k. cmd_Err (rd_Del rdb (pre @ k))" for rdb alive pre
proof (unfold_locales, goal_cases)
  case (6 w k t)
  then show ?case by (auto simp: redis_getD)
next
  case (7 w k v w')
  then show ?case by (auto simp: cmd_Result_Inr intro: redis_getD)
next
  case (8 w ttl k v w' t)
  then show ?case
    using redis_setD [of rdb alive ttl "w_clock w'" t "pre @ k" v "w_redis w"]
    by (auto simp: cmd_Err_Inr fun_eq_iff)
next
  case (9 w ttl k v t k')
  then show ?case
    using redis_setD [of rdb alive ttl "w_clock w + int (w_elapse w 0)" t "pre @ k" v "w_redis w"]
    by (auto simp: fun_eq_iff)
next
  case (10 w k w' t)
  then show ?case
    using redis_delD [of rdb alive "w_clock w'" t "pre @ k" "w_redis w"] by (auto simp: cmd_Err_Inr fun_eq_iff)
next
  case (11 w k t)
  then show ?case
    using redis_delD [of rdb alive "w_clock w + int (w_elapse w 0)" t "pre @ k" "w_redis w"] by (auto simp: fun_eq_iff)
next
  case (12 w t t' k)
  then show ?case using redis_expiryD [of rdb alive t t' "w_redis w" "pre @ k"] by simp
qed auto

text \<open>The four kinds of token of the repository.\<close>

interpretation refresh: token_store "\<lambda>w. redis_laws rdb alive" w_clock
  "\<lambda>t w k. alive t (w_redis w) (refresh_key k)"
  "\<lambda>k v ttl. StoreRefreshToken rdb v k ttl" "GetUserIDByRefreshToken rdb" "RevokeRefreshToken rdb"
  for rdb alive
  unfolding StoreRefreshToken_def GetUserIDByRefreshToken_def RevokeRefreshToken_def refresh_key_def
  by (rule keyed.token_store_axioms)

interpretation mfa: token_store "\<lambda>w. redis_laws rdb alive" w_clock
  "\<lambda>t w k. alive t (w_redis w) (mfa_key k)"
  "StoreMFAToken rdb" "GetUserIDByMFAToken rdb" "RevokeMFAToken rdb" for rdb alive
  unfolding StoreMFAToken_def GetUserIDByMFAToken_def RevokeMFAToken_def mfa_key_def
  by (rule keyed.token_store_axioms)

interpretation email_verify: token_store "\<lambda>w. redis_laws rdb alive" w_clock
  "\<lambda>t w k. alive t (w_redis w) (email_verify_key k)"
  "StoreEmailVerifyToken rdb" "GetUserIDByEmailVerifyToken rdb" "RevokeEmailVerifyToken rdb" for rdb alive
  unfolding StoreEmailVerifyToken_def GetUserIDByEmailVerifyToken_def RevokeEmailVerifyToken_def
    email_verify_key_def
  by (rule keyed.token_store_axioms)

interpretation pwd_reset: token_store "\<lambda>w. redis_laws rdb alive" w_clock
  "\<lambda>t w k. alive t (w_redis w) (pwd_reset_key k)"
  "StorePasswordResetToken rdb" "GetUserIDByPasswordResetToken rdb" "RevokePasswordResetToken rdb"
  for rdb alive
  unfolding StorePasswordResetToken_def GetUserIDByPasswordResetToken_def
    RevokePasswordResetToken_def pwd_reset_key_def
  by (rule keyed.token_store_axioms)

section \<open>Frames\<close>

lemmas session_defs =
  StoreRefreshToken_def GetUserIDByRefreshToken_def RevokeRefreshToken_def
  StoreMFAToken_def GetUserIDByMFAToken_def RevokeMFAToken_def
  StoreEmailVerifyToken_def GetUserIDByEmailVerifyToken_def RevokeEmailVerifyToken_def
  StorePasswordResetToken_def GetUserIDByPasswordResetToken_def RevokePasswordResetToken_def
  StoreOAuthState_def ValidateAndConsumeOAuthState_def

lemma redis_do_frames [frames]:
  "state_io_rel (\<lambda>w w'. w_db w' = w_db w) (redis_do f)"
  "state_io_rel (\<lambda>w w'. w_audit w' = w_audit w) (redis_do f)"
  "state_io_rel (\<lambda>w w'. w_mails w' = w_mails w) (redis_do f)"
  "state_io_rel (\<lambda>w w'. prefix (w_audit w) (w_audit w')) (redis_do f)"
  "state_io_rel (\<lambda>w w'. w_clock w \<le> w_clock w') (redis_do f)"
  by (simp_all add: state_io_rel_def run_redis_do Let_def)

lemma cmd_frames [frames]:
  "state_io_rel R (redis_do f) \<Longrightarrow> state_io_rel R (cmd_Err f)"
  "state_io_rel R (redis_do g) \<Longrightarrow> state_io_rel R (cmd_Result g)"
  by (simp_all add: state_io_rel_def)

section \<open>Key spaces and the OAuth state\<close>

text \<open>The five prefixes begin with different letters, so no two kinds of token share a key.\<close>

lemmas key_defs = refresh_key_def mfa_key_def email_verify_key_def pwd_reset_key_def oauth_state_key_def

lemma prefixes_disjoint [simp]:
  "refresh_key a \<noteq> mfa_key b" "refresh_key a \<noteq> email_verify_key b"
  "refresh_key a \<noteq> pwd_reset_key b" "refresh_key a \<noteq> oauth_state_key b"
  "mfa_key a \<noteq> email_verify_key b" "mfa_key a \<noteq> pwd_reset_key b"
  "mfa_key a \<noteq> oauth_state_key b" "email_verify_key a \<noteq> pwd_reset_key b"
  "email_verify_key a \<noteq> oauth_state_key b" "pwd_reset_key a \<noteq> oauth_state_key b"
  by (simp_all add: key_defs)

lemmas prefixes_disjoint' [simp] = prefixes_disjoint [THEN not_sym]

lemma ValidateAndConsumeOAuthState_True:
  assumes laws: "redis_laws rdb alive"
    and run: "run_state (ValidateAndConsumeOAuthState rdb st prov) w = (True, w')"
  shows "\<exists>t. w_clock w \<le> t \<and> t \<le> w_clock w' \<and> alive t (w_redis w) (oauth_state_key st) = Some prov"
proof -
  obtain r w1 where get: "run_state (cmd_Result (rd_Get rdb (oauth_state_key st))) w = (r, w1)"
    by (cases "run_state (cmd_Result (rd_Get rdb (oauth_state_key st))) w")
  with run have r: "r = Inr prov"
    by (auto simp: ValidateAndConsumeOAuthState_def Let_def split: sum.splits if_splits)
  have "w' = after (redis_do (rd_Del rdb (oauth_state_key st))) w1"
    using run get by (auto simp: ValidateAndConsumeOAuthState_def Let_def r split: prod.splits)
  then have "w_clock w1 \<le> w_clock w'" by simp
  moreover have "w_clock w1 = w_clock w + int (w_elapse w 0)" using get by (auto simp: cmd_Result_Inr)
  moreover have "alive (w_clock w + int (w_elapse w 0)) (w_redis w) (oauth_state_key st) = Some prov"
    using get r by (auto simp: cmd_Result_Inr intro: redis_getD [OF laws])
  ultimately show ?thesis by (intro exI [of _ "w_clock w1"]) simp
qed

end
