(* ===== verification/Auth_Usecase.thy ===== *)
theory Auth_Usecase
  imports Keys Oauth Config Totp User_Contract Session_Laws
begin

text \<open>
  \<open>internal/usecase/auth_usecase.go\<close>, one definition per method, in the order of the source. The
  record has the fields of the Go struct; its last two name the third-party packages the file
  imports. A result that the source throws away (\<open>_ =\<close> or \<open>_, _ :=\<close>) is thrown away here.
\<close>

record ('r, 'd) auth_use_case =
  au_userRepo :: "('r, 'd) user_repository"
  au_sessionRepo :: "('r, 'd) session_repository"
  au_keyManager :: key_manager
  au_totpManager :: totp_manager
  au_emailSender :: "('r, 'd) email_sender"
  au_googleOAuth :: "('r, 'd) provider"
  au_githubOAuth :: "('r, 'd) provider"
  au_cfg :: config
  au_packages :: packages
  au_jwt :: jwt_lib

definition NewAuthUseCase :: "(string \<Rightarrow> string) \<Rightarrow> packages \<Rightarrow> jwt_lib \<Rightarrow> ('r, 'd) user_repository \<Rightarrow>
    ('r, 'd) session_repository \<Rightarrow> key_manager \<Rightarrow> ('r, 'd) email_sender \<Rightarrow> config \<Rightarrow> ('r, 'd) auth_use_case" where
  "NewAuthUseCase getenv P J userRepo sessionRepo keyManager emailSender cfg = \<lparr>
     au_userRepo = userRepo, au_sessionRepo = sessionRepo, au_keyManager = keyManager,
     au_totpManager = NewTOTPManager ''Enterprise Auth'', au_emailSender = emailSender,
     au_googleOAuth = NewGoogleProvider getenv, au_githubOAuth = NewGitHubProvider getenv,
     au_cfg = cfg, au_packages = P, au_jwt = J\<rparr>"

section \<open>Sessions\<close>

definition generateSession :: "('r, 'd) auth_use_case \<Rightarrow> user \<Rightarrow> ('r, 'd, auth_token_response) go" where
  "generateSession u user = do {
     r \<leftarrow> GenerateAccessToken (au_packages u) (au_jwt u) (au_keyManager u) (u_ID user) (u_Email user)
            (u_Role user) (cfg_AccessTokenTTL (au_cfg u));
     case r of
       Inl err \<Rightarrow> fail err
     | Inr accessToken \<Rightarrow> do {
         r \<leftarrow> GenerateSecureToken 32;
         case r of
           Inl err \<Rightarrow> fail err
         | Inr refreshToken \<Rightarrow> do {
             r \<leftarrow> sr_StoreRefreshToken (au_sessionRepo u) (uuid_String (au_packages u) (u_ID user))
                    refreshToken (cfg_RefreshTokenTTL (au_cfg u));
             case r of
               Inl err \<Rightarrow> fail err
             | Inr _ \<Rightarrow> ok (zero_auth_token_response\<lparr>at_AccessToken := accessToken,
                 at_RefreshToken := refreshToken,
                 at_ExpiresIn := int_of_float (Seconds (cfg_AccessTokenTTL (au_cfg u)))\<rparr>) } } }"

section \<open>Registration and login\<close>

definition Register :: "('r, 'd) auth_use_case \<Rightarrow> uuid \<Rightarrow> string \<Rightarrow> string \<Rightarrow> string \<Rightarrow> ('r, 'd, unit) go" where
  "Register u tenantID email password clientIP =
     (case ValidateAndCleanEmail email of
        Inl err \<Rightarrow> fail err
      | Inr cleanedEmail \<Rightarrow>
          (case ValidatePassword password of
             Some err \<Rightarrow> fail err
           | None \<Rightarrow> do {
               r \<leftarrow> bcrypt_GenerateFromPassword (au_packages u) password;
               case r of
                 Inl err \<Rightarrow> fail err
               | Inr hashedPassword \<Rightarrow> do {
                   now \<leftarrow> time_Now;
                   ident \<leftarrow> uuid_New;
                   let user = zero_user\<lparr>u_ID := ident, u_TenantID := tenantID, u_Email := cleanedEmail,
                     u_Password := hashedPassword, u_Role := RoleUser, u_IsActive := True,
                     u_EmailVerified := False, u_CreatedAt := now, u_UpdatedAt := now\<rparr>;
                   r \<leftarrow> ur_Create (au_userRepo u) user;
                   case r of
                     Inl err \<Rightarrow> fail err
                   | Inr _ \<Rightarrow> do {
                       vToken \<leftarrow> ignore_error '''' (GenerateSecureToken 32);
                       _ \<leftarrow> sr_StoreEmailVerifyToken (au_sessionRepo u) vToken
                              (uuid_String (au_packages u) (u_ID user)) (24 * hour);
                       _ \<leftarrow> es_SendVerificationEmail (au_emailSender u) (u_Email user) vToken;
                       audit_Log EventRegisterSuccess cleanedEmail clientIP ''user registered successfully'';
                       ok () } } }))"

definition Login :: "('r, 'd) auth_use_case \<Rightarrow> uuid \<Rightarrow> string \<Rightarrow> string \<Rightarrow> string \<Rightarrow>
    ('r, 'd, auth_token_response) go" where
  "Login u tenantID email password clientIP =
     (case ValidateAndCleanEmail email of
        Inl err \<Rightarrow> do {
          audit_Log EventLoginFailed email clientIP ''invalid email format'';
          fail ErrUnauthorized }
      | Inr cleanedEmail \<Rightarrow> do {
          r \<leftarrow> ur_GetByEmail (au_userRepo u) tenantID cleanedEmail;
          case (case r of Inl err \<Rightarrow> None | Inr user \<Rightarrow> if \<not> u_IsActive user then None else Some user) of
            None \<Rightarrow> do {
              audit_Log EventLoginFailed cleanedEmail clientIP ''user not found or inactive'';
              fail ErrUnauthorized }
          | Some user \<Rightarrow>
              (case bcrypt_CompareHashAndPassword (au_packages u) (u_Password user) password of
                 Some err \<Rightarrow> do {
                   audit_Log EventLoginFailed cleanedEmail clientIP ''invalid credentials'';
                   fail ErrUnauthorized }
               | None \<Rightarrow>
                   if u_MFAEnabled user then do {
                     mfaToken \<leftarrow> ignore_error '''' (GenerateSecureToken 32);
                     _ \<leftarrow> sr_StoreMFAToken (au_sessionRepo u) mfaToken
                            (uuid_String (au_packages u) (u_ID user)) (5 * minute);
                     ok (zero_auth_token_response\<lparr>at_RequiresMFA := True, at_MFAToken := mfaToken\<rparr>) }
                   else do {
                     r \<leftarrow> generateSession u user;
                     case r of
                       Inl err \<Rightarrow> fail err
                     | Inr res \<Rightarrow> do {
                         audit_Log EventLoginSuccess cleanedEmail clientIP ''successful authentication'';
                         ok res } }) })"

section \<open>Second factor\<close>

definition VerifyMFAChallenge :: "('r, 'd) auth_use_case \<Rightarrow> string \<Rightarrow> string \<Rightarrow> string \<Rightarrow>
    ('r, 'd, auth_token_response) go" where
  "VerifyMFAChallenge u mfaToken code clientIP = do {
     r \<leftarrow> sr_GetUserIDByMFAToken (au_sessionRepo u) mfaToken;
     case r of
       Inl err \<Rightarrow> fail ErrInvalidToken
     | Inr userIDStr \<Rightarrow> do {
         let userID = fst (uuid_Parse (au_packages u) userIDStr);
         r \<leftarrow> ur_GetByID (au_userRepo u) userID;
         case (case r of Inl err \<Rightarrow> None | Inr user \<Rightarrow> if \<not> u_IsActive user then None else Some user) of
           None \<Rightarrow> fail ErrUnauthorized
         | Some user \<Rightarrow> do {
             valid \<leftarrow> ValidateCode (au_totpManager u) (u_MFASecret user) code;
             if \<not> valid then do {
               audit_Log EventLoginFailed (u_Email user) clientIP ''invalid MFA code attempt'';
               fail ErrInvalidMFACode }
             else do {
               _ \<leftarrow> sr_RevokeMFAToken (au_sessionRepo u) mfaToken;
               r \<leftarrow> generateSession u user;
               case r of
                 Inl err \<Rightarrow> fail err
               | Inr res \<Rightarrow> do {
                   audit_Log EventLoginSuccess (u_Email user) clientIP ''mfa challenge completed'';
                   ok res } } } } }"

definition SetupMFA :: "('r, 'd) auth_use_case \<Rightarrow> uuid \<Rightarrow> ('r, 'd, string \<times> string) go" where
  "SetupMFA u userID = do {
     r \<leftarrow> ur_GetByID (au_userRepo u) userID;
     case r of
       Inl err \<Rightarrow> fail ErrNotFound
     | Inr user \<Rightarrow> do {
         r \<leftarrow> GenerateSecret;
         case r of
           Inl err \<Rightarrow> fail err
         | Inr secret \<Rightarrow> do {
             now \<leftarrow> time_Now;
             let user = user\<lparr>u_MFASecret := secret, u_UpdatedAt := now\<rparr>;
             r \<leftarrow> ur_Update (au_userRepo u) user;
             case r of
               Inl err \<Rightarrow> fail err
             | Inr _ \<Rightarrow> ok (secret, ProvisioningURI (au_totpManager u) (u_Email user) secret) } } }"

definition ConfirmMFASetup :: "('r, 'd) auth_use_case \<Rightarrow> uuid \<Rightarrow> string \<Rightarrow> ('r, 'd, unit) go" where
  "ConfirmMFASetup u userID code = do {
     r \<leftarrow> ur_GetByID (au_userRepo u) userID;
     case r of
       Inl err \<Rightarrow> fail ErrNotFound
     | Inr user \<Rightarrow> do {
         valid \<leftarrow> ValidateCode (au_totpManager u) (u_MFASecret user) code;
         if \<not> valid then fail ErrInvalidMFACode
         else do {
           now \<leftarrow> time_Now;
           ur_Update (au_userRepo u) (user\<lparr>u_MFAEnabled := True, u_UpdatedAt := now\<rparr>) } } }"

section \<open>Email verification and password reset\<close>

definition RequestEmailVerification :: "('r, 'd) auth_use_case \<Rightarrow> uuid \<Rightarrow> string \<Rightarrow> ('r, 'd, unit) go" where
  "RequestEmailVerification u tenantID email = do {
     r \<leftarrow> ur_GetByEmail (au_userRepo u) tenantID email;
     case r of
       Inl err \<Rightarrow> ok ()
     | Inr user \<Rightarrow> do {
         token \<leftarrow> ignore_error '''' (GenerateSecureToken 32);
         _ \<leftarrow> sr_StoreEmailVerifyToken (au_sessionRepo u) token
                (uuid_String (au_packages u) (u_ID user)) (24 * hour);
         es_SendVerificationEmail (au_emailSender u) (u_Email user) token } }"

definition ConfirmEmailVerification :: "('r, 'd) auth_use_case \<Rightarrow> string \<Rightarrow> ('r, 'd, unit) go" where
  "ConfirmEmailVerification u token = do {
     r \<leftarrow> sr_GetUserIDByEmailVerifyToken (au_sessionRepo u) token;
     case r of
       Inl err \<Rightarrow> fail ErrInvalidToken
     | Inr userIDStr \<Rightarrow> do {
         let userID = fst (uuid_Parse (au_packages u) userIDStr);
         r \<leftarrow> ur_GetByID (au_userRepo u) userID;
         case r of
           Inl err \<Rightarrow> fail ErrNotFound
         | Inr user \<Rightarrow> do {
             now \<leftarrow> time_Now;
             _ \<leftarrow> sr_RevokeEmailVerifyToken (au_sessionRepo u) token;
             ur_Update (au_userRepo u) (user\<lparr>u_EmailVerified := True, u_UpdatedAt := now\<rparr>) } } }"

definition RequestPasswordReset :: "('r, 'd) auth_use_case \<Rightarrow> uuid \<Rightarrow> string \<Rightarrow> ('r, 'd, unit) go" where
  "RequestPasswordReset u tenantID email = do {
     r \<leftarrow> ur_GetByEmail (au_userRepo u) tenantID email;
     case r of
       Inl err \<Rightarrow> ok ()
     | Inr user \<Rightarrow> do {
         token \<leftarrow> ignore_error '''' (GenerateSecureToken 32);
         _ \<leftarrow> sr_StorePasswordResetToken (au_sessionRepo u) token
                (uuid_String (au_packages u) (u_ID user)) (1 * hour);
         es_SendPasswordResetEmail (au_emailSender u) (u_Email user) token } }"

definition ConfirmPasswordReset :: "('r, 'd) auth_use_case \<Rightarrow> string \<Rightarrow> string \<Rightarrow> ('r, 'd, unit) go" where
  "ConfirmPasswordReset u token newPassword =
     (case ValidatePassword newPassword of
        Some err \<Rightarrow> fail err
      | None \<Rightarrow> do {
          r \<leftarrow> sr_GetUserIDByPasswordResetToken (au_sessionRepo u) token;
          case r of
            Inl err \<Rightarrow> fail ErrInvalidToken
          | Inr userIDStr \<Rightarrow> do {
              let userID = fst (uuid_Parse (au_packages u) userIDStr);
              r \<leftarrow> ur_GetByID (au_userRepo u) userID;
              case r of
                Inl err \<Rightarrow> fail ErrNotFound
              | Inr user \<Rightarrow> do {
                  r \<leftarrow> bcrypt_GenerateFromPassword (au_packages u) newPassword;
                  case r of
                    Inl err \<Rightarrow> fail err
                  | Inr hashed \<Rightarrow> do {
                      now \<leftarrow> time_Now;
                      _ \<leftarrow> sr_RevokePasswordResetToken (au_sessionRepo u) token;
                      ur_Update (au_userRepo u) (user\<lparr>u_Password := hashed, u_UpdatedAt := now\<rparr>) } } } })"

section \<open>Federated login\<close>

definition OAuthLoginURL :: "('r, 'd) auth_use_case \<Rightarrow> string \<Rightarrow> ('r, 'd, string \<times> string) go" where
  "OAuthLoginURL u provider = do {
     r \<leftarrow> GenerateSecureToken 24;
     case r of
       Inl err \<Rightarrow> fail err
     | Inr state \<Rightarrow>
         (case (if provider = ''google'' then Some (pv_GetAuthURL (au_googleOAuth u) state)
                else if provider = ''github'' then Some (pv_GetAuthURL (au_githubOAuth u) state)
                else None) of
            None \<Rightarrow> fail (ErrText ''unsupported oauth provider: must be google or github'')
          | Some authURL \<Rightarrow> do {
              r \<leftarrow> sr_StoreOAuthState (au_sessionRepo u) state provider (10 * minute);
              case r of
                Inl err \<Rightarrow> fail err
              | Inr _ \<Rightarrow> ok (authURL, state) }) }"

text \<open>\<open>bcrypt.GenerateFromPassword(randomBytes, \<dots>)\<close> with the error ignored: the hash may be empty.\<close>

definition random_password_hash :: "('r, 'd) auth_use_case \<Rightarrow> ('r, 'd, string) prog" where
  "random_password_hash u = do {
     r \<leftarrow> rand_Read 16;
     ignore_error '''' (bcrypt_GenerateFromPassword (au_packages u) (string_of (fst r))) }"

definition HandleOAuthCallback :: "('r, 'd) auth_use_case \<Rightarrow> uuid \<Rightarrow> string \<Rightarrow> string \<Rightarrow> string \<Rightarrow> string \<Rightarrow>
    ('r, 'd, auth_token_response) go" where
  "HandleOAuthCallback u tenantID provider code state clientIP = do {
     valid \<leftarrow> sr_ValidateAndConsumeOAuthState (au_sessionRepo u) state provider;
     if \<not> valid then do {
       audit_Log EventLoginFailed ''anonymous'' clientIP ''oauth csrf state validation failed'';
       fail (ErrText ''invalid or expired oauth state parameter'') }
     else case (if provider = ''google'' then Some (au_googleOAuth u)
                else if provider = ''github'' then Some (au_githubOAuth u) else None) of
       None \<Rightarrow> fail (ErrText ''unsupported oauth provider'')
     | Some pv \<Rightarrow> do {
         r \<leftarrow> pv_ExchangeCode pv code;
         case r of
           Inl err \<Rightarrow> fail ErrOAuthExchange
         | Inr info \<Rightarrow> do {
             r \<leftarrow> ur_GetByOAuth (au_userRepo u) tenantID provider (ui_Subject info);
             case r of
               Inr user \<Rightarrow> generateSession u user
             | Inl err \<Rightarrow>
                 if errors_Is err ErrNotFound then do {
                   hashed \<leftarrow> random_password_hash u;
                   now \<leftarrow> time_Now;
                   ident \<leftarrow> uuid_New;
                   let user = zero_user\<lparr>u_ID := ident, u_TenantID := tenantID, u_Email := ui_Email info,
                     u_Password := hashed, u_Role := RoleUser, u_IsActive := True,
                     u_EmailVerified := True, u_OAuthProvider := provider,
                     u_OAuthSubject := ui_Subject info, u_CreatedAt := now, u_UpdatedAt := now\<rparr>;
                   r \<leftarrow> ur_Create (au_userRepo u) user;
                   case r of
                     Inl err \<Rightarrow> fail err
                   | Inr _ \<Rightarrow> generateSession u user }
                 else fail err } } }"

section \<open>Refresh and logout\<close>

definition RefreshToken :: "('r, 'd) auth_use_case \<Rightarrow> string \<Rightarrow> string \<Rightarrow> ('r, 'd, auth_token_response) go" where
  "RefreshToken u rawRefreshToken clientIP = do {
     r \<leftarrow> sr_GetUserIDByRefreshToken (au_sessionRepo u) rawRefreshToken;
     case r of
       Inl err \<Rightarrow> if errors_Is err RedisNil then fail ErrInvalidToken else fail err
     | Inr userIDStr \<Rightarrow>
         (case uuid_Parse (au_packages u) userIDStr of
            (_, Some err) \<Rightarrow> fail ErrInvalidToken
          | (userID, None) \<Rightarrow> do {
              r \<leftarrow> ur_GetByID (au_userRepo u) userID;
              case (case r of Inl err \<Rightarrow> None | Inr user \<Rightarrow> if \<not> u_IsActive user then None else Some user) of
                None \<Rightarrow> fail ErrUnauthorized
              | Some user \<Rightarrow> do {
                  _ \<leftarrow> sr_RevokeRefreshToken (au_sessionRepo u) rawRefreshToken;
                  r \<leftarrow> generateSession u user;
                  case r of
                    Inl err \<Rightarrow> fail err
                  | Inr res \<Rightarrow> do {
                      audit_Log EventTokenRefreshed (u_Email user) clientIP ''token refreshed successfully'';
                      ok res } } }) }"

definition Logout :: "('r, 'd) auth_use_case \<Rightarrow> string \<Rightarrow> string \<Rightarrow> ('r, 'd, unit) go" where
  "Logout u rawRefreshToken clientIP = do {
     audit_Log EventSessionRevoked ''anonymous'' clientIP ''session revoked'';
     sr_RevokeRefreshToken (au_sessionRepo u) rawRefreshToken }"

end
