(* ===== verification/Auth_Backend.thy ===== *)
theory Auth_Backend
  imports Auth_Usecase
begin

text \<open>
  What the authentication use cases rely on, as an interface: a user store and four token stores that
  do not disturb each other. The lemmas say what each use case does to them. The interface is met
  by the repositories over PostgreSQL and Redis.
\<close>

section \<open>Two frames\<close>

text \<open>A call that leaves the users alone, and one that leaves one kind of token alone.\<close>

definition keeps_users :: "('w \<Rightarrow> bool) \<Rightarrow> ('w \<Rightarrow> user set) \<Rightarrow> 'w \<Rightarrow> 'w \<Rightarrow> bool" where
  "keeps_users UInv users w w' \<longleftrightarrow> (UInv w \<longrightarrow> UInv w' \<and> users w' = users w)"

definition keeps_tok :: "(('r, 'd) world \<Rightarrow> bool) \<Rightarrow> (time \<Rightarrow> ('r, 'd) world \<Rightarrow> string \<Rightarrow> string option) \<Rightarrow>
    ('r, 'd) world \<Rightarrow> ('r, 'd) world \<Rightarrow> bool" where
  "keeps_tok TInv tok w w' \<longleftrightarrow> w_clock w \<le> w_clock w' \<and>
     (TInv w \<longrightarrow> TInv w' \<and> (\<forall>t \<ge> w_clock w'. tok t w' = tok t w))"

interpretation users_frame: frame "keeps_users UInv users" for UInv users
  by unfold_locales (auto simp: keeps_users_def)

interpretation tok_frame: frame "keeps_tok TInv tok" for TInv tok
  by unfold_locales (auto simp: keeps_tok_def)

lemmas [frames] = users_frame.frame_rules tok_frame.frame_rules

lemma keeps_tokD:
  "keeps_tok TInv tok w w' \<Longrightarrow> TInv w \<Longrightarrow> TInv w' \<and> w_clock w \<le> w_clock w' \<and> (\<forall>t \<ge> w_clock w'. tok t w' = tok t w)"
  by (simp add: keeps_tok_def)

text \<open>The error-propagating step \<open>if err != nil { return \<dots> }\<close>, read backwards.\<close>

lemma go_caseE:
  assumes "run_state (do { r \<leftarrow> m; case r of Inl e \<Rightarrow> f e | Inr x \<Rightarrow> g x }) w = (y, w')"
  obtains (err) e w1 where "run_state m w = (Inl e, w1)" "run_state (f e) w1 = (y, w')"
  | (ok) x w1 where "run_state m w = (Inr x, w1)" "run_state (g x) w1 = (y, w')"
  using assms by (cases "run_state m w"; cases "fst (run_state m w)") auto

lemma ok_run [simp]: "run_state (State_Monad.return x) w = (y, w') \<longleftrightarrow> y = x \<and> w' = w"
  by (auto simp: State_Monad.return_def)

section \<open>The interface\<close>

locale auth_backend =
  us: user_store UInv users "ur_Create (au_userRepo u)" "ur_GetByEmail (au_userRepo u)"
    "ur_GetByID (au_userRepo u)" "ur_GetByOAuth (au_userRepo u)" "ur_GetByExternalID (au_userRepo u)"
    "ur_Update (au_userRepo u)" "ur_Delete (au_userRepo u)" +
  rt: token_store TInv w_clock rtok "\<lambda>k v ttl. sr_StoreRefreshToken (au_sessionRepo u) v k ttl"
    "sr_GetUserIDByRefreshToken (au_sessionRepo u)" "sr_RevokeRefreshToken (au_sessionRepo u)" +
  mt: token_store TInv w_clock mtok "sr_StoreMFAToken (au_sessionRepo u)"
    "sr_GetUserIDByMFAToken (au_sessionRepo u)" "sr_RevokeMFAToken (au_sessionRepo u)" +
  et: token_store TInv w_clock etok "sr_StoreEmailVerifyToken (au_sessionRepo u)"
    "sr_GetUserIDByEmailVerifyToken (au_sessionRepo u)" "sr_RevokeEmailVerifyToken (au_sessionRepo u)" +
  pt: token_store TInv w_clock ptok "sr_StorePasswordResetToken (au_sessionRepo u)"
    "sr_GetUserIDByPasswordResetToken (au_sessionRepo u)" "sr_RevokePasswordResetToken (au_sessionRepo u)"
  for u :: "('r, 'd) auth_use_case" and UInv users TInv rtok mtok etok ptok +
  fixes otok :: "time \<Rightarrow> ('r, 'd) world \<Rightarrow> string \<Rightarrow> string option"
  assumes oauth_state: "TInv w \<Longrightarrow> run_state (sr_ValidateAndConsumeOAuthState (au_sessionRepo u) st prov) w = (True, w') \<Longrightarrow>
      \<exists>t. w_clock w \<le> t \<and> t \<le> w_clock w' \<and> otok t w st = Some prov"
    and users_local: "w_db w' = w_db w \<Longrightarrow> UInv w' = UInv w \<and> users w' = users w"
    and toks_local: "w_redis w' = w_redis w \<Longrightarrow> TInv w' = TInv w \<and> rtok t w' = rtok t w \<and>
      mtok t w' = mtok t w \<and> etok t w' = etok t w \<and> ptok t w' = ptok t w"
    and session_db:
      "state_io_rel (\<lambda>w w'. w_db w' = w_db w) (sr_StoreRefreshToken (au_sessionRepo u) a b ttl)"
      "state_io_rel (\<lambda>w w'. w_db w' = w_db w) (sr_GetUserIDByRefreshToken (au_sessionRepo u) a)"
      "state_io_rel (\<lambda>w w'. w_db w' = w_db w) (sr_RevokeRefreshToken (au_sessionRepo u) a)"
      "state_io_rel (\<lambda>w w'. w_db w' = w_db w) (sr_StoreMFAToken (au_sessionRepo u) a b ttl)"
      "state_io_rel (\<lambda>w w'. w_db w' = w_db w) (sr_GetUserIDByMFAToken (au_sessionRepo u) a)"
      "state_io_rel (\<lambda>w w'. w_db w' = w_db w) (sr_RevokeMFAToken (au_sessionRepo u) a)"
      "state_io_rel (\<lambda>w w'. w_db w' = w_db w) (sr_StoreEmailVerifyToken (au_sessionRepo u) a b ttl)"
      "state_io_rel (\<lambda>w w'. w_db w' = w_db w) (sr_GetUserIDByEmailVerifyToken (au_sessionRepo u) a)"
      "state_io_rel (\<lambda>w w'. w_db w' = w_db w) (sr_RevokeEmailVerifyToken (au_sessionRepo u) a)"
      "state_io_rel (\<lambda>w w'. w_db w' = w_db w) (sr_StorePasswordResetToken (au_sessionRepo u) a b ttl)"
      "state_io_rel (\<lambda>w w'. w_db w' = w_db w) (sr_GetUserIDByPasswordResetToken (au_sessionRepo u) a)"
      "state_io_rel (\<lambda>w w'. w_db w' = w_db w) (sr_RevokePasswordResetToken (au_sessionRepo u) a)"
      "state_io_rel (\<lambda>w w'. w_db w' = w_db w) (sr_StoreOAuthState (au_sessionRepo u) a b ttl)"
      "state_io_rel (\<lambda>w w'. w_db w' = w_db w) (sr_ValidateAndConsumeOAuthState (au_sessionRepo u) a b)"
    and session_rtok:
      "0 < ttl \<Longrightarrow> state_io_rel (keeps_tok TInv rtok) (sr_StoreMFAToken (au_sessionRepo u) a b ttl)"
      "state_io_rel (keeps_tok TInv rtok) (sr_GetUserIDByMFAToken (au_sessionRepo u) a)"
      "state_io_rel (keeps_tok TInv rtok) (sr_RevokeMFAToken (au_sessionRepo u) a)"
      "0 < ttl \<Longrightarrow> state_io_rel (keeps_tok TInv rtok) (sr_StoreEmailVerifyToken (au_sessionRepo u) a b ttl)"
      "state_io_rel (keeps_tok TInv rtok) (sr_GetUserIDByEmailVerifyToken (au_sessionRepo u) a)"
      "state_io_rel (keeps_tok TInv rtok) (sr_RevokeEmailVerifyToken (au_sessionRepo u) a)"
      "0 < ttl \<Longrightarrow> state_io_rel (keeps_tok TInv rtok) (sr_StorePasswordResetToken (au_sessionRepo u) a b ttl)"
      "state_io_rel (keeps_tok TInv rtok) (sr_GetUserIDByPasswordResetToken (au_sessionRepo u) a)"
      "state_io_rel (keeps_tok TInv rtok) (sr_RevokePasswordResetToken (au_sessionRepo u) a)"
      "0 < ttl \<Longrightarrow> state_io_rel (keeps_tok TInv rtok) (sr_StoreOAuthState (au_sessionRepo u) a b ttl)"
      "state_io_rel (keeps_tok TInv rtok) (sr_ValidateAndConsumeOAuthState (au_sessionRepo u) a b)"
    and session_mtok:
      "0 < ttl \<Longrightarrow> state_io_rel (keeps_tok TInv mtok) (sr_StoreRefreshToken (au_sessionRepo u) a b ttl)"
    and repo_redis:
      "state_io_rel (\<lambda>w w'. w_redis w' = w_redis w) (ur_Create (au_userRepo u) x)"
      "state_io_rel (\<lambda>w w'. w_redis w' = w_redis w) (ur_GetByEmail (au_userRepo u) i a)"
      "state_io_rel (\<lambda>w w'. w_redis w' = w_redis w) (ur_GetByID (au_userRepo u) i)"
      "state_io_rel (\<lambda>w w'. w_redis w' = w_redis w) (ur_GetByOAuth (au_userRepo u) i a b)"
      "state_io_rel (\<lambda>w w'. w_redis w' = w_redis w) (ur_Update (au_userRepo u) x)"
    and repo_clock:
      "state_io_rel (\<lambda>w w'. w_clock w \<le> w_clock w') (ur_Create (au_userRepo u) x)"
      "state_io_rel (\<lambda>w w'. w_clock w \<le> w_clock w') (ur_GetByEmail (au_userRepo u) i a)"
      "state_io_rel (\<lambda>w w'. w_clock w \<le> w_clock w') (ur_GetByID (au_userRepo u) i)"
      "state_io_rel (\<lambda>w w'. w_clock w \<le> w_clock w') (ur_GetByOAuth (au_userRepo u) i a b)"
      "state_io_rel (\<lambda>w w'. w_clock w \<le> w_clock w') (ur_Update (au_userRepo u) x)"
    and outside_db:
      "state_io_rel (\<lambda>w w'. w_db w' = w_db w) (es_SendVerificationEmail (au_emailSender u) a b)"
      "state_io_rel (\<lambda>w w'. w_db w' = w_db w) (es_SendPasswordResetEmail (au_emailSender u) a b)"
      "state_io_rel (\<lambda>w w'. w_db w' = w_db w) (pv_ExchangeCode (au_googleOAuth u) a)"
      "state_io_rel (\<lambda>w w'. w_db w' = w_db w) (pv_ExchangeCode (au_githubOAuth u) a)"
    and outside_redis:
      "state_io_rel (\<lambda>w w'. w_redis w' = w_redis w) (es_SendVerificationEmail (au_emailSender u) a b)"
      "state_io_rel (\<lambda>w w'. w_redis w' = w_redis w) (es_SendPasswordResetEmail (au_emailSender u) a b)"
      "state_io_rel (\<lambda>w w'. w_redis w' = w_redis w) (pv_ExchangeCode (au_googleOAuth u) a)"
      "state_io_rel (\<lambda>w w'. w_redis w' = w_redis w) (pv_ExchangeCode (au_githubOAuth u) a)"
    and outside_clock:
      "state_io_rel (\<lambda>w w'. w_clock w \<le> w_clock w') (es_SendVerificationEmail (au_emailSender u) a b)"
      "state_io_rel (\<lambda>w w'. w_clock w \<le> w_clock w') (es_SendPasswordResetEmail (au_emailSender u) a b)"
      "state_io_rel (\<lambda>w w'. w_clock w \<le> w_clock w') (pv_ExchangeCode (au_googleOAuth u) a)"
      "state_io_rel (\<lambda>w w'. w_clock w \<le> w_clock w') (pv_ExchangeCode (au_githubOAuth u) a)"

section \<open>PostgreSQL and Redis meet it\<close>

text \<open>The use case as \<open>main\<close> wires it.\<close>

definition auth_system :: "(string \<Rightarrow> string) \<Rightarrow> packages \<Rightarrow> jwt_lib \<Rightarrow> 'd pgx_pool \<Rightarrow> 'r redis_client \<Rightarrow>
    key_manager \<Rightarrow> config \<Rightarrow> ('r, 'd) auth_use_case" where
  "auth_system getenv P J db rdb km cfg =
     NewAuthUseCase getenv P J (NewUserRepository db) (NewSessionRepository rdb) km NewConsoleEmailSender cfg"

lemma auth_system_simps [simp]:
  "au_userRepo (auth_system getenv P J db rdb km cfg) = NewUserRepository db"
  "au_sessionRepo (auth_system getenv P J db rdb km cfg) = NewSessionRepository rdb"
  "au_keyManager (auth_system getenv P J db rdb km cfg) = km"
  "au_totpManager (auth_system getenv P J db rdb km cfg) = NewTOTPManager ''Enterprise Auth''"
  "au_emailSender (auth_system getenv P J db rdb km cfg) = NewConsoleEmailSender"
  "au_googleOAuth (auth_system getenv P J db rdb km cfg) = NewGoogleProvider getenv"
  "au_githubOAuth (auth_system getenv P J db rdb km cfg) = NewGitHubProvider getenv"
  "au_cfg (auth_system getenv P J db rdb km cfg) = cfg"
  "au_packages (auth_system getenv P J db rdb km cfg) = P"
  "au_jwt (auth_system getenv P J db rdb km cfg) = J"
  by (simp_all add: auth_system_def NewAuthUseCase_def)

lemma repository_simps [simp]:
  "ur_Create (NewUserRepository db) = Create db" "ur_GetByEmail (NewUserRepository db) = GetByEmail db"
  "ur_GetByID (NewUserRepository db) = GetByID db" "ur_GetByOAuth (NewUserRepository db) = GetByOAuth db"
  "ur_GetByExternalID (NewUserRepository db) = GetByExternalID db"
  "ur_Update (NewUserRepository db) = Update db" "ur_Delete (NewUserRepository db) = Delete db"
  "ur_List (NewUserRepository db) = List db"
  by (simp_all add: NewUserRepository_def)

lemma session_simps [simp]:
  "sr_StoreRefreshToken (NewSessionRepository rdb) = StoreRefreshToken rdb"
  "sr_GetUserIDByRefreshToken (NewSessionRepository rdb) = GetUserIDByRefreshToken rdb"
  "sr_RevokeRefreshToken (NewSessionRepository rdb) = RevokeRefreshToken rdb"
  "sr_StoreMFAToken (NewSessionRepository rdb) = StoreMFAToken rdb"
  "sr_GetUserIDByMFAToken (NewSessionRepository rdb) = GetUserIDByMFAToken rdb"
  "sr_RevokeMFAToken (NewSessionRepository rdb) = RevokeMFAToken rdb"
  "sr_StoreEmailVerifyToken (NewSessionRepository rdb) = StoreEmailVerifyToken rdb"
  "sr_GetUserIDByEmailVerifyToken (NewSessionRepository rdb) = GetUserIDByEmailVerifyToken rdb"
  "sr_RevokeEmailVerifyToken (NewSessionRepository rdb) = RevokeEmailVerifyToken rdb"
  "sr_StorePasswordResetToken (NewSessionRepository rdb) = StorePasswordResetToken rdb"
  "sr_GetUserIDByPasswordResetToken (NewSessionRepository rdb) = GetUserIDByPasswordResetToken rdb"
  "sr_RevokePasswordResetToken (NewSessionRepository rdb) = RevokePasswordResetToken rdb"
  "sr_StoreOAuthState (NewSessionRepository rdb) = StoreOAuthState rdb"
  "sr_ValidateAndConsumeOAuthState (NewSessionRepository rdb) = ValidateAndConsumeOAuthState rdb"
  by (simp_all add: NewSessionRepository_def)

text \<open>Each repository stays on its side.\<close>

lemma db_do_frames [frames]:
  "state_io_rel (\<lambda>w w'. w_redis w' = w_redis w) (db_do f)"
  "state_io_rel (\<lambda>w w'. w_audit w' = w_audit w) (db_do f)"
  "state_io_rel (\<lambda>w w'. w_mails w' = w_mails w) (db_do f)"
  "state_io_rel (\<lambda>w w'. prefix (w_audit w) (w_audit w')) (db_do f)"
  "state_io_rel (\<lambda>w w'. w_clock w \<le> w_clock w') (db_do f)"
  by (simp_all add: state_io_rel_def)

lemmas repository_defs = Create_exec Update_exec Delete_def select_user_def
  GetByEmail_def GetByID_def GetByOAuth_def GetByExternalID_def

lemma redis_set_other:
  "redis_laws rdb alive \<Longrightarrow> 0 < ttl \<Longrightarrow> t \<le> t' \<Longrightarrow> k \<noteq> key \<Longrightarrow>
     alive t' (snd (rd_Set rdb key v ttl t r)) k = alive t' r k"
  using redis_setD [of rdb alive ttl t t' key v r] by auto

lemma redis_del_other:
  "redis_laws rdb alive \<Longrightarrow> t \<le> t' \<Longrightarrow> k \<noteq> key \<Longrightarrow> alive t' (snd (rd_Del rdb key t r)) k = alive t' r k"
  using redis_delD [of rdb alive t t' key r] by auto

text \<open>A write under a key of one kind leaves the other kinds alone.\<close>

lemma redis_keeps_tok:
  assumes "\<And>k'. key \<noteq> f k'"
  shows "0 < ttl \<Longrightarrow> state_io_rel (keeps_tok (\<lambda>w. redis_laws rdb alive) (\<lambda>t w k. alive t (w_redis w) (f k)))
      (cmd_Err (rd_Set rdb key v ttl))"
    and "state_io_rel (keeps_tok (\<lambda>w. redis_laws rdb alive) (\<lambda>t w k. alive t (w_redis w) (f k)))
      (cmd_Err (rd_Del rdb key))"
    and "state_io_rel (keeps_tok (\<lambda>w. redis_laws rdb alive) (\<lambda>t w k. alive t (w_redis w) (f k)))
      (redis_do (rd_Del rdb key))"
    and "state_io_rel (keeps_tok (\<lambda>w. redis_laws rdb alive) (\<lambda>t w k. alive t (w_redis w) (f k)))
      (cmd_Result (rd_Get rdb key))"
proof -
  have f: "f k' \<noteq> key" for k' using assms [of k'] by metis
  show "0 < ttl \<Longrightarrow> state_io_rel (keeps_tok (\<lambda>w. redis_laws rdb alive) (\<lambda>t w k. alive t (w_redis w) (f k)))
      (cmd_Err (rd_Set rdb key v ttl))"
    by (auto simp: state_io_rel_def keeps_tok_def f fun_eq_iff redis_set_other)
  show "state_io_rel (keeps_tok (\<lambda>w. redis_laws rdb alive) (\<lambda>t w k. alive t (w_redis w) (f k)))
      (cmd_Err (rd_Del rdb key))"
    "state_io_rel (keeps_tok (\<lambda>w. redis_laws rdb alive) (\<lambda>t w k. alive t (w_redis w) (f k)))
      (redis_do (rd_Del rdb key))"
    by (simp_all add: state_io_rel_def keeps_tok_def f fun_eq_iff redis_del_other)
  show "state_io_rel (keeps_tok (\<lambda>w. redis_laws rdb alive) (\<lambda>t w k. alive t (w_redis w) (f k)))
      (cmd_Result (rd_Get rdb key))"
    by (auto simp: state_io_rel_def keeps_tok_def redis_getD)
qed


lemma session_db_frames [frames]:
  "state_io_rel (\<lambda>w w'. w_db w' = w_db w) (StoreRefreshToken rdb a b ttl)"
  "state_io_rel (\<lambda>w w'. w_db w' = w_db w) (GetUserIDByRefreshToken rdb a)"
  "state_io_rel (\<lambda>w w'. w_db w' = w_db w) (RevokeRefreshToken rdb a)"
  "state_io_rel (\<lambda>w w'. w_db w' = w_db w) (StoreMFAToken rdb a b ttl)"
  "state_io_rel (\<lambda>w w'. w_db w' = w_db w) (GetUserIDByMFAToken rdb a)"
  "state_io_rel (\<lambda>w w'. w_db w' = w_db w) (RevokeMFAToken rdb a)"
  "state_io_rel (\<lambda>w w'. w_db w' = w_db w) (StoreEmailVerifyToken rdb a b ttl)"
  "state_io_rel (\<lambda>w w'. w_db w' = w_db w) (GetUserIDByEmailVerifyToken rdb a)"
  "state_io_rel (\<lambda>w w'. w_db w' = w_db w) (RevokeEmailVerifyToken rdb a)"
  "state_io_rel (\<lambda>w w'. w_db w' = w_db w) (StorePasswordResetToken rdb a b ttl)"
  "state_io_rel (\<lambda>w w'. w_db w' = w_db w) (GetUserIDByPasswordResetToken rdb a)"
  "state_io_rel (\<lambda>w w'. w_db w' = w_db w) (RevokePasswordResetToken rdb a)"
  "state_io_rel (\<lambda>w w'. w_db w' = w_db w) (StoreOAuthState rdb a b ttl)"
  "state_io_rel (\<lambda>w w'. w_db w' = w_db w) (ValidateAndConsumeOAuthState rdb a b)"
  unfolding session_defs Let_def by (intro frames)+

lemma session_prefix_frames [frames]:
  "state_io_rel (\<lambda>w w'. prefix (w_audit w) (w_audit w')) (StoreRefreshToken rdb a b ttl)"
  "state_io_rel (\<lambda>w w'. prefix (w_audit w) (w_audit w')) (GetUserIDByRefreshToken rdb a)"
  "state_io_rel (\<lambda>w w'. prefix (w_audit w) (w_audit w')) (RevokeRefreshToken rdb a)"
  "state_io_rel (\<lambda>w w'. prefix (w_audit w) (w_audit w')) (StoreMFAToken rdb a b ttl)"
  "state_io_rel (\<lambda>w w'. prefix (w_audit w) (w_audit w')) (GetUserIDByMFAToken rdb a)"
  "state_io_rel (\<lambda>w w'. prefix (w_audit w) (w_audit w')) (RevokeMFAToken rdb a)"
  "state_io_rel (\<lambda>w w'. prefix (w_audit w) (w_audit w')) (StoreEmailVerifyToken rdb a b ttl)"
  "state_io_rel (\<lambda>w w'. prefix (w_audit w) (w_audit w')) (GetUserIDByEmailVerifyToken rdb a)"
  "state_io_rel (\<lambda>w w'. prefix (w_audit w) (w_audit w')) (RevokeEmailVerifyToken rdb a)"
  "state_io_rel (\<lambda>w w'. prefix (w_audit w) (w_audit w')) (StorePasswordResetToken rdb a b ttl)"
  "state_io_rel (\<lambda>w w'. prefix (w_audit w) (w_audit w')) (GetUserIDByPasswordResetToken rdb a)"
  "state_io_rel (\<lambda>w w'. prefix (w_audit w) (w_audit w')) (RevokePasswordResetToken rdb a)"
  "state_io_rel (\<lambda>w w'. prefix (w_audit w) (w_audit w')) (StoreOAuthState rdb a b ttl)"
  "state_io_rel (\<lambda>w w'. prefix (w_audit w) (w_audit w')) (ValidateAndConsumeOAuthState rdb a b)"
  unfolding session_defs Let_def by (intro frames)+

lemma session_clock_frames [frames]:
  "state_io_rel (\<lambda>w w'. w_clock w \<le> w_clock w') (StoreRefreshToken rdb a b ttl)"
  "state_io_rel (\<lambda>w w'. w_clock w \<le> w_clock w') (GetUserIDByRefreshToken rdb a)"
  "state_io_rel (\<lambda>w w'. w_clock w \<le> w_clock w') (RevokeRefreshToken rdb a)"
  "state_io_rel (\<lambda>w w'. w_clock w \<le> w_clock w') (StoreMFAToken rdb a b ttl)"
  "state_io_rel (\<lambda>w w'. w_clock w \<le> w_clock w') (GetUserIDByMFAToken rdb a)"
  "state_io_rel (\<lambda>w w'. w_clock w \<le> w_clock w') (RevokeMFAToken rdb a)"
  "state_io_rel (\<lambda>w w'. w_clock w \<le> w_clock w') (StoreEmailVerifyToken rdb a b ttl)"
  "state_io_rel (\<lambda>w w'. w_clock w \<le> w_clock w') (GetUserIDByEmailVerifyToken rdb a)"
  "state_io_rel (\<lambda>w w'. w_clock w \<le> w_clock w') (RevokeEmailVerifyToken rdb a)"
  "state_io_rel (\<lambda>w w'. w_clock w \<le> w_clock w') (StorePasswordResetToken rdb a b ttl)"
  "state_io_rel (\<lambda>w w'. w_clock w \<le> w_clock w') (GetUserIDByPasswordResetToken rdb a)"
  "state_io_rel (\<lambda>w w'. w_clock w \<le> w_clock w') (RevokePasswordResetToken rdb a)"
  "state_io_rel (\<lambda>w w'. w_clock w \<le> w_clock w') (StoreOAuthState rdb a b ttl)"
  "state_io_rel (\<lambda>w w'. w_clock w \<le> w_clock w') (ValidateAndConsumeOAuthState rdb a b)"
  unfolding session_defs Let_def by (intro frames)+

lemma repository_redis_frames [frames]:
  "state_io_rel (\<lambda>w w'. w_redis w' = w_redis w) (Create db u)"
  "state_io_rel (\<lambda>w w'. w_redis w' = w_redis w) (GetByEmail db i e)"
  "state_io_rel (\<lambda>w w'. w_redis w' = w_redis w) (GetByID db i)"
  "state_io_rel (\<lambda>w w'. w_redis w' = w_redis w) (GetByOAuth db i p s)"
  "state_io_rel (\<lambda>w w'. w_redis w' = w_redis w) (GetByExternalID db i x)"
  "state_io_rel (\<lambda>w w'. w_redis w' = w_redis w) (Update db u)"
  "state_io_rel (\<lambda>w w'. w_redis w' = w_redis w) (Delete db i)"
  unfolding repository_defs Let_def by (intro frames)+

lemma repository_prefix_frames [frames]:
  "state_io_rel (\<lambda>w w'. prefix (w_audit w) (w_audit w')) (Create db u)"
  "state_io_rel (\<lambda>w w'. prefix (w_audit w) (w_audit w')) (GetByEmail db i e)"
  "state_io_rel (\<lambda>w w'. prefix (w_audit w) (w_audit w')) (GetByID db i)"
  "state_io_rel (\<lambda>w w'. prefix (w_audit w) (w_audit w')) (GetByOAuth db i p s)"
  "state_io_rel (\<lambda>w w'. prefix (w_audit w) (w_audit w')) (GetByExternalID db i x)"
  "state_io_rel (\<lambda>w w'. prefix (w_audit w) (w_audit w')) (Update db u)"
  "state_io_rel (\<lambda>w w'. prefix (w_audit w) (w_audit w')) (Delete db i)"
  unfolding repository_defs Let_def by (intro frames)+

lemma repository_clock_frames [frames]:
  "state_io_rel (\<lambda>w w'. w_clock w \<le> w_clock w') (Create db u)"
  "state_io_rel (\<lambda>w w'. w_clock w \<le> w_clock w') (GetByEmail db i e)"
  "state_io_rel (\<lambda>w w'. w_clock w \<le> w_clock w') (GetByID db i)"
  "state_io_rel (\<lambda>w w'. w_clock w \<le> w_clock w') (GetByOAuth db i p s)"
  "state_io_rel (\<lambda>w w'. w_clock w \<le> w_clock w') (GetByExternalID db i x)"
  "state_io_rel (\<lambda>w w'. w_clock w \<le> w_clock w') (Update db u)"
  "state_io_rel (\<lambda>w w'. w_clock w \<le> w_clock w') (Delete db i)"
  unfolding repository_defs Let_def by (intro frames)+

text \<open>Only the refresh operations touch refresh tokens.\<close>

lemma session_rtok_frames:
  "0 < ttl \<Longrightarrow> state_io_rel (keeps_tok (\<lambda>w. redis_laws rdb alive) (\<lambda>t w k. alive t (w_redis w) (refresh_key k))) (StoreMFAToken rdb a b ttl)"
  "state_io_rel (keeps_tok (\<lambda>w. redis_laws rdb alive) (\<lambda>t w k. alive t (w_redis w) (refresh_key k))) (GetUserIDByMFAToken rdb a)"
  "state_io_rel (keeps_tok (\<lambda>w. redis_laws rdb alive) (\<lambda>t w k. alive t (w_redis w) (refresh_key k))) (RevokeMFAToken rdb a)"
  "0 < ttl \<Longrightarrow> state_io_rel (keeps_tok (\<lambda>w. redis_laws rdb alive) (\<lambda>t w k. alive t (w_redis w) (refresh_key k))) (StoreEmailVerifyToken rdb a b ttl)"
  "state_io_rel (keeps_tok (\<lambda>w. redis_laws rdb alive) (\<lambda>t w k. alive t (w_redis w) (refresh_key k))) (GetUserIDByEmailVerifyToken rdb a)"
  "state_io_rel (keeps_tok (\<lambda>w. redis_laws rdb alive) (\<lambda>t w k. alive t (w_redis w) (refresh_key k))) (RevokeEmailVerifyToken rdb a)"
  "0 < ttl \<Longrightarrow> state_io_rel (keeps_tok (\<lambda>w. redis_laws rdb alive) (\<lambda>t w k. alive t (w_redis w) (refresh_key k))) (StorePasswordResetToken rdb a b ttl)"
  "state_io_rel (keeps_tok (\<lambda>w. redis_laws rdb alive) (\<lambda>t w k. alive t (w_redis w) (refresh_key k))) (GetUserIDByPasswordResetToken rdb a)"
  "state_io_rel (keeps_tok (\<lambda>w. redis_laws rdb alive) (\<lambda>t w k. alive t (w_redis w) (refresh_key k))) (RevokePasswordResetToken rdb a)"
  "0 < ttl \<Longrightarrow> state_io_rel (keeps_tok (\<lambda>w. redis_laws rdb alive) (\<lambda>t w k. alive t (w_redis w) (refresh_key k))) (StoreOAuthState rdb a b ttl)"
  unfolding session_defs Let_def by (intro redis_keeps_tok; simp)+

lemma oauth_rtok_frame:
  "state_io_rel (keeps_tok (\<lambda>w. redis_laws rdb alive) (\<lambda>t w k. alive t (w_redis w) (refresh_key k))) (ValidateAndConsumeOAuthState rdb a b)"
  unfolding session_defs Let_def
  by (intro tok_frame.bind_frame tok_frame.sum_frame tok_frame.if_frame tok_frame.return_frame redis_keeps_tok) simp_all

lemma store_refresh_mtok_frame:
  "0 < ttl \<Longrightarrow> state_io_rel (keeps_tok (\<lambda>w. redis_laws rdb alive) (\<lambda>t w k. alive t (w_redis w) (mfa_key k))) (StoreRefreshToken rdb a b ttl)"
  unfolding session_defs by (intro redis_keeps_tok) simp_all

lemmas outside_defs = NewConsoleEmailSender_def email_sender.simps
  NewGoogleProvider_def NewGitHubProvider_def provider.simps Let_def

interpretation auth: auth_backend "auth_system getenv P J db rdb km cfg" "pg_inv db tbl" "pg_users tbl"
  "\<lambda>w. redis_laws rdb alive" "\<lambda>t w k. alive t (w_redis w) (refresh_key k)"
  "\<lambda>t w k. alive t (w_redis w) (mfa_key k)" "\<lambda>t w k. alive t (w_redis w) (email_verify_key k)"
  "\<lambda>t w k. alive t (w_redis w) (pwd_reset_key k)" "\<lambda>t w k. alive t (w_redis w) (oauth_state_key k)" for getenv P J db rdb km cfg tbl alive
proof (intro auth_backend.intro auth_backend_axioms.intro, unfold auth_system_simps repository_simps session_simps,
    goal_cases)
  case 1 show ?case by (rule pg.user_store_axioms)
next
  case 2 show ?case by (rule refresh.token_store_axioms)
next
  case 3 show ?case by (rule mfa.token_store_axioms)
next
  case 4 show ?case by (rule email_verify.token_store_axioms)
next
  case 5 show ?case by (rule pwd_reset.token_store_axioms)
next
  case 6 then show ?case by (blast intro: ValidateAndConsumeOAuthState_True)
next
  case 7 then show ?case by (simp add: pg_inv_def pg_users_def)
next
  case 8 then show ?case by simp
qed (unfold outside_defs,
    (intro frames session_rtok_frames oauth_rtok_frame store_refresh_mtok_frame; assumption?)+)

end
