(* ===== verification/Reference.thy ===== *)
theory Reference
  imports Auth_Backend
begin

text \<open>
  In-memory instances of the parameters of the model: a key-value server with expiry, a table held
  as a list of users, a password hash, identifiers in decimal and a token format. Each keeps the laws
  that the development assumes of the real thing, so the hypotheses of the properties can hold
  together, and the witnesses run the program on them.
\<close>

section \<open>Redis\<close>

text \<open>A value, and the instant it expires if it has one.\<close>

type_synonym mem_redis = "string \<rightharpoonup> string \<times> time option"

fun mem_entry :: "time \<Rightarrow> (string \<times> time option) option \<Rightarrow> string option" where
  "mem_entry t None = None"
| "mem_entry t (Some (v, None)) = Some v"
| "mem_entry t (Some (v, Some e)) = (if t < e then Some v else None)"

definition mem_alive :: "mem_redis alive" where
  "mem_alive t r k = mem_entry t (r k)"

definition mem_client :: "mem_redis redis_client" where
  "mem_client = \<lparr>
     rd_Set = (\<lambda>k v ttl t r. (None, r(k \<mapsto> (v, Some (t + ttl))))),
     rd_Get = (\<lambda>k t r. (case mem_alive t r k of None \<Rightarrow> Inl RedisNil | Some v \<Rightarrow> Inr v, r)),
     rd_Del = (\<lambda>k t r. (None, r(k := None))),
     rd_IncrBy = (\<lambda>k n t r. (case mem_alive t r k of
        None \<Rightarrow> (Inr n, r(k \<mapsto> (Itoa n, None)))
      | Some v \<Rightarrow> (case ParseInt 64 v of
            (m, True) \<Rightarrow> (Inl (ErrText ''ERR value is not an integer or out of range''), r)
          | (m, False) \<Rightarrow> (Inr (m + n), r(k \<mapsto> (Itoa (m + n), snd (the (r k)))))))),
     rd_Expire = (\<lambda>k d t r. (None, case mem_alive t r k of
        None \<Rightarrow> r
      | Some v \<Rightarrow> r(k \<mapsto> (v, Some (t + d))))),
     rd_Ping = (\<lambda>t r. None)\<rparr>"

lemma mem_client_simps [simp]:
  "rd_Set mem_client k v ttl t r = (None, r(k \<mapsto> (v, Some (t + ttl))))"
  "rd_Get mem_client k t r = (case mem_alive t r k of None \<Rightarrow> Inl RedisNil | Some v \<Rightarrow> Inr v, r)"
  "rd_Del mem_client k t r = (None, r(k := None))"
  "rd_Ping mem_client t r = None"
  by (simp_all add: mem_client_def)

lemma mem_redis_laws: "redis_laws mem_client mem_alive"
  unfolding redis_laws_def
proof (intro conjI)
  show "redis_get_law mem_client mem_alive"
    by (auto simp: redis_get_law_def same_from_def split: option.split)
  show "redis_set_law mem_client mem_alive" "redis_del_law mem_client mem_alive"
    by (auto simp: redis_set_law_def redis_del_law_def set_effect_def del_effect_def mem_alive_def fun_eq_iff)
  have "mem_entry t' x = None \<or> mem_entry t' x = mem_entry t x" if "t \<le> t'" for t t' x
    using that by (cases "(t, x)" rule: mem_entry.cases) auto
  then show "redis_expiry_law mem_alive" by (simp add: redis_expiry_law_def mem_alive_def)
qed

section \<open>PostgreSQL\<close>

text \<open>The users of the table; a row the schema does not type is refused.\<close>

type_synonym mem_db = "user list"

definition mem_table :: "mem_db table" where
  "mem_table d = row_of_user ` set d"

definition mem_user :: "row \<Rightarrow> user option" where
  "mem_user r = scan_fields (map r user_columns)"

definition clash :: "user \<Rightarrow> user \<Rightarrow> bool" where
  "clash u v \<longleftrightarrow> u_ID u = u_ID v \<or> (u_TenantID u = u_TenantID v \<and> u_Email u = u_Email v)"

definition violation :: go_error where
  "violation = PgError ''23505'' ''duplicate key value violates unique constraint''"

text \<open>An update, user by user.\<close>

fun mem_update :: "(column \<times> sqlval) list \<Rightarrow> (column \<times> sqlval) list \<Rightarrow> user list \<Rightarrow> user list option" where
  "mem_update sets conds [] = Some []"
| "mem_update sets conds (u # us) =
     (case (if pg_matches conds (row_of_user u) then mem_user (pg_assign sets (row_of_user u)) else Some u) of
        None \<Rightarrow> None
      | Some v \<Rightarrow> map_option ((#) v) (mem_update sets conds us))"

fun mem_Exec :: "sql \<Rightarrow> mem_db \<Rightarrow> go_error option \<times> mem_db" where
  "mem_Exec (INSERT cvs) d =
     (case mem_user (pg_assign cvs (\<lambda>c. VBool False)) of
        None \<Rightarrow> (Some (ErrText ''datatype mismatch''), d)
      | Some u \<Rightarrow> if \<exists>v \<in> set d. clash u v then (Some violation, d) else (None, d @ [u]))"
| "mem_Exec (UPDATE sets conds) d =
     (case mem_update sets conds d of
        None \<Rightarrow> (Some (ErrText ''datatype mismatch''), d)
      | Some d' \<Rightarrow> if \<forall>u \<in> set d'. \<forall>v \<in> set d'. clash u v \<longrightarrow> u = v then (None, d') else (Some violation, d))"
| "mem_Exec (DELETE conds) d = (None, filter (\<lambda>u. \<not> pg_matches conds (row_of_user u)) d)"
| "mem_Exec st d = (None, d)"

lemma find_found: "find P xs = Some x \<Longrightarrow> x \<in> set xs \<and> P x"
  by (induction xs) (auto split: if_splits)

text \<open>The matching users, in the order of a column, latest first.\<close>

definition mem_listing :: "(column \<times> sqlval) list \<Rightarrow> column \<Rightarrow> mem_db \<Rightarrow> user list" where
  "mem_listing conds c d =
     sort_key (\<lambda>u. - col_time (row_of_user u c)) (filter (\<lambda>u. pg_matches conds (row_of_user u)) (remdups d))"

definition mem_pool :: "mem_db pgx_pool" where
  "mem_pool = \<lparr>
     pg_Exec = mem_Exec,
     pg_QueryRow = (\<lambda>st d. (case st of
        SELECT cols conds \<Rightarrow> (case find (\<lambda>u. pg_matches conds (row_of_user u)) d of
            None \<Rightarrow> Inl PgNoRows
          | Some u \<Rightarrow> Inr (map (row_of_user u) cols))
      | SELECT_COUNT conds \<Rightarrow>
          (let n = length (mem_listing conds C_created_at d) in
           if n < 2 ^ 63 then Inr [VInt (word_of_nat n)] else Inl (ErrText ''bigint out of range''))
      | _ \<Rightarrow> Inl (ErrText ''not a query''), d)),
     pg_Query = (\<lambda>st d. (case st of
        SELECT_PAGE cols conds c l off \<Rightarrow>
          (if sint l < 0 \<or> sint off < 0 then Inl (ErrText ''LIMIT or OFFSET must not be negative'')
           else Inr (map (\<lambda>u. map (row_of_user u) cols)
             (take (nat (sint l)) (drop (nat (sint off)) (mem_listing conds c d))), None))
      | _ \<Rightarrow> Inl (ErrText ''not a query''), d)),
     pg_Ping = (\<lambda>d. None)\<rparr>"

lemma mem_user_Some: "mem_user r = Some u \<longleftrightarrow> r = row_of_user u"
proof
  assume "mem_user r = Some u"
  then have "r c = row_of_user u c" for c
    by (cases c) (auto simp: mem_user_def scan_fields_def user_columns_def bind_eq_Some_conv
        elim!: dest_uuid.elims dest_text.elims dest_bool.elims dest_time.elims)
  then show "r = row_of_user u" by blast
next
  assume "r = row_of_user u"
  then show "mem_user r = Some u" by (simp add: mem_user_def scan_fields_def user_columns_def)
qed

lemma clash_conflicts: "clash u v \<longleftrightarrow> conflicts (row_of_user u) (row_of_user v)"
  by (simp add: clash_def)

lemma mem_update_Some:
  "mem_update sets conds us = Some vs \<Longrightarrow> map row_of_user vs =
     map (\<lambda>r. if pg_matches conds r then pg_assign sets r else r) (map row_of_user us)"
  by (induction sets conds us arbitrary: vs rule: mem_update.induct)
    (auto simp: mem_user_Some split: option.splits if_splits)

lemma mem_update_table:
  assumes "mem_update sets conds d = Some d'"
  shows "mem_table d' = pg_effect (UPDATE sets conds) (mem_table d)"
proof -
  have "set (map row_of_user d') = set (map (\<lambda>r. if pg_matches conds r then pg_assign sets r else r) (map row_of_user d))"
    using mem_update_Some [OF assms] by (rule arg_cong)
  then show ?thesis by (simp only: mem_table_def set_map pg_effect.simps)
qed

lemma mem_unique: "unique_rows (mem_table d) \<longleftrightarrow> (\<forall>u \<in> set d. \<forall>v \<in> set d. clash u v \<longrightarrow> u = v)"
  by (auto simp: unique_rows_def mem_table_def clash_conflicts)

lemma errors_of_memory [simp]:
  "driver_error violation" "driver_error (ErrText s)" "driver_error PgNoRows"
  "errors_As_PgCode violation = Some ''23505''"
  by (simp_all add: driver_error_def violation_def)

lemma mem_exec_law: "pg_exec_law mem_pool mem_table"
  unfolding pg_exec_law_def
proof (intro allI impI)
  fix st d
  assume ok: "table_ok (mem_table d)"
  show "let res = fst (pg_Exec mem_pool st d); S' = mem_table (snd (pg_Exec mem_pool st d)) in
      (\<forall>e. res = Some e \<longrightarrow> driver_error e) \<and>
      (pg_allowed st (mem_table d) \<and> S' = pg_effect st (mem_table d) \<and> (\<forall>e. res = Some e \<longrightarrow> errors_As_PgCode e = None) \<or>
      res \<noteq> None \<and> S' = mem_table d \<and>
      (\<forall>e. res = Some e \<longrightarrow> errors_As_PgCode e = Some ''23505'' \<longrightarrow> \<not> pg_allowed st (mem_table d)))"
  proof (cases st)
    case (INSERT cvs)
    show ?thesis
    proof (cases "mem_user (pg_assign cvs (\<lambda>c. VBool False))")
      case (Some u)
      then have "pg_assign cvs (\<lambda>c. VBool False) = row_of_user u" by (simp add: mem_user_Some)
      with Some INSERT show ?thesis
        by (auto simp: mem_pool_def mem_table_def clash_conflicts Let_def)
    qed (use INSERT in \<open>auto simp: mem_pool_def Let_def\<close>)
  next
    case (UPDATE sets conds)
    show ?thesis
    proof (cases "mem_update sets conds d")
      case (Some d')
      with UPDATE show ?thesis
        using mem_update_table [OF Some] mem_unique [of d'] by (auto simp: mem_pool_def Let_def)
    qed (use UPDATE in \<open>auto simp: mem_pool_def Let_def\<close>)
  next
    case (DELETE conds)
    have "mem_table (filter (\<lambda>u. \<not> pg_matches conds (row_of_user u)) d) = {r \<in> mem_table d. \<not> pg_matches conds r}"
      by (auto simp: mem_table_def)
    moreover have "unique_rows {r \<in> mem_table d. \<not> pg_matches conds r}"
      using ok by (auto simp: table_ok_def unique_rows_def)
    ultimately show ?thesis using DELETE by (auto simp: mem_pool_def Let_def)
  qed (use ok in \<open>auto simp: mem_pool_def Let_def table_ok_def\<close>)
qed

lemma sint_of_length: "n < 2 ^ 63 \<Longrightarrow> sint (word_of_nat n :: int64) = int n"
  using sint_sbintrunc' [of "int n", where 'a = 64] by (simp add: signed_take_bit_int_eq_self)

lemma mem_listing_rows:
  "distinct (map row_of_user (mem_listing conds c d))"
  "set (map row_of_user (mem_listing conds c d)) = {r \<in> mem_table d. pg_matches conds r}"
  "sorted_wrt (\<lambda>r s. col_time (s c) \<le> col_time (r c)) (map row_of_user (mem_listing conds c d))"
proof -
  have inj: "inj_on row_of_user A" for A by (auto intro: inj_onI)
  show "distinct (map row_of_user (mem_listing conds c d))"
    by (simp add: mem_listing_def distinct_map inj)
  show "set (map row_of_user (mem_listing conds c d)) = {r \<in> mem_table d. pg_matches conds r}"
    by (auto simp: mem_listing_def mem_table_def)
  have "sorted_wrt (\<le>) (map (\<lambda>u. - col_time (row_of_user u c)) (mem_listing conds c d))"
    by (simp add: mem_listing_def)
  then show "sorted_wrt (\<lambda>r s. col_time (s c) \<le> col_time (r c)) (map row_of_user (mem_listing conds c d))"
    by (simp add: sorted_wrt_map)
qed

lemma mem_pg_laws: "pg_laws mem_pool mem_table"
  unfolding pg_laws_def
proof (intro conjI mem_exec_law)
  show "pg_select_law mem_pool mem_table"
    by (auto simp: pg_select_law_def mem_pool_def mem_table_def find_None_iff dest!: find_found
        split: option.split)
  have card: "card {r \<in> mem_table d. pg_matches conds r} = length (mem_listing conds c d)" for d conds c
    using distinct_card [OF mem_listing_rows(1) [of conds c d]] mem_listing_rows(2) [of conds c d] by simp
  show "pg_count_law mem_pool mem_table"
    by (auto simp: pg_count_law_def mem_pool_def Let_def card [of _ _ C_created_at] sint_of_length)
  show "pg_page_law mem_pool mem_table"
    unfolding pg_page_law_def
  proof (intro allI impI conjI)
    fix cols conds c l off d vss err
    show "mem_table (snd (pg_Query mem_pool (SELECT_PAGE cols conds c l off) d)) = mem_table d"
      by (simp add: mem_pool_def)
    assume q: "fst (pg_Query mem_pool (SELECT_PAGE cols conds c l off) d) = Inr (vss, err)"
    then show "0 \<le> sint l" "0 \<le> sint off" by (auto simp: mem_pool_def split: if_splits)
    let ?rs = "map row_of_user (mem_listing conds c d)"
    from q have "vss = map (\<lambda>r. map r cols) (take (nat (sint l)) (drop (nat (sint off)) ?rs))"
      by (auto simp: mem_pool_def take_map drop_map split: if_splits)
    then show "\<exists>rs. distinct rs \<and> set rs = {r \<in> mem_table d. pg_matches conds r} \<and>
           sorted_wrt (\<lambda>r s. col_time (s c) \<le> col_time (r c)) rs \<and>
           (let full = map (\<lambda>r. map r cols) (take (nat (sint l)) (drop (nat (sint off)) rs)) in
            prefix vss full \<and> (err = None \<longrightarrow> vss = full))"
      using mem_listing_rows [where conds = conds and c = c and d = d] by (intro exI [of _ ?rs]) (simp add: Let_def)
  qed
qed

section \<open>Packages\<close>

definition mem_packages :: packages where
  "mem_packages = \<lparr>
     uuid_Parse = (\<lambda>s. case parse_digits s 0 of
        None \<Rightarrow> (0, Some (ErrText ''invalid UUID''))
      | Some n \<Rightarrow> if n < 2 ^ 128 then (word_of_int n, None) else (0, Some (ErrText ''invalid UUID length''))),
     uuid_String = (\<lambda>u. dec_nat (unat u)),
     uuid_MustParse = (\<lambda>s. case parse_digits s 0 of None \<Rightarrow> 0 | Some n \<Rightarrow> word_of_int n),
     bcrypt_Hash = (\<lambda>salt pw. if length pw \<le> 72 then Inr (''h'' @ pw) else Inl (ErrText ''password length exceeds 72 bytes'')),
     bcrypt_CompareHashAndPassword = (\<lambda>h pw. if h = ''h'' @ pw then None else Some (ErrText ''mismatched hash and password''))\<rparr>"

lemma mem_packages_ok: "packages_ok mem_packages"
proof -
  have lt: "uint u < 2 ^ 128" for u :: uuid
    using unsigned_less [of u, where 'a = int] by simp
  then show ?thesis
    by (auto simp: packages_ok_def mem_packages_def parse_dec_nat split: option.splits if_splits)
qed

lemma mem_uuid_ascii: "ascii (uuid_String mem_packages u)"
  by (simp add: mem_packages_def dec_nat_ascii)

section \<open>Tokens\<close>

text \<open>
  A text of fields: each byte of a field behind a letter, each field closed by a dot. A signed token
  is the text of the method, the public key and the claims, so that one text carries one payload.
\<close>

definition field_text :: "string \<Rightarrow> string" where
  "field_text s = concat (map (\<lambda>c. [CHR ''x'', c]) s) @ ''.''"

fun read_fields :: "string \<Rightarrow> string \<Rightarrow> string list" where
  "read_fields acc (CHR ''x'' # c # rest) = read_fields (acc @ [c]) rest"
| "read_fields acc (CHR ''.'' # rest) = acc # read_fields [] rest"
| "read_fields acc s = []"

lemma read_field_text: "read_fields acc (field_text s @ rest) = (acc @ s) # read_fields [] rest"
  by (induction s arbitrary: acc) (auto simp: field_text_def)

lemma read_fields_text: "read_fields [] (concat (map field_text ss)) = ss"
  by (induction ss) (simp_all add: read_field_text)

fun method_fields :: "signing_method \<Rightarrow> string list" where
  "method_fields (SigningMethodRSA alg) = [''RSA'', alg]"
| "method_fields (SigningMethodOther alg) = [''other'', alg]"

definition time_field :: "time option \<Rightarrow> string" where
  "time_field t = (case t of None \<Rightarrow> '''' | Some i \<Rightarrow> Itoa i)"

definition token_fields :: "signing_method \<Rightarrow> rsa_public_key \<Rightarrow> jwt_custom_claims \<Rightarrow> string list" where
  "token_fields m p c = method_fields m @ [dec_nat (pk_N p), dec_nat (unat (pk_E p)),
     dec_nat (unat (cl_UserID c)), cl_Email c, cl_Role c, cl_Subject c, cl_Issuer c,
     time_field (cl_ExpiresAt c), time_field (cl_IssuedAt c)]"

definition token_text :: "signing_method \<Rightarrow> rsa_public_key \<Rightarrow> jwt_custom_claims \<Rightarrow> string" where
  "token_text m p c = concat (map field_text (token_fields m p c))"

definition read_nat :: "string \<Rightarrow> nat" where
  "read_nat s = (case parse_digits s 0 of None \<Rightarrow> 0 | Some n \<Rightarrow> nat n)"

definition read_time :: "string \<Rightarrow> time option" where
  "read_time s = (if s = '''' then None
     else if hd s = CHR ''-'' then Some (- int (read_nat (tl s))) else Some (int (read_nat s)))"

definition read_token :: "string \<Rightarrow> (signing_method \<times> rsa_public_key \<times> jwt_custom_claims) option" where
  "read_token s = (case read_fields [] s of
     [kind, alg, n, e, i, email, r, sub, iss, x, t] \<Rightarrow> Some
       (if kind = ''RSA'' then SigningMethodRSA alg else SigningMethodOther alg,
        \<lparr>pk_N = read_nat n, pk_E = word_of_nat (read_nat e)\<rparr>,
        \<lparr>cl_UserID = word_of_nat (read_nat i), cl_Email = email, cl_Role = r, cl_Subject = sub,
          cl_Issuer = iss, cl_ExpiresAt = read_time x, cl_IssuedAt = read_time t\<rparr>)
   | _ \<Rightarrow> None)"

definition mem_jwt :: jwt_lib where
  "mem_jwt = \<lparr>
     jwt_NewNumericDate = (\<lambda>t. t div second * second),
     jwt_SignedString = (\<lambda>m hdr c k. Inr (token_text m (rk_PublicKey k) c)),
     jwt_ParseWithClaims = (\<lambda>s kf now. case read_token s of
        None \<Rightarrow> Inl (ErrText ''token is malformed'')
      | Some (m, p, c) \<Rightarrow>
          (case kf m of
             Inl e \<Rightarrow> Inl (ErrWrap ''token is unverifiable: '' e)
           | Inr q \<Rightarrow>
               if p \<noteq> q \<or> s \<noteq> token_text m p c then Inl (ErrText ''token signature is invalid'')
               else if \<not> (case cl_ExpiresAt c of None \<Rightarrow> True | Some t \<Rightarrow> now < t) then Inl (ErrText ''token is expired'')
               else Inr \<lparr>tk_Claims = Some c, tk_Valid = True\<rparr>))\<rparr>"

definition mem_verifies :: verifies where
  "mem_verifies m p s c \<longleftrightarrow> s = token_text m p c"

lemma read_nat_dec [simp]: "read_nat (dec_nat n) = n"
  by (simp add: read_nat_def parse_dec_nat)

lemma read_time_field [simp]: "read_time (time_field t) = t"
proof (cases t)
  case (Some i)
  then show ?thesis by (auto simp: time_field_def read_time_def Itoa_def)
qed (simp add: time_field_def read_time_def)

lemma read_token_text [simp]: "read_token (token_text m p c) = Some (m, p, c)"
proof -
  have "read_fields [] (token_text m p c) = token_fields m p c"
    unfolding token_text_def by (rule read_fields_text)
  then show ?thesis by (cases m) (simp_all add: read_token_def token_fields_def)
qed

lemma token_text_inject: "token_text m p c = token_text m' p' c' \<longleftrightarrow> m = m' \<and> p = p' \<and> c = c'"
  by (metis Pair_inject option.inject read_token_text)

lemma mem_jwt_laws: "jwt_laws mem_jwt mem_verifies"
  unfolding jwt_laws_def
proof (intro conjI)
  show "jwt_sign_law mem_jwt mem_verifies"
    by (auto simp: jwt_sign_law_def mem_jwt_def mem_verifies_def unexpired_def split: option.split)
  show "jwt_parse_law mem_jwt mem_verifies"
    by (auto simp: jwt_parse_law_def mem_jwt_def mem_verifies_def unexpired_def split: option.splits sum.splits if_splits)
  show "jwt_payload_law mem_verifies"
    by (auto simp: jwt_payload_law_def mem_verifies_def token_text_inject)
qed (simp add: mem_jwt_def)

lemma mem_SignedString [simp]: "jwt_SignedString mem_jwt m hdr c k = Inr (token_text m (rk_PublicKey k) c)"
  by (simp add: mem_jwt_def)

text \<open>A key that is generated, for the witnesses.\<close>

definition mem_key :: rsa_private_key where
  "mem_key = \<lparr>rk_PublicKey = \<lparr>pk_N = 3233, pk_E = 17\<rparr>, rk_D = 413\<rparr>"

definition mem_readers :: key_readers where
  "mem_readers = \<lparr>os_ReadFile = (\<lambda>p. Inl (ErrText ''no such file'')), pem_Decode = (\<lambda>b. None),
     x509_ParsePKCS1PrivateKey = (\<lambda>b. Inl (ErrText ''x509'')),
     x509_ParsePKCS8PrivateKey = (\<lambda>b. Inl (ErrText ''x509'')), rsa_GenerateKey = (\<lambda>n. Inr mem_key)\<rparr>"

definition mem_km :: key_manager where
  "mem_km = \<lparr>km_PrivateKey = mem_key, km_PublicKey = rk_PublicKey mem_key,
     km_KeyID = hex_EncodeToString (take 8 (sha256_Sum256 (big_Bytes 3233)))\<rparr>"

lemma mem_km_loaded: "NewKeyManager mem_readers '''' = Inr mem_km"
  by (simp add: NewKeyManager_def load_private_key_def mem_readers_def mem_km_def mem_key_def Let_def)

lemma mem_km_simps [simp]:
  "km_PublicKey mem_km = rk_PublicKey (km_PrivateKey mem_km)" "km_PrivateKey mem_km = mem_key"
  by (simp_all add: mem_km_def)

section \<open>Worlds\<close>

text \<open>A quiet world: the clock stands still, the random bytes are known, the network is down.\<close>

definition mem_now :: time where
  "mem_now = 1700000000 * second"

definition mem_world :: "mem_redis \<Rightarrow> mem_db \<Rightarrow> (mem_redis, mem_db) world" where
  "mem_world r d = \<lparr>w_clock = mem_now, w_elapse = (\<lambda>i. 0), w_entropy = (\<lambda>i. word_of_nat i),
     w_randfail = (\<lambda>i. False), w_uuids = (\<lambda>i. word_of_nat (100 + i)), w_salts = (\<lambda>i. 0),
     w_web = (\<lambda>i q. Inl (ErrText ''network is unreachable'')), w_redis = r, w_db = d,
     w_audit = [], w_mails = []\<rparr>"

lemma mem_world_simps [simp]:
  "w_clock (mem_world r d) = mem_now" "w_elapse (mem_world r d) = (\<lambda>i. 0)"
  "w_redis (mem_world r d) = r" "w_db (mem_world r d) = d" "w_audit (mem_world r d) = []"
  "w_mails (mem_world r d) = []"
  by (simp_all add: mem_world_def)

end
