(* ===== verification/Reference_Runs.thy ===== *)
theory Reference_Runs
  imports Reference
begin

text \<open>
  The service on the in-memory instances: what each repository operation returns there, so that the
  witnesses run a use case by rewriting.
\<close>

section \<open>Configuration and wiring\<close>

definition mem_env :: "string \<Rightarrow> string" where
  "mem_env k = (if k = ''DB_PASSWORD'' then ''postgres'' else '''')"

definition mem_cfg :: config where
  "mem_cfg = projr (config_Load mem_env)"

lemma mem_cfg_loaded: "config_Load mem_env = Inr mem_cfg"
  by (simp add: mem_cfg_def config_Load_def mem_env_def Let_def)

lemma mem_cfg_ttl [simp]: "cfg_AccessTokenTTL mem_cfg = 15 * minute" "cfg_RefreshTokenTTL mem_cfg = 7 * 24 * hour"
  using config_Load_Inr [OF mem_cfg_loaded] by auto

abbreviation mem_system :: "(mem_redis, mem_db) auth_use_case" where
  "mem_system \<equiv> auth_system mem_env mem_packages mem_jwt mem_pool mem_client mem_km mem_cfg"

text \<open>A world in which the random source does not fail.\<close>

definition entropy_ok :: "('r, 'd) world \<Rightarrow> bool" where
  "entropy_ok w \<longleftrightarrow> w_randfail w = (\<lambda>i. False)"

lemma entropy_ok_mem [simp]: "entropy_ok (mem_world r d)"
  by (simp add: entropy_ok_def mem_world_def)

lemma entropy_ok_update [simp]:
  "entropy_ok (w\<lparr>w_clock := c\<rparr>) = entropy_ok w" "entropy_ok (w\<lparr>w_elapse := e\<rparr>) = entropy_ok w"
  "entropy_ok (w\<lparr>w_redis := r\<rparr>) = entropy_ok w" "entropy_ok (w\<lparr>w_db := d\<rparr>) = entropy_ok w"
  "entropy_ok (w\<lparr>w_uuids := u\<rparr>) = entropy_ok w" "entropy_ok (w\<lparr>w_salts := s\<rparr>) = entropy_ok w"
  "entropy_ok (w\<lparr>w_web := v\<rparr>) = entropy_ok w" "entropy_ok (w\<lparr>w_audit := a\<rparr>) = entropy_ok w"
  "entropy_ok (w\<lparr>w_mails := m\<rparr>) = entropy_ok w" "entropy_ok (w\<lparr>w_entropy := n\<rparr>) = entropy_ok w"
  by (simp_all add: entropy_ok_def)

section \<open>The user table\<close>

lemma mem_db_do: "run_state (db_do f) w = (fst (f (w_db w)), w\<lparr>w_db := snd (f (w_db w))\<rparr>)"
  by (simp add: db_do_def split_beta)

lemma mem_select:
  "run_state (select_user mem_pool conds) w =
     (case find (\<lambda>u. pg_matches conds (row_of_user u)) (w_db w) of None \<Rightarrow> Inl ErrNotFound | Some u \<Rightarrow> Inr u, w)"
  by (simp add: select_user_def mem_db_do mem_pool_def Let_def split: option.split)

lemma mem_ByEmail:
  "run_state (GetByEmail mem_pool t e) w =
     (case find (\<lambda>u. u_TenantID u = t \<and> u_Email u = e) (w_db w) of None \<Rightarrow> Inl ErrNotFound | Some u \<Rightarrow> Inr u, w)"
  by (simp add: GetByEmail_def mem_select pg_matches_def)

lemma mem_ByID:
  "run_state (GetByID mem_pool i) w =
     (case find (\<lambda>u. u_ID u = i) (w_db w) of None \<Rightarrow> Inl ErrNotFound | Some u \<Rightarrow> Inr u, w)"
  by (simp add: GetByID_def mem_select pg_matches_def)

lemma mem_ByOAuth:
  "run_state (GetByOAuth mem_pool t p s) w =
     (case find (\<lambda>u. u_TenantID u = t \<and> u_OAuthProvider u = p \<and> u_OAuthSubject u = s) (w_db w) of
        None \<Rightarrow> Inl ErrNotFound | Some u \<Rightarrow> Inr u, w)"
  by (simp add: GetByOAuth_def mem_select pg_matches_def)

lemma mem_Create:
  "run_state (Create mem_pool u) w =
     (if \<exists>v \<in> set (w_db w). clash (stored_user u) v then (Inl ErrConflict, w)
      else (Inr (), w\<lparr>w_db := w_db w @ [stored_user u]\<rparr>))"
proof -
  have "mem_user (pg_assign (user_values u) (\<lambda>c. VBool False)) = Some (stored_user u)"
    by (simp add: mem_user_Some assign_user_values)
  then show ?thesis by (simp add: Create_exec mem_db_do mem_pool_def)
qed

lemma mem_Update_one:
  assumes "w_db w = [v]" "u_ID x = u_ID v"
  shows "run_state (Update mem_pool x) w = (Inr (), w\<lparr>w_db := [updated_user x v]\<rparr>)"
proof -
  have "mem_user (pg_assign (user_changes x) (row_of_user v)) = Some (updated_user x v)"
    by (simp add: mem_user_Some assign_user_changes)
  with assms show ?thesis by (simp add: Update_exec mem_db_do mem_pool_def matches_id)
qed

section \<open>The token store\<close>

lemma mem_redis_do:
  "run_state (redis_do f) w =
     (fst (f (w_clock (after time_Now w)) (w_redis w)), (after time_Now w)\<lparr>w_redis := snd (f (w_clock (after time_Now w)) (w_redis w))\<rparr>)"
  by (simp add: run_redis_do time_Now_def Let_def)

lemma mem_get:
  "run_state (cmd_Result (rd_Get mem_client k)) w =
     (case mem_alive (w_clock (after time_Now w)) (w_redis w) k of None \<Rightarrow> Inl RedisNil | Some v \<Rightarrow> Inr v, after time_Now w)"
  by (simp add: cmd_Result_def run_redis_do time_Now_def Let_def)

lemma mem_del:
  "run_state (cmd_Err (rd_Del mem_client k)) w = (Inr (), (after time_Now w)\<lparr>w_redis := (w_redis w)(k := None)\<rparr>)"
  by (simp add: cmd_Err_def run_redis_do time_Now_def Let_def)

lemma mem_set:
  "run_state (cmd_Err (rd_Set mem_client k v ttl)) w =
     (Inr (), (after time_Now w)\<lparr>w_redis := (w_redis w)(k \<mapsto> (v, Some (w_clock (after time_Now w) + ttl)))\<rparr>)"
  by (simp add: cmd_Err_def run_redis_do time_Now_def Let_def)

lemmas mem_tokens =
  StoreRefreshToken_def [of mem_client] GetUserIDByRefreshToken_def [of mem_client] RevokeRefreshToken_def [of mem_client]
  StoreMFAToken_def [of mem_client] GetUserIDByMFAToken_def [of mem_client] RevokeMFAToken_def [of mem_client]
  StoreEmailVerifyToken_def [of mem_client] GetUserIDByEmailVerifyToken_def [of mem_client] RevokeEmailVerifyToken_def [of mem_client]
  StorePasswordResetToken_def [of mem_client] GetUserIDByPasswordResetToken_def [of mem_client] RevokePasswordResetToken_def [of mem_client]
  mem_get mem_del mem_set

lemma world_after_time_Now [simp]:
  "w_redis (after time_Now w) = w_redis w" "w_db (after time_Now w) = w_db w" "entropy_ok (after time_Now w) = entropy_ok w"
  "w_elapse (after time_Now w) = (\<lambda>i. w_elapse w (Suc i))" "w_salts (after time_Now w) = w_salts w" "w_uuids (after time_Now w) = w_uuids w" "w_web (after time_Now w) = w_web w"
  by (simp_all add: time_Now_def Let_def)

lemma mem_revoke_ok [simp]:
  "result (RevokeRefreshToken mem_client k) w = Inr ()" "result (RevokeMFAToken mem_client k) w = Inr ()"
  "result (RevokePasswordResetToken mem_client k) w = Inr ()" "result (RevokeEmailVerifyToken mem_client k) w = Inr ()"
  by (simp_all add: mem_tokens)

text \<open>A session is opened whenever there is randomness, the key signs and the store stores.\<close>

lemma session_answers:
  assumes laws: "jwt_laws J verifies" and ent: "entropy_ok w"
    and sign: "\<And>hdr c. \<exists>s. jwt_SignedString J (SigningMethodRSA ''RS256'') hdr c (km_PrivateKey km) = Inr s"
    and set: "\<And>k v ttl t r. fst (rd_Set rdb k v ttl t r) = None"
  shows "\<exists>res w'. run_state (generateSession (auth_system getenv P J db rdb km cfg) user) w = (Inr res, w') \<and>
    \<not> at_RequiresMFA res \<and> entropy_ok w'"
proof -
  let ?gen = "GenerateAccessToken P J km (u_ID user) (u_Email user) (u_Role user) (cfg_AccessTokenTTL cfg)"
  obtain t where g: "run_state ?gen w = (Inr t, after time_Now (after time_Now w))"
    using sign unfolding GenerateAccessToken_run [OF laws] by fastforce
  have "entropy_ok (after time_Now (after time_Now w))" using ent by simp
  then have "run_state (GenerateSecureToken 32) (after time_Now (after time_Now w)) =
      (Inr (hex_EncodeToString (map (w_entropy (after time_Now (after time_Now w))) [0..<32])),
       after (rand_Read 32) (after time_Now (after time_Now w)))"
    by (simp add: GenerateSecureToken_def rand_Read_def entropy_ok_def)
  moreover have "entropy_ok (after (rand_Read 32) (after time_Now (after time_Now w)))"
    using ent by (simp add: rand_Read_def entropy_ok_def time_Now_def Let_def)
  ultimately show ?thesis using g
    by (simp add: generateSession_def StoreRefreshToken_def cmd_Err_def run_redis_do set zero_auth_token_response_def Let_def
        split: prod.split)
qed

lemma mem_session:
  assumes "entropy_ok w"
  shows "\<exists>res w'. run_state (generateSession mem_system user) w = (Inr res, w') \<and> entropy_ok w'"
  using session_answers [OF mem_jwt_laws assms, of mem_km mem_client mem_env mem_packages mem_pool mem_cfg user]
  by (auto simp: mem_client_def)

section \<open>One user, one key\<close>
section \<open>One user, one key\<close>

text \<open>A server state with one key.\<close>

definition mem_with :: "string \<Rightarrow> string \<Rightarrow> mem_redis" where
  "mem_with k v = [k \<mapsto> (v, None)]"

lemma mem_with_alive [simp]: "mem_alive t (mem_with k v) k' = (if k' = k then Some v else None)"
  by (simp add: mem_alive_def mem_with_def)

definition ann :: user where
  "ann = zero_user\<lparr>u_ID := 7, u_TenantID := 1, u_Email := ''ann@example.org'', u_Password := ''hsecret99'',
     u_Role := RoleUser, u_IsActive := True\<rparr>"

lemma mem_inv: "distinct (map u_ID us) \<Longrightarrow> distinct (map (\<lambda>u. (u_TenantID u, u_Email u)) us) \<Longrightarrow>
    pg_inv mem_pool mem_table (mem_world r us)"
  by (auto simp: pg_inv_def table_ok_def mem_pg_laws mem_unique clash_def mem_table_def inj_on_def distinct_map
      simp del: mem_unique) (auto simp: unique_rows_def inj_on_def)

lemma mem_users: "pg_users mem_table (mem_world r us) = set us"
  by (auto simp: pg_users_def users_in_def mem_table_def)

lemma ann_simps [simp]:
  "u_ID ann = 7" "u_TenantID ann = 1" "u_Email ann = ''ann@example.org''" "u_Password ann = ''hsecret99''"
  "u_Role ann = RoleUser" "u_IsActive ann" "\<not> u_MFAEnabled ann" "u_MFASecret ann = ''''" "\<not> u_EmailVerified ann"
  "u_OAuthProvider ann = ''''" "u_OAuthSubject ann = ''''"
  by (simp_all add: ann_def)

lemma ann_email: "ValidateAndCleanEmail ''ann@example.org'' = Inr ''ann@example.org''"
  by code_simp

lemma ann_inv: "pg_inv mem_pool mem_table (mem_world r [ann])"
  by (rule mem_inv) simp_all

text \<open>The same user with a second factor, and the code of the hour.\<close>

definition guarded :: user where
  "guarded = ann\<lparr>u_MFASecret := base32_EncodeToString (map word_of_nat [0..<20]), u_MFAEnabled := True\<rparr>"

lemma guarded_simps [simp]:
  "u_ID guarded = 7" "u_TenantID guarded = 1" "u_Email guarded = ''ann@example.org''" "u_IsActive guarded"
  "u_MFAEnabled guarded" "u_MFASecret guarded = base32_EncodeToString (map word_of_nat [0..<20])"
  "u_Password guarded = ''hsecret99''"
  by (simp_all add: guarded_def)

lemma guarded_inv: "pg_inv mem_pool mem_table (mem_world r [guarded])"
  by (rule mem_inv) simp_all

lemma guarded_code:
  "\<exists>code. validate_loop (NewTOTPManager ''Enterprise Auth'') (u_MFASecret guarded) code mem_now [-1, 0, 1]"
proof -
  let ?m = "NewTOTPManager ''Enterprise Auth''"
  obtain code where "GenerateCode ?m (u_MFASecret guarded) mem_now = Inr code"
    using GenerateCode_cases [of "u_MFASecret guarded" ?m mem_now] by (auto simp: base32_roundtrip)
  then show ?thesis unfolding validate_loop_iff by (intro exI [of _ code] bexI [of _ 0]) simp_all
qed

end
