(* ===== verification/Auth_Laws.thy ===== *)
theory Auth_Laws
  imports Auth_Backend
begin

text \<open>
  What the authentication use cases do, proved once for any back end that meets the interface: what a
  successful call proves about the state it started from, and what it leaves behind.
\<close>

text \<open>The hypotheses a caller passed: an active user of the tenant with that address and password.\<close>

definition credentials_of :: "packages \<Rightarrow> user set \<Rightarrow> uuid \<Rightarrow> string \<Rightarrow> string \<Rightarrow> user \<Rightarrow> bool" where
  "credentials_of P us tenantID email password user \<longleftrightarrow> user \<in> us \<and> u_TenantID user = tenantID \<and>
     ValidateAndCleanEmail email = Inr (u_Email user) \<and> u_IsActive user \<and>
     bcrypt_CompareHashAndPassword P (u_Password user) password = None"

text \<open>A response that carries no token of a session.\<close>

definition challenge_only :: "auth_token_response \<Rightarrow> bool" where
  "challenge_only res \<longleftrightarrow> at_RequiresMFA res \<and> at_AccessToken res = '''' \<and> at_RefreshToken res = ''''"

text \<open>
  A session opened for a user between two worlds: an access token signed for him, and a new refresh
  token that shows his identifier until its lifetime is over.
\<close>

definition access_token_for :: "('r, 'd) auth_use_case \<Rightarrow> user \<Rightarrow> ('r, 'd) world \<Rightarrow> string \<Rightarrow> bool" where
  "access_token_for u user w tok \<longleftrightarrow> (\<exists>w0 w1. w_clock w \<le> w_clock w0 \<and>
     run_state (GenerateAccessToken (au_packages u) (au_jwt u) (au_keyManager u)
        (u_ID user) (u_Email user) (u_Role user) (cfg_AccessTokenTTL (au_cfg u))) w0 =
     (Inr tok, w1 :: ('r, 'd) world))"

definition session_opened :: "('r, 'd) auth_use_case \<Rightarrow>
    (time \<Rightarrow> ('r, 'd) world \<Rightarrow> string \<Rightarrow> string option) \<Rightarrow> user \<Rightarrow> ('r, 'd) world \<Rightarrow> auth_token_response \<Rightarrow>
    ('r, 'd) world \<Rightarrow> bool" where
  "session_opened u rtok user w res w' \<longleftrightarrow>
     \<not> at_RequiresMFA res \<and> at_MFAToken res = '''' \<and> length (at_RefreshToken res) = 64 \<and>
     access_token_for u user w (at_AccessToken res) \<and>
     (\<exists>ts. w_clock w \<le> ts \<and> ts \<le> w_clock w' \<and> (\<forall>t \<ge> w_clock w'. rtok t w' (at_RefreshToken res) =
        (if t < ts + cfg_RefreshTokenTTL (au_cfg u) then Some (uuid_String (au_packages u) (u_ID user)) else None)))"

text \<open>The lifetimes written in the source are positive.\<close>

lemma ttl_pos: "0 < 24 * hour" "0 < 1 * hour" "0 < 5 * minute" "0 < 10 * minute"
  by (simp_all add: duration_defs)

context auth_backend
begin

lemma users_of_db:
  "state_io_rel (\<lambda>w w'. w_db w' = w_db w) m \<Longrightarrow> state_io_rel (keeps_users UInv users) m"
  unfolding state_io_rel_def keeps_users_def by (metis users_local)

lemma rtok_of_redis:
  "state_io_rel (\<lambda>w w'. w_redis w' = w_redis w) m \<Longrightarrow> state_io_rel (\<lambda>w w'. w_clock w \<le> w_clock w') m \<Longrightarrow>
     state_io_rel (keeps_tok TInv rtok) m"
  unfolding state_io_rel_def keeps_tok_def by (metis toks_local)

lemma mtok_of_redis:
  "state_io_rel (\<lambda>w w'. w_redis w' = w_redis w) m \<Longrightarrow> state_io_rel (\<lambda>w w'. w_clock w \<le> w_clock w') m \<Longrightarrow>
     state_io_rel (keeps_tok TInv mtok) m"
  unfolding state_io_rel_def keeps_tok_def by (metis toks_local)

lemma lookups_keep_users:
  "state_io_rel (keeps_users UInv users) (ur_GetByEmail (au_userRepo u) i a)"
  "state_io_rel (keeps_users UInv users) (ur_GetByID (au_userRepo u) i)"
  "state_io_rel (keeps_users UInv users) (ur_GetByOAuth (au_userRepo u) i a b)"
  by (simp_all add: state_io_rel_def keeps_users_def us.inv_email us.keep_email us.inv_id us.keep_id
    us.inv_oauth us.keep_oauth)

lemmas users_prims = lookups_keep_users session_db [THEN users_of_db] outside_db [THEN users_of_db]
  time_Now_frames(1) [THEN users_of_db] rand_Read_frames(1) [THEN users_of_db]
  uuid_New_frames(1) [THEN users_of_db] bcrypt_frames(1) [THEN users_of_db]
  GenerateSecureToken_frames(1) [THEN users_of_db] ValidateCode_frames(1) [THEN users_of_db]
  GenerateSecret_frames(1) [THEN users_of_db] GenerateAccessToken_frames(1) [THEN users_of_db]
  audit_Log_frames(1) [THEN users_of_db]

lemmas rtok_prims = session_rtok
  repo_redis(1) [THEN rtok_of_redis, OF repo_clock(1)] repo_redis(2) [THEN rtok_of_redis, OF repo_clock(2)]
  repo_redis(3) [THEN rtok_of_redis, OF repo_clock(3)] repo_redis(4) [THEN rtok_of_redis, OF repo_clock(4)]
  repo_redis(5) [THEN rtok_of_redis, OF repo_clock(5)]
  outside_redis(1) [THEN rtok_of_redis, OF outside_clock(1)] outside_redis(2) [THEN rtok_of_redis, OF outside_clock(2)]
  outside_redis(3) [THEN rtok_of_redis, OF outside_clock(3)] outside_redis(4) [THEN rtok_of_redis, OF outside_clock(4)]
  rtok_of_redis [OF time_Now_frames(2) time_Now_frames(6)] rtok_of_redis [OF rand_Read_frames(2) rand_Read_frames(6)]
  rtok_of_redis [OF uuid_New_frames(2) uuid_New_frames(6)] rtok_of_redis [OF bcrypt_frames(2) bcrypt_frames(6)]
  rtok_of_redis [OF GenerateSecureToken_frames(2) GenerateSecureToken_frames(6)]
  rtok_of_redis [OF ValidateCode_frames(2) ValidateCode_frames(6)]
  rtok_of_redis [OF GenerateSecret_frames(2) GenerateSecret_frames(6)]
  rtok_of_redis [OF GenerateAccessToken_frames(2) GenerateAccessToken_frames(6)]
  rtok_of_redis [OF audit_Log_frames(2) audit_Log_frames(5)]

text \<open>Every use case but the four that write users leaves the users alone.\<close>

lemma generateSession_users: "state_io_rel (keeps_users UInv users) (generateSession u user)"
  unfolding generateSession_def by (intro frames users_prims)

lemma Login_users: "state_io_rel (keeps_users UInv users) (Login u tenantID email password ip)"
  unfolding Login_def by (intro frames users_prims generateSession_users)

lemma VerifyMFAChallenge_users: "state_io_rel (keeps_users UInv users) (VerifyMFAChallenge u tok code ip)"
  unfolding VerifyMFAChallenge_def Let_def by (intro frames users_prims generateSession_users)

lemma RefreshToken_users: "state_io_rel (keeps_users UInv users) (RefreshToken u tok ip)"
  unfolding RefreshToken_def by (intro frames users_prims generateSession_users)

lemma Logout_users: "state_io_rel (keeps_users UInv users) (Logout u tok ip)"
  unfolding Logout_def by (intro frames users_prims)

lemma Request_users:
  "state_io_rel (keeps_users UInv users) (RequestPasswordReset u tenantID email)"
  "state_io_rel (keeps_users UInv users) (RequestEmailVerification u tenantID email)"
  unfolding RequestPasswordReset_def RequestEmailVerification_def by (intro frames users_prims)+

text \<open>Only login, the second factor, the federated login, refresh and logout touch refresh tokens.\<close>

lemma rtok_kept:
  "state_io_rel (keeps_tok TInv rtok) (Register u tenantID email password ip)"
  "state_io_rel (keeps_tok TInv rtok) (SetupMFA u i)"
  "state_io_rel (keeps_tok TInv rtok) (ConfirmMFASetup u i code)"
  "state_io_rel (keeps_tok TInv rtok) (RequestEmailVerification u tenantID email)"
  "state_io_rel (keeps_tok TInv rtok) (ConfirmEmailVerification u tok)"
  "state_io_rel (keeps_tok TInv rtok) (RequestPasswordReset u tenantID email)"
  "state_io_rel (keeps_tok TInv rtok) (ConfirmPasswordReset u tok password)"
  "state_io_rel (keeps_tok TInv rtok) (OAuthLoginURL u prov)"
  unfolding Register_def SetupMFA_def ConfirmMFASetup_def RequestEmailVerification_def
    ConfirmEmailVerification_def RequestPasswordReset_def ConfirmPasswordReset_def OAuthLoginURL_def Let_def
  by (intro frames rtok_prims ttl_pos)+

text \<open>A session, seen from an earlier start and a later end.\<close>

lemma session_opened_mono:
  assumes "session_opened u rtok user w1 res w2" "w_clock w \<le> w_clock w1" "keeps_tok TInv rtok w2 w'" "TInv w2"
  shows "session_opened u rtok user w res w'"
proof -
  have later: "w_clock w2 \<le> w_clock w'" "\<And>t. w_clock w' \<le> t \<Longrightarrow> rtok t w' = rtok t w2"
    using assms(3,4) by (auto simp: keeps_tok_def)
  from assms(1) obtain ts where *: "w_clock w1 \<le> ts" "ts \<le> w_clock w2" "\<forall>t \<ge> w_clock w2. rtok t w2 (at_RefreshToken res) =
        (if t < ts + cfg_RefreshTokenTTL (au_cfg u) then Some (uuid_String (au_packages u) (u_ID user)) else None)"
    and plain: "\<not> at_RequiresMFA res" "at_MFAToken res = ''''" "length (at_RefreshToken res) = 64"
      "access_token_for u user w1 (at_AccessToken res)"
    unfolding session_opened_def by blast
  from plain(4) have "access_token_for u user w (at_AccessToken res)"
    using assms(2) unfolding access_token_for_def by (meson order_trans)
  moreover have "w_clock w \<le> ts" "ts \<le> w_clock w'" using * assms(2) later(1) by linarith+
  moreover have "\<forall>t \<ge> w_clock w'. rtok t w' (at_RefreshToken res) =
        (if t < ts + cfg_RefreshTokenTTL (au_cfg u) then Some (uuid_String (au_packages u) (u_ID user)) else None)"
    using later *(3) by force
  ultimately show ?thesis using plain(1-3) unfolding session_opened_def by blast
qed

text \<open>\<open>generateSession\<close> opens a session, and changes no other refresh token.\<close>

lemma generateSession_Inr:
  assumes inv: "TInv w" and ttl: "0 < cfg_RefreshTokenTTL (au_cfg u)"
    and run: "run_state (generateSession u user) w = (Inr res, w')"
  shows "session_opened u rtok user w res w'" and "TInv w'" and "w_clock w \<le> w_clock w'"
    and "\<And>t k. w_clock w' \<le> t \<Longrightarrow> k \<noteq> at_RefreshToken res \<Longrightarrow> rtok t w' k = rtok t w k"
    and "\<And>t. w_clock w' \<le> t \<Longrightarrow> mtok t w' = mtok t w"
proof -
  obtain acc w1 ref w2 where gen: "run_state (GenerateAccessToken (au_packages u) (au_jwt u) (au_keyManager u)
        (u_ID user) (u_Email user) (u_Role user) (cfg_AccessTokenTTL (au_cfg u))) w = (Inr acc, w1)"
    and sec: "run_state (GenerateSecureToken 32) w1 = (Inr ref, w2)"
    and store: "run_state (sr_StoreRefreshToken (au_sessionRepo u) (uuid_String (au_packages u) (u_ID user))
        ref (cfg_RefreshTokenTTL (au_cfg u))) w2 = (Inr (), w')"
    and res: "res = zero_auth_token_response\<lparr>at_AccessToken := acc, at_RefreshToken := ref,
        at_ExpiresIn := int_of_float (Seconds (cfg_AccessTokenTTL (au_cfg u)))\<rparr>"
    using run unfolding generateSession_def
    by (elim go_caseE) (auto elim!: go_caseE)
  have k1: "keeps_tok TInv rtok w w1" "keeps_tok TInv rtok w1 w2"
    using gen sec
      tok_frame.frame_runD [OF rtok_of_redis [OF GenerateAccessToken_frames(2) GenerateAccessToken_frames(6)]]
      tok_frame.frame_runD [OF rtok_of_redis [OF GenerateSecureToken_frames(2) GenerateSecureToken_frames(6)]]
    by blast+
  have k2: "keeps_tok TInv mtok w w1" "keeps_tok TInv mtok w1 w2" "keeps_tok TInv mtok w2 w'"
    using gen sec store
      tok_frame.frame_runD [OF mtok_of_redis [OF GenerateAccessToken_frames(2) GenerateAccessToken_frames(6)]]
      tok_frame.frame_runD [OF mtok_of_redis [OF GenerateSecureToken_frames(2) GenerateSecureToken_frames(6)]]
      tok_frame.frame_runD [OF session_mtok [OF ttl]]
    by blast+
  from k2 have k3: "keeps_tok TInv mtok w w'" by (meson tok_frame.frame_trans)
  from k1 have k4: "keeps_tok TInv rtok w w2" by (meson tok_frame.frame_trans)
  then have i2: "TInv w2" "w_clock w \<le> w_clock w2" "\<And>t. w_clock w2 \<le> t \<Longrightarrow> rtok t w2 = rtok t w"
    using inv by (auto simp: keeps_tok_def)
  have le: "w_clock w2 \<le> w_clock w'" using k2(3) by (simp add: keeps_tok_def)
  have upd: "rtok t w' = (rtok t w2)(ref := if t < w_clock w' + cfg_RefreshTokenTTL (au_cfg u)
      then Some (uuid_String (au_packages u) (u_ID user)) else None)" if "w_clock w' \<le> t" for t
    using rt.store_ok [OF i2(1) ttl store that] .
  have len: "length ref = 64" using GenerateSecureToken_length [OF sec] by simp
  have "access_token_for u user w acc" using gen unfolding access_token_for_def by blast
  then show "session_opened u rtok user w res w'"
    unfolding session_opened_def
    using len upd i2(2) le by (auto simp: res zero_auth_token_response_def intro: exI [of _ "w_clock w'"])
  show "TInv w'" "w_clock w \<le> w_clock w'" "\<And>t. w_clock w' \<le> t \<Longrightarrow> mtok t w' = mtok t w"
    using k3 inv by (auto simp: keeps_tok_def)
  show "\<And>t k. w_clock w' \<le> t \<Longrightarrow> k \<noteq> at_RefreshToken res \<Longrightarrow> rtok t w' k = rtok t w k"
    using upd i2(3) le by (simp add: res zero_auth_token_response_def)
qed

text \<open>A login that succeeds.\<close>

lemma Login_Inr:
  assumes inv: "UInv w" "TInv w" and ttl: "0 < cfg_RefreshTokenTTL (au_cfg u)"
    and run: "run_state (Login u tenantID email password ip) w = (Inr res, w')"
  obtains user where "credentials_of (au_packages u) (users w) tenantID email password user"
    and "u_MFAEnabled user \<Longrightarrow> challenge_only res \<and> (\<forall>t \<ge> w_clock w'. rtok t w' = rtok t w)"
    and "\<not> u_MFAEnabled user \<Longrightarrow> session_opened u rtok user w res w'"
proof (cases "ValidateAndCleanEmail email")
  case (Inl e)
  with run show ?thesis by (auto simp: Login_def split: prod.splits)
next
  case (Inr cleaned)
  obtain r w1 where get: "run_state (ur_GetByEmail (au_userRepo u) tenantID cleaned) w = (r, w1)"
    by fastforce
  with run Inr obtain user where r: "r = Inr user" "u_IsActive user"
    "bcrypt_CompareHashAndPassword (au_packages u) (u_Password user) password = None"
    by (auto simp: Login_def split: sum.splits option.splits if_splits prod.splits)
  have found: "user \<in> users w \<and> u_TenantID user = tenantID \<and> u_Email user = cleaned"
    using us.email_found [OF inv(1)] get r by (metis fst_conv)
  then have cred: "credentials_of (au_packages u) (users w) tenantID email password user"
    using r Inr by (simp add: credentials_of_def)
  have k1: "keeps_tok TInv rtok w w1" using tok_frame.frame_runD [OF rtok_prims(13) get] .
  then have i1: "TInv w1" "w_clock w \<le> w_clock w1" using inv(2) by (simp_all add: keeps_tok_def)
  show thesis
  proof (rule that [OF cred])
    assume mfa: "u_MFAEnabled user"
    with run get Inr r have run': "run_state (do {
        mfaToken \<leftarrow> ignore_error '''' (GenerateSecureToken 32);
        _ \<leftarrow> sr_StoreMFAToken (au_sessionRepo u) mfaToken (uuid_String (au_packages u) (u_ID user)) (5 * minute);
        ok (zero_auth_token_response\<lparr>at_RequiresMFA := True, at_MFAToken := mfaToken\<rparr>) }) w1 =
        (Inr res :: go_error + auth_token_response, w')"
      by (simp add: Login_def)
    have "state_io_rel (keeps_tok TInv rtok) (do {
        mfaToken \<leftarrow> ignore_error '''' (GenerateSecureToken 32);
        _ \<leftarrow> sr_StoreMFAToken (au_sessionRepo u) mfaToken (uuid_String (au_packages u) (u_ID user)) (5 * minute);
        ok (zero_auth_token_response\<lparr>at_RequiresMFA := True, at_MFAToken := mfaToken\<rparr>) :: ('r, 'd, auth_token_response) go })"
      by (intro frames rtok_prims ttl_pos)
    from tok_frame.frame_runD [OF this run'] k1 have "keeps_tok TInv rtok w w'"
      by (meson tok_frame.frame_trans)
    then show "challenge_only res \<and> (\<forall>t \<ge> w_clock w'. rtok t w' = rtok t w)"
      using run' inv(2) by (auto simp: keeps_tok_def challenge_only_def zero_auth_token_response_def split: prod.splits)
  next
    assume "\<not> u_MFAEnabled user"
    with run get Inr r obtain w2 where gen: "run_state (generateSession u user) w1 = (Inr res, w2)"
      and log: "run_state (audit_Log EventLoginSuccess cleaned ip ''successful authentication'') w2 = ((), w')"
      by (auto simp: Login_def split: sum.splits prod.splits)
    note G = generateSession_Inr [OF i1(1) ttl gen]
    have "keeps_tok TInv rtok w2 w'" using tok_frame.frame_runD [OF rtok_of_redis [OF audit_Log_frames(2,5)] log] .
    from session_opened_mono [OF G(1) i1(2) this G(2)]
    show "session_opened u rtok user w res w'" .
  qed
qed

text \<open>A second factor that is accepted: the challenge was alive, the code in its window, the challenge used up.\<close>

lemma VerifyMFAChallenge_Inr:
  assumes inv: "UInv w" "TInv w" and ttl: "0 < cfg_RefreshTokenTTL (au_cfg u)"
    and del: "\<And>w. result (sr_RevokeMFAToken (au_sessionRepo u) tok) w = Inr ()"
    and run: "run_state (VerifyMFAChallenge u tok code ip) w = (Inr res, w')"
  obtains user s t0 t1 where "user \<in> users w" and "u_IsActive user"
    and "w_clock w \<le> t0" and "t0 \<le> t1" and "t1 \<le> w_clock w'"
    and "mtok t0 w tok = Some s" and "fst (uuid_Parse (au_packages u) s) = u_ID user"
    and "validate_loop (au_totpManager u) (u_MFASecret user) code t1 [-1, 0, 1]"
    and "session_opened u rtok user w res w'"
    and "\<And>t. w_clock w' \<le> t \<Longrightarrow> mtok t w' tok = None"
proof -
  obtain r1 w1 where get: "run_state (sr_GetUserIDByMFAToken (au_sessionRepo u) tok) w = (r1, w1)" by fastforce
  with run obtain s where r1: "r1 = Inr s" by (cases r1) (auto simp: VerifyMFAChallenge_def)
  obtain r2 w2 where byid: "run_state (ur_GetByID (au_userRepo u) (fst (uuid_Parse (au_packages u) s))) w1 = (r2, w2)"
    by fastforce
  with run get r1 obtain user where r2: "r2 = Inr user" "u_IsActive user"
    by (cases r2) (auto simp: VerifyMFAChallenge_def Let_def split: if_splits)
  obtain r3 w3 where val: "run_state (ValidateCode (au_totpManager u) (u_MFASecret user) code) w2 = (r3, w3)"
    by fastforce
  obtain r4 w4 where rev: "run_state (sr_RevokeMFAToken (au_sessionRepo u) tok) w3 = (r4, w4)" by fastforce
  have r4: "r4 = Inr ()" using del [of w3] rev by simp
  from run get r1 byid r2 val rev have r3: "r3" by (auto simp: VerifyMFAChallenge_def Let_def split: prod.splits if_splits)
  with run get r1 byid r2 val rev obtain w5 where gen: "run_state (generateSession u user) w4 = (Inr res, w5)"
    and log: "run_state (audit_Log EventLoginSuccess (u_Email user) ip ''mfa challenge completed'') w5 = ((), w')"
    by (auto simp: VerifyMFAChallenge_def Let_def split: sum.splits prod.splits)
  have u1: "keeps_users UInv users w w1" using users_frame.frame_runD [OF session_db(5) [THEN users_of_db] get] .
  then have ui: "UInv w1" "users w1 = users w" using inv(1) by (simp_all add: keeps_users_def)
  have found: "user \<in> users w \<and> u_ID user = fst (uuid_Parse (au_packages u) s)"
    using us.id_found [OF ui(1)] byid r2 ui(2) by (metis fst_conv)
  have k1: "TInv w1" "w_clock w \<le> w_clock w1" using mt.inv_get [OF inv(2), of tok] mt.now_get [of w tok] get by simp_all
  have alive: "mtok (w_clock w1) w tok = Some s" using mt.get_value [OF inv(2)] get r1 by blast
  have m2: "keeps_tok TInv mtok w1 w2"
    using tok_frame.frame_runD [OF mtok_of_redis [OF repo_redis(3) repo_clock(3)] byid] .
  have m3: "keeps_tok TInv mtok w2 w3"
    using tok_frame.frame_runD [OF mtok_of_redis [OF ValidateCode_frames(2,6)] val] .
  have k3: "TInv w3" "w_clock w1 \<le> w_clock w2" "w_clock w2 \<le> w_clock w3"
    using m2 m3 k1 by (auto simp: keeps_tok_def)
  have k4: "TInv w4" "w_clock w3 \<le> w_clock w4"
    using mt.inv_revoke [OF k3(1), of tok] mt.now_revoke [of w3 tok] rev by simp_all
  have dead: "mtok t w4 tok = None" if "w_clock w4 \<le> t" for t
    using mt.revoke_ok [OF k3(1) rev [unfolded r4] that] by simp
  note G = generateSession_Inr [OF k4(1) ttl gen]
  have k6: "keeps_tok TInv rtok w5 w'" "keeps_tok TInv mtok w5 w'"
    using tok_frame.frame_runD [OF rtok_of_redis [OF audit_Log_frames(2,5)] log]
      tok_frame.frame_runD [OF mtok_of_redis [OF audit_Log_frames(2,5)] log] .
  have code: "validate_loop (au_totpManager u) (u_MFASecret user) code (w_clock w3) [-1, 0, 1]"
    using ValidateCode_result [OF val] r3 by (simp del: validate_loop.simps)
  have le: "w_clock w3 \<le> w_clock w'" "w_clock w5 \<le> w_clock w'" "w_clock w4 \<le> w_clock w5"
    using k4(2) G(3) k6(1) by (auto simp: keeps_tok_def)
  show thesis
  proof (rule that [of user "w_clock w1" "w_clock w3" s])
    show "session_opened u rtok user w res w'"
      by (rule session_opened_mono [OF G(1) _ k6(1) G(2)]) (use k1 k3 k4 in linarith)
    show "mtok t w' tok = None" if "w_clock w' \<le> t" for t
      using k6(2) G(2,5) le dead that by (simp add: keeps_tok_def)
  qed (use found r2 k1 k3 le alive code in auto)
qed

text \<open>A refresh that succeeds rotates the token.\<close>

lemma RefreshToken_Inr:
  assumes inv: "UInv w" "TInv w" and ttl: "0 < cfg_RefreshTokenTTL (au_cfg u)"
    and del: "\<And>w. result (sr_RevokeRefreshToken (au_sessionRepo u) raw) w = Inr ()"
    and run: "run_state (RefreshToken u raw ip) w = (Inr res, w')"
  obtains user s t0 where "user \<in> users w" and "u_IsActive user"
    and "w_clock w \<le> t0" and "t0 \<le> w_clock w'" and "rtok t0 w raw = Some s"
    and "uuid_Parse (au_packages u) s = (u_ID user, None)"
    and "session_opened u rtok user w res w'"
    and "\<And>t. at_RefreshToken res \<noteq> raw \<Longrightarrow> w_clock w' \<le> t \<Longrightarrow> rtok t w' raw = None"
proof -
  obtain r1 w1 where get: "run_state (sr_GetUserIDByRefreshToken (au_sessionRepo u) raw) w = (r1, w1)" by fastforce
  with run obtain s where r1: "r1 = Inr s" by (cases r1) (auto simp: RefreshToken_def split: if_splits)
  obtain i e where p: "uuid_Parse (au_packages u) s = (i, e)" by fastforce
  with run get r1 have e: "e = None" by (cases e) (auto simp: RefreshToken_def)
  obtain r2 w2 where byid: "run_state (ur_GetByID (au_userRepo u) i) w1 = (r2, w2)" by fastforce
  with run get r1 p e obtain user where r2: "r2 = Inr user" "u_IsActive user"
    by (cases r2) (auto simp: RefreshToken_def split: if_splits)
  obtain r3 w3 where rev: "run_state (sr_RevokeRefreshToken (au_sessionRepo u) raw) w2 = (r3, w3)" by fastforce
  have r3: "r3 = Inr ()" using del [of w2] rev by simp
  from run get r1 p e byid r2 rev obtain w4 where gen: "run_state (generateSession u user) w3 = (Inr res, w4)"
    and log: "run_state (audit_Log EventTokenRefreshed (u_Email user) ip ''token refreshed successfully'') w4 = ((), w')"
    by (auto simp: RefreshToken_def split: sum.splits prod.splits)
  have u1: "keeps_users UInv users w w1" using users_frame.frame_runD [OF session_db(2) [THEN users_of_db] get] .
  then have ui: "UInv w1" "users w1 = users w" using inv(1) by (simp_all add: keeps_users_def)
  have found: "user \<in> users w \<and> u_ID user = i"
    using us.id_found [OF ui(1)] byid r2 ui(2) by (metis fst_conv)
  have k1: "TInv w1" "w_clock w \<le> w_clock w1" using rt.inv_get [OF inv(2), of raw] rt.now_get [of w raw] get by simp_all
  have alive: "rtok (w_clock w1) w raw = Some s" using rt.get_value [OF inv(2)] get r1 by blast
  have k2: "TInv w2" "w_clock w1 \<le> w_clock w2"
    using tok_frame.frame_runD [OF rtok_prims(14) byid] k1 by (auto simp: keeps_tok_def)
  have k3: "TInv w3" "w_clock w2 \<le> w_clock w3"
    using rt.inv_revoke [OF k2(1), of raw] rt.now_revoke [of w2 raw] rev by simp_all
  have dead: "rtok t w3 raw = None" if "w_clock w3 \<le> t" for t
    using rt.revoke_ok [OF k2(1) rev [unfolded r3] that] by simp
  note G = generateSession_Inr [OF k3(1) ttl gen]
  have k5: "keeps_tok TInv rtok w4 w'" using tok_frame.frame_runD [OF rtok_of_redis [OF audit_Log_frames(2,5)] log] .
  have le: "w_clock w1 \<le> w_clock w'" "w_clock w4 \<le> w_clock w'"
    using k2 k3 G(3) k5 by (auto simp: keeps_tok_def)
  show thesis
  proof (rule that [of user "w_clock w1" s])
    show "session_opened u rtok user w res w'"
      by (rule session_opened_mono [OF G(1) _ k5 G(2)]) (use k1 k2 k3 in linarith)
    show "rtok t w' raw = None" if "at_RefreshToken res \<noteq> raw" "w_clock w' \<le> t" for t
      using k5 G(2,3,4) le dead that by (auto simp: keeps_tok_def)
  qed (use found r2 k1 k2 le alive p e in auto)
qed

text \<open>A registration that succeeds adds one user, with the least rights; a known address is never replaced.\<close>

lemma Register_Inr:
  assumes inv: "UInv w" and ok: "packages_ok (au_packages u)"
    and run: "run_state (Register u tenantID email password ip) w = (Inr (), w')"
  obtains user where "users w' = insert user (users w)" and "u_TenantID user = tenantID"
    and "ValidateAndCleanEmail email = Inr (u_Email user)"
    and "bcrypt_CompareHashAndPassword (au_packages u) (u_Password user) password = None"
    and "u_Role user = RoleUser" and "u_IsActive user" and "\<not> u_EmailVerified user" and "\<not> u_MFAEnabled user"
    and "\<And>v. v \<in> users w \<Longrightarrow> u_ID v \<noteq> u_ID user \<and> \<not> (u_TenantID v = tenantID \<and> u_Email v = u_Email user)"
proof -
  from run obtain cleaned where clean: "ValidateAndCleanEmail email = Inr cleaned"
    by (cases "ValidateAndCleanEmail email") (auto simp: Register_def)
  with run have valid: "ValidatePassword password = None"
    by (cases "ValidatePassword password") (auto simp: Register_def)
  obtain r1 w1 where bc: "run_state (bcrypt_GenerateFromPassword (au_packages u) password) w = (r1, w1)" by fastforce
  with run clean valid obtain h where r1: "r1 = Inr h" by (cases r1) (auto simp: Register_def)
  obtain now w2 where t: "run_state time_Now w1 = (now, w2)" by fastforce
  obtain i w3 where i: "run_state uuid_New w2 = (i, w3)" by fastforce
  define user where "user = zero_user\<lparr>u_ID := i, u_TenantID := tenantID, u_Email := cleaned, u_Password := h,
    u_Role := RoleUser, u_IsActive := True, u_EmailVerified := False, u_CreatedAt := now, u_UpdatedAt := now\<rparr>"
  obtain r4 w4 where cr: "run_state (ur_Create (au_userRepo u) user) w3 = (r4, w4)" by fastforce
  with run clean valid bc r1 t i have r4: "r4 = Inr ()"
    by (cases r4) (auto simp: Register_def Let_def user_def)
  obtain vt w5 where vt: "run_state (ignore_error '''' (GenerateSecureToken 32)) w4 = (vt, w5)" by fastforce
  obtain r6 w6 where st: "run_state (sr_StoreEmailVerifyToken (au_sessionRepo u) vt
      (uuid_String (au_packages u) i) (24 * hour)) w5 = (r6, w6)" by fastforce
  obtain r7 w7 where ml: "run_state (es_SendVerificationEmail (au_emailSender u) cleaned vt) w6 = (r7, w7)" by fastforce
  have log: "run_state (audit_Log EventRegisterSuccess cleaned ip ''user registered successfully'') w7 = ((), w')"
    using run clean valid bc r1 t i cr r4 vt st ml
    by (auto simp: Register_def Let_def user_def split: prod.splits)
  have "keeps_users UInv users w w1" "keeps_users UInv users w1 w2" "keeps_users UInv users w2 w3"
    using users_frame.frame_runD [OF bcrypt_frames(1) [THEN users_of_db] bc]
      users_frame.frame_runD [OF time_Now_frames(1) [THEN users_of_db] t]
      users_frame.frame_runD [OF uuid_New_frames(1) [THEN users_of_db] i] .
  then have i3: "UInv w3" "users w3 = users w" using inv by (auto simp: keeps_users_def)
  have i4: "UInv w4" using us.inv_create [OF i3(1), of user] cr by simp
  have "keeps_users UInv users w4 w5" "keeps_users UInv users w5 w6" "keeps_users UInv users w6 w7" "keeps_users UInv users w7 w'"
    using users_frame.frame_runD [OF ignore_error_frame [OF GenerateSecureToken_frames(1) [THEN users_of_db]] vt]
      users_frame.frame_runD [OF session_db(7) [THEN users_of_db] st]
      users_frame.frame_runD [OF outside_db(1) [THEN users_of_db] ml]
      users_frame.frame_runD [OF audit_Log_frames(1) [THEN users_of_db] log] .
  then have fin: "users w' = users w4" using i4 by (auto simp: keeps_users_def)
  have created: "users w4 = insert (stored_user user) (users w) \<and>
      (\<forall>v \<in> users w. u_ID v \<noteq> u_ID user \<and> \<not> (u_TenantID v = u_TenantID user \<and> u_Email v = u_Email user))"
    using us.create_ok [OF i3(1), of user] cr r4 i3(2) by simp
  have "bcrypt_CompareHashAndPassword (au_packages u) h password = None"
    using bc r1 ok by (auto simp: bcrypt_GenerateFromPassword_def packages_ok_def)
  then show thesis
    using created fin clean by (intro that [of "stored_user user"]) (auto simp: user_def)
qed

text \<open>A create of a user that clashes with a known one changes nothing.\<close>

lemma create_clash:
  assumes inv: "UInv w" and v: "v \<in> users w"
    and clash: "u_ID v = u_ID x \<or> (u_TenantID v = u_TenantID x \<and> u_Email v = u_Email x)"
  shows "users (after (ur_Create (au_userRepo u) x) w) = users w"
    and "\<exists>e. result (ur_Create (au_userRepo u) x) w = Inl e"
proof -
  note inv' = us.inv_create [OF inv, of x]
  show "users (after (ur_Create (au_userRepo u) x) w) = users w"
    using us.create_any [OF inv, of x]
  proof (elim disjE)
    assume ins: "users (after (ur_Create (au_userRepo u) x) w) = insert (stored_user x) (users w)"
    then have "v = stored_user x"
      using us.unique_id [OF inv', of v "stored_user x"] us.unique_email [OF inv', of v "stored_user x"] v clash by auto
    with ins v show ?thesis by auto
  qed
  show "\<exists>e. result (ur_Create (au_userRepo u) x) w = Inl e"
    using us.create_ok [OF inv, of x] v clash by (cases "result (ur_Create (au_userRepo u) x) w") auto
qed

lemma Register_taken:
  assumes inv: "UInv w" and v: "v \<in> users w" "u_TenantID v = tenantID" "ValidateAndCleanEmail email = Inr (u_Email v)"
    and run: "run_state (Register u tenantID email password ip) w = (r, w')"
  shows "\<exists>e. r = Inl e" and "users w' = users w"
proof -
  have both: "(\<exists>e. r = Inl e) \<and> users w' = users w"
  proof (cases "ValidatePassword password")
    case (Some e)
    with run v show ?thesis by (auto simp: Register_def)
  next
    case None
    obtain r1 w1 where bc: "run_state (bcrypt_GenerateFromPassword (au_packages u) password) w = (r1, w1)" by fastforce
    have k1: "keeps_users UInv users w w1" using users_frame.frame_runD [OF bcrypt_frames(1) [THEN users_of_db] bc] .
    show ?thesis
    proof (cases r1)
      case (Inl e)
      with run v None bc k1 inv show ?thesis by (auto simp: Register_def keeps_users_def)
    next
      case (Inr h)
      obtain now w2 where t: "run_state time_Now w1 = (now, w2)" by fastforce
      obtain i w3 where i: "run_state uuid_New w2 = (i, w3)" by fastforce
      define user where "user = zero_user\<lparr>u_ID := i, u_TenantID := tenantID, u_Email := u_Email v, u_Password := h,
        u_Role := RoleUser, u_IsActive := True, u_EmailVerified := False, u_CreatedAt := now, u_UpdatedAt := now\<rparr>"
      obtain r4 w4 where cr: "run_state (ur_Create (au_userRepo u) user) w3 = (r4, w4)" by fastforce
      have "keeps_users UInv users w1 w2" "keeps_users UInv users w2 w3"
        using users_frame.frame_runD [OF time_Now_frames(1) [THEN users_of_db] t]
          users_frame.frame_runD [OF uuid_New_frames(1) [THEN users_of_db] i] .
      then have i3: "UInv w3" "users w3 = users w" using k1 inv by (auto simp: keeps_users_def)
      have "v \<in> users w3" "u_TenantID v = u_TenantID user \<and> u_Email v = u_Email user"
        using v i3 by (auto simp: user_def)
      from create_clash [OF i3(1) this(1) disjI2 [OF this(2)]]
      obtain e where "users w4 = users w3" "r4 = Inl e" using cr by auto
      with run v None bc Inr t i cr i3 show ?thesis
        by (auto simp: Register_def Let_def user_def)
    qed
  qed
  then show "\<exists>e. r = Inl e" "users w' = users w" by auto
qed

text \<open>A password reset that succeeds: the token was alive, and only its user's hash changes.\<close>

lemma ConfirmPasswordReset_Inr:
  assumes inv: "UInv w" "TInv w" and ok: "packages_ok (au_packages u)"
    and del: "\<And>w. result (sr_RevokePasswordResetToken (au_sessionRepo u) tok) w = Inr ()"
    and run: "run_state (ConfirmPasswordReset u tok password) w = (Inr (), w')"
  obtains user s t0 h t where "user \<in> users w" and "w_clock w \<le> t0" and "ptok t0 w tok = Some s"
    and "fst (uuid_Parse (au_packages u) s) = u_ID user" and "ValidatePassword password = None"
    and "bcrypt_CompareHashAndPassword (au_packages u) h password = None"
    and "users w' = insert (user\<lparr>u_Password := h, u_UpdatedAt := t\<rparr>) (users w - {user})"
    and "\<And>t. w_clock w' \<le> t \<Longrightarrow> ptok t w' tok = None"
proof -
  from run have valid: "ValidatePassword password = None"
    by (cases "ValidatePassword password") (auto simp: ConfirmPasswordReset_def)
  obtain r1 w1 where get: "run_state (sr_GetUserIDByPasswordResetToken (au_sessionRepo u) tok) w = (r1, w1)" by fastforce
  with run valid obtain s where r1: "r1 = Inr s" by (cases r1) (auto simp: ConfirmPasswordReset_def)
  obtain r2 w2 where byid: "run_state (ur_GetByID (au_userRepo u) (fst (uuid_Parse (au_packages u) s))) w1 = (r2, w2)"
    by fastforce
  with run valid get r1 obtain user where r2: "r2 = Inr user"
    by (cases r2) (auto simp: ConfirmPasswordReset_def Let_def)
  obtain r3 w3 where bc: "run_state (bcrypt_GenerateFromPassword (au_packages u) password) w2 = (r3, w3)" by fastforce
  with run valid get r1 byid r2 obtain h where r3: "r3 = Inr h"
    by (cases r3) (auto simp: ConfirmPasswordReset_def Let_def)
  obtain now w4 where t: "run_state time_Now w3 = (now, w4)" by fastforce
  obtain r5 w5 where rev: "run_state (sr_RevokePasswordResetToken (au_sessionRepo u) tok) w4 = (r5, w5)" by fastforce
  have r5: "r5 = Inr ()" using del [of w4] rev by simp
  let ?x = "user\<lparr>u_Password := h, u_UpdatedAt := now\<rparr>"
  have upd: "run_state (ur_Update (au_userRepo u) ?x) w5 = (Inr (), w')"
    using run valid get r1 byid r2 bc r3 t rev by (auto simp: ConfirmPasswordReset_def Let_def)
  have "keeps_users UInv users w w1" "keeps_users UInv users w1 w2" "keeps_users UInv users w2 w3"
    "keeps_users UInv users w3 w4" "keeps_users UInv users w4 w5"
    using users_frame.frame_runD [OF session_db(11) [THEN users_of_db] get]
      users_frame.frame_runD [OF lookups_keep_users(2) byid]
      users_frame.frame_runD [OF bcrypt_frames(1) [THEN users_of_db] bc]
      users_frame.frame_runD [OF time_Now_frames(1) [THEN users_of_db] t]
      users_frame.frame_runD [OF session_db(12) [THEN users_of_db] rev] .
  then have i: "UInv w1" "users w1 = users w" "UInv w5" "users w5 = users w" using inv(1) by (auto simp: keeps_users_def)
  have found: "user \<in> users w \<and> u_ID user = fst (uuid_Parse (au_packages u) s)"
    using us.id_found [OF i(1)] byid r2 i(2) by (metis fst_conv)
  have tok1: "TInv w1" "w_clock w \<le> w_clock w1" "ptok (w_clock w1) w tok = Some s"
    using pt.inv_get [OF inv(2), of tok] pt.now_get [of w tok] pt.get_value [OF inv(2)] get r1 by auto
  have same: "w_redis w2 = w_redis w1" "w_redis w3 = w_redis w2" "w_redis w4 = w_redis w3" "w_redis w' = w_redis w5"
    using redis_frame.frame_runD [OF repo_redis(3) byid] redis_frame.frame_runD [OF bcrypt_frames(2) bc]
      redis_frame.frame_runD [OF time_Now_frames(2) t] redis_frame.frame_runD [OF repo_redis(5) upd] .
  have "TInv w4" using tok1(1) toks_local [of w4 w1] same by simp
  note dead = pt.revoke_ok [OF this rev [unfolded r5]]
  have "w_clock w5 \<le> w_clock w'" using clock_grows.frame_runD [OF repo_clock(5) upd] .
  then have gone: "ptok t w' tok = None" if "w_clock w' \<le> t" for t
    using dead [of t] that toks_local [OF same(4), of t] by simp
  have cmp: "bcrypt_CompareHashAndPassword (au_packages u) h password = None"
    using bc r3 ok by (auto simp: bcrypt_GenerateFromPassword_def packages_ok_def)
  have "users w' = insert (updated_user ?x user) (users w - {user})"
    using us.update_replaces [OF i(3), of user ?x] found i(4) upd by simp
  moreover have "updated_user ?x user = user\<lparr>u_Password := h, u_UpdatedAt := micros now\<rparr>"
    by (simp add: updated_user_def)
  ultimately show thesis
    using found tok1 valid cmp gone by (intro that [of user "w_clock w1" s h "micros now"]) auto
qed

text \<open>Enrolment: the secret is written first, the flag only after a code for it was shown.\<close>

lemma SetupMFA_Inr:
  assumes inv: "UInv w" and run: "run_state (SetupMFA u i) w = (Inr (secret, uri), w')"
  obtains user t b where "user \<in> users w" and "u_ID user = i" and "secret = base32_EncodeToString b" and "length b = 20"
    and "uri = ProvisioningURI (au_totpManager u) (u_Email user) secret"
    and "users w' = insert (user\<lparr>u_MFASecret := secret, u_UpdatedAt := t\<rparr>) (users w - {user})"
proof -
  obtain r1 w1 where byid: "run_state (ur_GetByID (au_userRepo u) i) w = (r1, w1)" by fastforce
  with run obtain user where r1: "r1 = Inr user" by (cases r1) (auto simp: SetupMFA_def)
  obtain r2 w2 where gs: "run_state GenerateSecret w1 = (r2, w2)" by fastforce
  with run byid r1 obtain sec where r2: "r2 = Inr sec" by (cases r2) (auto simp: SetupMFA_def)
  obtain now w3 where t: "run_state time_Now w2 = (now, w3)" by fastforce
  let ?x = "user\<lparr>u_MFASecret := sec, u_UpdatedAt := now\<rparr>"
  obtain r4 w4 where upd: "run_state (ur_Update (au_userRepo u) ?x) w3 = (r4, w4)" by fastforce
  have fin: "r4 = Inr ()" "secret = sec" "w' = w4" "uri = ProvisioningURI (au_totpManager u) (u_Email user) sec"
    using run byid r1 gs r2 t upd by (cases r4; auto simp: SetupMFA_def Let_def)+
  have "keeps_users UInv users w w1" "keeps_users UInv users w1 w2" "keeps_users UInv users w2 w3"
    using users_frame.frame_runD [OF lookups_keep_users(2) byid]
      users_frame.frame_runD [OF GenerateSecret_frames(1) [THEN users_of_db] gs]
      users_frame.frame_runD [OF time_Now_frames(1) [THEN users_of_db] t] .
  then have i3: "UInv w3" "users w3 = users w" using inv by (auto simp: keeps_users_def)
  have found: "user \<in> users w \<and> u_ID user = i" using us.id_found [OF inv] byid r1 by (metis fst_conv)
  have "users w' = insert (updated_user ?x user) (users w - {user})"
    using us.update_replaces [OF i3(1), of user ?x] found i3(2) upd fin by simp
  moreover have "updated_user ?x user = user\<lparr>u_MFASecret := sec, u_UpdatedAt := micros now\<rparr>"
    by (simp add: updated_user_def)
  moreover obtain b where "sec = base32_EncodeToString b" "length b = 20"
    using gs r2 by (auto simp: GenerateSecret_def rand_Read_def split: if_splits)
  ultimately show thesis using found fin by (intro that [of user b "micros now"]) auto
qed

lemma ConfirmMFASetup_Inr:
  assumes inv: "UInv w" and run: "run_state (ConfirmMFASetup u i code) w = (Inr (), w')"
  obtains user t1 t where "user \<in> users w" and "u_ID user = i"
    and "validate_loop (au_totpManager u) (u_MFASecret user) code t1 [-1, 0, 1]"
    and "users w' = insert (user\<lparr>u_MFAEnabled := True, u_UpdatedAt := t\<rparr>) (users w - {user})"
proof -
  obtain r1 w1 where byid: "run_state (ur_GetByID (au_userRepo u) i) w = (r1, w1)" by fastforce
  with run obtain user where r1: "r1 = Inr user" by (cases r1) (auto simp: ConfirmMFASetup_def)
  obtain b w2 where val: "run_state (ValidateCode (au_totpManager u) (u_MFASecret user) code) w1 = (b, w2)" by fastforce
  with run byid r1 have b: "b" by (cases b) (auto simp: ConfirmMFASetup_def)
  obtain now w3 where t: "run_state time_Now w2 = (now, w3)" by fastforce
  let ?x = "user\<lparr>u_MFAEnabled := True, u_UpdatedAt := now\<rparr>"
  have upd: "run_state (ur_Update (au_userRepo u) ?x) w3 = (Inr (), w')"
    using run byid r1 val b t by (auto simp: ConfirmMFASetup_def)
  have "keeps_users UInv users w w1" "keeps_users UInv users w1 w2" "keeps_users UInv users w2 w3"
    using users_frame.frame_runD [OF lookups_keep_users(2) byid]
      users_frame.frame_runD [OF ValidateCode_frames(1) [THEN users_of_db] val]
      users_frame.frame_runD [OF time_Now_frames(1) [THEN users_of_db] t] .
  then have i3: "UInv w3" "users w3 = users w" using inv by (auto simp: keeps_users_def)
  have found: "user \<in> users w \<and> u_ID user = i" using us.id_found [OF inv] byid r1 by (metis fst_conv)
  have "users w' = insert (updated_user ?x user) (users w - {user})"
    using us.update_replaces [OF i3(1), of user ?x] found i3(2) upd by simp
  moreover have "updated_user ?x user = user\<lparr>u_MFAEnabled := True, u_UpdatedAt := micros now\<rparr>"
    by (simp add: updated_user_def)
  ultimately show thesis
    using found ValidateCode_result [OF val] b by (intro that [of user "w_clock w2" "micros now"]) auto
qed

text \<open>Email verification sets one flag of the user the token was issued for.\<close>

lemma ConfirmEmailVerification_Inr:
  assumes inv: "UInv w" "TInv w" and run: "run_state (ConfirmEmailVerification u tok) w = (Inr (), w')"
  obtains user s t0 t where "user \<in> users w" and "w_clock w \<le> t0" and "etok t0 w tok = Some s"
    and "fst (uuid_Parse (au_packages u) s) = u_ID user"
    and "users w' = insert (user\<lparr>u_EmailVerified := True, u_UpdatedAt := t\<rparr>) (users w - {user})"
proof -
  obtain r1 w1 where get: "run_state (sr_GetUserIDByEmailVerifyToken (au_sessionRepo u) tok) w = (r1, w1)" by fastforce
  with run obtain s where r1: "r1 = Inr s" by (cases r1) (auto simp: ConfirmEmailVerification_def)
  obtain r2 w2 where byid: "run_state (ur_GetByID (au_userRepo u) (fst (uuid_Parse (au_packages u) s))) w1 = (r2, w2)"
    by fastforce
  with run get r1 obtain user where r2: "r2 = Inr user"
    by (cases r2) (auto simp: ConfirmEmailVerification_def Let_def)
  obtain now w3 where t: "run_state time_Now w2 = (now, w3)" by fastforce
  obtain r4 w4 where rev: "run_state (sr_RevokeEmailVerifyToken (au_sessionRepo u) tok) w3 = (r4, w4)" by fastforce
  let ?x = "user\<lparr>u_EmailVerified := True, u_UpdatedAt := now\<rparr>"
  have upd: "run_state (ur_Update (au_userRepo u) ?x) w4 = (Inr (), w')"
    using run get r1 byid r2 t rev by (auto simp: ConfirmEmailVerification_def Let_def)
  have "keeps_users UInv users w w1" "keeps_users UInv users w1 w2" "keeps_users UInv users w2 w3"
    "keeps_users UInv users w3 w4"
    using users_frame.frame_runD [OF session_db(8) [THEN users_of_db] get]
      users_frame.frame_runD [OF lookups_keep_users(2) byid]
      users_frame.frame_runD [OF time_Now_frames(1) [THEN users_of_db] t]
      users_frame.frame_runD [OF session_db(9) [THEN users_of_db] rev] .
  then have i: "UInv w1" "users w1 = users w" "UInv w4" "users w4 = users w" using inv(1) by (auto simp: keeps_users_def)
  have found: "user \<in> users w \<and> u_ID user = fst (uuid_Parse (au_packages u) s)"
    using us.id_found [OF i(1)] byid r2 i(2) by (metis fst_conv)
  have tok1: "w_clock w \<le> w_clock w1" "etok (w_clock w1) w tok = Some s"
    using et.now_get [of w tok] et.get_value [OF inv(2)] get r1 by auto
  have "users w' = insert (updated_user ?x user) (users w - {user})"
    using us.update_replaces [OF i(3), of user ?x] found i(4) upd by simp
  moreover have "updated_user ?x user = user\<lparr>u_EmailVerified := True, u_UpdatedAt := micros now\<rparr>"
    by (simp add: updated_user_def)
  ultimately show thesis using found tok1 by (intro that [of user "w_clock w1" s "micros now"]) auto
qed

text \<open>The federated login: what it proves about the state parameter, and where it stops looking.\<close>

definition provider_of :: "string \<Rightarrow> ('r, 'd) provider option" where
  "provider_of prov = (if prov = ''google'' then Some (au_googleOAuth u)
     else if prov = ''github'' then Some (au_githubOAuth u) else None)"

lemma provider_frames:
  assumes "provider_of prov = Some pv"
  shows "state_io_rel (keeps_users UInv users) (pv_ExchangeCode pv code)"
    and "state_io_rel (keeps_tok TInv rtok) (pv_ExchangeCode pv code)"
  using assms users_of_db [OF outside_db(3)] users_of_db [OF outside_db(4)]
    rtok_of_redis [OF outside_redis(3) outside_clock(3)] rtok_of_redis [OF outside_redis(4) outside_clock(4)]
  by (auto simp: provider_of_def split: if_splits)

lemma random_password_hash_frames:
  "state_io_rel (keeps_users UInv users) (random_password_hash u)"
  "state_io_rel (keeps_tok TInv rtok) (random_password_hash u)"
  unfolding random_password_hash_def by (intro frames users_prims rtok_prims)+

text \<open>The branch that creates the account.\<close>

definition oauth_new_user :: "uuid \<Rightarrow> string \<Rightarrow> user_info \<Rightarrow> string \<Rightarrow> time \<Rightarrow> uuid \<Rightarrow> user" where
  "oauth_new_user tenantID prov info hashed now ident = zero_user\<lparr>u_ID := ident, u_TenantID := tenantID,
     u_Email := ui_Email info, u_Password := hashed, u_Role := RoleUser, u_IsActive := True,
     u_EmailVerified := True, u_OAuthProvider := prov, u_OAuthSubject := ui_Subject info,
     u_CreatedAt := now, u_UpdatedAt := now\<rparr>"

definition oauth_create :: "uuid \<Rightarrow> string \<Rightarrow> user_info \<Rightarrow> ('r, 'd, auth_token_response) go" where
  "oauth_create tenantID prov info = do {
     hashed \<leftarrow> random_password_hash u;
     now \<leftarrow> time_Now;
     ident \<leftarrow> uuid_New;
     r \<leftarrow> ur_Create (au_userRepo u) (oauth_new_user tenantID prov info hashed now ident);
     case r of
       Inl err \<Rightarrow> fail err
     | Inr _ \<Rightarrow> generateSession u (oauth_new_user tenantID prov info hashed now ident) }"

lemma session_opened_stored [simp]: "session_opened u tok (stored_user x) = session_opened u tok x"
  by (simp add: session_opened_def access_token_for_def fun_eq_iff)

lemma oauth_create_Inr:
  assumes inv: "UInv w" "TInv w" and ttl: "0 < cfg_RefreshTokenTTL (au_cfg u)"
    and run: "run_state (oauth_create tenantID prov info) w = (Inr res, w')"
  obtains user where "users w' = insert user (users w)" and "u_TenantID user = tenantID"
    and "u_OAuthProvider user = prov" and "u_OAuthSubject user = ui_Subject info" and "u_Role user = RoleUser"
    and "session_opened u rtok user w res w'"
proof -
  obtain h w1 where h: "run_state (random_password_hash u) w = (h, w1)" by fastforce
  obtain now w2 where t: "run_state time_Now w1 = (now, w2)" by fastforce
  obtain i w3 where i: "run_state uuid_New w2 = (i, w3)" by fastforce
  let ?x = "oauth_new_user tenantID prov info h now i"
  obtain r w4 where cr: "run_state (ur_Create (au_userRepo u) ?x) w3 = (r, w4)" by fastforce
  with run h t i have r: "r = Inr ()" by (cases r) (auto simp: oauth_create_def)
  with run h t i cr have gen: "run_state (generateSession u ?x) w4 = (Inr res, w')" by (simp add: oauth_create_def)
  have "keeps_users UInv users w w1" "keeps_users UInv users w1 w2" "keeps_users UInv users w2 w3"
    using users_frame.frame_runD [OF random_password_hash_frames(1) h]
      users_frame.frame_runD [OF time_Now_frames(1) [THEN users_of_db] t]
      users_frame.frame_runD [OF uuid_New_frames(1) [THEN users_of_db] i] .
  then have i3: "UInv w3" "users w3 = users w" using inv(1) by (auto simp: keeps_users_def)
  have i4: "UInv w4" "users w4 = insert (stored_user ?x) (users w)"
    using us.inv_create [OF i3(1), of ?x] us.create_ok [OF i3(1), of ?x] cr r i3(2) by simp_all
  have "users w' = users w4"
    using users_frame.frame_runD [OF generateSession_users gen] i4(1) by (simp add: keeps_users_def)
  moreover have k: "keeps_tok TInv rtok w w1" "keeps_tok TInv rtok w1 w2" "keeps_tok TInv rtok w2 w3" "keeps_tok TInv rtok w3 w4"
    using tok_frame.frame_runD [OF random_password_hash_frames(2) h]
      tok_frame.frame_runD [OF rtok_of_redis [OF time_Now_frames(2,6)] t]
      tok_frame.frame_runD [OF rtok_of_redis [OF uuid_New_frames(2,6)] i]
      tok_frame.frame_runD [OF rtok_of_redis [OF repo_redis(1) repo_clock(1)] cr] .
  have t4: "TInv w4" "w_clock w \<le> w_clock w4" using k inv(2) by (auto simp: keeps_tok_def)
  note G = generateSession_Inr [OF t4(1) ttl gen]
  have "session_opened u rtok ?x w res w'"
    using session_opened_mono [OF G(1) t4(2) tok_frame.frame_refl G(2)] .
  ultimately show thesis using i4 by (intro that [of "stored_user ?x"]) (auto simp: oauth_new_user_def)
qed

lemma HandleOAuthCallback_Inr:
  assumes inv: "UInv w" "TInv w" and ttl: "0 < cfg_RefreshTokenTTL (au_cfg u)"
    and run: "run_state (HandleOAuthCallback u tenantID prov code st ip) w = (Inr res, w')"
  obtains t0 user where "prov = ''google'' \<or> prov = ''github''"
    and "w_clock w \<le> t0" and "t0 \<le> w_clock w'" and "otok t0 w st = Some prov"
    and "user \<in> users w'" and "u_TenantID user = tenantID" and "u_OAuthProvider user = prov"
    and "users w' = users w \<or> users w' = insert user (users w) \<and> u_Role user = RoleUser"
    and "session_opened u rtok user w res w'"
proof -
  obtain b w1 where val: "run_state (sr_ValidateAndConsumeOAuthState (au_sessionRepo u) st prov) w = (b, w1)" by fastforce
  with run have b: "b" by (cases b) (auto simp: HandleOAuthCallback_def split: prod.splits)
  with run val obtain pv where pv: "provider_of prov = Some pv"
    by (cases "provider_of prov") (auto simp: HandleOAuthCallback_def provider_of_def split: if_splits)
  then have known: "prov = ''google'' \<or> prov = ''github''" by (auto simp: provider_of_def split: if_splits)
  obtain r2 w2 where ex: "run_state (pv_ExchangeCode pv code) w1 = (r2, w2)" by fastforce
  with run val b pv obtain info where r2: "r2 = Inr info"
    by (cases r2) (auto simp: HandleOAuthCallback_def provider_of_def split: if_splits)
  obtain r3 w3 where bo: "run_state (ur_GetByOAuth (au_userRepo u) tenantID prov (ui_Subject info)) w2 = (r3, w3)"
    by fastforce
  from val b have "run_state (sr_ValidateAndConsumeOAuthState (au_sessionRepo u) st prov) w = (True, w1)" by simp
  from oauth_state [OF inv(2) this] obtain t where t: "w_clock w \<le> t" "t \<le> w_clock w1" "otok t w st = Some prov" by blast
  have "keeps_users UInv users w w1" "keeps_users UInv users w1 w2" "keeps_users UInv users w2 w3"
    using users_frame.frame_runD [OF session_db(14) [THEN users_of_db] val]
      users_frame.frame_runD [OF provider_frames(1) [OF pv] ex]
      users_frame.frame_runD [OF lookups_keep_users(3) bo] .
  then have i: "UInv w2" "users w2 = users w" "UInv w3" "users w3 = users w" using inv(1) by (auto simp: keeps_users_def)
  have k: "keeps_tok TInv rtok w w1" "keeps_tok TInv rtok w1 w2" "keeps_tok TInv rtok w2 w3"
    using tok_frame.frame_runD [OF rtok_prims(11) val] tok_frame.frame_runD [OF provider_frames(2) [OF pv] ex]
      tok_frame.frame_runD [OF rtok_of_redis [OF repo_redis(4) repo_clock(4)] bo] .
  then have t3: "TInv w3" "w_clock w \<le> w_clock w3" "w_clock w1 \<le> w_clock w3" using inv(2) by (auto simp: keeps_tok_def)
  show thesis
  proof (cases r3)
    case (Inr user)
    then have gen: "run_state (generateSession u user) w3 = (Inr res, w')"
      using run val b pv ex r2 bo by (auto simp: HandleOAuthCallback_def provider_of_def split: if_splits)
    note G = generateSession_Inr [OF t3(1) ttl gen]
    have "users w' = users w3" using users_frame.frame_runD [OF generateSession_users gen] i by (simp add: keeps_users_def)
    moreover have "user \<in> users w2 \<and> u_TenantID user = tenantID \<and> u_OAuthProvider user = prov"
      using us.oauth_found [OF i(1)] bo Inr by (metis fst_conv)
    moreover have "session_opened u rtok user w res w'"
      using session_opened_mono [OF G(1) t3(2) tok_frame.frame_refl G(2)] .
    ultimately show thesis using known t t3 G(3) i by (intro that [of t user]) auto
  next
    case (Inl e)
    have gen: "run_state (oauth_create tenantID prov info) w3 = (Inr res, w')"
      using run val b pv ex r2 bo Inl
      by (auto simp: HandleOAuthCallback_def provider_of_def oauth_create_def oauth_new_user_def Let_def split: if_splits)
    from oauth_create_Inr [OF i(3) t3(1) ttl gen] obtain user where
      new: "users w' = insert user (users w3)" "u_TenantID user = tenantID" "u_OAuthProvider user = prov"
        "u_Role user = RoleUser" "session_opened u rtok user w3 res w'" by metis
    from new(5) have "w_clock w3 \<le> w_clock w'" unfolding session_opened_def by force
    moreover have "session_opened u rtok user w res w'"
      using new(5) t3(2) unfolding session_opened_def access_token_for_def by (meson order_trans)
    ultimately show thesis using new known t t3 i by (intro that [of t user]) auto
  qed
qed

text \<open>A known user is let in whatever his flags say: neither \<open>IsActive\<close> nor \<open>MFAEnabled\<close> is read.\<close>

lemma HandleOAuthCallback_known:
  assumes "run_state (sr_ValidateAndConsumeOAuthState (au_sessionRepo u) st prov) w = (True, w1)"
    and "provider_of prov = Some pv" and "run_state (pv_ExchangeCode pv code) w1 = (Inr info, w2)"
    and "run_state (ur_GetByOAuth (au_userRepo u) tenantID prov (ui_Subject info)) w2 = (Inr user, w3)"
  shows "run_state (HandleOAuthCallback u tenantID prov code st ip) w = run_state (generateSession u user) w3"
  using assms by (auto simp: HandleOAuthCallback_def provider_of_def split: if_splits)

end

end
