(* ===== verification/Threads.thy ===== *)
theory Threads
  imports Prelude
begin

text \<open>
  Requests run at once, each in a goroutine of its own. A thread is a program cut at its calls to shared
  state: it is done, or it has a next call, which is one atomic step. A pool of threads over one state
  runs under a schedule, any list of indices. What a thread relies on and guarantees is a frame relation; what
  it has learnt must be stable under the steps of the others.
\<close>

section \<open>Threads\<close>

datatype ('s, 'a) thread =
    Done 'a
  | Step "'s \<Rightarrow> 's" "'s \<Rightarrow> ('s, 'a) thread"

definition call :: "('s, 'x) state \<Rightarrow> ('x \<Rightarrow> ('s, 'a) thread) \<Rightarrow> ('s, 'a) thread" where
  "call m k = Step (after m) (\<lambda>s. k (result m s))"

primrec seq :: "('s, 'a) thread \<Rightarrow> ('a \<Rightarrow> ('s, 'b) thread) \<Rightarrow> ('s, 'b) thread" where
  "seq (Done a) g = g a"
| "seq (Step f k) g = Step f (\<lambda>s. seq (k s) g)"

text \<open>A thread alone.\<close>

primrec run_thread :: "('s, 'a) thread \<Rightarrow> 's \<Rightarrow> 'a \<times> 's" where
  "run_thread (Done a) = (\<lambda>s. (a, s))"
| "run_thread (Step f k) = (\<lambda>s. run_thread (k s) (f s))"

lemma run_call [simp]: "run_thread (call m k) s = (case run_state m s of (r, s') \<Rightarrow> run_thread (k r) s')"
  by (simp add: call_def case_prod_unfold)

lemma run_seq [simp]: "run_thread (seq t g) s = (case run_thread t s of (a, s') \<Rightarrow> run_thread (g a) s')"
  by (induction t arbitrary: s) simp_all

lemma seq_call [simp]: "seq (call m k) g = call m (\<lambda>r. seq (k r) g)"
  by (simp add: call_def)

lemma seq_branch [simp]:
  "seq (if b then t else t') g = (if b then seq t g else seq t' g)"
  "seq (case x of Inl e \<Rightarrow> f e | Inr a \<Rightarrow> h a) g = (case x of Inl e \<Rightarrow> seq (f e) g | Inr a \<Rightarrow> seq (h a) g)"
  "seq (case z of (a, b) \<Rightarrow> p a b) g = (case z of (a, b) \<Rightarrow> seq (p a b) g)"
  "seq (case y of None \<Rightarrow> t | Some a \<Rightarrow> h' a) g = (case y of None \<Rightarrow> seq t g | Some a \<Rightarrow> seq (h' a) g)"
  by (simp_all split: sum.split option.split prod.split)

section \<open>Pools and schedules\<close>

type_synonym ('s, 'a) pool = "('s, 'a) thread list \<times> 's"

text \<open>Thread \<open>i\<close> makes its next call; a schedule may name a thread that is done, or none.\<close>

fun pool_step :: "nat \<Rightarrow> ('s, 'a) pool \<Rightarrow> ('s, 'a) pool" where
  "pool_step i (ts, s) =
     (if i < length ts then
        (case ts ! i of Done a \<Rightarrow> (ts, s) | Step f k \<Rightarrow> (ts[i := k s], f s))
      else (ts, s))"

abbreviation interleaved :: "nat list \<Rightarrow> ('s, 'a) pool \<Rightarrow> ('s, 'a) pool" where
  "interleaved sch c \<equiv> fold pool_step sch c"

lemma pool_step_length [simp]: "length (fst (pool_step i c)) = length (fst c)"
  by (cases c) (simp split: thread.split)

lemma interleaved_length [simp]: "length (fst (interleaved sch c)) = length (fst c)"
  by (induction sch arbitrary: c) simp_all

text \<open>A property of pools that every step keeps.\<close>

lemma interleaved_invariant:
  assumes "Inv c" and "\<And>i c. Inv c \<Longrightarrow> Inv (pool_step i c)"
  shows "Inv (interleaved sch c)"
  using assms by (induction sch arbitrary: c) auto

text \<open>A thread that has its turn until it is done runs as it runs alone.\<close>

lemma interleaved_turn:
  assumes "i < length ts"
  shows "\<exists>n. interleaved (replicate n i) (ts, s) = (case run_thread (ts ! i) s of (a, s') \<Rightarrow> (ts[i := Done a], s'))"
proof -
  have "\<exists>n. interleaved (replicate n i) (ts, s) = (case run_thread t s of (a, s') \<Rightarrow> (ts[i := Done a], s'))"
    if "i < length ts" "ts ! i = t" for t
    using that
  proof (induction t arbitrary: ts s)
    case (Done a)
    then have "ts[i := Done a] = ts" by (metis list_update_id)
    then show ?case by (intro exI [of _ 0]) simp
  next
    case (Step f k)
    then obtain n where "interleaved (replicate n i) (ts[i := k s], f s) =
        (case run_thread (k s) (f s) of (a, s') \<Rightarrow> (ts[i := Done a], s'))"
      using Step.IH [of "k s" "ts[i := k s]" "f s"] by auto
    with Step.prems show ?case by (intro exI [of _ "Suc n"]) simp
  qed
  with assms show ?thesis by blast
qed

text \<open>One after another.\<close>

primrec run_serial :: "('s, 'a) thread list \<Rightarrow> 's \<Rightarrow> 'a list \<times> 's" where
  "run_serial [] = (\<lambda>s. ([], s))"
| "run_serial (t # ts) = (\<lambda>s. case run_thread t s of (a, s1) \<Rightarrow> (case run_serial ts s1 of (as, s2) \<Rightarrow> (a # as, s2)))"

lemma interleaved_serial:
  "\<exists>sch. interleaved sch (ds @ ts, s) = (case run_serial ts s of (as, s') \<Rightarrow> (ds @ map Done as, s'))"
proof (induction ts arbitrary: ds s)
  case Nil
  show ?case by (rule exI [of _ "[]"]) simp
next
  case (Cons t ts)
  obtain a s1 where run: "run_thread t s = (a, s1)" by fastforce
  obtain n where n: "interleaved (replicate n (length ds)) (ds @ t # ts, s) = (ds @ Done a # ts, s1)"
    using interleaved_turn [of "length ds" "ds @ t # ts" s] run by auto
  obtain sch where "interleaved sch ((ds @ [Done a]) @ ts, s1) = (case run_serial ts s1 of (as, s') \<Rightarrow> ((ds @ [Done a]) @ map Done as, s'))"
    using Cons.IH [of "ds @ [Done a]" s1] by blast
  with n run show ?case by (intro exI [of _ "replicate n (length ds) @ sch"]) (simp split: prod.split)
qed

text \<open>A thread that is not scheduled stays where it is.\<close>

lemma interleaved_idle: "i \<notin> set sch \<Longrightarrow> fst (interleaved sch (ts, s)) ! i = ts ! i"
proof (induction sch arbitrary: ts s)
  case (Cons j sch)
  obtain ts1 s1 where c: "pool_step j (ts, s) = (ts1, s1)" by fastforce
  then have "ts1 ! i = ts ! i" using Cons.prems by (auto split: if_splits thread.splits)
  with Cons.IH [of ts1 s1] Cons.prems c show ?case by simp
qed simp

section \<open>No thread waits for another\<close>

text \<open>The number of calls a thread can still make, whatever state it finds at each of them.\<close>

primrec done_within :: "('s, 'a) thread \<Rightarrow> nat \<Rightarrow> bool" where
  "done_within (Done a) = (\<lambda>n. True)"
| "done_within (Step f k) = (\<lambda>n. 0 < n \<and> (\<forall>s. done_within (k s) (n - 1)))"

named_theorems within_rules

lemma within_Done [within_rules]: "done_within (Done a) n"
  by simp

lemma within_call [within_rules]: "(\<And>r. done_within (k r) n) \<Longrightarrow> done_within (call m k) (Suc n)"
  by (simp add: call_def)

lemma within_mono: "done_within t n \<Longrightarrow> n \<le> m \<Longrightarrow> done_within t m"
  by (induction t arbitrary: n m) (simp, metis diff_le_mono less_le_trans rangeI done_within.simps(2))

lemma within_seq: "done_within t n \<Longrightarrow> (\<And>a. done_within (g a) m) \<Longrightarrow> done_within (seq t g) (n + m)"
proof (induction t arbitrary: n)
  case (Done a)
  then show ?case using within_mono [of "g a" m "n + m"] by simp
next
  case (Step f k)
  have "done_within (seq (k s) g) (n - 1 + m)" for s using Step by (intro Step.IH) auto
  then show ?case using Step.prems(1) by simp
qed

lemma within_branch [within_rules]:
  "done_within t n \<Longrightarrow> done_within t' n \<Longrightarrow> done_within (if b then t else t') n"
  "(\<And>e. done_within (f e) n) \<Longrightarrow> (\<And>a. done_within (h a) n) \<Longrightarrow> done_within (case x of Inl e \<Rightarrow> f e | Inr a \<Rightarrow> h a) n"
  "done_within t n \<Longrightarrow> (\<And>a. done_within (h' a) n) \<Longrightarrow> done_within (case y of None \<Rightarrow> t | Some a \<Rightarrow> h' a) n"
  "(\<And>a b. done_within (p a b) n) \<Longrightarrow> done_within (case z of (a, b) \<Rightarrow> p a b) n"
  by (simp_all split: sum.split option.split prod.split)

text \<open>Scheduled that often, it is done, whatever the others do in between.\<close>

lemma within_pool:
  assumes "i < length ts" "done_within (ts ! i) n" "n \<le> count_list sch i"
  shows "\<exists>a. fst (interleaved sch (ts, s)) ! i = Done a"
  using assms
proof (induction sch arbitrary: ts s n)
  case Nil
  then show ?case by (cases "ts ! i") simp_all
next
  case (Cons j sch)
  obtain ts' s' where c: "pool_step j (ts, s) = (ts', s')" by fastforce
  have len: "length ts' = length ts" using pool_step_length [of j "(ts, s)"] c by simp
  show ?case
  proof (cases "j = i")
    case True
    have "done_within (ts' ! i) (n - 1)"
      using Cons.prems c True by (cases "ts ! i") auto
    from Cons.IH [OF _ this, of s'] Cons.prems len c True show ?thesis by simp
  next
    case False
    have "ts' ! i = ts ! i" using c False by (auto split: if_splits thread.splits)
    with Cons.IH [of ts' n s'] Cons.prems len c False show ?thesis by simp
  qed
qed

section \<open>Rely and guarantee\<close>

text \<open>
  Whatever the others do within the relation, each step of the thread stays within it, and a result of the thread
  satisfies the postcondition.
\<close>

primrec safe :: "('s \<Rightarrow> 's \<Rightarrow> bool) \<Rightarrow> ('a \<Rightarrow> bool) \<Rightarrow> ('s, 'a) thread \<Rightarrow> 's \<Rightarrow> bool" where
  "safe R Q (Done a) = (\<lambda>s. Q a)"
| "safe R Q (Step f k) = (\<lambda>s. \<forall>s1. R s s1 \<longrightarrow> R s1 (f s1) \<and> safe R Q (k s1) (f s1))"

definition stable :: "('s \<Rightarrow> 's \<Rightarrow> bool) \<Rightarrow> ('s \<Rightarrow> bool) \<Rightarrow> bool" where
  "stable R P \<longleftrightarrow> (\<forall>s s'. P s \<longrightarrow> R s s' \<longrightarrow> P s')"

text \<open>The thread is safe whenever it starts knowing \<open>P\<close>.\<close>

definition sat :: "('s \<Rightarrow> 's \<Rightarrow> bool) \<Rightarrow> ('s \<Rightarrow> bool) \<Rightarrow> ('a \<Rightarrow> bool) \<Rightarrow> ('s, 'a) thread \<Rightarrow> bool" where
  "sat R P Q t \<longleftrightarrow> (\<forall>s. P s \<longrightarrow> safe R Q t s)"

context frame
begin

lemma safe_later: "safe R Q t s \<Longrightarrow> R s s' \<Longrightarrow> safe R Q t s'"
  by (cases t) (auto intro: frame_trans)

lemma safe_post: "safe R Q t s \<Longrightarrow> (\<And>a. Q a \<Longrightarrow> Q' a) \<Longrightarrow> safe R Q' t s"
  by (induction t arbitrary: s) auto

lemma sat_done: "Q a \<Longrightarrow> sat R P Q (Done a)"
  by (simp add: sat_def)

lemma sat_prim:
  assumes "stable R P" "state_io_rel R m" "\<And>r. sat R P Q (k r)"
  shows "sat R P Q (call m k)"
  unfolding sat_def call_def safe.simps
proof (intro allI impI conjI)
  fix s s1 assume "P s" "R s s1"
  then have P: "P s1" using assms(1) by (auto simp: stable_def)
  show step: "R s1 (after m s1)" using assms(2) by (rule frameD)
  have "P (after m s1)" using assms(1) P step by (auto simp: stable_def)
  then show "safe R Q (k (result m s1)) (after m s1)" using assms(3) by (simp add: sat_def)
qed

lemma sat_learn:
  assumes "stable R P" "\<And>s. P s \<Longrightarrow> R s (after m s) \<and> P' (result m s) (after m s)"
    and "\<And>r. sat R (P' r) Q (k r)"
  shows "sat R P Q (call m k)"
  unfolding sat_def call_def safe.simps
proof (intro allI impI conjI)
  fix s s1 assume "P s" "R s s1"
  then have P: "P s1" using assms(1) by (auto simp: stable_def)
  then show "R s1 (after m s1)" "safe R Q (k (result m s1)) (after m s1)"
    using assms(2) [OF P] assms(3) by (simp_all add: sat_def)
qed

lemma sat_weaken: "sat R P Q t \<Longrightarrow> (\<And>s. P' s \<Longrightarrow> P s) \<Longrightarrow> sat R P' Q t"
  by (auto simp: sat_def)

lemma safe_seq:
  assumes "safe R Q t s" "stable R P" "P s" "\<And>a. Q a \<Longrightarrow> sat R P Q' (g a)"
  shows "safe R Q' (seq t g) s"
  using assms(1,3)
proof (induction t arbitrary: s)
  case (Done a)
  then show ?case using assms(4) by (simp add: sat_def)
next
  case (Step f k)
  have "R s1 (f s1) \<and> safe R Q' (seq (k s1) g) (f s1)" if "R s s1" for s1
  proof -
    have s1: "R s1 (f s1)" "safe R Q (k s1) (f s1)" using Step.prems(1) that by auto
    have "P (f s1)" using Step.prems(2) that s1(1) assms(2) unfolding stable_def by blast
    then have "safe R Q' (seq (k s1) g) (f s1)" using Step.IH [OF _ s1(2)] by simp
    with s1(1) show ?thesis by simp
  qed
  then show ?case by simp
qed

lemma sat_seq:
  assumes "stable R P" "sat R P Q t" "\<And>a. Q a \<Longrightarrow> sat R P Q' (g a)"
  shows "sat R P Q' (seq t g)"
  unfolding sat_def
proof (intro allI impI)
  fix s assume "P s"
  with assms(2) have "safe R Q t s" by (simp add: sat_def)
  then show "safe R Q' (seq t g) s" by (rule safe_seq [OF _ assms(1) \<open>P s\<close> assms(3)])
qed

lemma sat_answer: "stable R P \<Longrightarrow> sat R P (\<lambda>a. True) t \<Longrightarrow> sat R P (\<lambda>a. True) (seq t (\<lambda>a. Done (f a)))"
  by (rule sat_seq) (simp_all add: sat_done)

lemma sat_branch:
  "(b \<Longrightarrow> sat R P Q t) \<Longrightarrow> (\<not> b \<Longrightarrow> sat R P Q t') \<Longrightarrow> sat R P Q (if b then t else t')"
  "(\<And>e. x = Inl e \<Longrightarrow> sat R P Q (f e)) \<Longrightarrow> (\<And>a. x = Inr a \<Longrightarrow> sat R P Q (h a)) \<Longrightarrow>
     sat R P Q (case x of Inl e \<Rightarrow> f e | Inr a \<Rightarrow> h a)"
  "(y = None \<Longrightarrow> sat R P Q t) \<Longrightarrow> (\<And>a. y = Some a \<Longrightarrow> sat R P Q (h' a)) \<Longrightarrow>
     sat R P Q (case y of None \<Rightarrow> t | Some a \<Rightarrow> h' a)"
  "(\<And>a b. z = (a, b) \<Longrightarrow> sat R P Q (p a b)) \<Longrightarrow> sat R P Q (case z of (a, b) \<Rightarrow> p a b)"
  by (simp_all split: sum.split option.split prod.split)

text \<open>Safe threads together: the relation holds from the start to the end of every schedule.\<close>

lemma pool_step_safe:
  assumes "\<forall>i < length ts. safe R (Q i) (ts ! i) s" and "pool_step j (ts, s) = (ts', s')"
  shows "R s s' \<and> (\<forall>i < length ts'. safe R (Q i) (ts' ! i) s')"
proof (cases "j < length ts \<and> (\<exists>f k. ts ! j = Step f k)")
  case True
  then obtain f k where j: "j < length ts" "ts ! j = Step f k" by blast
  with assms(2) have c: "ts' = ts[j := k s]" "s' = f s" by simp_all
  have "safe R (Q j) (Step f k) s" using assms(1) j by metis
  then have g: "R s (f s)" "safe R (Q j) (k s) (f s)" using frame_refl [of s] by simp_all
  have "safe R (Q i) (ts' ! i) s'" if "i < length ts'" for i
  proof (cases "i = j")
    case False
    then have "safe R (Q i) (ts ! i) s" using that assms(1) c by simp
    with False show ?thesis using safe_later [of "Q i" "ts ! i" s s'] g c by simp
  qed (use that g c in simp)
  with g c show ?thesis by simp
next
  case False
  with assms(2) have "ts' = ts \<and> s' = s" by (auto split: if_splits thread.splits)
  with assms(1) frame_refl show ?thesis by simp
qed

lemma pool_safe:
  assumes "\<forall>i < length ts. safe R (Q i) (ts ! i) s" and "interleaved sch (ts, s) = (ts', s')"
  shows "R s s'" and "\<forall>i < length ts'. safe R (Q i) (ts' ! i) s'"
proof -
  have "R s s' \<and> (\<forall>i < length ts'. safe R (Q i) (ts' ! i) s')"
    using assms
  proof (induction sch arbitrary: ts s)
    case Nil
    then show ?case using frame_refl by simp
  next
    case (Cons j sch)
    obtain ts1 s1 where c: "pool_step j (ts, s) = (ts1, s1)" by fastforce
    from pool_step_safe [OF Cons.prems(1) c] Cons.IH [of ts1 s1] Cons.prems(2) c
    show ?case by (auto intro: frame_trans)
  qed
  then show "R s s'" "\<forall>i < length ts'. safe R (Q i) (ts' ! i) s'" by blast+
qed

end

text \<open>What the state is like once the thread is done, if the others keep that.\<close>

primrec ensures :: "('s \<Rightarrow> 's \<Rightarrow> bool) \<Rightarrow> ('a \<Rightarrow> 's \<Rightarrow> bool) \<Rightarrow> ('s, 'a) thread \<Rightarrow> 's \<Rightarrow> bool" where
  "ensures R Q (Done a) = (\<lambda>s. Q a s)"
| "ensures R Q (Step f k) = (\<lambda>s. \<forall>s1. R s s1 \<longrightarrow> ensures R Q (k s1) (f s1))"

lemma ensures_call: "ensures R Q (call m k) s \<longleftrightarrow> (\<forall>s1. R s s1 \<longrightarrow> ensures R Q (k (result m s1)) (after m s1))"
  by (simp add: call_def)

context frame
begin

lemma ensures_later: "(\<And>a. stable R (Q a)) \<Longrightarrow> ensures R Q t s \<Longrightarrow> R s s' \<Longrightarrow> ensures R Q t s'"
  by (cases t) (auto simp: stable_def intro: frame_trans)

lemma pool_ensures:
  assumes Q: "\<And>a. stable R (Q a)" and "i < length ts" "ensures R Q (ts ! i) s"
    and "\<forall>j < length ts. safe R (\<lambda>a. True) (ts ! j) s" and "interleaved sch (ts, s) = (ts', s')"
  shows "ensures R Q (ts' ! i) s'"
  using assms(2-)
proof (induction sch arbitrary: ts s)
  case (Cons j sch)
  obtain ts1 s1 where c: "pool_step j (ts, s) = (ts1, s1)" by fastforce
  note step = pool_step_safe [OF Cons.prems(3) c]
  have "ensures R Q (ts1 ! i) s1"
  proof (cases "i = j")
    case True
    then show ?thesis using Cons.prems(1,2) c frame_refl [of s] by (cases "ts ! i") auto
  next
    case False
    then have "ts1 ! i = ts ! i" using c by (auto split: if_splits thread.splits)
    then show ?thesis using ensures_later [OF Q Cons.prems(2)] step by simp
  qed
  moreover have "length ts1 = length ts" using pool_step_length [of j "(ts, s)"] c by simp
  ultimately show ?case using Cons.IH [of ts1 s1] Cons.prems c step by simp
qed simp

end

section \<open>The first one wins\<close>

text \<open>
  Threads that contend for something that can be taken once: while it is free, a step may take it, and a
  thread that finds it taken fails.
\<close>

primrec once :: "('s \<Rightarrow> 's \<Rightarrow> bool) \<Rightarrow> ('s \<Rightarrow> bool) \<Rightarrow> ('a \<Rightarrow> bool) \<Rightarrow> ('s, 'a) thread \<Rightarrow> 's \<Rightarrow> bool" where
  "once R T W (Done a) = (\<lambda>s. \<not> W a)"
| "once R T W (Step f k) = (\<lambda>s. \<forall>s1. R s s1 \<longrightarrow> R s1 (f s1) \<and>
     (if T s1 then safe R (\<lambda>a. \<not> W a) (k s1) (f s1)
      else if T (f s1) then safe R (\<lambda>a. True) (k s1) (f s1)
      else once R T W (k s1) (f s1)))"

definition contends :: "('s \<Rightarrow> 's \<Rightarrow> bool) \<Rightarrow> ('s \<Rightarrow> bool) \<Rightarrow> ('a \<Rightarrow> bool) \<Rightarrow> ('s \<Rightarrow> bool) \<Rightarrow> ('s, 'a) thread \<Rightarrow> bool" where
  "contends R T W P t \<longleftrightarrow> (\<forall>s. P s \<longrightarrow> once R T W t s)"

context frame
begin

lemma once_later: "once R T W t s \<Longrightarrow> R s s' \<Longrightarrow> once R T W t s'"
  by (cases t) (auto intro: frame_trans)

lemma once_safe: "once R T W t s \<Longrightarrow> safe R (\<lambda>a. True) t s"
proof (induction t arbitrary: s)
  case (Step f k)
  have "R s1 (f s1) \<and> safe R (\<lambda>a. True) (k s1) (f s1)" if "R s s1" for s1
  proof -
    have o: "R s1 (f s1)" "if T s1 then safe R (\<lambda>a. \<not> W a) (k s1) (f s1)
        else if T (f s1) then safe R (\<lambda>a. True) (k s1) (f s1) else once R T W (k s1) (f s1)"
      using Step.prems that by auto
    then show ?thesis using Step.IH [of "k s1" "f s1"] safe_post [of "\<lambda>a. \<not> W a" "k s1" "f s1" "\<lambda>a. True"]
      by (auto split: if_splits)
  qed
  then show ?case by simp
qed simp

lemma once_taken:
  assumes "stable R T" "once R T W t s" "T s"
  shows "safe R (\<lambda>a. \<not> W a) t s"
proof (cases t)
  case (Step f k)
  have "R s1 (f s1) \<and> safe R (\<lambda>a. \<not> W a) (k s1) (f s1)" if "R s s1" for s1
    using assms that Step by (auto simp: stable_def)
  with Step show ?thesis by simp
qed (use assms(2) in simp)

lemma contends_lost: "\<not> W a \<Longrightarrow> contends R T W P (Done a)"
  by (simp add: contends_def)

lemma contends_prim:
  assumes T: "stable R T" and P: "stable R P" and m: "state_io_rel R m" and k: "\<And>r. contends R T W P (k r)"
  shows "contends R T W P (call m k)"
  unfolding contends_def call_def once.simps
proof (intro allI impI conjI)
  fix s s1 assume "P s" "R s s1"
  then have "P s1" using P by (auto simp: stable_def)
  show step: "R s1 (after m s1)" using m by (rule frameD)
  have "P (after m s1)" using P \<open>P s1\<close> step by (auto simp: stable_def)
  then have o: "once R T W (k (result m s1)) (after m s1)" using k by (simp add: contends_def)
  show "if T s1 then safe R (\<lambda>a. \<not> W a) (k (result m s1)) (after m s1)
      else if T (after m s1) then safe R (\<lambda>a. True) (k (result m s1)) (after m s1)
      else once R T W (k (result m s1)) (after m s1)"
    using o once_safe [OF o] once_taken [OF T o] T step by (auto simp: stable_def)
qed

lemma contends_take:
  assumes T: "stable R T" and P: "stable R P" and m: "\<And>s. P s \<Longrightarrow> R s (after m s)"
    and taken: "\<And>s x. P s \<Longrightarrow> T s \<Longrightarrow> result m s \<noteq> Inr x" and takes: "\<And>s x. P s \<Longrightarrow> result m s = Inr x \<Longrightarrow> T (after m s)"
    and lost: "\<And>e. contends R T W P (k (Inl e))" and won: "\<And>x. sat R P (\<lambda>a. True) (k (Inr x))"
  shows "contends R T W P (call m k)"
  unfolding contends_def call_def once.simps
proof (intro allI impI conjI)
  fix s s1 assume "P s" "R s s1"
  then have P1: "P s1" using P by (auto simp: stable_def)
  show step: "R s1 (after m s1)" using m [OF P1] .
  have P2: "P (after m s1)" using P P1 step by (auto simp: stable_def)
  show "if T s1 then safe R (\<lambda>a. \<not> W a) (k (result m s1)) (after m s1)
      else if T (after m s1) then safe R (\<lambda>a. True) (k (result m s1)) (after m s1)
      else once R T W (k (result m s1)) (after m s1)"
  proof (cases "result m s1")
    case (Inl e)
    then have o: "once R T W (k (result m s1)) (after m s1)" using lost P2 by (simp add: contends_def)
    then show ?thesis using once_safe [OF o] once_taken [OF T o] T step by (auto simp: stable_def)
  next
    case (Inr x)
    have "\<not> T s1" using taken [OF P1, of x] Inr by blast
    moreover have "T (after m s1)" using takes [OF P1 Inr] .
    moreover have "safe R (\<lambda>a. True) (k (result m s1)) (after m s1)" using won [of x] P2 Inr by (simp add: sat_def)
    ultimately show ?thesis by simp
  qed
qed

lemma contends_branch:
  "(\<And>e. x = Inl e \<Longrightarrow> contends R T W P (f e)) \<Longrightarrow> (\<And>a. x = Inr a \<Longrightarrow> contends R T W P (h a)) \<Longrightarrow>
     contends R T W P (case x of Inl e \<Rightarrow> f e | Inr a \<Rightarrow> h a)"
  "(y = None \<Longrightarrow> contends R T W P t) \<Longrightarrow> (\<And>a. y = Some a \<Longrightarrow> contends R T W P (h' a)) \<Longrightarrow>
     contends R T W P (case y of None \<Rightarrow> t | Some a \<Rightarrow> h' a)"
  by (simp_all split: sum.split option.split)

text \<open>While it is free all contend; once it is taken all but one fail.\<close>

definition contest :: "('s \<Rightarrow> bool) \<Rightarrow> ('a \<Rightarrow> bool) \<Rightarrow> nat set \<Rightarrow> ('s, 'a) pool \<Rightarrow> bool" where
  "contest T W A c \<longleftrightarrow> (\<forall>i < length (fst c). safe R (\<lambda>a. True) (fst c ! i) (snd c)) \<and>
     (if T (snd c) then \<exists>w. \<forall>i < length (fst c). i \<in> A \<and> i \<noteq> w \<longrightarrow> safe R (\<lambda>a. \<not> W a) (fst c ! i) (snd c)
      else \<forall>i < length (fst c). i \<in> A \<longrightarrow> once R T W (fst c ! i) (snd c))"

lemma contest_step:
  assumes T: "stable R T" and c: "contest T W A c"
  shows "contest T W A (pool_step j c)"
proof -
  obtain ts s where [simp]: "c = (ts, s)" by fastforce
  show ?thesis
  proof (cases "j < length ts \<and> (\<exists>f k. ts ! j = Step f k)")
    case False
    then have "pool_step j c = c" by (auto split: thread.splits)
    with c show ?thesis by simp
  next
    case True
    then obtain f k where j: "j < length ts" "ts ! j = Step f k" by blast
    then have c': "pool_step j c = (ts[j := k s], f s)" by simp
    have all: "\<forall>i < length ts. safe R (\<lambda>a. True) (ts ! i) s" using c by (simp add: contest_def)
    have step: "R s (f s)" "\<forall>i < length (ts[j := k s]). safe R (\<lambda>a. True) (ts[j := k s] ! i) (f s)"
      using pool_step_safe [of ts "\<lambda>i a. True" s j "ts[j := k s]" "f s"] all c' by auto
    show ?thesis
    proof (cases "T s")
      case True
      then obtain w where w: "\<forall>i < length ts. i \<in> A \<and> i \<noteq> w \<longrightarrow> safe R (\<lambda>a. \<not> W a) (ts ! i) s"
        using c by (auto simp: contest_def)
      have "safe R (\<lambda>a. \<not> W a) (ts[j := k s] ! i) (f s)" if "i < length ts" "i \<in> A" "i \<noteq> w" for i
      proof (cases "i = j")
        case True
        then have "safe R (\<lambda>a. \<not> W a) (Step f k) s" using w that j by metis
        with True j show ?thesis using frame_refl by simp
      next
        case False
        then show ?thesis using w that safe_later [OF _ step(1)] by auto
      qed
      moreover have "T (f s)" using T True step(1) by (auto simp: stable_def)
      ultimately show ?thesis using step(2) c' unfolding contest_def by auto
    next
      case False
      then have o: "\<forall>i < length ts. i \<in> A \<longrightarrow> once R T W (ts ! i) s" using c by (simp add: contest_def)
      have rest: "once R T W (ts ! i) (f s)" if "i < length ts" "i \<in> A" for i
        using o that once_later [OF _ step(1)] by blast
      show ?thesis
      proof (cases "T (f s)")
        case True
        have "safe R (\<lambda>a. \<not> W a) (ts[j := k s] ! i) (f s)" if "i < length ts" "i \<in> A" "i \<noteq> j" for i
          using once_taken [OF T rest True] that by simp
        then have "\<exists>w. \<forall>i < length ts. i \<in> A \<and> i \<noteq> w \<longrightarrow> safe R (\<lambda>a. \<not> W a) (ts[j := k s] ! i) (f s)"
          by (intro exI [of _ j]) simp
        with True step(2) show ?thesis unfolding contest_def c' by simp
      next
        case False2: False
        have "once R T W (ts[j := k s] ! i) (f s)" if "i < length ts" "i \<in> A" for i
        proof (cases "i = j")
          case True
          then have "once R T W (Step f k) s" using o that j by metis
          with True j False False2 show ?thesis using frame_refl [of s] by simp
        qed (use rest that in simp)
        with False2 step(2) show ?thesis unfolding contest_def c' by simp
      qed
    qed
  qed
qed

lemma first_wins:
  assumes T: "stable R T" and A: "\<And>i. i < length ts \<Longrightarrow> i \<in> A \<Longrightarrow> once R T W (ts ! i) s"
    and others: "\<And>i. i < length ts \<Longrightarrow> i \<notin> A \<Longrightarrow> safe R (\<lambda>a. True) (ts ! i) s"
    and run: "interleaved sch (ts, s) = (ts', s')"
    and two: "i < length ts" "i \<in> A" "ts' ! i = Done a" "W a" "j < length ts" "j \<in> A" "ts' ! j = Done b" "W b"
  shows "i = j"
proof (rule ccontr)
  assume "i \<noteq> j"
  have "safe R (\<lambda>a. True) (ts ! k) s" if "k < length ts" for k
    using that once_safe [OF A] others by (cases "k \<in> A") auto
  moreover have "safe R (\<lambda>a. \<not> W a) (ts ! k) s" if "k < length ts" "k \<in> A" "T s" for k
    using once_taken [OF T A] that by blast
  ultimately have "contest T W A (ts, s)"
    using A unfolding contest_def by auto
  then have "contest T W A (ts', s')"
    using interleaved_invariant [where Inv = "contest T W A", OF _ contest_step [OF T], of "(ts, s)" sch] run by simp
  moreover have "length ts' = length ts" using interleaved_length [of sch "(ts, s)"] run by simp
  ultimately show False using two \<open>i \<noteq> j\<close> unfolding contest_def
    by (auto split: if_splits) (metis once.simps(1) safe.simps(1))+
qed

end

end
