(* ===== verification/Service_Runs.thy ===== *)
theory Service_Runs
  imports Auth_Laws Threads
begin

text \<open>
  Runs of authentication calls: every public method of \<open>authUseCase\<close> as one step, and what holds
  after any number of steps in any order. A relation between the worlds before and after a call that
  passes through sequencing gives one fact per call; runs follow by induction.
\<close>

section \<open>Calls\<close>

datatype auth_call =
    CallRegister uuid string string string
  | CallLogin uuid string string string
  | CallVerifyMFA string string string
  | CallSetupMFA uuid
  | CallConfirmMFA uuid string
  | CallRequestVerification uuid string
  | CallConfirmVerification string
  | CallRequestReset uuid string
  | CallConfirmReset string string
  | CallOAuthURL string
  | CallOAuthCallback uuid string string string string
  | CallRefresh string string
  | CallLogout string string

fun auth_do :: "('r, 'd) auth_use_case \<Rightarrow> auth_call \<Rightarrow> ('r, 'd) world \<Rightarrow> ('r, 'd) world" where
  "auth_do u (CallRegister t e p ip) w = after (Register u t e p ip) w"
| "auth_do u (CallLogin t e p ip) w = after (Login u t e p ip) w"
| "auth_do u (CallVerifyMFA tok code ip) w = after (VerifyMFAChallenge u tok code ip) w"
| "auth_do u (CallSetupMFA i) w = after (SetupMFA u i) w"
| "auth_do u (CallConfirmMFA i code) w = after (ConfirmMFASetup u i code) w"
| "auth_do u (CallRequestVerification t e) w = after (RequestEmailVerification u t e) w"
| "auth_do u (CallConfirmVerification tok) w = after (ConfirmEmailVerification u tok) w"
| "auth_do u (CallRequestReset t e) w = after (RequestPasswordReset u t e) w"
| "auth_do u (CallConfirmReset tok p) w = after (ConfirmPasswordReset u tok p) w"
| "auth_do u (CallOAuthURL prov) w = after (OAuthLoginURL u prov) w"
| "auth_do u (CallOAuthCallback t prov code st ip) w = after (HandleOAuthCallback u t prov code st ip) w"
| "auth_do u (CallRefresh tok ip) w = after (RefreshToken u tok ip) w"
| "auth_do u (CallLogout tok ip) w = after (Logout u tok ip) w"

lemmas auth_call_defs = Register_def Login_def VerifyMFAChallenge_def SetupMFA_def ConfirmMFASetup_def
  RequestEmailVerification_def ConfirmEmailVerification_def RequestPasswordReset_def ConfirmPasswordReset_def
  OAuthLoginURL_def HandleOAuthCallback_def random_password_hash_def RefreshToken_def Logout_def

lemma auth_do_frame:
  assumes "\<And>t e p ip. state_io_rel R (Register u t e p ip)" "\<And>t e p ip. state_io_rel R (Login u t e p ip)"
    "\<And>tok code ip. state_io_rel R (VerifyMFAChallenge u tok code ip)" "\<And>i. state_io_rel R (SetupMFA u i)"
    "\<And>i code. state_io_rel R (ConfirmMFASetup u i code)" "\<And>t e. state_io_rel R (RequestEmailVerification u t e)"
    "\<And>tok. state_io_rel R (ConfirmEmailVerification u tok)" "\<And>t e. state_io_rel R (RequestPasswordReset u t e)"
    "\<And>tok p. state_io_rel R (ConfirmPasswordReset u tok p)" "\<And>prov. state_io_rel R (OAuthLoginURL u prov)"
    "\<And>t prov code st ip. state_io_rel R (HandleOAuthCallback u t prov code st ip)"
    "\<And>tok ip. state_io_rel R (RefreshToken u tok ip)" "\<And>tok ip. state_io_rel R (Logout u tok ip)"
  shows "R w (auth_do u c w)"
  using assms by (cases c) (simp_all add: state_io_rel_def)

context frame
begin

lemma runs:
  assumes "\<And>c w. R w (step c w)"
  shows "R w (fold step cs w)"
  using assms by (induction cs arbitrary: w) (auto intro: frame_refl frame_trans)

end

section \<open>A revoked refresh token stays revoked\<close>

text \<open>The token is dead now and later, and the random source will not produce it again.\<close>

definition revoked :: "'r alive \<Rightarrow> string \<Rightarrow> ('r, 'd) world \<Rightarrow> bool" where
  "revoked alive tok w \<longleftrightarrow> (\<forall>t \<ge> w_clock w. alive t (w_redis w) (refresh_key tok) = None)"

definition never_drawn :: "string \<Rightarrow> ('r, 'd) world \<Rightarrow> bool" where
  "never_drawn tok w \<longleftrightarrow> (\<forall>n. hex_EncodeToString (map (\<lambda>i. w_entropy w (i + n)) [0..<32]) \<noteq> tok)"

definition stays_revoked :: "'r redis_client \<Rightarrow> 'r alive \<Rightarrow> string \<Rightarrow> ('r, 'd) world \<Rightarrow> ('r, 'd) world \<Rightarrow> bool" where
  "stays_revoked rdb alive tok w w' \<longleftrightarrow> w_clock w \<le> w_clock w' \<and>
     (never_drawn tok w \<longrightarrow> never_drawn tok w') \<and>
     (redis_laws rdb alive \<and> never_drawn tok w \<and> revoked alive tok w \<longrightarrow> revoked alive tok w')"

interpretation stays: frame "stays_revoked rdb alive tok" for rdb alive tok
  by unfold_locales (auto simp: stays_revoked_def)

lemmas [frames] = stays.frame_rules

lemma never_drawn_shift: "never_drawn tok w \<Longrightarrow> w_entropy w' = (\<lambda>i. w_entropy w (i + n)) \<Longrightarrow> never_drawn tok w'"
  by (auto simp: never_drawn_def add.assoc)

lemma stays_local:
  assumes "\<And>w. w_redis (after m w) = w_redis w \<and> w_clock w \<le> w_clock (after m w) \<and>
    (\<exists>n. w_entropy (after m w) = (\<lambda>i. w_entropy w (i + n)))"
  shows "state_io_rel (stays_revoked rdb alive tok) m"
  unfolding state_io_rel_def stays_revoked_def
  using assms never_drawn_shift by (fastforce simp: revoked_def)

lemma stays_prims [frames]:
  "state_io_rel (stays_revoked rdb alive tok) time_Now"
  "state_io_rel (stays_revoked rdb alive tok) (rand_Read n)"
  "state_io_rel (stays_revoked rdb alive tok) (http_Do q)"
  "state_io_rel (stays_revoked rdb alive tok) uuid_New"
  "state_io_rel (stays_revoked rdb alive tok) (bcrypt_GenerateFromPassword P pw)"
  "state_io_rel (stays_revoked rdb alive tok) (db_do f)"
  by (rule stays_local; auto simp: time_Now_def rand_Read_def http_Do_def uuid_New_def
      bcrypt_GenerateFromPassword_def Let_def intro: exI [of _ 0])+

lemma stays_writes [frames]:
  "(\<And>w. w_redis (f w) = w_redis w \<and> w_clock (f w) = w_clock w \<and> w_entropy (f w) = w_entropy w) \<Longrightarrow>
     state_io_rel (stays_revoked rdb alive tok) (writes f)"
  by (rule stays_local) (auto intro: exI [of _ 0])

lemma entropy_redis_do [simp]: "w_entropy (after (redis_do f) w) = w_entropy w"
  by (simp add: redis_do_def time_Now_def Let_def split_beta)

lemma stays_redis [frames]:
  "0 < ttl \<Longrightarrow> key \<noteq> refresh_key tok \<Longrightarrow> state_io_rel (stays_revoked rdb alive tok) (redis_do (rd_Set rdb key v ttl))"
  "state_io_rel (stays_revoked rdb alive tok) (redis_do (rd_Get rdb key))"
  "state_io_rel (stays_revoked rdb alive tok) (redis_do (rd_Del rdb key))"
proof -
  have *: "never_drawn tok (after (redis_do f) w) = never_drawn tok w" for f w
    by (simp add: never_drawn_def)
  show "0 < ttl \<Longrightarrow> key \<noteq> refresh_key tok \<Longrightarrow> state_io_rel (stays_revoked rdb alive tok) (redis_do (rd_Set rdb key v ttl))"
    by (auto simp: state_io_rel_def stays_revoked_def revoked_def * redis_set_other)
  show "state_io_rel (stays_revoked rdb alive tok) (redis_do (rd_Get rdb key))"
    by (auto simp: state_io_rel_def stays_revoked_def revoked_def * redis_getD)
  have "alive t' (snd (rd_Del rdb key t r)) (refresh_key tok) = None"
    if "redis_laws rdb alive" "t \<le> t'" "alive t' r (refresh_key tok) = None" for t t' r
    using redis_delD [OF that(1,2), of key r] that(3) by auto
  then show "state_io_rel (stays_revoked rdb alive tok) (redis_do (rd_Del rdb key))"
    by (simp add: state_io_rel_def stays_revoked_def revoked_def *)
qed

text \<open>The keys of the other tokens are other keys.\<close>

lemma other_keys [frames]:
  "mfa_key k \<noteq> refresh_key tok" "email_verify_key k \<noteq> refresh_key tok"
  "pwd_reset_key k \<noteq> refresh_key tok" "oauth_state_key k \<noteq> refresh_key tok"
  by simp_all

lemma stays_GenerateSecureToken [frames]: "state_io_rel (stays_revoked rdb alive tok) (GenerateSecureToken n)"
  unfolding GenerateSecureToken_def by (intro frames)

lemma stays_ExchangeCode [frames]:
  "state_io_rel (stays_revoked rdb alive tok) (google_ExchangeCode g c)"
  "state_io_rel (stays_revoked rdb alive tok) (github_ExchangeCode g c)"
  unfolding google_ExchangeCode_def github_ExchangeCode_def Let_def by (intro frames)+

text \<open>A token just drawn is not the revoked one.\<close>

lemma stays_token:
  fixes k :: "go_error + string \<Rightarrow> ('r, 'd, 'b) prog" and rdb :: "'r redis_client"
  assumes other: "\<And>r. r \<noteq> Inr tok \<Longrightarrow> state_io_rel (stays_revoked rdb alive tok) (k r)"
    and clock: "\<And>r. state_io_rel (\<lambda>w w'. w_clock w \<le> w_clock w') (k r)"
  shows "state_io_rel (stays_revoked rdb alive tok) (State_Monad.bind (GenerateSecureToken 32) k)"
  unfolding state_io_rel_def
proof
  fix w :: "('r, 'd) world"
  obtain b w1 where b: "run_state (GenerateSecureToken 32) w = (b, w1)" by fastforce
  have R: "stays_revoked rdb alive tok w w1" by (rule stays.frame_runD [OF stays_GenerateSecureToken b])
  have step: "after (State_Monad.bind (GenerateSecureToken 32) k) w = after (k b) w1" by (simp add: b)
  show "stays_revoked rdb alive tok w (after (State_Monad.bind (GenerateSecureToken 32) k) w)"
  proof (cases "b = Inr tok")
    case True
    then have "tok = hex_EncodeToString (map (\<lambda>i. w_entropy w (i + 0)) [0..<32])"
      using b by (auto simp: GenerateSecureToken_def rand_Read_def split: if_splits)
    then have "\<not> never_drawn tok w" unfolding never_drawn_def by blast
    moreover have "w_clock w \<le> w_clock (after (k b) w1)"
      using R clock_grows.frameD [OF clock, of w1 b] by (simp add: stays_revoked_def)
    ultimately show ?thesis unfolding step by (simp add: stays_revoked_def)
  next
    case False
    from stays.frameD [OF other [OF this]] R stays.frame_trans show ?thesis unfolding step by blast
  qed
qed

lemma stays_generateSession [frames]:
  assumes ttl: "0 < cfg_RefreshTokenTTL cfg"
  shows "state_io_rel (stays_revoked rdb alive tok) (generateSession (auth_system getenv P J db rdb km cfg) user)"
proof -
  have store: "state_io_rel (stays_revoked rdb alive tok) (StoreRefreshToken rdb v ref (cfg_RefreshTokenTTL cfg))"
    if "Inr ref \<noteq> (Inr tok :: go_error + string)" for v ref
    using that ttl unfolding StoreRefreshToken_def by (intro frames) (auto simp: refresh_key_def)
  have gen: "state_io_rel (stays_revoked rdb alive tok) (GenerateAccessToken P J km i e r d)" for i e r d
    unfolding GenerateAccessToken_def Let_def by (intro frames)
  show ?thesis
    unfolding generateSession_def auth_system_simps session_simps
    by (intro stays.bind_frame stays.sum_frame stays.return_frame gen stays_token store; (intro frames)?) auto
qed

text \<open>Every call keeps a revoked token revoked.\<close>

lemmas stays_defs = auth_call_defs auth_system_simps session_simps repository_simps session_defs repository_defs
  GenerateSecret_def ValidateCode_def audit_Log_def outside_defs SendVerificationEmail_def SendPasswordResetEmail_def

lemma stays_provider:
  assumes "(if prov = ''google'' then Some (NewGoogleProvider getenv)
     else if prov = ''github'' then Some (NewGitHubProvider getenv) else None) = Some pv"
  shows "state_io_rel (stays_revoked rdb alive tok) (pv_ExchangeCode pv code)"
  using assms by (auto simp: outside_defs intro: stays_ExchangeCode split: if_splits)

lemma stays_callback:
  assumes ttl: "0 < cfg_RefreshTokenTTL cfg"
  shows "state_io_rel (stays_revoked rdb alive tok)
    (HandleOAuthCallback (auth_system getenv P J db rdb km cfg) t prov code st ip)"
  unfolding HandleOAuthCallback_def random_password_hash_def auth_system_simps session_simps repository_simps
    ValidateAndConsumeOAuthState_def repository_defs audit_Log_def Let_def
  by (intro frames ttl stays_provider; simp?)

lemma auth_do_revoked:
  assumes ttl: "0 < cfg_RefreshTokenTTL cfg"
  shows "stays_revoked rdb alive tok w (auth_do (auth_system getenv P J db rdb km cfg) c w)"
  by (rule auth_do_frame, goal_cases) (rule stays_callback [OF ttl] | (unfold stays_defs; intro frames ttl ttl_pos; simp?))+

end
