(* ===== verification/Privileges.thy ===== *)
theory Privileges
  imports Service_Runs
begin

text \<open>
  What the authentication calls may do to the accounts: they add accounts of the least role, and on an
  existing one they touch the password, the second factor and the verification mark only. A frame
  relation says it for one call; the calls that read a user and write him back need to know that the
  one they write is the one they read.
\<close>

definition badge :: "user \<Rightarrow> uuid \<times> uuid \<times> string \<times> role \<times> bool \<times> string \<times> string \<times> string" where
  "badge u = (u_ID u, u_TenantID u, u_Email u, u_Role u, u_IsActive u, u_OAuthProvider u, u_OAuthSubject u, u_ExternalID u)"

definition keeps_badges :: "('w \<Rightarrow> bool) \<Rightarrow> ('w \<Rightarrow> user set) \<Rightarrow> 'w \<Rightarrow> 'w \<Rightarrow> bool" where
  "keeps_badges UInv users w w' \<longleftrightarrow> (UInv w \<longrightarrow> UInv w' \<and> badge ` users w \<subseteq> badge ` users w' \<and>
     (\<forall>v \<in> users w'. badge v \<in> badge ` users w \<or> u_Role v = RoleUser))"

text \<open>The same, when the user in hand is one of the table.\<close>

definition edits :: "('w \<Rightarrow> bool) \<Rightarrow> ('w \<Rightarrow> user set) \<Rightarrow> user \<Rightarrow> 'w \<Rightarrow> 'w \<Rightarrow> bool" where
  "edits UInv users v w w' \<longleftrightarrow> (v \<in> users w \<longrightarrow> keeps_badges UInv users w w')"

lemma badge_role: "badge u = badge v \<Longrightarrow> u_Role u = u_Role v"
  by (simp add: badge_def)

interpretation badges: frame "keeps_badges UInv users" for UInv users
proof (unfold_locales, goal_cases)
  case (2 s t v)
  show ?case unfolding keeps_badges_def
  proof (intro impI conjI ballI)
    assume inv: "UInv s"
    from 2(1) inv have *: "UInv t" "badge ` users s \<subseteq> badge ` users t"
      "\<forall>x \<in> users t. badge x \<in> badge ` users s \<or> u_Role x = RoleUser" by (simp_all add: keeps_badges_def)
    from 2(2) *(1) have **: "UInv v" "badge ` users t \<subseteq> badge ` users v"
      "\<forall>x \<in> users v. badge x \<in> badge ` users t \<or> u_Role x = RoleUser" by (simp_all add: keeps_badges_def)
    show "UInv v" "badge ` users s \<subseteq> badge ` users v" using * ** by blast+
    show "badge x \<in> badge ` users s \<or> u_Role x = RoleUser" if x: "x \<in> users v" for x
    proof (cases "u_Role x = RoleUser")
      case False
      then obtain y where "y \<in> users t" "badge x = badge y" using **(3) x by blast
      then show ?thesis using *(3) False badge_role by (metis (no_types))
    qed simp
  qed
qed (simp add: keeps_badges_def)

lemmas [frames] = badges.frame_rules

lemma badges_of_users: "state_io_rel (keeps_users UInv users) m \<Longrightarrow> state_io_rel (keeps_badges UInv users) m"
  by (auto simp: state_io_rel_def keeps_users_def keeps_badges_def)

lemma edits_of_badges: "state_io_rel (keeps_badges UInv users) m \<Longrightarrow> state_io_rel (edits UInv users v) m"
  by (simp add: state_io_rel_def edits_def)

text \<open>Calls that only look come first, the update next, and nothing that needs the table after it.\<close>

lemma edits_look:
  assumes "state_io_rel (keeps_users UInv users) m" and "\<And>x. state_io_rel (edits UInv users v) (f x)"
  shows "state_io_rel (edits UInv users v) (State_Monad.bind m f)"
  unfolding state_io_rel_def edits_def after_bind
proof (intro allI impI)
  fix w assume v: "v \<in> users w"
  have m: "UInv w \<Longrightarrow> UInv (after m w) \<and> users (after m w) = users w"
    using assms(1) by (simp add: state_io_rel_def keeps_users_def)
  have f: "edits UInv users v (after m w) (after (f (result m w)) (after m w))" using assms(2) by (simp add: state_io_rel_def)
  show "keeps_badges UInv users w (after (f (result m w)) (after m w))"
    unfolding keeps_badges_def using m f v by (auto simp: edits_def keeps_badges_def)
qed

lemma edits_done:
  assumes "state_io_rel (edits UInv users v) m" and "\<And>x. state_io_rel (keeps_badges UInv users) (f x)"
  shows "state_io_rel (edits UInv users v) (State_Monad.bind m f)"
  unfolding state_io_rel_def edits_def after_bind
proof (intro allI impI)
  fix w assume v: "v \<in> users w"
  have "keeps_badges UInv users w (after m w)" using assms(1) v by (simp add: state_io_rel_def edits_def)
  moreover have "keeps_badges UInv users (after m w) (after (f (result m w)) (after m w))"
    using assms(2) by (simp add: state_io_rel_def)
  ultimately show "keeps_badges UInv users w (after (f (result m w)) (after m w))" by (rule badges.frame_trans)
qed

lemma edits_branch:
  "(\<And>e. x = Inl e \<Longrightarrow> state_io_rel (edits UInv users v) (f e)) \<Longrightarrow>
   (\<And>a. x = Inr a \<Longrightarrow> state_io_rel (edits UInv users v) (g a)) \<Longrightarrow>
     state_io_rel (edits UInv users v) (case x of Inl e \<Rightarrow> f e | Inr a \<Rightarrow> g a)"
  "state_io_rel (edits UInv users v) m \<Longrightarrow> state_io_rel (edits UInv users v) n \<Longrightarrow>
     state_io_rel (edits UInv users v) (if b then m else n)"
  by (simp_all split: sum.split)

context auth_backend
begin

lemma create_badges:
  assumes "u_Role x = RoleUser"
  shows "state_io_rel (keeps_badges UInv users) (ur_Create (au_userRepo u) x)"
  unfolding state_io_rel_def keeps_badges_def
proof (intro allI impI)
  fix w assume inv: "UInv w"
  have role: "u_Role (stored_user x) = RoleUser" using assms by simp
  show "UInv (after (ur_Create (au_userRepo u) x) w) \<and>
      badge ` users w \<subseteq> badge ` users (after (ur_Create (au_userRepo u) x) w) \<and>
      (\<forall>y \<in> users (after (ur_Create (au_userRepo u) x) w). badge y \<in> badge ` users w \<or> u_Role y = RoleUser)"
    using us.create_any [OF inv, of x]
  proof
    assume eq: "users (after (ur_Create (au_userRepo u) x) w) = users w"
    show ?thesis unfolding eq using us.inv_create [OF inv, of x] by simp
  next
    assume eq: "users (after (ur_Create (au_userRepo u) x) w) = insert (stored_user x) (users w)"
    show ?thesis unfolding eq using us.inv_create [OF inv, of x] role by blast
  qed
qed

lemma update_edits:
  assumes "badge x = badge v"
  shows "state_io_rel (edits UInv users v) (ur_Update (au_userRepo u) x)"
  unfolding state_io_rel_def edits_def keeps_badges_def
proof (intro allI impI)
  fix w assume v: "v \<in> users w" and inv: "UInv w"
  have "badge (if u_ID y = u_ID x then updated_user x y else y) = badge y" if "y \<in> users w" for y
    using us.unique_id [OF inv that v] assms by (auto simp: badge_def updated_user_def)
  then have "badge ` (\<lambda>y. if u_ID y = u_ID x then updated_user x y else y) ` users w = badge ` users w"
    unfolding image_image by (rule image_cong [OF refl])
  note same = this
  have "badge ` users (after (ur_Update (au_userRepo u) x) w) = badge ` users w"
    using us.update_any [OF inv, of x] by (rule disjE) (simp_all only: same)
  then show "UInv (after (ur_Update (au_userRepo u) x) w) \<and>
      badge ` users w \<subseteq> badge ` users (after (ur_Update (au_userRepo u) x) w) \<and>
      (\<forall>y \<in> users (after (ur_Update (au_userRepo u) x) w). badge y \<in> badge ` users w \<or> u_Role y = RoleUser)"
    using us.inv_update [OF inv, of x] by blast
qed

text \<open>\<open>GetByID\<close>, then whatever is done with the user found.\<close>

lemma read_edit:
  assumes "\<And>e. state_io_rel (keeps_badges UInv users) (f e)" and "\<And>v. state_io_rel (edits UInv users v) (g v)"
  shows "state_io_rel (keeps_badges UInv users)
    (State_Monad.bind (ur_GetByID (au_userRepo u) i) (\<lambda>r. case r of Inl e \<Rightarrow> f e | Inr v \<Rightarrow> g v))"
  unfolding state_io_rel_def after_bind
proof
  fix w
  let ?m = "ur_GetByID (au_userRepo u) i"
  have keep: "UInv w \<Longrightarrow> UInv (after ?m w) \<and> users (after ?m w) = users w"
    using us.inv_id us.keep_id by blast
  show "keeps_badges UInv users w (after (case result ?m w of Inl e \<Rightarrow> f e | Inr v \<Rightarrow> g v) (after ?m w))"
  proof (cases "result ?m w")
    case (Inl e)
    have "keeps_badges UInv users (after ?m w) (after (f e) (after ?m w))" using assms(1) by (simp add: state_io_rel_def)
    with keep Inl show ?thesis unfolding keeps_badges_def by auto
  next
    case (Inr v)
    have "edits UInv users v (after ?m w) (after (g v) (after ?m w))" using assms(2) by (simp add: state_io_rel_def)
    with keep Inr us.id_found [of w i v] show ?thesis unfolding keeps_badges_def edits_def by auto
  qed
qed

lemmas badge_prims = users_prims [THEN badges_of_users]

lemmas edits_looks = edits_look [OF GenerateSecret_frames(1) [THEN users_of_db]]
  edits_look [OF time_Now_frames(1) [THEN users_of_db]] edits_look [OF ValidateCode_frames(1) [THEN users_of_db]]
  edits_look [OF bcrypt_frames(1) [THEN users_of_db]] edits_look [OF session_db(9) [THEN users_of_db]]
  edits_look [OF session_db(12) [THEN users_of_db]]

lemmas edits_rules = edits_looks edits_branch update_edits edits_of_badges [OF badges.return_frame]

text \<open>The calls, one by one.\<close>

lemma SetupMFA_badges: "state_io_rel (keeps_badges UInv users) (SetupMFA u i)"
  unfolding SetupMFA_def Let_def
proof (intro read_edit badges.return_frame, goal_cases)
  case (1 v)
  have upd: "state_io_rel (edits UInv users v) (State_Monad.bind (ur_Update (au_userRepo u) x) k)"
    if "badge x = badge v" "\<And>r. state_io_rel (keeps_badges UInv users) (k r)"
    for x and k :: "go_error + unit \<Rightarrow> ('r, 'd, string \<times> string) go"
    using edits_done [OF update_edits [OF that(1)] that(2)] .
  show ?case by (intro edits_rules upd frames) (simp add: badge_def)
qed

lemma edit_calls_badges:
  "state_io_rel (keeps_badges UInv users) (ConfirmMFASetup u i code)"
  "state_io_rel (keeps_badges UInv users) (ConfirmEmailVerification u tok)"
  "state_io_rel (keeps_badges UInv users) (ConfirmPasswordReset u tok p)"
  unfolding ConfirmMFASetup_def ConfirmEmailVerification_def ConfirmPasswordReset_def Let_def
  by (intro read_edit edits_rules frames badge_prims; simp add: badge_def)+

lemma look_calls_badges:
  "state_io_rel (keeps_badges UInv users) (Login u t e p ip)"
  "state_io_rel (keeps_badges UInv users) (VerifyMFAChallenge u tok code ip)"
  "state_io_rel (keeps_badges UInv users) (RequestEmailVerification u t e)"
  "state_io_rel (keeps_badges UInv users) (RequestPasswordReset u t e)"
  "state_io_rel (keeps_badges UInv users) (RefreshToken u tok ip)"
  "state_io_rel (keeps_badges UInv users) (Logout u tok ip)"
  "state_io_rel (keeps_badges UInv users) (OAuthLoginURL u prov)"
  by (rule badges_of_users; (rule Login_users VerifyMFAChallenge_users Request_users RefreshToken_users Logout_users |
      (unfold OAuthLoginURL_def, intro frames users_prims)))+

lemma Register_badges: "state_io_rel (keeps_badges UInv users) (Register u t e p ip)"
  unfolding Register_def Let_def by (intro frames badge_prims create_badges) simp

lemma callback_badges: "state_io_rel (keeps_badges UInv users) (HandleOAuthCallback u t prov code st ip)"
  unfolding HandleOAuthCallback_def Let_def
  by (intro frames badge_prims create_badges badges_of_users [OF generateSession_users]
      badges_of_users [OF random_password_hash_frames(1)] badges_of_users [OF provider_frames(1)])
    (auto simp: provider_of_def)

lemma auth_do_badges: "keeps_badges UInv users w (auth_do u c w)"
  by (rule auth_do_frame; (rule SetupMFA_badges edit_calls_badges look_calls_badges Register_badges callback_badges))

lemma runs_badges: "keeps_badges UInv users w (fold (auth_do u) cs w)"
  by (rule badges.runs [OF auth_do_badges])

end

end
