(* ===== verification/Account_Properties.thy ===== *)
theory Account_Properties
  imports Reference_Runs Privileges
begin

text \<open>
  Properties of the authentication use cases wired as in \<open>main.go\<close>, over any PostgreSQL and any
  Redis that keep their documented laws: what a successful call proves about the state it started
  from, and what it leaves behind.
\<close>

section \<open>Login\<close>

text \<open>What a refresh token, and the token of a pending second factor, shows at a time.\<close>

abbreviation refresh_tok :: "'r alive \<Rightarrow> time \<Rightarrow> ('r, 'd) world \<Rightarrow> string \<Rightarrow> string option" where
  "refresh_tok alive \<equiv> \<lambda>t w k. alive t (w_redis w) (refresh_key k)"

abbreviation mfa_tok :: "'r alive \<Rightarrow> time \<Rightarrow> ('r, 'd) world \<Rightarrow> string \<Rightarrow> string option" where
  "mfa_tok alive \<equiv> \<lambda>t w k. alive t (w_redis w) (mfa_key k)"

lemma credentials_unique:
  assumes "pg_inv db tbl w" "credentials_of P (pg_users tbl w) t e p u" "credentials_of P (pg_users tbl w) t e q v"
  shows "u = v"
  using assms pg.unique_email [OF assms(1), of u v] by (auto simp: credentials_of_def)

text \<open>C1. A login succeeds only for an active user of that tenant whose address and password were given; when
  he has a second factor the answer carries a challenge and no session token, and no refresh token comes
  into being; otherwise it carries an access token signed for him and a new refresh token of 64 characters
  that shows his identifier until its lifetime is over.\<close>

theorem login_sound:
  assumes inv: "pg_inv db tbl w" "redis_laws rdb alive" "0 < cfg_RefreshTokenTTL cfg"
    and run: "run_state (Login (auth_system getenv P J db rdb km cfg) tenantID email password ip) w = (Inr res, w')"
  shows "\<exists>user. credentials_of P (pg_users tbl w) tenantID email password user \<and>
    (if u_MFAEnabled user
     then challenge_only res \<and> (\<forall>t \<ge> w_clock w'. refresh_tok alive t w' = refresh_tok alive t w)
     else session_opened (auth_system getenv P J db rdb km cfg) (refresh_tok alive) user w res w')"
proof -
  obtain user where "credentials_of (au_packages (auth_system getenv P J db rdb km cfg)) (pg_users tbl w) tenantID email password user"
    and "u_MFAEnabled user \<Longrightarrow> challenge_only res \<and> (\<forall>t \<ge> w_clock w'. refresh_tok alive t w' = refresh_tok alive t w)"
    and "\<not> u_MFAEnabled user \<Longrightarrow> session_opened (auth_system getenv P J db rdb km cfg) (refresh_tok alive) user w res w'"
    by (rule auth.Login_Inr [OF inv(1,2) _ run]) (use inv(3) in simp_all)
  then show ?thesis by (intro exI [of _ user]) simp
qed

lemma ann_logs_in:
  "\<exists>res w'. run_state (Login mem_system 1 ''ann@example.org'' ''secret99'' ip) (mem_world r [ann]) = (Inr res, w')"
proof -
  obtain res w' where "run_state (generateSession mem_system ann) (mem_world r [ann]) = (Inr res, w')"
    using mem_session [OF entropy_ok_mem, of ann] by blast
  then show ?thesis
    by (simp add: Login_def ann_email mem_ByEmail mem_packages_def split: prod.split)
qed

theorem login_sound_witness:
  "\<exists>res w'. run_state (Login mem_system 1 ''ann@example.org'' ''secret99'' ''192.0.2.1'') (mem_world Map.empty [ann]) = (Inr res, w') \<and>
    session_opened mem_system (refresh_tok mem_alive) ann (mem_world Map.empty [ann]) res w'"
proof -
  obtain res w' where run: "run_state (Login mem_system 1 ''ann@example.org'' ''secret99'' ''192.0.2.1'')
      (mem_world Map.empty [ann]) = (Inr res, w')" using ann_logs_in by blast
  have "0 < cfg_RefreshTokenTTL mem_cfg" by (simp add: duration_defs)
  from login_sound [OF ann_inv mem_redis_laws this run] show ?thesis
    using run by (auto simp: credentials_of_def mem_users)
qed

lemma GetByEmail_audit: "run_state (GetByEmail db t e) w = (x, w') \<Longrightarrow> w_audit w' = w_audit w"
  by (auto simp: GetByEmail_def select_user_def db_do_def Let_def split: prod.splits sum.splits if_splits)

lemma GetByEmail_entropy: "run_state (GetByEmail db t e) w = (x, w') \<Longrightarrow> w_randfail w' = w_randfail w"
  by (auto simp: GetByEmail_def select_user_def db_do_def Let_def split: prod.splits sum.splits if_splits)

lemma audit_Log_run:
  "run_state (audit_Log e a i d) w = (x, w') \<Longrightarrow> w_redis w' = w_redis w \<and> w_db w' = w_db w \<and>
     (\<exists>t. w_audit w' = w_audit w @ [\<lparr>ar_Event = e, ar_ActorEmail = a, ar_ActorIP = i, ar_Detail = d, ar_Timestamp = t\<rparr>])"
  by (auto simp: audit_Log_def time_Now_def Let_def)

text \<open>C12. A failed login tells nothing: an address of wrong form, an unknown user, an inactive user and a wrong
  password all get the same error, no token is stored, no user changes, and one line of the audit log
  records the attempt.\<close>

theorem login_refused:
  assumes inv: "pg_inv db tbl w" and none: "\<nexists>user. credentials_of P (pg_users tbl w) tenantID email password user"
    and run: "run_state (Login (auth_system getenv P J db rdb km cfg) tenantID email password ip) w = (r, w')"
  shows "r = Inl ErrUnauthorized \<and> w_redis w' = w_redis w \<and> pg_users tbl w' = pg_users tbl w \<and>
    (\<exists>e. w_audit w' = w_audit w @ [e] \<and> ar_Event e = EventLoginFailed \<and> ar_ActorIP e = ip)"
proof (cases "ValidateAndCleanEmail email")
  case (Inl e)
  with run have "r = Inl ErrUnauthorized"
    "run_state (audit_Log EventLoginFailed email ip ''invalid email format'') w = ((), w')"
    by (auto simp: Login_def split: prod.splits)
  with audit_Log_run [OF this(2)] show ?thesis by (auto simp: pg_users_def)
next
  case (Inr cleaned)
  obtain q w1 where get: "run_state (GetByEmail db tenantID cleaned) w = (q, w1)" by fastforce
  have same: "w_redis w1 = w_redis w" "w_audit w1 = w_audit w" "pg_users tbl w1 = pg_users tbl w"
    using redis_frame.frame_runD [OF repository_redis_frames(2) get] pg.keep_email [OF inv, of tenantID cleaned] get
      GetByEmail_audit [OF get] by simp_all
  have "\<not> (u_IsActive u \<and> bcrypt_CompareHashAndPassword P (u_Password u) password = None)" if "q = Inr u" for u
    using none pg.email_found [OF inv, of tenantID cleaned u] get that Inr by (auto simp: credentials_of_def)
  with run Inr get obtain d where r: "r = Inl ErrUnauthorized"
    and log: "run_state (audit_Log EventLoginFailed cleaned ip d) w1 = ((), w')"
    by (fastforce simp: Login_def split: sum.splits option.splits if_splits prod.splits)
  from audit_Log_run [OF log] have "pg_users tbl w' = pg_users tbl w1" by (simp add: pg_users_def)
  with audit_Log_run [OF log] r same show ?thesis by auto
qed

theorem login_refused_witness:
  "result (Login mem_system 1 ''ann@example.org'' ''secret98'' ''192.0.2.1'') (mem_world Map.empty [ann]) = Inl ErrUnauthorized \<and>
   result (Login mem_system 2 ''ann@example.org'' ''secret99'' ''192.0.2.1'') (mem_world Map.empty [ann]) = Inl ErrUnauthorized"
proof -
  have "\<nexists>user. credentials_of mem_packages (pg_users mem_table (mem_world Map.empty [ann])) 1 ''ann@example.org'' ''secret98'' user"
    "\<nexists>user. credentials_of mem_packages (pg_users mem_table (mem_world Map.empty [ann])) 2 ''ann@example.org'' ''secret99'' user"
    by (auto simp: credentials_of_def mem_users mem_packages_def)
  from login_refused [OF ann_inv this(1) surjective_pairing] login_refused [OF ann_inv this(2) surjective_pairing]
  show ?thesis by blast
qed

text \<open>C30. A login with the right credentials is not refused: when the database answers the lookup, the random
  source and the token store do not fail and the key signs, the use case succeeds, with a challenge exactly
  for the users that have a second factor.\<close>

theorem login_accepts:
  assumes inv: "pg_inv db tbl w" and cred: "credentials_of P (pg_users tbl w) tenantID email password user"
    and found: "result (GetByEmail db tenantID (u_Email user)) w = Inr v"
    and laws: "jwt_laws J verifies" and ent: "entropy_ok w"
    and sign: "\<And>hdr c. \<exists>s. jwt_SignedString J (SigningMethodRSA ''RS256'') hdr c (km_PrivateKey km) = Inr s"
    and set: "\<And>k v ttl t r. fst (rd_Set rdb k v ttl t r) = None"
  shows "\<exists>res w'. run_state (Login (auth_system getenv P J db rdb km cfg) tenantID email password ip) w = (Inr res, w') \<and>
    at_RequiresMFA res = u_MFAEnabled user"
proof -
  have v: "v = user"
    using pg.email_found [OF inv found] cred pg.unique_email [OF inv, of v user] by (auto simp: credentials_of_def)
  obtain w1 where get: "run_state (GetByEmail db tenantID (u_Email user)) w = (Inr user, w1)"
    using found v by (metis prod.collapse)
  have "entropy_ok w1" using GetByEmail_entropy [OF get] ent by (simp add: entropy_ok_def)
  from session_answers [OF laws this, of km rdb getenv P db cfg user] sign set
  obtain res w2 where "run_state (generateSession (auth_system getenv P J db rdb km cfg) user) w1 = (Inr res, w2)"
    "\<not> at_RequiresMFA res" by blast
  with get cred show ?thesis
    by (auto simp: Login_def credentials_of_def zero_auth_token_response_def split: prod.split)
qed

lemma mem_signs: "\<exists>s. jwt_SignedString mem_jwt m hdr c k = Inr s"
  by simp

lemma mem_stores: "fst (rd_Set mem_client k v ttl t r) = None"
  by (simp add: mem_client_def)

theorem login_accepts_witness:
  "\<exists>res w'. run_state (Login mem_system 1 ''ann@example.org'' ''secret99'' ''192.0.2.1'') (mem_world Map.empty [guarded]) =
     (Inr res, w') \<and> at_RequiresMFA res"
proof -
  have "credentials_of mem_packages (pg_users mem_table (mem_world Map.empty [guarded])) 1 ''ann@example.org'' ''secret99'' guarded"
    by (simp add: credentials_of_def mem_users mem_packages_def ann_email)
  moreover have "result (GetByEmail mem_pool 1 (u_Email guarded)) (mem_world Map.empty [guarded]) = Inr guarded"
    by (simp add: mem_ByEmail)
  ultimately show ?thesis
    using login_accepts [OF guarded_inv _ _ mem_jwt_laws entropy_ok_mem mem_signs mem_stores,
        of mem_packages Map.empty 1 "''ann@example.org''" "''secret99''" guarded guarded mem_env mem_km mem_cfg "''192.0.2.1''"]
    by simp
qed

section \<open>The second factor\<close>

lemma cmd_Err_ok:
  assumes "\<And>t r. fst (f t r) = None"
  shows "result (cmd_Err f) w = Inr ()"
  by (simp add: cmd_Err_def run_redis_do assms Let_def)

lemma challenge_dead:
  assumes "redis_laws rdb alive" "\<forall>t \<ge> w_clock w. mfa_tok alive t w tok = None"
  shows "result (VerifyMFAChallenge (auth_system getenv P J db rdb km cfg) tok code ip) w = Inl ErrInvalidToken"
proof -
  obtain r w1 where get: "run_state (GetUserIDByMFAToken rdb tok) w = (r, w1)" by fastforce
  show ?thesis
  proof (cases r)
    case (Inr s)
    from mfa.get_value [OF assms(1) get [unfolded Inr]] mfa.now_get [of w rdb tok] get assms(2) show ?thesis by simp
  qed (use get in \<open>simp add: VerifyMFAChallenge_def\<close>)
qed

text \<open>C2. A challenge is answered only by a code of the user it was issued to, for his own secret and for the
  time step of the answer or a neighbour of it, while the challenge was alive and the user active; the
  challenge is then used up, so that no second answer to it is accepted, when deletions reach the server.\<close>

theorem mfa_sound:
  assumes inv: "pg_inv db tbl w" "redis_laws rdb alive" "0 < cfg_RefreshTokenTTL cfg"
    and del: "\<And>t r. fst (rd_Del rdb (mfa_key tok) t r) = None"
    and run: "run_state (VerifyMFAChallenge (auth_system getenv P J db rdb km cfg) tok code ip) w = (Inr res, w')"
  shows "(\<exists>user s t0 t1. user \<in> pg_users tbl w \<and> u_IsActive user \<and>
      w_clock w \<le> t0 \<and> t0 \<le> t1 \<and> t1 \<le> w_clock w' \<and>
      mfa_tok alive t0 w tok = Some s \<and> fst (uuid_Parse P s) = u_ID user \<and>
      (\<exists>k \<in> {-1, 0, 1}. GenerateCode (NewTOTPManager ''Enterprise Auth'') (u_MFASecret user) (t1 + k * 30 * second) = Inr code) \<and>
      session_opened (auth_system getenv P J db rdb km cfg) (refresh_tok alive) user w res w') \<and>
    (\<forall>code'. result (VerifyMFAChallenge (auth_system getenv P J db rdb km cfg) tok code' ip) w' = Inl ErrInvalidToken)"
proof -
  let ?A = "auth_system getenv P J db rdb km cfg"
  have d: "result (sr_RevokeMFAToken (au_sessionRepo ?A) tok) v = Inr ()" for v
    using cmd_Err_ok [OF del] by (simp add: RevokeMFAToken_def)
  obtain user s t0 t1 where *: "user \<in> pg_users tbl w" "u_IsActive user"
    "w_clock w \<le> t0" "t0 \<le> t1" "t1 \<le> w_clock w'"
    "mfa_tok alive t0 w tok = Some s" "fst (uuid_Parse (au_packages ?A) s) = u_ID user"
    "validate_loop (au_totpManager ?A) (u_MFASecret user) code t1 [-1, 0, 1]"
    "session_opened ?A (refresh_tok alive) user w res w'"
    "\<And>t. w_clock w' \<le> t \<Longrightarrow> mfa_tok alive t w' tok = None"
    by (rule auth.VerifyMFAChallenge_Inr [OF inv(1,2) _ d run]) (use inv(3) in simp_all)
  from *(8) have "\<exists>k \<in> {-1, 0, 1}. GenerateCode (NewTOTPManager ''Enterprise Auth'') (u_MFASecret user) (t1 + k * 30 * second) = Inr code"
    unfolding auth_system_simps validate_loop_codes .
  with * challenge_dead [OF inv(2), of w' tok] show ?thesis by auto
qed

lemma mem_deletes: "fst (rd_Del mem_client k t r) = None"
  by (simp add: mem_client_def)

lemma mem_seven: "uuid_Parse mem_packages ''7'' = (7, None)"
  by (simp add: mem_packages_def)

theorem mfa_sound_witness:
  "\<exists>code res w'. run_state (VerifyMFAChallenge mem_system ''m'' code ''192.0.2.1'')
      (mem_world (mem_with (mfa_key ''m'') ''7'') [guarded]) = (Inr res, w') \<and>
    result (VerifyMFAChallenge mem_system ''m'' code ''192.0.2.1'') w' = Inl ErrInvalidToken"
proof -
  let ?w = "mem_world (mem_with (mfa_key ''m'') ''7'') [guarded]"
  obtain code where code: "validate_loop (NewTOTPManager ''Enterprise Auth'') (u_MFASecret guarded) code mem_now [-1, 0, 1]"
    using guarded_code by blast
  let ?w3 = "after (RevokeMFAToken mem_client ''m'') (after time_Now (after time_Now ?w))"
  obtain res w' where gen: "run_state (generateSession mem_system guarded) ?w3 = (Inr res, w')"
    using mem_session [of ?w3 guarded] by (auto simp: mem_tokens)
  have run: "\<exists>w''. run_state (VerifyMFAChallenge mem_system ''m'' code ''192.0.2.1'') ?w = (Inr res, w'')"
    using gen code
    by (simp add: VerifyMFAChallenge_def mem_tokens mem_ByID mem_seven ValidateCode_run split: prod.split del: validate_loop.simps)
  then obtain w'' where run: "run_state (VerifyMFAChallenge mem_system ''m'' code ''192.0.2.1'') ?w = (Inr res, w'')" by blast
  have "0 < cfg_RefreshTokenTTL mem_cfg" by (simp add: duration_defs)
  from mfa_sound [OF guarded_inv mem_redis_laws this mem_deletes run] run show ?thesis by blast
qed

lemma GetByID_audit: "run_state (GetByID db i) w = (x, w') \<Longrightarrow> w_audit w' = w_audit w"
  by (auto simp: GetByID_def select_user_def db_do_def Let_def split: prod.splits sum.splits if_splits)

lemma generateSession_clock:
  "state_io_rel (\<lambda>w w'. w_clock w \<le> w_clock w') (generateSession (auth_system getenv P J db rdb km cfg) user)"
  unfolding generateSession_def auth_system_simps session_simps by (intro frames)

text \<open>C13. A wrong code opens nothing and costs nothing: whatever else fails, the answer is one of three
  errors, no account changes, and every token of every kind is as alive as before, the challenge itself
  included, so that it can be tried again as long as it lives; the attempt is recorded when there was
  an active user to check the code for.\<close>

theorem mfa_wrong_code:
  assumes inv: "pg_inv db tbl w" "redis_laws rdb alive"
    and wrong: "\<And>user s t0 t k. user \<in> pg_users tbl w \<Longrightarrow> mfa_tok alive t0 w tok = Some s \<Longrightarrow> u_ID user = fst (uuid_Parse P s) \<Longrightarrow>
      w_clock w \<le> t \<Longrightarrow> t \<le> w_clock w' \<Longrightarrow> k \<in> {-1, 0, 1} \<Longrightarrow>
      GenerateCode (NewTOTPManager ''Enterprise Auth'') (u_MFASecret user) (t + k * 30 * second) \<noteq> Inr code"
    and run: "run_state (VerifyMFAChallenge (auth_system getenv P J db rdb km cfg) tok code ip) w = (r, w')"
  shows "r \<in> {Inl ErrInvalidToken, Inl ErrUnauthorized, Inl ErrInvalidMFACode} \<and> pg_users tbl w' = pg_users tbl w \<and>
    (\<forall>t \<ge> w_clock w'. alive t (w_redis w') = alive t (w_redis w)) \<and>
    (if r = Inl ErrInvalidMFACode then \<exists>e. w_audit w' = w_audit w @ [e] \<and> ar_Event e = EventLoginFailed \<and> ar_ActorIP e = ip
     else w_audit w' = w_audit w)"
proof -
  obtain r1 w1 where get: "run_state (GetUserIDByMFAToken rdb tok) w = (r1, w1)" by fastforce
  have g: "w_db w1 = w_db w" "w_clock w \<le> w_clock w1" "w_audit w1 = w_audit w"
    "\<And>t. w_clock w1 \<le> t \<Longrightarrow> alive t (w_redis w1) = alive t (w_redis w)"
    using get redis_getD [OF inv(2)] by (auto simp: GetUserIDByMFAToken_def cmd_Result_def run_redis_do Let_def)
  show ?thesis
  proof (cases r1)
    case (Inl e)
    with run get have "r = Inl ErrInvalidToken" "w' = w1" by (simp_all add: VerifyMFAChallenge_def)
    then show ?thesis using g by (simp add: pg_users_def)
  next
    case (Inr s)
    obtain t0 where s: "mfa_tok alive t0 w tok = Some s"
      using mfa.get_value [OF inv(2) get [unfolded Inr]] by auto
    obtain r2 w2 where byid: "run_state (GetByID db (fst (uuid_Parse P s))) w1 = (r2, w2)" by fastforce
    have i1: "pg_inv db tbl w1" "pg_users tbl w1 = pg_users tbl w" using inv(1) g(1) by (simp_all add: pg_inv_def pg_users_def)
    have h: "w_clock w1 \<le> w_clock w2" "w_redis w2 = w_redis w1" "w_audit w2 = w_audit w1" "pg_users tbl w2 = pg_users tbl w1"
      using clock_grows.frame_runD [OF repository_clock_frames(3) byid] redis_frame.frame_runD [OF repository_redis_frames(3) byid]
        GetByID_audit [OF byid] pg.keep_id [OF i1(1), of "fst (uuid_Parse P s)"] byid by simp_all
    show ?thesis
    proof (cases "\<exists>user. r2 = Inr user \<and> u_IsActive user")
      case False
      then have "r = Inl ErrUnauthorized \<and> w' = w2"
        using run get Inr byid by (cases r2) (auto simp: VerifyMFAChallenge_def Let_def)
      then show ?thesis using g h i1(2) by simp
    next
      case True
      then obtain user where user: "r2 = Inr user" "u_IsActive user" by blast
      obtain b w3 where val: "run_state (ValidateCode (NewTOTPManager ''Enterprise Auth'') (u_MFASecret user) code) w2 = (b, w3)"
        by fastforce
      have v: "w_clock w2 \<le> w_clock w3" "w_db w3 = w_db w2" "w_redis w3 = w_redis w2" "w_audit w3 = w_audit w2"
        using val by (auto simp: ValidateCode_run time_Now_def Let_def)
      have "\<not> b"
      proof
        assume b
        obtain r4 w4 where rev: "run_state (RevokeMFAToken rdb tok) w3 = (r4, w4)" by fastforce
        obtain r5 w5 where gen: "run_state (generateSession (auth_system getenv P J db rdb km cfg) user) w4 = (r5, w5)" by fastforce
        have "w_clock w5 \<le> w_clock w'"
          using run get Inr byid user val \<open>b\<close> rev gen
          by (cases r5) (auto simp: VerifyMFAChallenge_def audit_Log_def time_Now_def Let_def split: if_splits)
        with clock_grows.frame_runD [OF session_clock_frames(6) rev] clock_grows.frame_runD [OF generateSession_clock gen]
        have "w_clock w3 \<le> w_clock w'" by linarith
        moreover have "validate_loop (NewTOTPManager ''Enterprise Auth'') (u_MFASecret user) code (w_clock w3) [-1, 0, 1]"
          using ValidateCode_result [OF val] \<open>b\<close> by simp
        then obtain k where "k \<in> {-1, 0, 1}"
          "GenerateCode (NewTOTPManager ''Enterprise Auth'') (u_MFASecret user) (w_clock w3 + k * 30 * second) = Inr code"
          unfolding validate_loop_codes by blast
        moreover have "user \<in> pg_users tbl w" "u_ID user = fst (uuid_Parse P s)"
          using pg.id_found [OF i1(1), of "fst (uuid_Parse P s)" user] byid user(1) i1(2) by simp_all
        ultimately show False using wrong [of user t0 s "w_clock w3" k] s g(2) h(1) v(1) by auto
      qed
      with run get Inr byid user val have r: "r = Inl ErrInvalidMFACode"
        and log: "run_state (audit_Log EventLoginFailed (u_Email user) ip ''invalid MFA code attempt'') w3 = ((), w')"
        by (auto simp: VerifyMFAChallenge_def Let_def split: prod.splits)
      have le: "w_clock w3 \<le> w_clock w'" using clock_grows.frame_runD [OF audit_Log_frames(5) log] .
      from audit_Log_run [OF log] have "pg_users tbl w' = pg_users tbl w3" by (simp add: pg_users_def)
      moreover have "pg_users tbl w3 = pg_users tbl w2" using v(2) by (simp add: pg_users_def)
      ultimately show ?thesis using audit_Log_run [OF log] r le v g h i1(2) by auto
    qed
  qed
qed

theorem mfa_wrong_code_witness:
  "result (VerifyMFAChallenge mem_system ''m'' ''12345'' ''192.0.2.1'') (mem_world (mem_with (mfa_key ''m'') ''7'') [guarded]) =
      Inl ErrInvalidMFACode \<and>
    (\<exists>t. mfa_tok mem_alive t (after (VerifyMFAChallenge mem_system ''m'' ''12345'' ''192.0.2.1'')
      (mem_world (mem_with (mfa_key ''m'') ''7'') [guarded])) ''m'' = Some ''7'')"
proof -
  let ?w = "mem_world (mem_with (mfa_key ''m'') ''7'') [guarded]"
  let ?m = "VerifyMFAChallenge mem_system ''m'' ''12345'' ''192.0.2.1''"
  have never: "GenerateCode (NewTOTPManager ''Enterprise Auth'') secret t \<noteq> Inr ''12345''" for secret t
    using GenerateCode_six [of "''Enterprise Auth''" secret t "''12345''"] by auto
  have "\<not> validate_loop (NewTOTPManager ''Enterprise Auth'') secret ''12345'' t [-1, 0, 1]" for secret t
    unfolding validate_loop_codes using never by blast
  then have r: "result ?m ?w = Inl ErrInvalidMFACode"
    by (simp add: VerifyMFAChallenge_def mem_tokens mem_ByID mem_seven ValidateCode_run split: prod.split del: validate_loop.simps)
  have "\<forall>t \<ge> w_clock (after ?m ?w). mem_alive t (w_redis (after ?m ?w)) = mem_alive t (w_redis ?w)"
    using mfa_wrong_code [OF guarded_inv mem_redis_laws never run_of_result [OF refl]] by blast
  then have "mfa_tok mem_alive (w_clock (after ?m ?w)) (after ?m ?w) ''m'' = Some ''7''" by simp
  with r show ?thesis by blast
qed

section \<open>Registration\<close>

text \<open>C22. A registration that succeeds adds exactly one account: in the tenant asked for, under the cleaned
  address, with the least role, active, without a second factor, with its address not yet verified and a hash that the given
  password opens; no account known before had its identifier, or its address in that tenant.\<close>

theorem register_ok:
  assumes "pg_inv db tbl w" "packages_ok P"
    and "run_state (Register (auth_system getenv P J db rdb km cfg) tenantID email password ip) w = (Inr (), w')"
  shows "\<exists>user. pg_users tbl w' = insert user (pg_users tbl w) \<and> u_TenantID user = tenantID \<and>
    ValidateAndCleanEmail email = Inr (u_Email user) \<and>
    bcrypt_CompareHashAndPassword P (u_Password user) password = None \<and>
    u_Role user = RoleUser \<and> u_IsActive user \<and> \<not> u_EmailVerified user \<and> \<not> u_MFAEnabled user \<and>
    (\<forall>v \<in> pg_users tbl w. u_ID v \<noteq> u_ID user \<and> \<not> (u_TenantID v = tenantID \<and> u_Email v = u_Email user))"
proof -
  obtain user where "pg_users tbl w' = insert user (pg_users tbl w)" "u_TenantID user = tenantID"
    "ValidateAndCleanEmail email = Inr (u_Email user)"
    "bcrypt_CompareHashAndPassword (au_packages (auth_system getenv P J db rdb km cfg)) (u_Password user) password = None"
    "u_Role user = RoleUser" "u_IsActive user" "\<not> u_EmailVerified user" "\<not> u_MFAEnabled user"
    "\<And>v. v \<in> pg_users tbl w \<Longrightarrow> u_ID v \<noteq> u_ID user \<and> \<not> (u_TenantID v = tenantID \<and> u_Email v = u_Email user)"
    by (rule auth.Register_Inr [OF assms(1) _ assms(3)]) (use assms(2) in simp_all)
  then show ?thesis by (intro exI [of _ user]) simp
qed

lemma mem_hashes: "length pw \<le> 72 \<Longrightarrow> run_state (bcrypt_GenerateFromPassword mem_packages pw) w =
    (Inr (''h'' @ pw), w\<lparr>w_salts := \<lambda>i. w_salts w (Suc i)\<rparr>)"
  by (simp add: bcrypt_GenerateFromPassword_def mem_packages_def)

lemma mem_registers:
  assumes "ValidateAndCleanEmail e = Inr a" "ValidatePassword p = None" "length p \<le> 72" "w_db w = []"
  shows "result (Register mem_system t e p ip) w = Inr ()"
  using assms by (simp add: Register_def mem_hashes mem_Create time_Now_def uuid_New_def Let_def split: prod.split)

theorem register_ok_witness:
  "\<exists>user. pg_users mem_table (after (Register mem_system 1 ''ann@example.org'' ''Secret99!'' ''192.0.2.1'') (mem_world Map.empty [])) = {user} \<and>
     u_Email user = ''ann@example.org'' \<and> u_Role user = RoleUser"
proof -
  have "ValidatePassword ''Secret99!'' = None" by (simp add: ValidatePassword_None)
  from mem_registers [OF ann_email this, of "mem_world Map.empty []" 1 "''192.0.2.1''"]
  have "run_state (Register mem_system 1 ''ann@example.org'' ''Secret99!'' ''192.0.2.1'') (mem_world Map.empty []) =
    (Inr (), after (Register mem_system 1 ''ann@example.org'' ''Secret99!'' ''192.0.2.1'') (mem_world Map.empty []))"
    by (intro run_of_result) simp
  from register_ok [OF mem_inv mem_packages_ok this] show ?thesis by (auto simp: mem_users ann_email)
qed

text \<open>An address is registered once: asking for one that the tenant already has fails, whatever the
  password, and no account changes.\<close>

lemma register_taken:
  assumes "pg_inv db tbl w" "v \<in> pg_users tbl w" "u_TenantID v = tenantID" "ValidateAndCleanEmail email = Inr (u_Email v)"
    and "run_state (Register (auth_system getenv P J db rdb km cfg) tenantID email password ip) w = (r, w')"
  shows "(\<exists>e. r = Inl e) \<and> pg_users tbl w' = pg_users tbl w"
  using auth.Register_taken [OF assms] by blast

lemma register_taken_witness:
  "\<exists>e. result (Register mem_system 1 ''ann@example.org'' ''Secret99!'' ''192.0.2.1'') (mem_world Map.empty [ann]) = Inl e"
proof -
  have "ann \<in> pg_users mem_table (mem_world Map.empty [ann])" "u_TenantID ann = 1"
    "ValidateAndCleanEmail ''ann@example.org'' = Inr (u_Email ann)"
    by (simp_all add: mem_users ann_email)
  from register_taken [OF ann_inv this run_of_result [OF refl]] show ?thesis by blast
qed

section \<open>Changing an account\<close>

lemma mem_edits:
  assumes "w_db w = [v]" "u_ID x = u_ID v"
  shows "result (Update mem_pool x) w = Inr ()"
  using mem_Update_one [OF assms] by simp

text \<open>C9. A password reset that succeeds was asked for with a live token of the user it changes, and with a
  password of admissible length; it changes that user's hash and time stamp and no one else, the new hash
  opens with the new password, and the token is used up, when deletions reach the server.\<close>

theorem password_reset:
  assumes inv: "pg_inv db tbl w" "redis_laws rdb alive" "packages_ok P"
    and del: "\<And>t r. fst (rd_Del rdb (pwd_reset_key tok) t r) = None"
    and run: "run_state (ConfirmPasswordReset (auth_system getenv P J db rdb km cfg) tok password) w = (Inr (), w')"
  shows "\<exists>user s t0 h t. user \<in> pg_users tbl w \<and> w_clock w \<le> t0 \<and>
    alive t0 (w_redis w) (pwd_reset_key tok) = Some s \<and> fst (uuid_Parse P s) = u_ID user \<and>
    8 \<le> length password \<and> length password \<le> 72 \<and> bcrypt_CompareHashAndPassword P h password = None \<and>
    pg_users tbl w' = insert (user\<lparr>u_Password := h, u_UpdatedAt := t\<rparr>) (pg_users tbl w - {user}) \<and>
    (\<forall>t' \<ge> w_clock w'. alive t' (w_redis w') (pwd_reset_key tok) = None)"
proof -
  let ?A = "auth_system getenv P J db rdb km cfg"
  have d: "result (sr_RevokePasswordResetToken (au_sessionRepo ?A) tok) v = Inr ()" for v
    using cmd_Err_ok [OF del] by (simp add: RevokePasswordResetToken_def)
  obtain user s t0 h t where "user \<in> pg_users tbl w" "w_clock w \<le> t0"
    "alive t0 (w_redis w) (pwd_reset_key tok) = Some s" "fst (uuid_Parse (au_packages ?A) s) = u_ID user"
    "ValidatePassword password = None" "bcrypt_CompareHashAndPassword (au_packages ?A) h password = None"
    "pg_users tbl w' = insert (user\<lparr>u_Password := h, u_UpdatedAt := t\<rparr>) (pg_users tbl w - {user})"
    "\<And>t'. w_clock w' \<le> t' \<Longrightarrow> alive t' (w_redis w') (pwd_reset_key tok) = None"
    by (rule auth.ConfirmPasswordReset_Inr [OF inv(1,2) _ d run]) (use inv(3) in simp_all)
  then show ?thesis unfolding ValidatePassword_None
    by (intro exI [of _ user] exI [of _ s] exI [of _ t0] exI [of _ h] exI [of _ t]) simp
qed

lemma new_password: "ValidatePassword ''newsecret'' = None"
  by (simp add: ValidatePassword_None)

lemma mem_resets:
  "result (ConfirmPasswordReset mem_system ''r'' ''newsecret'') (mem_world (mem_with (pwd_reset_key ''r'') ''7'') [ann]) = Inr ()"
  by (simp add: ConfirmPasswordReset_def new_password mem_tokens mem_ByID mem_seven mem_hashes
      mem_edits time_Now_def Let_def)

theorem password_reset_witness:
  "\<exists>t. pg_users mem_table (after (ConfirmPasswordReset mem_system ''r'' ''newsecret'')
      (mem_world (mem_with (pwd_reset_key ''r'') ''7'') [ann])) = {ann\<lparr>u_Password := ''hnewsecret'', u_UpdatedAt := t\<rparr>}"
proof -
  have h: "bcrypt_CompareHashAndPassword mem_packages h ''newsecret'' = None \<Longrightarrow> h = ''hnewsecret''" for h
    by (simp add: mem_packages_def split: if_splits)
  show ?thesis
    using password_reset [OF ann_inv mem_redis_laws mem_packages_ok mem_deletes run_of_result [OF mem_resets]] h
    by (auto simp: mem_users)
qed

text \<open>A reset leaves the open sessions alone: every refresh token that was alive before is alive after it,
  so a session that an intruder holds survives the change of the password.\<close>

lemma reset_keeps_sessions:
  assumes laws: "redis_laws rdb alive" and later: "w_clock (after (ConfirmPasswordReset (auth_system getenv P J db rdb km cfg) tok password) w) \<le> t"
  shows "refresh_tok alive t (after (ConfirmPasswordReset (auth_system getenv P J db rdb km cfg) tok password) w) = refresh_tok alive t w"
  using tok_frame.frameD [OF auth.rtok_kept(7), of rdb alive w getenv P J db km cfg tok password] laws later
  by (simp add: keeps_tok_def)

lemma reset_keeps_sessions_witness:
  "mem_alive mem_now (w_redis (after (ConfirmPasswordReset mem_system ''r'' ''newsecret'')
     (mem_world [pwd_reset_key ''r'' \<mapsto> (''7'', None), refresh_key ''stolen'' \<mapsto> (''7'', None)] [ann]))) (refresh_key ''stolen'') = Some ''7''"
proof -
  let ?w = "mem_world [pwd_reset_key ''r'' \<mapsto> (''7'', None), refresh_key ''stolen'' \<mapsto> (''7'', None)] [ann]"
  have "w_clock (after (ConfirmPasswordReset mem_system ''r'' ''newsecret'') ?w) \<le> mem_now"
    by (simp add: ConfirmPasswordReset_def new_password mem_tokens mem_alive_def mem_ByID mem_seven mem_hashes
        mem_Update_one time_Now_def Let_def)
  from fun_cong [OF reset_keeps_sessions [OF mem_redis_laws this], of "''stolen''"] show ?thesis
    by (simp add: mem_alive_def)
qed

text \<open>C39. Verifying an address sets one mark, of the user whose live token was shown, and changes nobody else.\<close>

theorem email_verified:
  assumes inv: "pg_inv db tbl w" "redis_laws rdb alive"
    and run: "run_state (ConfirmEmailVerification (auth_system getenv P J db rdb km cfg) tok) w = (Inr (), w')"
  shows "\<exists>user s t0 t. user \<in> pg_users tbl w \<and> w_clock w \<le> t0 \<and>
    alive t0 (w_redis w) (email_verify_key tok) = Some s \<and> fst (uuid_Parse P s) = u_ID user \<and>
    pg_users tbl w' = insert (user\<lparr>u_EmailVerified := True, u_UpdatedAt := t\<rparr>) (pg_users tbl w - {user})"
proof -
  obtain user s t0 t where "user \<in> pg_users tbl w" "w_clock w \<le> t0"
    "alive t0 (w_redis w) (email_verify_key tok) = Some s"
    "fst (uuid_Parse (au_packages (auth_system getenv P J db rdb km cfg)) s) = u_ID user"
    "pg_users tbl w' = insert (user\<lparr>u_EmailVerified := True, u_UpdatedAt := t\<rparr>) (pg_users tbl w - {user})"
    by (rule auth.ConfirmEmailVerification_Inr [OF inv run])
  then show ?thesis
    by (intro exI [of _ user] exI [of _ s] exI [of _ t0] exI [of _ t]) simp
qed

theorem email_verified_witness:
  "\<exists>t. pg_users mem_table (after (ConfirmEmailVerification mem_system ''v'')
      (mem_world (mem_with (email_verify_key ''v'') ''7'') [ann])) = {ann\<lparr>u_EmailVerified := True, u_UpdatedAt := t\<rparr>}"
proof -
  have "result (ConfirmEmailVerification mem_system ''v'') (mem_world (mem_with (email_verify_key ''v'') ''7'') [ann]) = Inr ()"
    by (simp add: ConfirmEmailVerification_def mem_tokens mem_ByID mem_seven mem_edits time_Now_def Let_def)
  from email_verified [OF ann_inv mem_redis_laws run_of_result [OF this]] show ?thesis by (auto simp: mem_users)
qed


lemma mem_sets_up:
  "\<exists>secret uri w1 b t. run_state (SetupMFA mem_system 7) (mem_world Map.empty [ann]) = (Inr (secret, uri), w1) \<and>
     secret = base32_EncodeToString b \<and> w_db w1 = [ann\<lparr>u_MFASecret := secret, u_UpdatedAt := t\<rparr>]"
proof -
  let ?w = "mem_world Map.empty [ann]"
  let ?b = "map (w_entropy ?w) [0..<20]"
  obtain w2 where "run_state GenerateSecret ?w = (Inr (base32_EncodeToString ?b), w2)" "w_db w2 = [ann]"
    by (simp add: GenerateSecret_def rand_Read_def mem_world_def)
  moreover have "updated_user (ann\<lparr>u_MFASecret := s, u_UpdatedAt := t\<rparr>) ann = ann\<lparr>u_MFASecret := s, u_UpdatedAt := micros t\<rparr>" for s t
    by (simp add: updated_user_def)
  ultimately show ?thesis
    by (simp add: SetupMFA_def mem_ByID mem_Update_one time_Now_def Let_def) blast
qed


text \<open>A second factor can be switched on without ever having been set up: for a user who has no secret, the
  code that anyone can compute from the empty secret and the time is accepted, and the flag is set.\<close>

lemma mfa_without_secret:
  fixes w1 :: "('r, 'd) world"
  assumes found: "run_state (GetByID db i) w = (Inr user, w1)" and none: "u_MFASecret user = ''''"
    and saved: "\<And>t (v :: ('r, 'd) world). w_db v = w_db w1 \<Longrightarrow> result (Update db (user\<lparr>u_MFAEnabled := True, u_UpdatedAt := t\<rparr>)) v = Inr ()"
  shows "\<exists>code. GenerateCode (NewTOTPManager ''Enterprise Auth'') '''' (w_clock w1 + int (w_elapse w1 0)) = Inr code \<and>
    result (ConfirmMFASetup (auth_system getenv P J db rdb km cfg) i code) w = Inr ()"
proof -
  let ?now = "w_clock w1 + int (w_elapse w1 0)"
  have "base32_DecodeString (ToUpper (TrimSpace '''')) \<noteq> None" by code_simp
  with GenerateCode_cases [of "''''" "NewTOTPManager ''Enterprise Auth''" ?now]
  obtain code where code: "GenerateCode (NewTOTPManager ''Enterprise Auth'') '''' ?now = Inr code" by auto
  then have "validate_loop (NewTOTPManager ''Enterprise Auth'') '''' code ?now [-1, 0, 1]"
    unfolding validate_loop_codes by (intro bexI [of _ 0]) simp_all
  then have "result (ConfirmMFASetup (auth_system getenv P J db rdb km cfg) i code) w = Inr ()"
    using found none saved by (simp add: ConfirmMFASetup_def ValidateCode_run time_Now_def Let_def del: validate_loop.simps)
  with code show ?thesis by blast
qed

lemma mfa_without_secret_witness:
  "\<exists>code. result (ConfirmMFASetup mem_system 7 code) (mem_world Map.empty [ann]) = Inr () \<and> u_MFASecret ann = ''''"
proof -
  have f: "run_state (GetByID mem_pool 7) (mem_world Map.empty [ann]) = (Inr ann, mem_world Map.empty [ann])"
    by (simp add: mem_ByID)
  have s: "result (Update mem_pool (ann\<lparr>u_MFAEnabled := True, u_UpdatedAt := t\<rparr>)) v = Inr ()"
    if "w_db v = w_db (mem_world Map.empty [ann])" for t and v :: "(mem_redis, mem_db) world"
    by (rule mem_edits [where v = ann]) (use that in simp_all)
  have n: "u_MFASecret ann = ''''" by (simp add: ann_def zero_user_def)
  from mfa_without_secret [OF f n s] n show ?thesis by blast
qed

text \<open>Accounts over any run of authentication calls: no call removes an account or changes its identifier,
  tenant, address, role, activity or federated identity, and every account that comes into being has the
  least role, so that no run of them makes an administrator.\<close>

lemma accounts_safe:
  assumes "pg_inv db tbl w"
  shows "pg_inv db tbl (fold (auth_do (auth_system getenv P J db rdb km cfg)) cs w) \<and>
    badge ` pg_users tbl w \<subseteq> badge ` pg_users tbl (fold (auth_do (auth_system getenv P J db rdb km cfg)) cs w) \<and>
    {badge v |v. v \<in> pg_users tbl (fold (auth_do (auth_system getenv P J db rdb km cfg)) cs w) \<and> u_Role v \<noteq> RoleUser} \<subseteq>
      badge ` pg_users tbl w"
  using auth.runs_badges [of db tbl w getenv P J rdb km cfg cs] assms unfolding keeps_badges_def by blast

lemma accounts_safe_witness:
  "badge ann \<in> badge ` pg_users mem_table (fold (auth_do mem_system)
     [CallRegister 1 ''eve@example.org'' ''secret99'' '''', CallSetupMFA 7] (mem_world Map.empty [ann]))"
  using accounts_safe [OF ann_inv, of mem_env mem_packages mem_jwt mem_client mem_km mem_cfg
      "[CallRegister 1 ''eve@example.org'' ''secret99'' '''', CallSetupMFA 7]" Map.empty]
  by (simp add: mem_users)

end
