(* ===== verification/Json.thy ===== *)
theory Json
  imports Keys
begin

text \<open>
  The JSON that the service sends: the encodings that the struct tags of \<open>internal/domain\<close>,
  \<open>utils/jwt.go\<close> and \<open>utils/response.go\<close> ask for. A field tagged \<open>json:"-"\<close> is never written, one
  tagged \<open>omitempty\<close> is left out when it has the zero value. Times are written in RFC 3339; the
  process runs in UTC, as the container image does.
\<close>

section \<open>Calendar and time\<close>

text \<open>Year, month and day of a number of days since the epoch, in the proleptic Gregorian calendar.\<close>

definition civil_from_days :: "int \<Rightarrow> int \<times> int \<times> int" where
  "civil_from_days days =
     (let z = days + 719468;
          era = z div 146097;
          doe = z mod 146097;
          yoe = (doe - doe div 1460 + doe div 36524 - doe div 146096) div 365;
          doy = doe - (365 * yoe + yoe div 4 - yoe div 100);
          mp = (5 * doy + 2) div 153;
          d = doy - (153 * mp + 2) div 5 + 1;
          m = (if mp < 10 then mp + 3 else mp - 9)
      in (yoe + era * 400 + (if m \<le> 2 then 1 else 0), m, d))"

definition date_time :: "time \<Rightarrow> string" where
  "date_time t =
     (let secs = t div second; days = secs div 86400; s = nat (secs mod 86400)
      in case civil_from_days days of (y, m, d) \<Rightarrow>
           pad_dec 4 (nat y) @ ''-'' @ pad_dec 2 (nat m) @ ''-'' @ pad_dec 2 (nat d) @ ''T'' @
           pad_dec 2 (s div 3600) @ '':'' @ pad_dec 2 (s div 60 mod 60) @ '':'' @ pad_dec 2 (s mod 60))"

text \<open>\<open>t.Format(time.RFC3339)\<close>, and \<open>time.RFC3339Nano\<close>, which drops the zeros that end the fraction.\<close>

definition RFC3339 :: "time \<Rightarrow> string" where
  "RFC3339 t = date_time t @ ''Z''"

definition RFC3339Nano :: "time \<Rightarrow> string" where
  "RFC3339Nano t =
     (let frac = rev (dropWhile (\<lambda>c. c = CHR ''0'') (rev (pad_dec 9 (nat (t mod second)))))
      in date_time t @ (if frac = [] then [] else ''.'' @ frac) @ ''Z'')"

section \<open>Documents\<close>

datatype json = JNull | JBool bool | JInt int | JStr string | JArr "json list" | JObj "(string \<times> json) list"

text \<open>A field under \<open>omitempty\<close>.\<close>

definition omitempty :: "bool \<Rightarrow> string \<Rightarrow> json \<Rightarrow> (string \<times> json) list" where
  "omitempty zero k v = (if zero then [] else [(k, v)])"

definition json_user :: "packages \<Rightarrow> user \<Rightarrow> json" where
  "json_user P u = JObj (
     [(''id'', JStr (uuid_String P (u_ID u))), (''tenant_id'', JStr (uuid_String P (u_TenantID u))),
      (''email'', JStr (u_Email u)), (''role'', JStr (u_Role u)), (''is_active'', JBool (u_IsActive u)),
      (''mfa_enabled'', JBool (u_MFAEnabled u)), (''email_verified'', JBool (u_EmailVerified u))] @
     omitempty (u_OAuthProvider u = '''') ''oauth_provider'' (JStr (u_OAuthProvider u)) @
     omitempty (u_OAuthSubject u = '''') ''oauth_subject'' (JStr (u_OAuthSubject u)) @
     omitempty (u_ExternalID u = '''') ''external_id'' (JStr (u_ExternalID u)) @
     [(''created_at'', JStr (RFC3339Nano (u_CreatedAt u))), (''updated_at'', JStr (RFC3339Nano (u_UpdatedAt u)))])"

definition json_tokens :: "auth_token_response \<Rightarrow> json" where
  "json_tokens a = JObj (
     omitempty (at_AccessToken a = '''') ''access_token'' (JStr (at_AccessToken a)) @
     omitempty (at_RefreshToken a = '''') ''refresh_token'' (JStr (at_RefreshToken a)) @
     omitempty (at_MFAToken a = '''') ''mfa_token'' (JStr (at_MFAToken a)) @
     omitempty (\<not> at_RequiresMFA a) ''requires_mfa'' (JBool (at_RequiresMFA a)) @
     omitempty (at_ExpiresIn a = 0) ''expires_in'' (JInt (at_ExpiresIn a)))"

text \<open>The slice of \<open>List\<close> is nil until the first row, and a nil slice is \<open>null\<close>.\<close>

definition json_page :: "packages \<Rightarrow> paginated_result \<Rightarrow> json" where
  "json_page P r = JObj [
     (''data'', if pr_Data r = [] then JNull else JArr (map (json_user P) (pr_Data r))),
     (''page'', JInt (sint (pr_Page r))), (''limit'', JInt (sint (pr_Limit r))),
     (''total_rows'', JInt (sint (pr_TotalRows r))), (''total_pages'', JInt (sint (pr_TotalPages r)))]"

definition json_scim_email :: "scim_email \<Rightarrow> json" where
  "json_scim_email e = JObj ([(''value'', JStr (se_Value e)), (''primary'', JBool (se_Primary e))] @
     omitempty (se_Type e = '''') ''type'' (JStr (se_Type e)))"

definition json_scim_meta :: "scim_meta \<Rightarrow> json" where
  "json_scim_meta m = JObj [(''resourceType'', JStr (sm_ResourceType m)), (''created'', JStr (sm_Created m)),
     (''lastModified'', JStr (sm_LastModified m)), (''location'', JStr (sm_Location m))]"

definition json_scim_user :: "scim_user \<Rightarrow> json" where
  "json_scim_user s = JObj (
     [(''schemas'', JArr (map JStr (su_Schemas s))), (''id'', JStr (su_ID s))] @
     omitempty (su_ExternalID s = '''') ''externalId'' (JStr (su_ExternalID s)) @
     [(''userName'', JStr (su_UserName s)), (''active'', JBool (su_Active s)),
      (''emails'', JArr (map json_scim_email (su_Emails s))), (''meta'', json_scim_meta (su_Meta s))])"

definition json_scim_list :: "scim_list_response \<Rightarrow> json" where
  "json_scim_list l = JObj [(''schemas'', JArr (map JStr (sl_Schemas l))),
     (''totalResults'', JInt (sint (sl_TotalResults l))), (''itemsPerPage'', JInt (sint (sl_ItemsPerPage l))),
     (''startIndex'', JInt (sint (sl_StartIndex l))), (''Resources'', JArr (map json_scim_user (sl_Resources l)))]"

definition json_scim_config :: "scim_provider_config \<Rightarrow> json" where
  "json_scim_config c =
     (let supported = (\<lambda>b. JObj [(''supported'', JBool b)])
      in JObj [(''schemas'', JArr (map JStr (sc_Schemas c))), (''patch'', supported (sc_Patch c)),
           (''bulk'', supported (sc_Bulk c)), (''filter'', supported (sc_Filter c)),
           (''changePassword'', supported (sc_ChangePassword c)), (''sort'', supported (sc_Sort c)),
           (''etag'', supported (sc_Etag c)),
           (''authenticationSchemes'', JArr (map (\<lambda>a. JObj [(''name'', JStr (as_Name a)),
              (''description'', JStr (as_Description a)), (''type'', JStr (as_Type a))])
              (sc_AuthenticationSchemes c)))])"

definition json_jwks :: "jwks \<Rightarrow> json" where
  "json_jwks ks = JObj [(''keys'', JArr (map (\<lambda>k. JObj [(''kty'', JStr (jwk_Kty k)), (''kid'', JStr (jwk_Kid k)),
     (''use'', JStr (jwk_Use k)), (''alg'', JStr (jwk_Alg k)), (''n'', JStr (jwk_N k)), (''e'', JStr (jwk_E k))]) ks))]"

section \<open>The envelope of utils/response.go\<close>

record response_envelope =
  re_Success :: bool
  re_Message :: string
  re_Data :: "json option"
  re_Error :: string

definition json_envelope :: "response_envelope \<Rightarrow> json" where
  "json_envelope r = JObj ([(''success'', JBool (re_Success r))] @
     omitempty (re_Message r = '''') ''message'' (JStr (re_Message r)) @
     (case re_Data r of None \<Rightarrow> [] | Some d \<Rightarrow> [(''data'', d)]) @
     omitempty (re_Error r = '''') ''error'' (JStr (re_Error r)))"

section \<open>Lemmas\<close>

text \<open>The strings of a document.\<close>

fun json_strings :: "json \<Rightarrow> string set" where
  "json_strings (JStr s) = {s}"
| "json_strings (JArr js) = (\<Union>j \<in> set js. json_strings j)"
| "json_strings (JObj kvs) = (\<Union>kv \<in> set kvs. json_strings (snd kv))"
| "json_strings _ = {}"

text \<open>A document does not depend on a field that is tagged \<open>json:"-"\<close>.\<close>

lemma json_user_secret: "json_user P (u\<lparr>u_Password := pw, u_MFASecret := secret\<rparr>) = json_user P u"
  by (simp add: json_user_def)

lemma civil_epoch: "civil_from_days 0 = (1970, 1, 1)" "civil_from_days 19782 = (2024, 2, 29)"
  by code_simp+

end
