(* ===== verification/Metrics.thy ===== *)
theory Metrics
  imports Config
begin

text \<open>
  \<open>infrastructure/metrics\<close>: the three collectors with their options, what registering them requires, and
  \<open>TrackRequest\<close>. A histogram is the list of the values it observed; what its buckets count follows from it.
\<close>

section \<open>Collectors\<close>

text \<open>\<open>prometheus.CounterOpts\<close>, \<open>HistogramOpts\<close> and \<open>GaugeOpts\<close>, as far as they are set, and the labels of a vector.\<close>

record collector_opts =
  co_Name :: string
  co_Help :: string
  co_Buckets :: "rat list"
  co_Labels :: "string list"

record metrics =
  me_TotalOpts :: collector_opts
  me_DurationOpts :: collector_opts
  me_ActiveOpts :: collector_opts
  me_RequestsTotal :: "string \<times> string \<times> string \<Rightarrow> nat"
  me_Durations :: "string \<times> string \<Rightarrow> rat list"
  me_ActiveRequests :: int

definition NewMetrics :: metrics where
  "NewMetrics = \<lparr>
     me_TotalOpts = \<lparr>co_Name = ''http_requests_total'', co_Help = ''Total number of HTTP requests processed'',
       co_Buckets = [], co_Labels = [''method'', ''path'', ''status'']\<rparr>,
     me_DurationOpts = \<lparr>co_Name = ''http_request_duration_seconds'', co_Help = ''Histogram of response latency for HTTP requests'',
       co_Buckets = map float64 [0.005, 0.01, 0.025, 0.05, 0.1, 0.25, 0.5, 1, 2.5, 5], co_Labels = [''method'', ''path'']\<rparr>,
     me_ActiveOpts = \<lparr>co_Name = ''http_active_requests'', co_Help = ''Number of currently active HTTP requests'',
       co_Buckets = [], co_Labels = []\<rparr>,
     me_RequestsTotal = (\<lambda>k. 0), me_Durations = (\<lambda>k. []), me_ActiveRequests = 0\<rparr>"

definition TrackRequest :: "string \<Rightarrow> string \<Rightarrow> int \<Rightarrow> duration \<Rightarrow> metrics \<Rightarrow> metrics" where
  "TrackRequest m path status d me =
     me\<lparr>me_RequestsTotal := (me_RequestsTotal me)((m, path, Itoa status) := me_RequestsTotal me (m, path, Itoa status) + 1),
        me_Durations := (me_Durations me)((m, path) := me_Durations me (m, path) @ [Seconds d])\<rparr>"

definition Active_Add :: "int \<Rightarrow> metrics \<Rightarrow> metrics" where
  "Active_Add n me = me\<lparr>me_ActiveRequests := me_ActiveRequests me + n\<rparr>"

section \<open>Registration\<close>

text \<open>
  What \<open>promauto\<close> requires of the collectors it registers, or else it panics: valid and different names, valid
  and different labels, not the reserved \<open>le\<close> for a histogram, and buckets that increase.
\<close>

definition name_char :: "bool \<Rightarrow> char \<Rightarrow> bool" where
  "name_char first_one c = (let n = of_char c :: nat in
     65 \<le> n \<and> n \<le> 90 \<or> 97 \<le> n \<and> n \<le> 122 \<or> c = CHR ''_'' \<or> \<not> first_one \<and> 48 \<le> n \<and> n \<le> 57)"

definition valid_name :: "string \<Rightarrow> bool" where
  "valid_name s = (case s of [] \<Rightarrow> False | c # cs \<Rightarrow> name_char True c \<and> list_all (name_char False) cs)"

definition registers :: "collector_opts list \<Rightarrow> bool" where
  "registers os = (distinct (map co_Name os) \<and> list_all (\<lambda>co. valid_name (co_Name co) \<and>
     list_all valid_name (co_Labels co) \<and> distinct (co_Labels co) \<and>
     (co_Buckets co \<noteq> [] \<longrightarrow> ''le'' \<notin> set (co_Labels co)) \<and> sorted_wrt (<) (co_Buckets co)) os)"

text \<open>How many observations a bucket counts: all that are at most its bound.\<close>

definition bucket_counts :: "string \<times> string \<Rightarrow> metrics \<Rightarrow> nat list" where
  "bucket_counts key me = map (\<lambda>le. length (filter (\<lambda>x. x \<le> le) (me_Durations me key))) (co_Buckets (me_DurationOpts me))"

text \<open>Bounds that are far enough apart stay apart when they are rounded.\<close>

lemma float64_less:
  assumes "0 \<le> x \<and> 0 \<le> y \<and> x * (2 ^ 53 + 1) < y * (2 ^ 53 - 1)"
  shows "float64 x < float64 y"
proof -
  have err: "c * 2 ^ 53 \<le> z" if "0 \<le> z" "c \<le> \<bar>float64 z - z\<bar>" for c z
    by (rule order_trans [OF mult_right_mono [OF that(2)] float64_error [OF that(1)]]) simp
  have "(float64 x - x) * 2 ^ 53 \<le> x" "(y - float64 y) * 2 ^ 53 \<le> y"
    using assms by (intro err; simp)+
  then have "float64 x * 2 ^ 53 \<le> x * (2 ^ 53 + 1)" "y * (2 ^ 53 - 1) \<le> float64 y * 2 ^ 53"
    by (simp_all add: algebra_simps)
  then have "float64 x * 2 ^ 53 < float64 y * 2 ^ 53" using assms by linarith
  then show ?thesis by simp
qed

lemma buckets_increase: "sorted_wrt (<) (co_Buckets (me_DurationOpts NewMetrics))"
proof -
  let ?apart = "\<lambda>x y :: rat. 0 \<le> x \<and> 0 \<le> y \<and> x * (2 ^ 53 + 1) < y * (2 ^ 53 - 1)"
  have "sorted_wrt ?apart [0.005, 0.01, 0.025, 0.05, 0.1, 0.25, 0.5, 1, 2.5, 5]" by simp
  then have "sorted_wrt (\<lambda>x y. float64 x < float64 y) [0.005, 0.01, 0.025, 0.05, 0.1, 0.25, 0.5, 1, 2.5, 5]"
    by (rule sorted_wrt_mono_rel [rotated]) (rule float64_less)
  then show ?thesis unfolding NewMetrics_def metrics.simps collector_opts.simps sorted_wrt_map .
qed

lemma registers_NewMetrics: "registers [me_TotalOpts NewMetrics, me_DurationOpts NewMetrics, me_ActiveOpts NewMetrics]"
proof -
  have "valid_name ''http_requests_total'' \<and> valid_name ''http_request_duration_seconds'' \<and> valid_name ''http_active_requests'' \<and>
      valid_name ''method'' \<and> valid_name ''path'' \<and> valid_name ''status''" by code_simp
  with buckets_increase show ?thesis by (simp add: registers_def NewMetrics_def)
qed

lemma bucket_counts_mono:
  assumes "i \<le> j" "j < length (co_Buckets (me_DurationOpts me))" "sorted_wrt (<) (co_Buckets (me_DurationOpts me))"
  shows "bucket_counts key me ! i \<le> bucket_counts key me ! j"
proof -
  have "co_Buckets (me_DurationOpts me) ! i \<le> co_Buckets (me_DurationOpts me) ! j"
    using assms by (cases "i = j") (auto simp: sorted_wrt_iff_nth_less less_imp_le)
  then have "length (filter (\<lambda>x. x \<le> co_Buckets (me_DurationOpts me) ! i) xs) \<le>
      length (filter (\<lambda>x. x \<le> co_Buckets (me_DurationOpts me) ! j) xs)" for xs
    by (induction xs) auto
  then show ?thesis using assms(1,2) by (simp add: bucket_counts_def)
qed

lemma Itoa_inj: "Itoa i = Itoa j \<longleftrightarrow> i = j"
proof
  have neg: "dec_nat n \<noteq> CHR ''-'' # s" for n s
  proof
    assume "dec_nat n = CHR ''-'' # s"
    then obtain d where "CHR ''-'' = digit_char d" "d \<le> 9" using set_dec_nat [of n] by auto
    then have "(of_char (CHR ''-'') :: nat) = 48 + d" using digit_char_nat [of d] by simp
    then show False by simp
  qed
  have inj: "m = n" if "dec_nat m = dec_nat n" for m n
    using arg_cong [OF that, of "\<lambda>s. parse_digits s 0"] unfolding parse_dec_nat by simp
  assume eq: "Itoa i = Itoa j"
  show "i = j"
  proof (cases "i < 0"; cases "j < 0")
    assume "i < 0" "j < 0"
    with eq have "dec_nat (nat (- i)) = dec_nat (nat (- j))" by (simp add: Itoa_def)
    from inj [OF this] \<open>i < 0\<close> \<open>j < 0\<close> show ?thesis by simp
  next
    assume "\<not> i < 0" "\<not> j < 0"
    with eq have "dec_nat (nat i) = dec_nat (nat j)" by (simp add: Itoa_def)
    from inj [OF this] \<open>\<not> i < 0\<close> \<open>\<not> j < 0\<close> show ?thesis by simp
  next
    assume "i < 0" "\<not> j < 0"
    with eq have "dec_nat (nat j) = CHR ''-'' # dec_nat (nat (- i))" by (simp add: Itoa_def)
    then show ?thesis using neg by blast
  next
    assume "\<not> i < 0" "j < 0"
    with eq have "dec_nat (nat i) = CHR ''-'' # dec_nat (nat (- j))" by (simp add: Itoa_def)
    then show ?thesis using neg by blast
  qed
qed simp

end
