(* ===== verification/Http.thy ===== *)
theory Http
  imports Json Session_Store Metrics
begin

text \<open>
  Requests, the response writer and \<open>utils/response.go\<close>; the part of \<open>net/http\<close> the service
  relies on: what \<open>WriteHeader\<close>, \<open>http.Error\<close> and \<open>ServeMux\<close> do. A handler acts on the world,
  on the writer, on the access log and on the metrics; it ends normally or in a panic.
\<close>

section \<open>Requests\<close>

text \<open>
  The request, with the values the middlewares put into its context and the path value of the mux.
  \<open>rq_Header\<close> and \<open>rq_Query\<close> give the first value of a header or a query parameter, the empty
  string when there is none.
\<close>

record request =
  rq_Method :: string
  rq_Path :: string
  rq_Query :: "string \<Rightarrow> string"
  rq_Header :: "string \<Rightarrow> string"
  rq_RemoteAddr :: string
  rq_Body :: json_body
  rq_PathValue :: "string \<Rightarrow> string"
  rq_Tenant :: "uuid option"
  rq_User :: "jwt_custom_claims option"
  rq_RequestID :: "string option"
  rq_TraceID :: "string option"

text \<open>\<open>http.MaxBytesReader(w, r.Body, n)\<close>: a document that does not fit is an error and leaves zero values.\<close>

definition zero_scim_user :: scim_user where
  "zero_scim_user = \<lparr>su_Schemas = [], su_ID = '''', su_ExternalID = '''', su_UserName = '''', su_Active = False,
     su_Emails = [], su_Meta = \<lparr>sm_ResourceType = '''', sm_Created = '''', sm_LastModified = '''', sm_Location = ''''\<rparr>\<rparr>"

definition MaxBytesReader :: "nat \<Rightarrow> json_body \<Rightarrow> json_body" where
  "MaxBytesReader n b = (if n < jb_Size b
     then \<lparr>jb_Size = jb_Size b, jb_Err = Some (ErrText ''http: request body too large''),
            jb_Str = (\<lambda>k. ''''), jb_Int = (\<lambda>k. 0), jb_SCIMUser = zero_scim_user\<rparr>
     else b)"

section \<open>The response writer\<close>

datatype body = JsonBody json | TextBody string

text \<open>The headers set so far, and once sent the status and the headers of that moment.\<close>

record response_writer =
  wr_Header :: "string \<rightharpoonup> string"
  wr_Sent :: "(int \<times> (string \<rightharpoonup> string)) option"
  wr_Body :: "body list"

definition new_writer :: response_writer where
  "new_writer = \<lparr>wr_Header = Map.empty, wr_Sent = None, wr_Body = []\<rparr>"

definition wr_Set :: "string \<Rightarrow> string \<Rightarrow> response_writer \<Rightarrow> response_writer" where
  "wr_Set k v wr = wr\<lparr>wr_Header := (wr_Header wr)(k \<mapsto> v)\<rparr>"

text \<open>A second \<open>WriteHeader\<close> is ignored; a write before the first one sends status 200.\<close>

definition wr_WriteHeader :: "int \<Rightarrow> response_writer \<Rightarrow> response_writer" where
  "wr_WriteHeader code wr = (case wr_Sent wr of
     None \<Rightarrow> wr\<lparr>wr_Sent := Some (code, wr_Header wr)\<rparr> | Some _ \<Rightarrow> wr)"

definition wr_Write :: "body \<Rightarrow> response_writer \<Rightarrow> response_writer" where
  "wr_Write b wr = (let wr' = wr_WriteHeader 200 wr in wr'\<lparr>wr_Body := wr_Body wr' @ [b]\<rparr>)"

section \<open>Server state\<close>

text \<open>\<open>logger.Info("http_request", \<dots>)\<close>.\<close>

record access_record =
  ac_Method :: string
  ac_Path :: string
  ac_Status :: int
  ac_Latency :: duration
  ac_RequestID :: string
  ac_TraceID :: string

text \<open>\<open>sv_Status\<close> is the status that the innermost \<open>responseWriterWrapper\<close> remembers.\<close>

record ('r, 'd) server =
  sv_World :: "('r, 'd) world"
  sv_Writer :: response_writer
  sv_Status :: int
  sv_Log :: "access_record list"
  sv_Metrics :: metrics

type_synonym ('r, 'd, 'a) serving = "(('r, 'd) server, 'a) state"

text \<open>A handler returns, or panics with a message.\<close>

type_synonym ('r, 'd) handler = "request \<Rightarrow> ('r, 'd, go_error + unit) serving"

definition in_world :: "('r, 'd, 'a) prog \<Rightarrow> ('r, 'd, 'a) serving" where
  "in_world m = State (\<lambda>s. case run_state m (sv_World s) of (x, w') \<Rightarrow> (x, s\<lparr>sv_World := w'\<rparr>))"

definition respond :: "(response_writer \<Rightarrow> response_writer) \<Rightarrow> ('r, 'd, unit) serving" where
  "respond f = writes (\<lambda>s. s\<lparr>sv_Writer := f (sv_Writer s)\<rparr>)"

text \<open>
  \<open>w.WriteHeader(code)\<close> as a handler inside the logging and metrics middlewares calls it: the
  wrappers remember the last code, the connection keeps the first. Outside them nobody reads
  \<open>sv_Status\<close>.
\<close>

definition WriteHeader :: "int \<Rightarrow> ('r, 'd, unit) serving" where
  "WriteHeader code = writes (\<lambda>s. s\<lparr>sv_Status := code, sv_Writer := wr_WriteHeader code (sv_Writer s)\<rparr>)"

definition Header_Set :: "string \<Rightarrow> string \<Rightarrow> ('r, 'd, unit) serving" where
  "Header_Set k v = respond (wr_Set k v)"

definition Encode :: "json \<Rightarrow> ('r, 'd, unit) serving" where
  "Encode j = respond (wr_Write (JsonBody j))"

section \<open>utils/response.go\<close>

definition WriteJSON :: "int \<Rightarrow> json option \<Rightarrow> string \<Rightarrow> ('r, 'd, go_error + unit) serving" where
  "WriteJSON status data message = do {
     Header_Set ''Content-Type'' ''application/json; charset=utf-8'';
     WriteHeader status;
     Encode (json_envelope \<lparr>re_Success = (200 \<le> status \<and> status < 300), re_Message = message,
       re_Data = data, re_Error = ''''\<rparr>);
     ok () }"

definition WriteError :: "int \<Rightarrow> string \<Rightarrow> ('r, 'd, go_error + unit) serving" where
  "WriteError status errMessage = do {
     Header_Set ''Content-Type'' ''application/json; charset=utf-8'';
     WriteHeader status;
     Encode (json_envelope \<lparr>re_Success = False, re_Message = '''', re_Data = None, re_Error = errMessage\<rparr>);
     ok () }"

section \<open>net/http\<close>

definition http_Error :: "string \<Rightarrow> int \<Rightarrow> ('r, 'd, go_error + unit) serving" where
  "http_Error msg code = do {
     Header_Set ''Content-Type'' ''text/plain; charset=utf-8'';
     Header_Set ''X-Content-Type-Options'' ''nosniff'';
     WriteHeader code;
     respond (wr_Write (TextBody (msg @ [CHR 0x0A])));
     ok () }"

text \<open>
  Patterns of \<open>ServeMux\<close>: literal segments, a wildcard for one segment, and the slash at the end that
  matches any rest.
\<close>

datatype segment = Lit string | Wild string | Multi

record ('r, 'd) route =
  rt_Method :: "string option"
  rt_Pattern :: "segment list"
  rt_Handler :: "('r, 'd) handler"

definition path_segments :: "string \<Rightarrow> string list" where
  "path_segments p = tl (Split CHR ''/'' p)"

text \<open>A match and the path values it binds; the segments of the path are unescaped one by one.\<close>

definition hex_value :: "char \<Rightarrow> nat option" where
  "hex_value c = (let n = of_char c in
     if 48 \<le> n \<and> n \<le> 57 then Some (n - 48) else if 65 \<le> n \<and> n \<le> 70 then Some (n - 55)
     else if 97 \<le> n \<and> n \<le> 102 then Some (n - 87) else None)"

fun unescape :: "string \<Rightarrow> string option" where
  "unescape [] = Some []"
| "unescape (c # s) =
     (if c = CHR ''%'' then
        (case s of
           a # b # s' \<Rightarrow>
             (case (hex_value a, hex_value b) of
                (Some x, Some y) \<Rightarrow> map_option ((#) (char_of (16 * x + y))) (unescape s')
              | _ \<Rightarrow> None)
         | _ \<Rightarrow> None)
      else map_option ((#) c) (unescape s))"

definition pathUnescape :: "string \<Rightarrow> string" where
  "pathUnescape s = (case unescape s of Some t \<Rightarrow> t | None \<Rightarrow> s)"

fun match_segments :: "segment list \<Rightarrow> string list \<Rightarrow> (string \<times> string) list option" where
  "match_segments [] [] = Some []"
| "match_segments [Multi] (s # ss) = Some []"
| "match_segments (Lit l # ps) (s # ss) = (if pathUnescape s = l then match_segments ps ss else None)"
| "match_segments (Wild n # ps) (s # ss) =
     (if s = '''' then None else map_option ((#) (n, pathUnescape s)) (match_segments ps ss))"
| "match_segments _ _ = None"

text \<open>\<open>path.Clean\<close> as \<open>cleanPath\<close> uses it.\<close>

fun clean_segments :: "string list \<Rightarrow> string list \<Rightarrow> string list" where
  "clean_segments acc [] = rev acc"
| "clean_segments acc (s # ss) =
     (if s = '''' \<or> s = ''.'' then clean_segments acc ss
      else if s = ''..'' then clean_segments (tl acc) ss
      else clean_segments (s # acc) ss)"

definition cleanPath :: "string \<Rightarrow> string" where
  "cleanPath p = (if p = '''' then ''/'' else
     (let p' = (if hd p = CHR ''/'' then p else CHR ''/'' # p);
          np = concat (map (\<lambda>s. CHR ''/'' # s) (clean_segments [] (path_segments p')));
          np' = (if np = '''' then ''/'' else np)
      in if last p' = CHR ''/'' \<and> np' \<noteq> ''/'' then np' @ ''/'' else np'))"

text \<open>
  The first route that matches. The patterns of this service never overlap within a method, so
  the first is the most specific one.
\<close>

fun find_route :: "string option \<Rightarrow> string \<Rightarrow> ('r, 'd) route list \<Rightarrow> (('r, 'd) route \<times> (string \<times> string) list) option" where
  "find_route m p [] = None"
| "find_route m p (r # rs) =
     (if rt_Method r = m then
        (case match_segments (rt_Pattern r) (path_segments p) of
           Some vs \<Rightarrow> Some (r, vs) | None \<Rightarrow> find_route m p rs)
      else find_route m p rs)"

text \<open>First the routes of the method, for HEAD also those of GET, then those of any method.\<close>

definition find_method :: "string \<Rightarrow> string \<Rightarrow> ('r, 'd) route list \<Rightarrow> (('r, 'd) route \<times> (string \<times> string) list) option" where
  "find_method m p rs =
     (case find_route (Some m) p rs of
        Some x \<Rightarrow> Some x
      | None \<Rightarrow>
          (case (if m = ''HEAD'' then find_route (Some ''GET'') p rs else None) of
             Some x \<Rightarrow> Some x
           | None \<Rightarrow> find_route None p rs))"

definition exactMatch :: "('r, 'd) route option \<Rightarrow> string \<Rightarrow> bool" where
  "exactMatch r p =
     (case r of
        None \<Rightarrow> False
      | Some r \<Rightarrow>
          if last (rt_Pattern r) \<noteq> Multi then True
          else if p \<noteq> [] \<and> last p \<noteq> CHR ''/'' then False
          else length (rt_Pattern r) = length (filter (\<lambda>c. c = CHR ''/'') p))"

definition matchingMethods :: "string \<Rightarrow> ('r, 'd) route list \<Rightarrow> string list" where
  "matchingMethods p rs = List.filter (\<lambda>m. find_route (Some m) p rs \<noteq> None \<or>
       m = ''HEAD'' \<and> find_route (Some ''GET'') p rs \<noteq> None)
     [''DELETE'', ''GET'', ''HEAD'', ''POST'', ''PUT'']"

definition redirect_to :: "string \<Rightarrow> ('r, 'd, go_error + unit) serving" where
  "redirect_to p = do {
     Header_Set ''Location'' p;
     WriteHeader 301;
     ok () }"

text \<open>\<open>(*ServeMux).ServeHTTP\<close> with these routes.\<close>

definition mux :: "('r, 'd) route list \<Rightarrow> ('r, 'd) handler" where
  "mux rs rq =
     (let path = (if rq_Method rq = ''CONNECT'' then rq_Path rq else cleanPath (rq_Path rq));
          found = find_method (rq_Method rq) path rs
      in if \<not> exactMatch (map_option fst found) path \<and> last path \<noteq> CHR ''/'' \<and>
            exactMatch (map_option fst (find_method (rq_Method rq) (path @ ''/'') rs)) (path @ ''/'')
         then redirect_to (path @ ''/'')
         else if path \<noteq> rq_Path rq then redirect_to path
         else (case found of
             Some (r, vs) \<Rightarrow>
               rt_Handler r (rq\<lparr>rq_PathValue := \<lambda>k. case map_of vs k of Some v \<Rightarrow> v | None \<Rightarrow> ''''\<rparr>)
           | None \<Rightarrow>
               if matchingMethods path rs \<noteq> [] then do {
                 Header_Set ''Allow'' (concat (map (\<lambda>m. m @ '', '') (butlast (matchingMethods path rs))) @
                   last (matchingMethods path rs));
                 http_Error ''Method Not Allowed'' 405 }
               else http_Error ''404 page not found'' 404))"

end
