(* ===== verification/Session_Properties.thy ===== *)
theory Session_Properties
  imports Account_Properties Http
begin

text \<open>
  Properties of the sessions: what rotation and logout do to a refresh token, for good, and what the
  federated login proves and what it leaves out.
\<close>

section \<open>Rotation and logout\<close>

lemma never_drawn_kept:
  assumes "\<And>rdb alive. state_io_rel (stays_revoked rdb alive tok) m" "run_state m w = (x, w')" "never_drawn tok w"
  shows "never_drawn tok w'"
  using stays.frame_runD [OF assms(1,2)] assms(3) by (simp add: stays_revoked_def)

lemma refresh_prims:
  "state_io_rel (stays_revoked rdb' alive tok) (GetByID db i)"
  "state_io_rel (stays_revoked rdb' alive tok) (GenerateAccessToken P J km i e r d)"
  unfolding repository_defs GenerateAccessToken_def Let_def by (intro frames)+

lemma never_drawn_redis [simp]: "never_drawn tok (after (redis_do f) w) = never_drawn tok w"
  by (simp add: never_drawn_def)

text \<open>The new token is not an old one.\<close>

lemma generateSession_fresh:
  assumes "run_state (generateSession (auth_system getenv P J db rdb km cfg) user) w = (Inr res, w')" "never_drawn tok w"
  shows "at_RefreshToken res \<noteq> tok"
proof -
  let ?gen = "GenerateAccessToken P J km (u_ID user) (u_Email user) (u_Role user) (cfg_AccessTokenTTL cfg)"
  obtain acc w1 ref w2 where gen: "run_state ?gen w = (Inr acc, w1)" and sec: "run_state (GenerateSecureToken 32) w1 = (Inr ref, w2)"
    and res: "at_RefreshToken res = ref"
    using assms(1) unfolding generateSession_def
    by (elim go_caseE) (auto elim!: go_caseE simp: zero_auth_token_response_def)
  have "never_drawn tok w1" using never_drawn_kept [OF refresh_prims(2) gen assms(2)] .
  moreover have "ref = hex_EncodeToString (map (\<lambda>i. w_entropy w1 (i + 0)) [0..<32])"
    using sec by (auto simp: GenerateSecureToken_def rand_Read_def split: if_splits)
  ultimately show ?thesis unfolding res never_drawn_def by blast
qed

lemma RefreshToken_fresh:
  assumes run: "run_state (RefreshToken (auth_system getenv P J db rdb km cfg) raw ip) w = (Inr res, w')" and "never_drawn tok w"
  shows "at_RefreshToken res \<noteq> tok"
proof -
  let ?u = "auth_system getenv P J db rdb km cfg"
  obtain r1 w1 where get: "run_state (GetUserIDByRefreshToken rdb raw) w = (r1, w1)" by fastforce
  with run obtain s where r1: "r1 = Inr s" by (cases r1) (auto simp: RefreshToken_def split: if_splits)
  obtain i e where p: "uuid_Parse P s = (i, e)" by fastforce
  with run get r1 have e: "e = None" by (cases e) (auto simp: RefreshToken_def)
  obtain r2 w2 where byid: "run_state (GetByID db i) w1 = (r2, w2)" by fastforce
  with run get r1 p e obtain user where r2: "r2 = Inr user" "u_IsActive user"
    by (cases r2) (auto simp: RefreshToken_def split: if_splits)
  obtain r3 w3 where rev: "run_state (RevokeRefreshToken rdb raw) w2 = (r3, w3)" by fastforce
  from run get r1 p e byid r2 rev obtain w4 where gen: "run_state (generateSession ?u user) w3 = (Inr res, w4)"
    by (auto simp: RefreshToken_def split: sum.splits prod.splits)
  have "never_drawn tok w1" using get assms(2)
    by (auto simp: GetUserIDByRefreshToken_def cmd_Result_def dest!: arg_cong [of _ _ snd])
  then have "never_drawn tok w2" using never_drawn_kept [OF refresh_prims(1) byid] by blast
  then have "never_drawn tok w3" using rev
    by (auto simp: RevokeRefreshToken_def dest!: arg_cong [of _ _ snd])
  with generateSession_fresh [OF gen] show ?thesis by blast
qed

lemma revoked_fails:
  assumes "redis_laws rdb alive" "revoked alive tok w"
  shows "\<exists>e. result (RefreshToken (auth_system getenv P J db rdb km cfg) tok ip) w = Inl e"
proof -
  obtain r w1 where get: "run_state (GetUserIDByRefreshToken rdb tok) w = (r, w1)" by fastforce
  show ?thesis
  proof (cases r)
    case (Inr s)
    from refresh.get_value [OF assms(1) get [unfolded Inr]] refresh.now_get [of w rdb tok] get assms(2)
    show ?thesis by (simp add: revoked_def)
  qed (use get in \<open>simp add: RefreshToken_def\<close>)
qed

lemma dead_for_good:
  assumes "redis_laws rdb alive" "0 < cfg_RefreshTokenTTL cfg" "revoked alive tok w" "never_drawn tok w"
  shows "\<exists>e. result (RefreshToken (auth_system getenv P J db rdb km cfg) tok ip)
    (fold (auth_do (auth_system getenv P J db rdb km cfg)) cs w) = Inl e"
proof (rule revoked_fails [OF assms(1)])
  have "stays_revoked rdb alive tok w (fold (auth_do (auth_system getenv P J db rdb km cfg)) cs w)"
    by (rule stays.runs [OF auth_do_revoked [OF assms(2)]])
  then show "revoked alive tok (fold (auth_do (auth_system getenv P J db rdb km cfg)) cs w)"
    using assms by (simp add: stays_revoked_def)
qed

text \<open>C3. A refresh rotates the token: it succeeds only for a live token that shows the identifier of an active
  user, it opens a new session for him under a new token, and the old token is never accepted again,
  whatever authentication calls follow, when deletions reach the server and the random source does not
  repeat itself.\<close>

theorem refresh_rotates:
  assumes inv: "pg_inv db tbl w" "redis_laws rdb alive" "0 < cfg_RefreshTokenTTL cfg"
    and del: "\<And>t r. fst (rd_Del rdb (refresh_key raw) t r) = None" and rand: "never_drawn raw w"
    and run: "run_state (RefreshToken (auth_system getenv P J db rdb km cfg) raw ip) w = (Inr res, w')"
  shows "(\<exists>user s t0. user \<in> pg_users tbl w \<and> u_IsActive user \<and> w_clock w \<le> t0 \<and>
      refresh_tok alive t0 w raw = Some s \<and> uuid_Parse P s = (u_ID user, None) \<and> at_RefreshToken res \<noteq> raw \<and>
      session_opened (auth_system getenv P J db rdb km cfg) (refresh_tok alive) user w res w') \<and>
    (\<forall>cs ip'. \<exists>e. result (RefreshToken (auth_system getenv P J db rdb km cfg) raw ip')
      (fold (auth_do (auth_system getenv P J db rdb km cfg)) cs w') = Inl e)"
proof -
  let ?A = "auth_system getenv P J db rdb km cfg"
  have d: "result (sr_RevokeRefreshToken (au_sessionRepo ?A) raw) v = Inr ()" for v
    using cmd_Err_ok [OF del] by (simp add: RevokeRefreshToken_def)
  have new: "at_RefreshToken res \<noteq> raw" using RefreshToken_fresh [OF run rand] .
  obtain user s t0 where *: "user \<in> pg_users tbl w" "u_IsActive user" "w_clock w \<le> t0" "t0 \<le> w_clock w'"
    "refresh_tok alive t0 w raw = Some s" "uuid_Parse (au_packages ?A) s = (u_ID user, None)"
    "session_opened ?A (refresh_tok alive) user w res w'"
    "\<And>t. at_RefreshToken res \<noteq> raw \<Longrightarrow> w_clock w' \<le> t \<Longrightarrow> refresh_tok alive t w' raw = None"
    by (rule auth.RefreshToken_Inr [OF inv(1,2) _ d run]) (use inv(3) in simp_all)
  have "revoked alive raw w'" using *(8) [OF new] by (simp add: revoked_def)
  moreover have "stays_revoked rdb alive raw w w'"
    using auth_do_revoked [OF inv(3), of rdb alive raw w getenv P J db km "CallRefresh raw ip"] run by simp
  then have "never_drawn raw w'" using rand by (simp add: stays_revoked_def)
  ultimately have "\<forall>cs ip'. \<exists>e. result (RefreshToken ?A raw ip') (fold (auth_do ?A) cs w') = Inl e"
    using dead_for_good [OF inv(2,3)] by blast
  with * new show ?thesis by (intro conjI exI [of _ user] exI [of _ s] exI [of _ t0]) simp_all
qed

lemma mem_refreshes:
  "\<exists>res w'. run_state (RefreshToken mem_system ''t'' ip) (mem_world (mem_with (refresh_key ''t'') ''7'') [ann]) = (Inr res, w')"
proof -
  let ?w = "mem_world (mem_with (refresh_key ''t'') ''7'') [ann]"
  let ?w2 = "after (RevokeRefreshToken mem_client ''t'') (after time_Now ?w)"
  obtain res w' where "run_state (generateSession mem_system ann) ?w2 = (Inr res, w')"
    using mem_session [of ?w2 ann] by (auto simp: mem_tokens)
  then show ?thesis by (simp add: RefreshToken_def mem_tokens mem_ByID mem_seven split: prod.split)
qed

lemma short_never_drawn: "length tok \<noteq> 64 \<Longrightarrow> never_drawn tok w"
  by (auto simp: never_drawn_def)

theorem refresh_rotates_witness:
  "\<exists>res w'. run_state (RefreshToken mem_system ''t'' ''192.0.2.1'') (mem_world (mem_with (refresh_key ''t'') ''7'') [ann]) = (Inr res, w') \<and>
     (\<exists>e. result (RefreshToken mem_system ''t'' ''192.0.2.1'') (auth_do mem_system (CallLogin 1 ''ann@example.org'' ''secret99'' '''') w') = Inl e)"
proof -
  obtain res w' where run: "run_state (RefreshToken mem_system ''t'' ''192.0.2.1'') (mem_world (mem_with (refresh_key ''t'') ''7'') [ann]) = (Inr res, w')"
    using mem_refreshes by blast
  have "0 < cfg_RefreshTokenTTL mem_cfg" by (simp add: duration_defs)
  note R = refresh_rotates [OF ann_inv mem_redis_laws this mem_deletes short_never_drawn run]
  have "\<exists>e. result (RefreshToken mem_system ''t'' ''192.0.2.1'')
      (fold (auth_do mem_system) [CallLogin 1 ''ann@example.org'' ''secret99'' ''''] w') = Inl e"
    using R by fastforce
  with run show ?thesis by auto
qed

text \<open>After a logout the token is dead for good: whatever authentication calls follow, no refresh with it
  succeeds; the call itself asks for nothing but the token.\<close>

lemma logout_for_good:
  assumes "redis_laws rdb alive" "0 < cfg_RefreshTokenTTL cfg" "never_drawn tok w"
    and run: "run_state (Logout (auth_system getenv P J db rdb km cfg) tok ip) w = (Inr (), w')"
  shows "\<exists>e. result (RefreshToken (auth_system getenv P J db rdb km cfg) tok ip')
    (fold (auth_do (auth_system getenv P J db rdb km cfg)) cs w') = Inl e"
proof (rule dead_for_good [OF assms(1,2)])
  let ?A = "auth_system getenv P J db rdb km cfg"
  let ?w1 = "after (audit_Log EventSessionRevoked ''anonymous'' ip ''session revoked'') w"
  from run have rev: "run_state (RevokeRefreshToken rdb tok) ?w1 = (Inr (), w')"
    by (simp add: Logout_def split_beta)
  have "alive t (w_redis w') (refresh_key tok) = None" if "w_clock w' \<le> t" for t
    using fun_cong [OF refresh.revoke_ok [OF assms(1) rev that], of tok] by simp
  then show "revoked alive tok w'" by (simp add: revoked_def)
  have "stays_revoked rdb alive tok w w'"
    using auth_do_revoked [OF assms(2), of rdb alive tok w getenv P J db km "CallLogout tok ip"] run by simp
  then show "never_drawn tok w'" using assms(3) by (simp add: stays_revoked_def)
qed

lemma logout_for_good_witness:
  "\<exists>e. result (RefreshToken mem_system ''t'' '''') (fold (auth_do mem_system) [CallLogin 1 ''ann@example.org'' ''secret99'' '''']
     (after (Logout mem_system ''t'' '''') (mem_world (mem_with (refresh_key ''t'') ''7'') [ann]))) = Inl e"
proof -
  have "result (Logout mem_system ''t'' '''') (mem_world (mem_with (refresh_key ''t'') ''7'') [ann]) = Inr ()"
    by (simp add: Logout_def split_beta)
  from run_of_result [OF this] show ?thesis
    by (intro logout_for_good [OF mem_redis_laws _ short_never_drawn]) (simp_all add: duration_defs)
qed

section \<open>Federated login\<close>

text \<open>C14. A federated login succeeds only for one of the two known providers and with a state that was alive and
  issued for that provider; the session is for an account of the tenant that is bound to the provider,
  known before or created on the spot with the least role, and no other account changes.\<close>

theorem oauth_sound:
  assumes inv: "pg_inv db tbl w" "redis_laws rdb alive" "0 < cfg_RefreshTokenTTL cfg"
    and run: "run_state (HandleOAuthCallback (auth_system getenv P J db rdb km cfg) tenantID prov code st ip) w = (Inr res, w')"
  shows "(prov = ''google'' \<or> prov = ''github'') \<and>
    (\<exists>t0. w_clock w \<le> t0 \<and> t0 \<le> w_clock w' \<and> alive t0 (w_redis w) (oauth_state_key st) = Some prov) \<and>
    (\<exists>user. user \<in> pg_users tbl w' \<and> u_TenantID user = tenantID \<and> u_OAuthProvider user = prov \<and>
      (pg_users tbl w' = pg_users tbl w \<or> pg_users tbl w' = insert user (pg_users tbl w) \<and> u_Role user = RoleUser) \<and>
      session_opened (auth_system getenv P J db rdb km cfg) (refresh_tok alive) user w res w')"
proof -
  obtain t0 user where "prov = ''google'' \<or> prov = ''github''" "w_clock w \<le> t0" "t0 \<le> w_clock w'"
    "alive t0 (w_redis w) (oauth_state_key st) = Some prov"
    "user \<in> pg_users tbl w'" "u_TenantID user = tenantID" "u_OAuthProvider user = prov"
    "pg_users tbl w' = pg_users tbl w \<or> pg_users tbl w' = insert user (pg_users tbl w) \<and> u_Role user = RoleUser"
    "session_opened (auth_system getenv P J db rdb km cfg) (refresh_tok alive) user w res w'"
    by (rule auth.HandleOAuthCallback_Inr [OF inv(1,2) _ run]) (use inv(3) in simp_all)
  then show ?thesis by (intro conjI exI [of _ t0] exI [of _ user]) simp_all
qed

text \<open>A network on which both requests to Google are answered, for the account \<open>g1\<close>.\<close>

definition google_up :: "nat \<Rightarrow> out_request \<Rightarrow> go_error + out_response" where
  "google_up i q = Inr \<lparr>os_StatusCode = 200, os_Body = \<lparr>jb_Size = 64, jb_Err = None,
     jb_Str = (\<lambda>k. if k = ''id'' then ''g1'' else ''ann@example.org''), jb_Int = (\<lambda>k. 0),
     jb_SCIMUser = zero_scim_user\<rparr>\<rparr>"

text \<open>A federated account that was deactivated and had a second factor.\<close>

definition barred :: user where
  "barred = ann\<lparr>u_IsActive := False, u_MFAEnabled := True, u_OAuthProvider := ''google'', u_OAuthSubject := ''g1''\<rparr>"

lemma barred_simps [simp]:
  "u_ID barred = 7" "u_TenantID barred = 1" "u_Email barred = ''ann@example.org''" "\<not> u_IsActive barred"
  "u_MFAEnabled barred" "u_OAuthProvider barred = ''google''" "u_OAuthSubject barred = ''g1''"
  by (simp_all add: barred_def)

lemma barred_inv: "pg_inv mem_pool mem_table (mem_world r [barred])"
  by (rule mem_inv) simp_all

definition callback_world :: "(mem_redis, mem_db) world" where
  "callback_world = (mem_world (mem_with (oauth_state_key ''s'') ''google'') [barred])\<lparr>w_web := google_up\<rparr>"

lemma callback_steps:
  "\<exists>w1 w2. run_state (ValidateAndConsumeOAuthState mem_client ''s'' ''google'') callback_world = (True, w1) \<and>
     run_state (google_ExchangeCode (google_config mem_env) ''c'') w1 = (Inr \<lparr>ui_Subject = ''g1'', ui_Email = ''ann@example.org''\<rparr>, w2) \<and>
     run_state (GetByOAuth mem_pool 1 ''google'' ''g1'') w2 = (Inr barred, w2) \<and> entropy_ok w2"
proof -
  obtain w1 where w1: "run_state (ValidateAndConsumeOAuthState mem_client ''s'' ''google'') callback_world = (True, w1)"
    "w_db w1 = [barred]" "w_web w1 = google_up" "entropy_ok w1"
    by (simp add: ValidateAndConsumeOAuthState_def callback_world_def mem_get mem_redis_do Let_def split: prod.split)
  obtain w2 where w2: "run_state (google_ExchangeCode (google_config mem_env) ''c'') w1 = (Inr \<lparr>ui_Subject = ''g1'', ui_Email = ''ann@example.org''\<rparr>, w2)"
    "w_db w2 = [barred]" "entropy_ok w2"
    using w1 by (simp add: google_ExchangeCode_def http_Do_def google_up_def Let_def entropy_ok_def)
  show ?thesis using w1(1) w2 by (simp add: mem_ByOAuth)
qed



theorem oauth_sound_witness:
  "\<exists>res w'. run_state (HandleOAuthCallback mem_system 1 ''google'' ''c'' ''s'' '''') callback_world = (Inr res, w') \<and>
     (\<exists>user \<in> pg_users mem_table w'. session_opened mem_system (refresh_tok mem_alive) user callback_world res w')"
proof -
  obtain w1 w2 where s: "run_state (ValidateAndConsumeOAuthState mem_client ''s'' ''google'') callback_world = (True, w1)"
    and "run_state (google_ExchangeCode (google_config mem_env) ''c'') w1 = (Inr \<lparr>ui_Subject = ''g1'', ui_Email = ''ann@example.org''\<rparr>, w2)"
    and "run_state (GetByOAuth mem_pool 1 ''google'' ''g1'') w2 = (Inr barred, w2)" and "entropy_ok w2"
    using callback_steps by auto
  then obtain res w' where run: "run_state (HandleOAuthCallback mem_system 1 ''google'' ''c'' ''s'' '''') callback_world = (Inr res, w')"
    using mem_session [of w2 barred] by (auto simp: HandleOAuthCallback_def NewGoogleProvider_def Let_def)
  have "pg_inv mem_pool mem_table callback_world"
    using barred_inv by (simp add: callback_world_def pg_inv_def)
  moreover have "0 < cfg_RefreshTokenTTL mem_cfg" by (simp add: duration_defs)
  ultimately show ?thesis using oauth_sound [OF _ mem_redis_laws _ run] run by fast
qed

end
