(* ===== verification/Refresh_Race.thy ===== *)
theory Refresh_Race
  imports Session_Properties
begin

text \<open>
  Two refresh requests at once. Each request is a goroutine; between its calls to the stores another
  one may run. \<open>RefreshToken\<close> is cut at these calls into phases, a request alone passes through
  them exactly as the sequential model does, and two requests interleave by an inductive relation.
\<close>

datatype refresh_phase =
    RefreshStart string
  | RefreshFound string uuid
  | RefreshUser string user
  | RefreshRevoked user
  | RefreshDone "go_error + auth_token_response"

fun refresh_advance :: "('r, 'd) auth_use_case \<Rightarrow> string \<Rightarrow> refresh_phase \<Rightarrow> ('r, 'd, refresh_phase) prog" where
  "refresh_advance u ip (RefreshStart raw) = do {
     r \<leftarrow> sr_GetUserIDByRefreshToken (au_sessionRepo u) raw;
     State_Monad.return (case r of
         Inl err \<Rightarrow> RefreshDone (Inl (if errors_Is err RedisNil then ErrInvalidToken else err))
       | Inr s \<Rightarrow> (case uuid_Parse (au_packages u) s of
             (_, Some err) \<Rightarrow> RefreshDone (Inl ErrInvalidToken)
           | (userID, None) \<Rightarrow> RefreshFound raw userID)) }"
| "refresh_advance u ip (RefreshFound raw userID) = do {
     r \<leftarrow> ur_GetByID (au_userRepo u) userID;
     State_Monad.return (case r of
         Inl err \<Rightarrow> RefreshDone (Inl ErrUnauthorized)
       | Inr user \<Rightarrow> if \<not> u_IsActive user then RefreshDone (Inl ErrUnauthorized) else RefreshUser raw user) }"
| "refresh_advance u ip (RefreshUser raw user) = do {
     _ \<leftarrow> sr_RevokeRefreshToken (au_sessionRepo u) raw;
     State_Monad.return (RefreshRevoked user) }"
| "refresh_advance u ip (RefreshRevoked user) = do {
     r \<leftarrow> generateSession u user;
     case r of
       Inl err \<Rightarrow> State_Monad.return (RefreshDone (Inl err))
     | Inr res \<Rightarrow> do {
         audit_Log EventTokenRefreshed (u_Email user) ip ''token refreshed successfully'';
         State_Monad.return (RefreshDone (Inr res)) } }"
| "refresh_advance u ip (RefreshDone res) = State_Monad.return (RefreshDone res)"

text \<open>A request alone: four phases are enough for every one of its ends.\<close>

definition refresh_alone :: "('r, 'd) auth_use_case \<Rightarrow> string \<Rightarrow> string \<Rightarrow> ('r, 'd, refresh_phase) prog" where
  "refresh_alone u raw ip = do {
     p1 \<leftarrow> refresh_advance u ip (RefreshStart raw);
     p2 \<leftarrow> refresh_advance u ip p1;
     p3 \<leftarrow> refresh_advance u ip p2;
     refresh_advance u ip p3 }"

lemma refresh_alone_run:
  "run_state (refresh_alone u raw ip) w =
     (case run_state (RefreshToken u raw ip) w of (r, w') \<Rightarrow> (RefreshDone r, w'))"
  by (simp add: refresh_alone_def RefreshToken_def split: prod.split sum.split option.split)

text \<open>Two requests, each in a phase, over one world.\<close>

inductive interleave :: "('r, 'd) auth_use_case \<Rightarrow> refresh_phase \<times> refresh_phase \<times> ('r, 'd) world \<Rightarrow>
    refresh_phase \<times> refresh_phase \<times> ('r, 'd) world \<Rightarrow> bool" for u c where
  idle: "interleave u c c"
| first: "interleave u c (p, q, w) \<Longrightarrow> run_state (refresh_advance u ip p) w = (p', w') \<Longrightarrow> interleave u c (p', q, w')"
| second: "interleave u c (p, q, w) \<Longrightarrow> run_state (refresh_advance u ip q) w = (q', w') \<Longrightarrow> interleave u c (p, q', w')"

lemma interleave_runs:
  assumes "interleave u c (p, q, w)"
  shows "run_state (refresh_advance u ip p) w = (p', w') \<Longrightarrow> interleave u c (p', q, w')"
    and "run_state (refresh_advance u ip q) w = (q', w') \<Longrightarrow> interleave u c (p, q', w')"
  using assms by (auto intro: interleave.intros)

text \<open>What two requests with a dead token can reach.\<close>

definition refused_phase :: "string \<Rightarrow> refresh_phase \<Rightarrow> bool" where
  "refused_phase raw p \<longleftrightarrow> p = RefreshStart raw \<or> (\<exists>e. p = RefreshDone (Inl e))"

lemma refused_advance:
  assumes laws: "redis_laws rdb alive" and dead: "revoked alive raw w" and p: "refused_phase raw p"
    and run: "run_state (refresh_advance (auth_system getenv P J db rdb km cfg) ip p) w = (p', w')"
  shows "refused_phase raw p' \<and> revoked alive raw w'"
proof (cases p)
  case (RefreshStart raw')
  with p have raw: "raw' = raw" by (simp add: refused_phase_def)
  obtain r w1 where get: "run_state (GetUserIDByRefreshToken rdb raw) w = (r, w1)" by fastforce
  have "state_io_rel (keeps_tok (\<lambda>w. redis_laws rdb alive) (refresh_tok alive)) (GetUserIDByRefreshToken rdb raw)"
    by (simp add: state_io_rel_def keeps_tok_def GetUserIDByRefreshToken_def redis_getD)
  from tok_frame.frame_runD [OF this get] laws have "w_clock w \<le> w_clock w1"
    "\<And>t. w_clock w1 \<le> t \<Longrightarrow> refresh_tok alive t w1 = refresh_tok alive t w" by (simp_all add: keeps_tok_def)
  then have dead': "revoked alive raw w1"
    using dead by (simp add: revoked_def) (metis order_trans)
  have "\<exists>e. r = Inl e"
  proof (cases r)
    case (Inr s)
    from refresh.get_value [OF laws get [unfolded Inr]] refresh.now_get [of w rdb raw] get dead
    show ?thesis by (simp add: revoked_def)
  qed simp
  with run get RefreshStart raw dead' show ?thesis by (auto simp: refused_phase_def)
qed (use p run dead in \<open>auto simp: refused_phase_def\<close>)

lemma mem_nothing: "mem_alive t Map.empty k = None"
  by (simp add: mem_alive_def)

text \<open>A token that is dead is refused to both of two concurrent requests, in every interleaving.\<close>

lemma concurrent_refresh_dead:
  assumes laws: "redis_laws rdb alive" and dead: "revoked alive raw w"
    and run: "interleave (auth_system getenv P J db rdb km cfg) (RefreshStart raw, RefreshStart raw, w) (p, q, w')"
  shows "p \<noteq> RefreshDone (Inr res) \<and> q \<noteq> RefreshDone (Inr res)"
proof -
  define c where "c = (RefreshStart raw, RefreshStart raw, w)"
  define d where "d = (p, q, w')"
  have "interleave (auth_system getenv P J db rdb km cfg) c d" using run by (simp add: c_def d_def)
  then have "refused_phase raw (fst d) \<and> refused_phase raw (fst (snd d)) \<and> revoked alive raw (snd (snd d))"
  proof induction
    case idle
    show ?case using dead by (simp add: c_def refused_phase_def)
  next
    case (first p q w ip p' w')
    from first.IH refused_advance [OF laws _ _ first.hyps(2)] show ?case by simp
  next
    case (second p q w ip q' w')
    from second.IH refused_advance [OF laws _ _ second.hyps(2)] show ?case by simp
  qed
  then show ?thesis by (auto simp: d_def refused_phase_def)
qed

lemma concurrent_refresh_dead_witness:
  "\<exists>p w'. interleave mem_system (RefreshStart ''t'', RefreshStart ''t'', mem_world Map.empty [ann]) (p, RefreshStart ''t'', w') \<and>
     p \<noteq> RefreshStart ''t'' \<and> p \<noteq> RefreshDone (Inr zero_auth_token_response)"
proof -
  let ?w = "mem_world Map.empty [ann]"
  have get: "run_state (refresh_advance mem_system '''' (RefreshStart ''t'')) w = (RefreshDone (Inl ErrInvalidToken), after time_Now w)"
    if "w_redis w = Map.empty" for w
    using that by (simp add: mem_tokens mem_nothing)
  have i: "interleave mem_system (RefreshStart ''t'', RefreshStart ''t'', ?w)
      (RefreshDone (Inl ErrInvalidToken), RefreshStart ''t'', after time_Now ?w)"
    by (rule interleave_runs(1) [OF interleave.idle get]) simp
  have "revoked mem_alive ''t'' ?w" by (simp add: revoked_def mem_alive_def)
  from concurrent_refresh_dead [OF mem_redis_laws this i] i show ?thesis by blast
qed

text \<open>C28. A refresh token is not used once when two requests race: there is an interleaving of two requests with
  one token in which both are answered with a session, because the token is read and deleted by two
  commands.\<close>

theorem refresh_race:
  "\<exists>res1 res2 w'. interleave mem_system
     (RefreshStart ''t'', RefreshStart ''t'', mem_world (mem_with (refresh_key ''t'') ''7'') [ann])
     (RefreshDone (Inr res1), RefreshDone (Inr res2), w')"
proof -
  let ?c = "(RefreshStart ''t'', RefreshStart ''t'', mem_world (mem_with (refresh_key ''t'') ''7'') [ann])"
  let ?w0 = "mem_world (mem_with (refresh_key ''t'') ''7'') [ann]"
  let ?w1 = "after time_Now ?w0"
  let ?w2 = "after time_Now ?w1"
  have get: "run_state (refresh_advance mem_system '''' (RefreshStart ''t'')) w = (RefreshFound ''t'' 7, after time_Now w)"
    if "w_redis w = mem_with (refresh_key ''t'') ''7''" for w
    using that by (simp add: mem_tokens mem_seven)
  have found: "run_state (refresh_advance mem_system '''' (RefreshFound ''t'' 7)) w = (RefreshUser ''t'' ann, w)"
    if "w_db w = [ann]" for w using that by (simp add: mem_ByID)
  obtain w3 where w3: "run_state (RevokeRefreshToken mem_client ''t'') ?w2 = (Inr (), w3)" "entropy_ok w3"
    by (simp add: mem_tokens)
  obtain w4 where w4: "run_state (RevokeRefreshToken mem_client ''t'') w3 = (Inr (), w4)" "entropy_ok w4"
    using w3(2) by (simp add: mem_tokens)
  have session: "\<exists>res w'. run_state (refresh_advance mem_system '''' (RefreshRevoked ann)) w = (RefreshDone (Inr res), w') \<and> entropy_ok w'"
    if "entropy_ok w" for w
    using mem_session [OF that, of ann] by (auto simp: audit_Log_def time_Now_def Let_def)
  obtain res1 w5 where s1: "run_state (refresh_advance mem_system '''' (RefreshRevoked ann)) w4 = (RefreshDone (Inr res1), w5)"
    and "entropy_ok w5" using session [OF w4(2)] by blast
  then obtain res2 w6 where s2: "run_state (refresh_advance mem_system '''' (RefreshRevoked ann)) w5 = (RefreshDone (Inr res2), w6)"
    using session by blast
  note start = interleave.idle [of mem_system ?c]
  have 1: "interleave mem_system ?c (RefreshFound ''t'' 7, RefreshStart ''t'', ?w1)"
    by (rule interleave_runs(1) [OF start get]) simp
  have 2: "interleave mem_system ?c (RefreshFound ''t'' 7, RefreshFound ''t'' 7, ?w2)"
    by (rule interleave_runs(2) [OF 1 get]) simp
  have 3: "interleave mem_system ?c (RefreshUser ''t'' ann, RefreshFound ''t'' 7, ?w2)"
    by (rule interleave_runs(1) [OF 2 found]) simp
  have 4: "interleave mem_system ?c (RefreshUser ''t'' ann, RefreshUser ''t'' ann, ?w2)"
    by (rule interleave_runs(2) [OF 3 found]) simp
  have 5: "interleave mem_system ?c (RefreshRevoked ann, RefreshUser ''t'' ann, w3)"
    by (rule interleave_runs(1) [OF 4]) (simp add: w3)
  have 6: "interleave mem_system ?c (RefreshRevoked ann, RefreshRevoked ann, w4)"
    by (rule interleave_runs(2) [OF 5]) (simp add: w4)
  have 7: "interleave mem_system ?c (RefreshDone (Inr res1), RefreshRevoked ann, w5)"
    by (rule interleave_runs(1) [OF 6 s1])
  have "interleave mem_system ?c (RefreshDone (Inr res1), RefreshDone (Inr res2), w6)"
    by (rule interleave_runs(2) [OF 7 s2])
  then show ?thesis by blast
qed

end
