(* ===== verification/User_Usecase.thy ===== *)
theory User_Usecase
  imports User_Contract Go_Float Json
begin

text \<open>
  \<open>internal/usecase/user_usecase.go\<close> and \<open>internal/usecase/scim_usecase.go\<close>: the profile, the listing
  of a tenant's users page by page, and the SCIM resource operations.
\<close>

section \<open>user_usecase.go\<close>

definition GetProfile :: "('r, 'd) user_repository \<Rightarrow> uuid \<Rightarrow> ('r, 'd, user) go" where
  "GetProfile userRepo i = ur_GetByID userRepo i"

text \<open>The page and the limit as \<open>ListUsers\<close> corrects them.\<close>

definition clamp_query :: "pagination_query \<Rightarrow> pagination_query" where
  "clamp_query pq =
     (let pq = (if sint (pq_Page pq) < 1 then pq\<lparr>pq_Page := 1\<rparr> else pq)
      in if sint (pq_Limit pq) < 1 then pq\<lparr>pq_Limit := 10\<rparr>
         else if sint (pq_Limit pq) > 100 then pq\<lparr>pq_Limit := 100\<rparr> else pq)"

definition total_pages :: "int64 \<Rightarrow> int64 \<Rightarrow> int64" where
  "total_pages cnt limit =
     (if 0 < sint cnt then word_of_int \<lceil>float64_div (sint cnt) (sint limit)\<rceil> else 0)"

definition ListUsers :: "('r, 'd) user_repository \<Rightarrow> uuid \<Rightarrow> pagination_query \<Rightarrow> ('r, 'd, paginated_result) go" where
  "ListUsers userRepo tenantID pq = do {
     let pq = clamp_query pq;
     r \<leftarrow> ur_List userRepo tenantID pq;
     case r of
       Inl err \<Rightarrow> fail err
     | Inr p \<Rightarrow> ok \<lparr>pr_Data = fst p, pr_Page = pq_Page pq, pr_Limit = pq_Limit pq, pr_TotalRows = snd p,
         pr_TotalPages = total_pages (snd p) (pq_Limit pq)\<rparr> }"

section \<open>scim_usecase.go\<close>

definition toSCIM :: "packages \<Rightarrow> user \<Rightarrow> scim_user" where
  "toSCIM P u = \<lparr>su_Schemas = [''urn:ietf:params:scim:schemas:core:2.0:User''],
     su_ID = uuid_String P (u_ID u), su_ExternalID = u_ExternalID u, su_UserName = u_Email u,
     su_Active = u_IsActive u,
     su_Emails = [\<lparr>se_Value = u_Email u, se_Primary = True, se_Type = ''work''\<rparr>],
     su_Meta = \<lparr>sm_ResourceType = ''User'', sm_Created = RFC3339 (u_CreatedAt u),
       sm_LastModified = RFC3339 (u_UpdatedAt u), sm_Location = ''/scim/v2/Users/'' @ uuid_String P (u_ID u)\<rparr>\<rparr>"

text \<open>\<open>len(req.Emails) > 0 && req.Emails[0].Value != ""\<close>\<close>

definition first_email :: "scim_user \<Rightarrow> string option" where
  "first_email rq = (case su_Emails rq of
     [] \<Rightarrow> None | e # es \<Rightarrow> if se_Value e \<noteq> '''' then Some (se_Value e) else None)"

definition scim_CreateUser :: "packages \<Rightarrow> ('r, 'd) user_repository \<Rightarrow> uuid \<Rightarrow> scim_user \<Rightarrow> ('r, 'd, scim_user) go" where
  "scim_CreateUser P userRepo tenantID rq = do {
     let email = (case first_email rq of Some v \<Rightarrow> v | None \<Rightarrow> su_UserName rq);
     randomPass \<leftarrow> rand_Read 16;
     hashed \<leftarrow> ignore_error '''' (bcrypt_GenerateFromPassword P (string_of (fst randomPass)));
     now \<leftarrow> time_Now;
     ident \<leftarrow> uuid_New;
     let user = zero_user\<lparr>u_ID := ident, u_TenantID := tenantID, u_Email := email, u_Password := hashed,
       u_Role := RoleUser, u_IsActive := su_Active rq, u_ExternalID := su_ExternalID rq,
       u_EmailVerified := True, u_CreatedAt := now, u_UpdatedAt := now\<rparr>;
     r \<leftarrow> ur_Create userRepo user;
     case r of
       Inl err \<Rightarrow> fail err
     | Inr _ \<Rightarrow> ok (toSCIM P user) }"

definition scim_GetUser :: "packages \<Rightarrow> ('r, 'd) user_repository \<Rightarrow> uuid \<Rightarrow> ('r, 'd, scim_user) go" where
  "scim_GetUser P userRepo i = do {
     r \<leftarrow> ur_GetByID userRepo i;
     case r of
       Inl err \<Rightarrow> fail err
     | Inr u \<Rightarrow> ok (toSCIM P u) }"

definition scim_UpdateUser :: "packages \<Rightarrow> ('r, 'd) user_repository \<Rightarrow> uuid \<Rightarrow> scim_user \<Rightarrow> ('r, 'd, scim_user) go" where
  "scim_UpdateUser P userRepo i rq = do {
     r \<leftarrow> ur_GetByID userRepo i;
     case r of
       Inl err \<Rightarrow> fail err
     | Inr u \<Rightarrow> do {
         let u = (case first_email rq of Some v \<Rightarrow> u\<lparr>u_Email := v\<rparr> | None \<Rightarrow> u);
         now \<leftarrow> time_Now;
         let u = u\<lparr>u_IsActive := su_Active rq, u_ExternalID := su_ExternalID rq, u_UpdatedAt := now\<rparr>;
         r \<leftarrow> ur_Update userRepo u;
         case r of
           Inl err \<Rightarrow> fail err
         | Inr _ \<Rightarrow> ok (toSCIM P u) } }"

definition scim_DeleteUser :: "('r, 'd) user_repository \<Rightarrow> uuid \<Rightarrow> ('r, 'd, unit) go" where
  "scim_DeleteUser userRepo i = ur_Delete userRepo i"

fun scim_resources :: "packages \<Rightarrow> user list \<Rightarrow> scim_user list \<Rightarrow> scim_user list" where
  "scim_resources P [] acc = acc"
| "scim_resources P (u # us) acc = scim_resources P us (acc @ [toSCIM P u])"

definition scim_ListUsers :: "packages \<Rightarrow> ('r, 'd) user_repository \<Rightarrow> uuid \<Rightarrow> pagination_query \<Rightarrow>
    ('r, 'd, scim_list_response) go" where
  "scim_ListUsers P userRepo tenantID pq = do {
     r \<leftarrow> ur_List userRepo tenantID pq;
     case r of
       Inl err \<Rightarrow> fail err
     | Inr p \<Rightarrow> ok \<lparr>sl_Schemas = [''urn:ietf:params:scim:api:messages:2.0:ListResponse''],
         sl_TotalResults = snd p, sl_ItemsPerPage = pq_Limit pq,
         sl_StartIndex = (pq_Page pq - 1) * pq_Limit pq + 1,
         sl_Resources = scim_resources P (fst p) []\<rparr> }"

section \<open>Lemmas\<close>

lemma scim_resources_map: "scim_resources P us acc = acc @ map (toSCIM P) us"
  by (induction us arbitrary: acc) auto

lemma sint_100: "sint (100 :: int64) = 100" "sint (10 :: int64) = 10" "sint (1 :: int64) = 1"
  by simp_all

lemma clamp_query_bounds:
  "1 \<le> sint (pq_Page (clamp_query pq)) \<and> 1 \<le> sint (pq_Limit (clamp_query pq)) \<and>
   sint (pq_Limit (clamp_query pq)) \<le> 100"
  by (auto simp: clamp_query_def Let_def)

lemma clamp_query_idem: "clamp_query (clamp_query pq) = clamp_query pq"
  using clamp_query_bounds [of pq] by (subst clamp_query_def) (simp add: Let_def)

text \<open>The number of pages is the exact ceiling, although it is computed in floating point.\<close>

lemma sint_word_of_int: "- (2 ^ 63) \<le> n \<Longrightarrow> n < 2 ^ 63 \<Longrightarrow> sint (word_of_int n :: int64) = n"
  by (simp add: sint_sbintrunc' signed_take_bit_int_eq_self)

lemma total_pages_exact:
  assumes "0 \<le> sint cnt" "sint cnt < 2 ^ 53" "1 \<le> sint limit" "sint limit \<le> 100"
  shows "sint (total_pages cnt limit) = (sint cnt + sint limit - 1) div sint limit"
proof (cases "0 < sint cnt")
  case True
  let ?q = "(sint cnt + sint limit - 1) div sint limit"
  have "\<lceil>float64_div (sint cnt) (sint limit)\<rceil> = ?q"
    using assms by (intro ceiling_float64_div) auto
  moreover have "0 \<le> ?q" using assms by (simp add: pos_imp_zdiv_nonneg_iff)
  moreover have "?q \<le> sint cnt + sint limit - 1"
    using zdiv_mono2 [of "sint cnt + sint limit - 1" 1 "sint limit"] assms True by simp
  ultimately show ?thesis using True assms by (simp add: total_pages_def sint_word_of_int)
next
  case False
  with assms have "sint cnt = 0" by simp
  with assms show ?thesis by (simp add: total_pages_def)
qed

end
