(* ===== verification/Auth_Threads.thy ===== *)
theory Auth_Threads
  imports Service_Runs User_Usecase Threads
begin

text \<open>
  The methods of \<open>authUseCase\<close>, and the update of \<open>scimUseCase\<close>, as threads: each call to a repository,
  to the clock, to a random source, to a provider, to the mailer and to the audit log is one step, and
  between two of them other requests may run. The two commands of \<open>ValidateAndConsumeOAuthState\<close> are two
  steps. A thread that runs alone does what the sequential definition does.
\<close>

type_synonym ('r, 'd, 'a) go_thread = "(('r, 'd) world, go_error + 'a) thread"

abbreviation fails :: "go_error \<Rightarrow> ('r, 'd, 'a) go_thread" where
  "fails e \<equiv> Done (Inl e)"

abbreviation succeeds :: "'a \<Rightarrow> ('r, 'd, 'a) go_thread" where
  "succeeds a \<equiv> Done (Inr a)"

section \<open>The methods\<close>

definition generateSession_thread :: "('r, 'd) auth_use_case \<Rightarrow> user \<Rightarrow> ('r, 'd, auth_token_response) go_thread" where
  "generateSession_thread u user =
     call (GenerateAccessToken (au_packages u) (au_jwt u) (au_keyManager u) (u_ID user) (u_Email user)
             (u_Role user) (cfg_AccessTokenTTL (au_cfg u))) (\<lambda>r. case r of
       Inl err \<Rightarrow> fails err
     | Inr accessToken \<Rightarrow> call (GenerateSecureToken 32) (\<lambda>r. case r of
         Inl err \<Rightarrow> fails err
       | Inr refreshToken \<Rightarrow>
           call (sr_StoreRefreshToken (au_sessionRepo u) (uuid_String (au_packages u) (u_ID user))
                   refreshToken (cfg_RefreshTokenTTL (au_cfg u))) (\<lambda>r. case r of
             Inl err \<Rightarrow> fails err
           | Inr _ \<Rightarrow> succeeds (zero_auth_token_response\<lparr>at_AccessToken := accessToken,
               at_RefreshToken := refreshToken,
               at_ExpiresIn := int_of_float (Seconds (cfg_AccessTokenTTL (au_cfg u)))\<rparr>))))"

definition Register_thread :: "('r, 'd) auth_use_case \<Rightarrow> uuid \<Rightarrow> string \<Rightarrow> string \<Rightarrow> string \<Rightarrow> ('r, 'd, unit) go_thread" where
  "Register_thread u tenantID email password clientIP =
     (case ValidateAndCleanEmail email of
        Inl err \<Rightarrow> fails err
      | Inr cleanedEmail \<Rightarrow>
          (case ValidatePassword password of
             Some err \<Rightarrow> fails err
           | None \<Rightarrow>
               call (bcrypt_GenerateFromPassword (au_packages u) password) (\<lambda>r. case r of
                 Inl err \<Rightarrow> fails err
               | Inr hashedPassword \<Rightarrow> call time_Now (\<lambda>now. call uuid_New (\<lambda>ident.
                   let user = zero_user\<lparr>u_ID := ident, u_TenantID := tenantID, u_Email := cleanedEmail,
                     u_Password := hashedPassword, u_Role := RoleUser, u_IsActive := True,
                     u_EmailVerified := False, u_CreatedAt := now, u_UpdatedAt := now\<rparr>
                   in call (ur_Create (au_userRepo u) user) (\<lambda>r. case r of
                        Inl err \<Rightarrow> fails err
                      | Inr _ \<Rightarrow> call (ignore_error '''' (GenerateSecureToken 32)) (\<lambda>vToken.
                          call (sr_StoreEmailVerifyToken (au_sessionRepo u) vToken
                                  (uuid_String (au_packages u) (u_ID user)) (24 * hour)) (\<lambda>_.
                          call (es_SendVerificationEmail (au_emailSender u) (u_Email user) vToken) (\<lambda>_.
                          call (audit_Log EventRegisterSuccess cleanedEmail clientIP ''user registered successfully'') (\<lambda>_.
                          succeeds ()))))))))))"

definition Login_thread :: "('r, 'd) auth_use_case \<Rightarrow> uuid \<Rightarrow> string \<Rightarrow> string \<Rightarrow> string \<Rightarrow>
    ('r, 'd, auth_token_response) go_thread" where
  "Login_thread u tenantID email password clientIP =
     (case ValidateAndCleanEmail email of
        Inl err \<Rightarrow> call (audit_Log EventLoginFailed email clientIP ''invalid email format'') (\<lambda>_. fails ErrUnauthorized)
      | Inr cleanedEmail \<Rightarrow> call (ur_GetByEmail (au_userRepo u) tenantID cleanedEmail) (\<lambda>r.
          case (case r of Inl err \<Rightarrow> None | Inr user \<Rightarrow> if \<not> u_IsActive user then None else Some user) of
            None \<Rightarrow> call (audit_Log EventLoginFailed cleanedEmail clientIP ''user not found or inactive'')
              (\<lambda>_. fails ErrUnauthorized)
          | Some user \<Rightarrow>
              (case bcrypt_CompareHashAndPassword (au_packages u) (u_Password user) password of
                 Some err \<Rightarrow> call (audit_Log EventLoginFailed cleanedEmail clientIP ''invalid credentials'')
                   (\<lambda>_. fails ErrUnauthorized)
               | None \<Rightarrow>
                   if u_MFAEnabled user then
                     call (ignore_error '''' (GenerateSecureToken 32)) (\<lambda>mfaToken.
                     call (sr_StoreMFAToken (au_sessionRepo u) mfaToken
                             (uuid_String (au_packages u) (u_ID user)) (5 * minute)) (\<lambda>_.
                     succeeds (zero_auth_token_response\<lparr>at_RequiresMFA := True, at_MFAToken := mfaToken\<rparr>)))
                   else seq (generateSession_thread u user) (\<lambda>r. case r of
                       Inl err \<Rightarrow> fails err
                     | Inr res \<Rightarrow> call (audit_Log EventLoginSuccess cleanedEmail clientIP ''successful authentication'')
                         (\<lambda>_. succeeds res)))))"

definition VerifyMFAChallenge_thread :: "('r, 'd) auth_use_case \<Rightarrow> string \<Rightarrow> string \<Rightarrow> string \<Rightarrow>
    ('r, 'd, auth_token_response) go_thread" where
  "VerifyMFAChallenge_thread u mfaToken code clientIP =
     call (sr_GetUserIDByMFAToken (au_sessionRepo u) mfaToken) (\<lambda>r. case r of
       Inl err \<Rightarrow> fails ErrInvalidToken
     | Inr userIDStr \<Rightarrow> call (ur_GetByID (au_userRepo u) (fst (uuid_Parse (au_packages u) userIDStr))) (\<lambda>r.
         case (case r of Inl err \<Rightarrow> None | Inr user \<Rightarrow> if \<not> u_IsActive user then None else Some user) of
           None \<Rightarrow> fails ErrUnauthorized
         | Some user \<Rightarrow> call (ValidateCode (au_totpManager u) (u_MFASecret user) code) (\<lambda>valid.
             if \<not> valid then call (audit_Log EventLoginFailed (u_Email user) clientIP ''invalid MFA code attempt'')
               (\<lambda>_. fails ErrInvalidMFACode)
             else call (sr_RevokeMFAToken (au_sessionRepo u) mfaToken) (\<lambda>_.
               seq (generateSession_thread u user) (\<lambda>r. case r of
                 Inl err \<Rightarrow> fails err
               | Inr res \<Rightarrow> call (audit_Log EventLoginSuccess (u_Email user) clientIP ''mfa challenge completed'')
                   (\<lambda>_. succeeds res))))))"

definition SetupMFA_thread :: "('r, 'd) auth_use_case \<Rightarrow> uuid \<Rightarrow> ('r, 'd, string \<times> string) go_thread" where
  "SetupMFA_thread u userID =
     call (ur_GetByID (au_userRepo u) userID) (\<lambda>r. case r of
       Inl err \<Rightarrow> fails ErrNotFound
     | Inr user \<Rightarrow> call GenerateSecret (\<lambda>r. case r of
         Inl err \<Rightarrow> fails err
       | Inr secret \<Rightarrow> call time_Now (\<lambda>now.
           let user = user\<lparr>u_MFASecret := secret, u_UpdatedAt := now\<rparr>
           in call (ur_Update (au_userRepo u) user) (\<lambda>r. case r of
                Inl err \<Rightarrow> fails err
              | Inr _ \<Rightarrow> succeeds (secret, ProvisioningURI (au_totpManager u) (u_Email user) secret)))))"

definition ConfirmMFASetup_thread :: "('r, 'd) auth_use_case \<Rightarrow> uuid \<Rightarrow> string \<Rightarrow> ('r, 'd, unit) go_thread" where
  "ConfirmMFASetup_thread u userID code =
     call (ur_GetByID (au_userRepo u) userID) (\<lambda>r. case r of
       Inl err \<Rightarrow> fails ErrNotFound
     | Inr user \<Rightarrow> call (ValidateCode (au_totpManager u) (u_MFASecret user) code) (\<lambda>valid.
         if \<not> valid then fails ErrInvalidMFACode
         else call time_Now (\<lambda>now.
           call (ur_Update (au_userRepo u) (user\<lparr>u_MFAEnabled := True, u_UpdatedAt := now\<rparr>)) Done)))"

definition RequestEmailVerification_thread :: "('r, 'd) auth_use_case \<Rightarrow> uuid \<Rightarrow> string \<Rightarrow> ('r, 'd, unit) go_thread" where
  "RequestEmailVerification_thread u tenantID email =
     call (ur_GetByEmail (au_userRepo u) tenantID email) (\<lambda>r. case r of
       Inl err \<Rightarrow> succeeds ()
     | Inr user \<Rightarrow> call (ignore_error '''' (GenerateSecureToken 32)) (\<lambda>token.
         call (sr_StoreEmailVerifyToken (au_sessionRepo u) token
                 (uuid_String (au_packages u) (u_ID user)) (24 * hour)) (\<lambda>_.
         call (es_SendVerificationEmail (au_emailSender u) (u_Email user) token) Done)))"

definition ConfirmEmailVerification_thread :: "('r, 'd) auth_use_case \<Rightarrow> string \<Rightarrow> ('r, 'd, unit) go_thread" where
  "ConfirmEmailVerification_thread u token =
     call (sr_GetUserIDByEmailVerifyToken (au_sessionRepo u) token) (\<lambda>r. case r of
       Inl err \<Rightarrow> fails ErrInvalidToken
     | Inr userIDStr \<Rightarrow> call (ur_GetByID (au_userRepo u) (fst (uuid_Parse (au_packages u) userIDStr))) (\<lambda>r. case r of
         Inl err \<Rightarrow> fails ErrNotFound
       | Inr user \<Rightarrow> call time_Now (\<lambda>now.
           call (sr_RevokeEmailVerifyToken (au_sessionRepo u) token) (\<lambda>_.
           call (ur_Update (au_userRepo u) (user\<lparr>u_EmailVerified := True, u_UpdatedAt := now\<rparr>)) Done))))"

definition RequestPasswordReset_thread :: "('r, 'd) auth_use_case \<Rightarrow> uuid \<Rightarrow> string \<Rightarrow> ('r, 'd, unit) go_thread" where
  "RequestPasswordReset_thread u tenantID email =
     call (ur_GetByEmail (au_userRepo u) tenantID email) (\<lambda>r. case r of
       Inl err \<Rightarrow> succeeds ()
     | Inr user \<Rightarrow> call (ignore_error '''' (GenerateSecureToken 32)) (\<lambda>token.
         call (sr_StorePasswordResetToken (au_sessionRepo u) token
                 (uuid_String (au_packages u) (u_ID user)) (1 * hour)) (\<lambda>_.
         call (es_SendPasswordResetEmail (au_emailSender u) (u_Email user) token) Done)))"

definition ConfirmPasswordReset_thread :: "('r, 'd) auth_use_case \<Rightarrow> string \<Rightarrow> string \<Rightarrow> ('r, 'd, unit) go_thread" where
  "ConfirmPasswordReset_thread u token newPassword =
     (case ValidatePassword newPassword of
        Some err \<Rightarrow> fails err
      | None \<Rightarrow> call (sr_GetUserIDByPasswordResetToken (au_sessionRepo u) token) (\<lambda>r. case r of
          Inl err \<Rightarrow> fails ErrInvalidToken
        | Inr userIDStr \<Rightarrow> call (ur_GetByID (au_userRepo u) (fst (uuid_Parse (au_packages u) userIDStr))) (\<lambda>r. case r of
            Inl err \<Rightarrow> fails ErrNotFound
          | Inr user \<Rightarrow> call (bcrypt_GenerateFromPassword (au_packages u) newPassword) (\<lambda>r. case r of
              Inl err \<Rightarrow> fails err
            | Inr hashed \<Rightarrow> call time_Now (\<lambda>now.
                call (sr_RevokePasswordResetToken (au_sessionRepo u) token) (\<lambda>_.
                call (ur_Update (au_userRepo u) (user\<lparr>u_Password := hashed, u_UpdatedAt := now\<rparr>)) Done))))))"

definition OAuthLoginURL_thread :: "('r, 'd) auth_use_case \<Rightarrow> string \<Rightarrow> ('r, 'd, string \<times> string) go_thread" where
  "OAuthLoginURL_thread u provider =
     call (GenerateSecureToken 24) (\<lambda>r. case r of
       Inl err \<Rightarrow> fails err
     | Inr state \<Rightarrow>
         (case (if provider = ''google'' then Some (pv_GetAuthURL (au_googleOAuth u) state)
                else if provider = ''github'' then Some (pv_GetAuthURL (au_githubOAuth u) state)
                else None) of
            None \<Rightarrow> fails (ErrText ''unsupported oauth provider: must be google or github'')
          | Some authURL \<Rightarrow> call (sr_StoreOAuthState (au_sessionRepo u) state provider (10 * minute)) (\<lambda>r. case r of
                Inl err \<Rightarrow> fails err
              | Inr _ \<Rightarrow> succeeds (authURL, state))))"

text \<open>GET, then DEL: between them another callback may read the same state.\<close>

definition ValidateAndConsumeOAuthState_thread :: "'r redis_client \<Rightarrow> string \<Rightarrow> string \<Rightarrow> (('r, 'd) world, bool) thread" where
  "ValidateAndConsumeOAuthState_thread rdb state provider =
     call (cmd_Result (rd_Get rdb (oauth_state_key state))) (\<lambda>r. case r of
       Inl err \<Rightarrow> Done False
     | Inr val \<Rightarrow> if val \<noteq> provider then Done False
         else call (redis_do (rd_Del rdb (oauth_state_key state))) (\<lambda>_. Done True))"

definition HandleOAuthCallback_thread :: "('r, 'd) auth_use_case \<Rightarrow> 'r redis_client \<Rightarrow> uuid \<Rightarrow> string \<Rightarrow> string \<Rightarrow> string \<Rightarrow> string \<Rightarrow>
    ('r, 'd, auth_token_response) go_thread" where
  "HandleOAuthCallback_thread u rdb tenantID provider code state clientIP =
     seq (ValidateAndConsumeOAuthState_thread rdb state provider) (\<lambda>valid.
     if \<not> valid then call (audit_Log EventLoginFailed ''anonymous'' clientIP ''oauth csrf state validation failed'')
       (\<lambda>_. fails (ErrText ''invalid or expired oauth state parameter''))
     else case (if provider = ''google'' then Some (au_googleOAuth u)
                else if provider = ''github'' then Some (au_githubOAuth u) else None) of
       None \<Rightarrow> fails (ErrText ''unsupported oauth provider'')
     | Some pv \<Rightarrow> call (pv_ExchangeCode pv code) (\<lambda>r. case r of
         Inl err \<Rightarrow> fails ErrOAuthExchange
       | Inr info \<Rightarrow> call (ur_GetByOAuth (au_userRepo u) tenantID provider (ui_Subject info)) (\<lambda>r. case r of
           Inr user \<Rightarrow> generateSession_thread u user
         | Inl err \<Rightarrow>
             if errors_Is err ErrNotFound then
               call (random_password_hash u) (\<lambda>hashed. call time_Now (\<lambda>now. call uuid_New (\<lambda>ident.
                 let user = zero_user\<lparr>u_ID := ident, u_TenantID := tenantID, u_Email := ui_Email info,
                   u_Password := hashed, u_Role := RoleUser, u_IsActive := True,
                   u_EmailVerified := True, u_OAuthProvider := provider,
                   u_OAuthSubject := ui_Subject info, u_CreatedAt := now, u_UpdatedAt := now\<rparr>
                 in call (ur_Create (au_userRepo u) user) (\<lambda>r. case r of
                      Inl err \<Rightarrow> fails err
                    | Inr _ \<Rightarrow> generateSession_thread u user))))
             else fails err)))"

definition RefreshToken_thread :: "('r, 'd) auth_use_case \<Rightarrow> string \<Rightarrow> string \<Rightarrow> ('r, 'd, auth_token_response) go_thread" where
  "RefreshToken_thread u rawRefreshToken clientIP =
     call (sr_GetUserIDByRefreshToken (au_sessionRepo u) rawRefreshToken) (\<lambda>r. case r of
       Inl err \<Rightarrow> if errors_Is err RedisNil then fails ErrInvalidToken else fails err
     | Inr userIDStr \<Rightarrow>
         (case uuid_Parse (au_packages u) userIDStr of
            (userID, parsed) \<Rightarrow> (case parsed of
              Some err \<Rightarrow> fails ErrInvalidToken
            | None \<Rightarrow> call (ur_GetByID (au_userRepo u) userID) (\<lambda>r.
                case (case r of Inl err \<Rightarrow> None | Inr user \<Rightarrow> if \<not> u_IsActive user then None else Some user) of
                  None \<Rightarrow> fails ErrUnauthorized
                | Some user \<Rightarrow> call (sr_RevokeRefreshToken (au_sessionRepo u) rawRefreshToken) (\<lambda>_.
                    seq (generateSession_thread u user) (\<lambda>r. case r of
                      Inl err \<Rightarrow> fails err
                    | Inr res \<Rightarrow> call (audit_Log EventTokenRefreshed (u_Email user) clientIP ''token refreshed successfully'')
                        (\<lambda>_. succeeds res)))))))"

definition Logout_thread :: "('r, 'd) auth_use_case \<Rightarrow> string \<Rightarrow> string \<Rightarrow> ('r, 'd, unit) go_thread" where
  "Logout_thread u rawRefreshToken clientIP =
     call (audit_Log EventSessionRevoked ''anonymous'' clientIP ''session revoked'') (\<lambda>_.
     call (sr_RevokeRefreshToken (au_sessionRepo u) rawRefreshToken) Done)"

definition scim_UpdateUser_thread :: "packages \<Rightarrow> ('r, 'd) user_repository \<Rightarrow> uuid \<Rightarrow> scim_user \<Rightarrow> ('r, 'd, scim_user) go_thread" where
  "scim_UpdateUser_thread P userRepo i rq =
     call (ur_GetByID userRepo i) (\<lambda>r. case r of
       Inl err \<Rightarrow> fails err
     | Inr u \<Rightarrow> call time_Now (\<lambda>now.
         let u = (case first_email rq of Some v \<Rightarrow> u\<lparr>u_Email := v\<rparr> | None \<Rightarrow> u);
             u = u\<lparr>u_IsActive := su_Active rq, u_ExternalID := su_ExternalID rq, u_UpdatedAt := now\<rparr>
         in call (ur_Update userRepo u) (\<lambda>r. case r of
              Inl err \<Rightarrow> fails err
            | Inr _ \<Rightarrow> succeeds (toSCIM P u))))"

section \<open>A thread alone\<close>

lemma generateSession_alone [simp]: "run_thread (generateSession_thread u user) w = run_state (generateSession u user) w"
  by (simp add: generateSession_thread_def generateSession_def split: prod.split sum.split)

lemma Register_alone: "run_thread (Register_thread u t e p ip) w = run_state (Register u t e p ip) w"
  by (simp add: Register_thread_def Register_def Let_def split: prod.split sum.split option.split)

lemma Login_alone: "run_thread (Login_thread u t e p ip) w = run_state (Login u t e p ip) w"
  by (simp add: Login_thread_def Login_def Let_def split: prod.split sum.split option.split)

lemma VerifyMFAChallenge_alone: "run_thread (VerifyMFAChallenge_thread u tok code ip) w = run_state (VerifyMFAChallenge u tok code ip) w"
  by (simp add: VerifyMFAChallenge_thread_def VerifyMFAChallenge_def Let_def split: prod.split sum.split option.split)

lemma SetupMFA_alone: "run_thread (SetupMFA_thread u i) w = run_state (SetupMFA u i) w"
  by (simp add: SetupMFA_thread_def SetupMFA_def Let_def split: prod.split sum.split)

lemma ConfirmMFASetup_alone: "run_thread (ConfirmMFASetup_thread u i code) w = run_state (ConfirmMFASetup u i code) w"
  by (simp add: ConfirmMFASetup_thread_def ConfirmMFASetup_def Let_def split: prod.split sum.split)

lemma Request_alone:
  "run_thread (RequestEmailVerification_thread u t e) w = run_state (RequestEmailVerification u t e) w"
  "run_thread (RequestPasswordReset_thread u t e) w = run_state (RequestPasswordReset u t e) w"
  by (simp_all add: RequestEmailVerification_thread_def RequestEmailVerification_def
      RequestPasswordReset_thread_def RequestPasswordReset_def split: prod.split sum.split)

lemma Confirm_alone:
  "run_thread (ConfirmEmailVerification_thread u tok) w = run_state (ConfirmEmailVerification u tok) w"
  "run_thread (ConfirmPasswordReset_thread u tok p) w = run_state (ConfirmPasswordReset u tok p) w"
  by (simp_all add: ConfirmEmailVerification_thread_def ConfirmEmailVerification_def
      ConfirmPasswordReset_thread_def ConfirmPasswordReset_def Let_def split: prod.split sum.split option.split)

lemma OAuthLoginURL_alone: "run_thread (OAuthLoginURL_thread u prov) w = run_state (OAuthLoginURL u prov) w"
  by (simp add: OAuthLoginURL_thread_def OAuthLoginURL_def Let_def split: prod.split sum.split option.split)

lemma ValidateAndConsumeOAuthState_alone:
  "run_thread (ValidateAndConsumeOAuthState_thread rdb st prov) w = run_state (ValidateAndConsumeOAuthState rdb st prov) w"
  by (simp add: ValidateAndConsumeOAuthState_thread_def ValidateAndConsumeOAuthState_def Let_def split: prod.split sum.split)

lemma HandleOAuthCallback_alone:
  assumes "sr_ValidateAndConsumeOAuthState (au_sessionRepo u) = ValidateAndConsumeOAuthState rdb"
  shows "run_thread (HandleOAuthCallback_thread u rdb t prov code st ip) w = run_state (HandleOAuthCallback u t prov code st ip) w"
  by (simp add: HandleOAuthCallback_thread_def HandleOAuthCallback_def assms ValidateAndConsumeOAuthState_alone Let_def
      split: prod.split sum.split option.split)

lemma RefreshToken_alone: "run_thread (RefreshToken_thread u tok ip) w = run_state (RefreshToken u tok ip) w"
  by (simp add: RefreshToken_thread_def RefreshToken_def split: prod.split sum.split option.split)

lemma Logout_alone: "run_thread (Logout_thread u tok ip) w = run_state (Logout u tok ip) w"
  by (simp add: Logout_thread_def Logout_def split: prod.split)

lemma scim_UpdateUser_alone: "run_thread (scim_UpdateUser_thread P R i rq) w = run_state (scim_UpdateUser P R i rq) w"
  by (simp add: scim_UpdateUser_thread_def scim_UpdateUser_def Let_def split: prod.split sum.split option.split)

section \<open>Any call of the interface\<close>

datatype auth_answer =
    AnswerNone "go_error + unit"
  | AnswerSession "go_error + auth_token_response"
  | AnswerPair "go_error + string \<times> string"

abbreviation answering :: "('a \<Rightarrow> auth_answer) \<Rightarrow> (('r, 'd) world, 'a) thread \<Rightarrow> (('r, 'd) world, auth_answer) thread" where
  "answering f t \<equiv> seq t (\<lambda>a. Done (f a))"

fun auth_thread :: "('r, 'd) auth_use_case \<Rightarrow> 'r redis_client \<Rightarrow> auth_call \<Rightarrow> (('r, 'd) world, auth_answer) thread" where
  "auth_thread u rdb (CallRegister t e p ip) = answering AnswerNone (Register_thread u t e p ip)"
| "auth_thread u rdb (CallLogin t e p ip) = answering AnswerSession (Login_thread u t e p ip)"
| "auth_thread u rdb (CallVerifyMFA tok code ip) = answering AnswerSession (VerifyMFAChallenge_thread u tok code ip)"
| "auth_thread u rdb (CallSetupMFA i) = answering AnswerPair (SetupMFA_thread u i)"
| "auth_thread u rdb (CallConfirmMFA i code) = answering AnswerNone (ConfirmMFASetup_thread u i code)"
| "auth_thread u rdb (CallRequestVerification t e) = answering AnswerNone (RequestEmailVerification_thread u t e)"
| "auth_thread u rdb (CallConfirmVerification tok) = answering AnswerNone (ConfirmEmailVerification_thread u tok)"
| "auth_thread u rdb (CallRequestReset t e) = answering AnswerNone (RequestPasswordReset_thread u t e)"
| "auth_thread u rdb (CallConfirmReset tok p) = answering AnswerNone (ConfirmPasswordReset_thread u tok p)"
| "auth_thread u rdb (CallOAuthURL prov) = answering AnswerPair (OAuthLoginURL_thread u prov)"
| "auth_thread u rdb (CallOAuthCallback t prov code st ip) = answering AnswerSession (HandleOAuthCallback_thread u rdb t prov code st ip)"
| "auth_thread u rdb (CallRefresh tok ip) = answering AnswerSession (RefreshToken_thread u tok ip)"
| "auth_thread u rdb (CallLogout tok ip) = answering AnswerNone (Logout_thread u tok ip)"

fun auth_result :: "('r, 'd) auth_use_case \<Rightarrow> auth_call \<Rightarrow> ('r, 'd) world \<Rightarrow> auth_answer" where
  "auth_result u (CallRegister t e p ip) w = AnswerNone (result (Register u t e p ip) w)"
| "auth_result u (CallLogin t e p ip) w = AnswerSession (result (Login u t e p ip) w)"
| "auth_result u (CallVerifyMFA tok code ip) w = AnswerSession (result (VerifyMFAChallenge u tok code ip) w)"
| "auth_result u (CallSetupMFA i) w = AnswerPair (result (SetupMFA u i) w)"
| "auth_result u (CallConfirmMFA i code) w = AnswerNone (result (ConfirmMFASetup u i code) w)"
| "auth_result u (CallRequestVerification t e) w = AnswerNone (result (RequestEmailVerification u t e) w)"
| "auth_result u (CallConfirmVerification tok) w = AnswerNone (result (ConfirmEmailVerification u tok) w)"
| "auth_result u (CallRequestReset t e) w = AnswerNone (result (RequestPasswordReset u t e) w)"
| "auth_result u (CallConfirmReset tok p) w = AnswerNone (result (ConfirmPasswordReset u tok p) w)"
| "auth_result u (CallOAuthURL prov) w = AnswerPair (result (OAuthLoginURL u prov) w)"
| "auth_result u (CallOAuthCallback t prov code st ip) w = AnswerSession (result (HandleOAuthCallback u t prov code st ip) w)"
| "auth_result u (CallRefresh tok ip) w = AnswerSession (result (RefreshToken u tok ip) w)"
| "auth_result u (CallLogout tok ip) w = AnswerNone (result (Logout u tok ip) w)"

lemmas alone_rules = Register_alone Login_alone VerifyMFAChallenge_alone SetupMFA_alone ConfirmMFASetup_alone Request_alone
  Confirm_alone OAuthLoginURL_alone RefreshToken_alone Logout_alone

lemma auth_thread_alone:
  "run_thread (auth_thread (auth_system getenv P J db rdb km cfg) rdb c) w =
     (auth_result (auth_system getenv P J db rdb km cfg) c w, auth_do (auth_system getenv P J db rdb km cfg) c w)"
  by (cases c) (simp_all add: alone_rules HandleOAuthCallback_alone [where rdb = rdb] split: prod.split)

section \<open>Every call ends\<close>

lemmas thread_defs = Register_thread_def Login_thread_def VerifyMFAChallenge_thread_def SetupMFA_thread_def
  ConfirmMFASetup_thread_def RequestEmailVerification_thread_def ConfirmEmailVerification_thread_def
  RequestPasswordReset_thread_def ConfirmPasswordReset_thread_def OAuthLoginURL_thread_def
  HandleOAuthCallback_thread_def RefreshToken_thread_def Logout_thread_def

lemma auth_thread_ends: "done_within (auth_thread u rdb c) 11"
  by (cases c) (simp_all add: thread_defs generateSession_thread_def ValidateAndConsumeOAuthState_thread_def
      call_def Let_def split: sum.split option.split prod.split)

end
