(* ===== verification/Thread_Laws.thy ===== *)
theory Thread_Laws
  imports Auth_Threads Privileges Session_Properties
begin

text \<open>
  What the threads of the authentication calls rely on and guarantee: the accounts keep their
  badges, and a refresh token that is dead stays dead, whatever runs in between. A call that reads a
  user and writes him back knows only that an account with his badge is still there: his row may
  have changed since.
\<close>

section \<open>Accounts\<close>

context auth_backend
begin

lemma badges_stable:
  "stable (keeps_badges UInv users) UInv"
  "stable (keeps_badges UInv users) (\<lambda>w. UInv w \<and> badge v \<in> badge ` users w)"
  by (auto simp: stable_def keeps_badges_def)

lemma sat_read:
  assumes "\<And>e. sat (keeps_badges UInv users) UInv Q (k (Inl e))"
    and "\<And>v. sat (keeps_badges UInv users) (\<lambda>w. UInv w \<and> badge v \<in> badge ` users w) Q (k (Inr v))"
  shows "sat (keeps_badges UInv users) UInv Q (call (ur_GetByID (au_userRepo u) i) k)"
proof (rule badges.sat_learn [where P' = "\<lambda>r w. UInv w \<and> (case r of Inl e \<Rightarrow> True | Inr v \<Rightarrow> badge v \<in> badge ` users w)"])
  fix w assume w: "UInv w"
  let ?m = "ur_GetByID (au_userRepo u) i"
  show "keeps_badges UInv users w (after ?m w) \<and> UInv (after ?m w) \<and>
      (case result ?m w of Inl e \<Rightarrow> True | Inr v \<Rightarrow> badge v \<in> badge ` users (after ?m w))"
    using us.inv_id [OF w, of i] us.keep_id [OF w, of i] us.id_found [OF w, of i]
    by (auto simp: keeps_badges_def split: sum.split)
next
  fix r
  show "sat (keeps_badges UInv users) (\<lambda>w. UInv w \<and> (case r of Inl e \<Rightarrow> True | Inr v \<Rightarrow> badge v \<in> badge ` users w)) Q (k r)"
    using assms by (cases r) simp_all
qed (rule badges_stable)

lemma sat_update:
  assumes "badge x = badge v"
    and "\<And>r. sat (keeps_badges UInv users) (\<lambda>w. UInv w \<and> badge v \<in> badge ` users w) Q (k r)"
  shows "sat (keeps_badges UInv users) (\<lambda>w. UInv w \<and> badge v \<in> badge ` users w) Q (call (ur_Update (au_userRepo u) x) k)"
proof (rule badges.sat_learn [where P' = "\<lambda>r w. UInv w \<and> badge v \<in> badge ` users w", OF badges_stable(2)])
  fix w assume "UInv w \<and> badge v \<in> badge ` users w"
  then obtain v' where v': "UInv w" "v' \<in> users w" "badge v = badge v'" by blast
  have "keeps_badges UInv users w (after (ur_Update (au_userRepo u) x) w)"
    using update_edits [of x v'] assms(1) v' by (simp add: state_io_rel_def edits_def)
  then show "keeps_badges UInv users w (after (ur_Update (au_userRepo u) x) w) \<and>
      UInv (after (ur_Update (au_userRepo u) x) w) \<and> badge v \<in> badge ` users (after (ur_Update (au_userRepo u) x) w)"
    using v' by (auto simp: keeps_badges_def)
qed (rule assms(2))

lemmas badge_frames = badge_prims ignore_error_frame [OF badges_of_users [OF users_of_db [OF GenerateSecureToken_frames(1)]]]
  badges_of_users [OF random_password_hash_frames(1)] badges_of_users [OF users_of_db [OF redis_do_frames(1)]]
  badges_of_users [OF users_of_db [OF cmd_frames(2) [OF redis_do_frames(1)]]] create_badges

lemmas sat_badges = badges.sat_done badges.sat_branch sat_read sat_update
  badges.sat_prim [OF badges_stable(1)] badges.sat_prim [OF badges_stable(2)]

lemma session_sat:
  "sat (keeps_badges UInv users) UInv (\<lambda>a. True) (generateSession_thread u user)"
  "sat (keeps_badges UInv users) (\<lambda>w. UInv w \<and> badge v \<in> badge ` users w) (\<lambda>a. True) (generateSession_thread u user)"
  unfolding generateSession_thread_def by (rule sat_badges badge_frames TrueI)+

lemmas sat_sessions = sat_badges badges.sat_seq [OF badges_stable(1) session_sat(1)]
  badges.sat_seq [OF badges_stable(2) session_sat(2)] badge_frames TrueI

lemma edits_sat:
  "sat (keeps_badges UInv users) UInv (\<lambda>a. True) (SetupMFA_thread u i)"
  "sat (keeps_badges UInv users) UInv (\<lambda>a. True) (ConfirmMFASetup_thread u i code)"
  "sat (keeps_badges UInv users) UInv (\<lambda>a. True) (ConfirmEmailVerification_thread u tok)"
  "sat (keeps_badges UInv users) UInv (\<lambda>a. True) (ConfirmPasswordReset_thread u tok p)"
  unfolding thread_defs Let_def
  by (rule sat_sessions | (simp add: badge_def; fail))+

lemma looks_sat:
  "sat (keeps_badges UInv users) UInv (\<lambda>a. True) (Login_thread u t e p ip)"
  "sat (keeps_badges UInv users) UInv (\<lambda>a. True) (VerifyMFAChallenge_thread u tok code ip)"
  "sat (keeps_badges UInv users) UInv (\<lambda>a. True) (RequestEmailVerification_thread u t e)"
  "sat (keeps_badges UInv users) UInv (\<lambda>a. True) (RequestPasswordReset_thread u t e)"
  "sat (keeps_badges UInv users) UInv (\<lambda>a. True) (OAuthLoginURL_thread u prov)"
  "sat (keeps_badges UInv users) UInv (\<lambda>a. True) (RefreshToken_thread u tok ip)"
  "sat (keeps_badges UInv users) UInv (\<lambda>a. True) (Logout_thread u tok ip)"
  unfolding thread_defs Let_def by (rule sat_sessions)+

lemma creates_sat:
  "sat (keeps_badges UInv users) UInv (\<lambda>a. True) (Register_thread u t e p ip)"
  "sat (keeps_badges UInv users) UInv (\<lambda>a. True) (HandleOAuthCallback_thread u rdb t prov code st ip)"
proof -
  show "sat (keeps_badges UInv users) UInv (\<lambda>a. True) (Register_thread u t e p ip)"
    unfolding thread_defs Let_def by (rule sat_sessions | (simp; fail))+
  have consume: "sat (keeps_badges UInv users) UInv (\<lambda>a. True) (ValidateAndConsumeOAuthState_thread rdb st prov)"
    unfolding ValidateAndConsumeOAuthState_thread_def by (rule sat_sessions)+
  have exchange: "state_io_rel (keeps_badges UInv users) (pv_ExchangeCode pv code)"
    if "(if prov = ''google'' then Some (au_googleOAuth u)
         else if prov = ''github'' then Some (au_githubOAuth u) else None) = Some pv" for pv
    using badges_of_users [OF provider_frames(1)] that by (auto simp: provider_of_def)
  show "sat (keeps_badges UInv users) UInv (\<lambda>a. True) (HandleOAuthCallback_thread u rdb t prov code st ip)"
    unfolding HandleOAuthCallback_thread_def Let_def
    by (rule badges.sat_seq [OF badges_stable(1) consume] sat_sessions session_sat(1) exchange | assumption | (simp; fail))+
qed

lemma auth_thread_badges: "sat (keeps_badges UInv users) UInv (\<lambda>a. True) (auth_thread u rdb c)"
  by (cases c; simp only: auth_thread.simps) (intro badges.sat_answer badges_stable(1) edits_sat looks_sat creates_sat)+

text \<open>An address can be taken once: registrations of it contend.\<close>

definition address_taken :: "uuid \<Rightarrow> string \<Rightarrow> ('r, 'd) world \<Rightarrow> bool" where
  "address_taken t a w \<longleftrightarrow> UInv w \<and> (\<exists>v \<in> users w. u_TenantID v = t \<and> u_Email v = a)"

lemma taken_stable: "stable (keeps_badges UInv users) (address_taken t a)"
  unfolding stable_def address_taken_def keeps_badges_def
proof (intro allI impI conjI)
  fix w w' :: "('r, 'd) world"
  assume w: "UInv w \<and> (\<exists>v \<in> users w. u_TenantID v = t \<and> u_Email v = a)"
    and R: "UInv w \<longrightarrow> UInv w' \<and> badge ` users w \<subseteq> badge ` users w' \<and> (\<forall>v \<in> users w'. badge v \<in> badge ` users w \<or> u_Role v = RoleUser)"
  then obtain v where v: "v \<in> users w" "u_TenantID v = t" "u_Email v = a" by blast
  with w R obtain v' where "v' \<in> users w'" "badge v = badge v'" by blast
  with v show "\<exists>v \<in> users w'. u_TenantID v = t \<and> u_Email v = a" by (auto simp: badge_def)
  show "UInv w'" using w R by blast
qed

lemma register_contends:
  assumes "ValidateAndCleanEmail e = Inr a"
  shows "contends (keeps_badges UInv users) (address_taken t a) (\<lambda>b. b = AnswerNone (Inr ())) UInv
    (auth_thread u rdb (CallRegister t e p ip))"
proof -
  have lost: "contends (keeps_badges UInv users) T (\<lambda>b. b = AnswerNone (Inr ())) UInv (Done (AnswerNone (Inl err)))" for T err
    by (rule badges.contends_lost) simp
  note prims = badges.contends_prim [OF taken_stable badges_stable(1)]
  have create: "contends (keeps_badges UInv users) (address_taken t a) (\<lambda>b. b = AnswerNone (Inr ())) UInv (call (ur_Create (au_userRepo u) x) k)"
    if x: "u_Role x = RoleUser" "u_TenantID x = t" "u_Email x = a" and k: "\<And>err. k (Inl err) = Done (AnswerNone (Inl err))"
      "sat (keeps_badges UInv users) UInv (\<lambda>a. True) (k (Inr ()))" for x k
  proof (rule badges.contends_take [OF taken_stable badges_stable(1)])
    fix w y assume w: "UInv w"
    show "keeps_badges UInv users w (after (ur_Create (au_userRepo u) x) w)"
      using badges.frameD [OF create_badges [OF x(1)]] .
    show "result (ur_Create (au_userRepo u) x) w \<noteq> Inr y" if "address_taken t a w"
      using us.create_ok [OF w, of x] that x by (auto simp: address_taken_def)
    show "address_taken t a (after (ur_Create (au_userRepo u) x) w)" if "result (ur_Create (au_userRepo u) x) w = Inr y"
      using us.create_ok [OF w, of x] us.inv_create [OF w, of x] that x by (auto simp: address_taken_def)
  qed (use k lost in simp_all)
  show ?thesis
    unfolding auth_thread.simps Register_thread_def assms sum.case seq_branch seq_call Let_def seq.simps
    by (rule badges.contends_branch lost create prims badge_prims sat_sessions | (simp; fail))+
qed

end

section \<open>A refresh token that is dead\<close>

lemma dead_stable:
  "stable (stays_revoked rdb alive tok) (never_drawn tok)"
  "stable (stays_revoked rdb alive tok) (\<lambda>w. redis_laws rdb alive \<and> never_drawn tok w \<and> revoked alive tok w)"
  by (auto simp: stable_def stays_revoked_def)

text \<open>A token just drawn is not the dead one.\<close>

lemma sat_drawn:
  fixes k :: "go_error + string \<Rightarrow> (('r, 'd) world, 'b) thread"
  assumes "\<And>r. r \<noteq> Inr tok \<Longrightarrow> sat (stays_revoked rdb alive tok) (never_drawn tok) Q (k r)"
  shows "sat (stays_revoked rdb alive tok) (never_drawn tok) Q (call (GenerateSecureToken 32) k)"
proof (rule stays.sat_learn [where P' = "\<lambda>r w. r \<noteq> Inr tok \<and> never_drawn tok w", OF dead_stable(1)])
  fix w :: "('r, 'd) world" assume w: "never_drawn tok w"
  let ?m = "GenerateSecureToken 32 :: ('r, 'd, go_error + string) prog"
  have R: "stays_revoked rdb alive tok w (after ?m w)" by (rule stays.frameD [OF stays_GenerateSecureToken])
  have "result ?m w \<noteq> Inr tok"
  proof
    assume "result ?m w = Inr tok"
    then have "tok = hex_EncodeToString (map (\<lambda>i. w_entropy w (i + 0)) [0..<32])"
      by (auto simp: GenerateSecureToken_def rand_Read_def split: if_splits)
    with w show False unfolding never_drawn_def by blast
  qed
  with R w show "stays_revoked rdb alive tok w (after ?m w) \<and> result ?m w \<noteq> Inr tok \<and> never_drawn tok (after ?m w)"
    by (simp add: stays_revoked_def)
next
  fix r show "sat (stays_revoked rdb alive tok) (\<lambda>w. r \<noteq> Inr tok \<and> never_drawn tok w) Q (k r)"
    using assms [of r] by (cases "r = Inr tok") (simp_all add: sat_def)
qed

lemma stays_calls:
  "state_io_rel (stays_revoked rdb alive tok) (GetByEmail db i a)"
  "state_io_rel (stays_revoked rdb alive tok) (GetByID db i)"
  "state_io_rel (stays_revoked rdb alive tok) (GetByOAuth db i a b)"
  "state_io_rel (stays_revoked rdb alive tok) (Create db x)"
  "state_io_rel (stays_revoked rdb alive tok) (Update db x)"
  "state_io_rel (stays_revoked rdb alive tok) (GenerateAccessToken P J km i a r d)"
  "state_io_rel (stays_revoked rdb alive tok) GenerateSecret"
  "state_io_rel (stays_revoked rdb alive tok) (ValidateCode m a b)"
  "state_io_rel (stays_revoked rdb alive tok) (audit_Log e a b g)"
  "state_io_rel (stays_revoked rdb alive tok) (GetUserIDByRefreshToken rdb a)"
  "state_io_rel (stays_revoked rdb alive tok) (RevokeRefreshToken rdb a)"
  "state_io_rel (stays_revoked rdb alive tok) (GetUserIDByMFAToken rdb a)"
  "state_io_rel (stays_revoked rdb alive tok) (RevokeMFAToken rdb a)"
  "state_io_rel (stays_revoked rdb alive tok) (GetUserIDByEmailVerifyToken rdb a)"
  "state_io_rel (stays_revoked rdb alive tok) (RevokeEmailVerifyToken rdb a)"
  "state_io_rel (stays_revoked rdb alive tok) (GetUserIDByPasswordResetToken rdb a)"
  "state_io_rel (stays_revoked rdb alive tok) (RevokePasswordResetToken rdb a)"
  "state_io_rel (stays_revoked rdb alive tok) (StoreMFAToken rdb a b (5 * minute))"
  "state_io_rel (stays_revoked rdb alive tok) (StoreEmailVerifyToken rdb a b (24 * hour))"
  "state_io_rel (stays_revoked rdb alive tok) (StorePasswordResetToken rdb a b (1 * hour))"
  "state_io_rel (stays_revoked rdb alive tok) (StoreOAuthState rdb a b (10 * minute))"
  "state_io_rel (stays_revoked rdb alive tok) (es_SendVerificationEmail NewConsoleEmailSender a b)"
  "state_io_rel (stays_revoked rdb alive tok) (es_SendPasswordResetEmail NewConsoleEmailSender a b)"
  unfolding stays_defs repository_defs session_defs GenerateAccessToken_def Let_def
  by ((intro frames ttl_pos; simp?))+

lemma stays_StoreRefreshToken:
  "0 < ttl \<Longrightarrow> Inr ref \<noteq> (Inr tok :: go_error + string) \<Longrightarrow> state_io_rel (stays_revoked rdb alive tok) (StoreRefreshToken rdb i ref ttl)"
  unfolding StoreRefreshToken_def by (intro frames) (auto simp: refresh_key_def)


lemmas sat_stays = stays.sat_done stays.sat_branch stays.sat_prim [OF dead_stable(1)] stays_calls
  ignore_error_frame [OF stays_GenerateSecureToken] stays_GenerateSecureToken TrueI

lemma stays_session:
  assumes ttl: "0 < cfg_RefreshTokenTTL cfg"
  shows "sat (stays_revoked rdb alive tok) (never_drawn tok) (\<lambda>a. True)
    (generateSession_thread (auth_system getenv P J db rdb km cfg) user)"
  unfolding generateSession_thread_def auth_system_simps session_simps
  by (rule sat_drawn sat_stays stays_StoreRefreshToken [OF ttl] | (simp; fail))+


lemma stays_random_password:
  "state_io_rel (stays_revoked rdb alive tok) (random_password_hash (auth_system getenv P J db rdb km cfg))"
  unfolding random_password_hash_def by (intro frames)

lemma stays_simple:
  assumes ttl: "0 < cfg_RefreshTokenTTL cfg" and u: "u = auth_system getenv P J db rdb km cfg"
  shows "sat (stays_revoked rdb alive tok) (never_drawn tok) (\<lambda>a. True) (Register_thread u t e p ip)"
    "sat (stays_revoked rdb alive tok) (never_drawn tok) (\<lambda>a. True) (Login_thread u t e p ip)"
    "sat (stays_revoked rdb alive tok) (never_drawn tok) (\<lambda>a. True) (VerifyMFAChallenge_thread u tk code ip)"
    "sat (stays_revoked rdb alive tok) (never_drawn tok) (\<lambda>a. True) (SetupMFA_thread u i)"
    "sat (stays_revoked rdb alive tok) (never_drawn tok) (\<lambda>a. True) (ConfirmMFASetup_thread u i code)"
    "sat (stays_revoked rdb alive tok) (never_drawn tok) (\<lambda>a. True) (RequestEmailVerification_thread u t e)"
    "sat (stays_revoked rdb alive tok) (never_drawn tok) (\<lambda>a. True) (ConfirmEmailVerification_thread u tk)"
    "sat (stays_revoked rdb alive tok) (never_drawn tok) (\<lambda>a. True) (RequestPasswordReset_thread u t e)"
    "sat (stays_revoked rdb alive tok) (never_drawn tok) (\<lambda>a. True) (ConfirmPasswordReset_thread u tk p)"
    "sat (stays_revoked rdb alive tok) (never_drawn tok) (\<lambda>a. True) (OAuthLoginURL_thread u prov)"
    "sat (stays_revoked rdb alive tok) (never_drawn tok) (\<lambda>a. True) (RefreshToken_thread u tk ip)"
    "sat (stays_revoked rdb alive tok) (never_drawn tok) (\<lambda>a. True) (Logout_thread u tk ip)"
  unfolding u thread_defs auth_system_simps session_simps repository_simps Let_def
  by (rule stays.sat_seq [OF dead_stable(1) stays_session [OF ttl]] sat_stays stays_prims)+


lemma stays_oauth:
  assumes ttl: "0 < cfg_RefreshTokenTTL cfg"
  shows "sat (stays_revoked rdb alive tok) (never_drawn tok) (\<lambda>a. True)
    (HandleOAuthCallback_thread (auth_system getenv P J db rdb km cfg) rdb t prov code st ip)"
proof -
  have "sat (stays_revoked rdb alive tok) (never_drawn tok) (\<lambda>a. True) (ValidateAndConsumeOAuthState_thread rdb st prov)"
    unfolding ValidateAndConsumeOAuthState_thread_def by (rule sat_stays cmd_frames(2) stays_redis(2,3))+
  note consume = stays.sat_seq [OF dead_stable(1) this]
  note session = stays_session [OF ttl] stays.sat_seq [OF dead_stable(1) stays_session [OF ttl]]
  show ?thesis
    unfolding HandleOAuthCallback_thread_def auth_system_simps session_simps repository_simps Let_def
    by (rule consume session sat_stays stays_prims stays_random_password stays_provider | assumption)+
qed

text \<open>Whatever a call is, it keeps a dead token dead; a refresh with the token itself fails.\<close>

lemma auth_thread_stays:
  assumes ttl: "0 < cfg_RefreshTokenTTL cfg"
  shows "sat (stays_revoked rdb alive tok) (never_drawn tok) (\<lambda>a. True)
    (auth_thread (auth_system getenv P J db rdb km cfg) rdb c)"
  by (cases c; simp only: auth_thread.simps)
    (intro stays.sat_answer dead_stable(1) stays_simple [OF ttl refl] stays_oauth [OF ttl])+

lemma refresh_dead:
  "sat (stays_revoked rdb alive tok) (\<lambda>w. redis_laws rdb alive \<and> never_drawn tok w \<and> revoked alive tok w)
    (\<lambda>a. \<exists>e. a = AnswerSession (Inl e)) (auth_thread (auth_system getenv P J db rdb km cfg) rdb (CallRefresh tok ip))"
  unfolding auth_thread.simps RefreshToken_thread_def auth_system_simps session_simps seq_call
proof (rule stays.sat_learn [where P' = "\<lambda>r w. \<exists>e. r = Inl e", OF dead_stable(2)])
  fix w :: "('a, 'b) world" assume w: "redis_laws rdb alive \<and> never_drawn tok w \<and> revoked alive tok w"
  obtain r w1 where get: "run_state (GetUserIDByRefreshToken rdb tok) w = (r, w1)" by fastforce
  have "stays_revoked rdb alive tok w w1" by (rule stays.frame_runD [OF stays_calls(10) get])
  moreover have "\<exists>e. r = Inl e"
  proof (cases r)
    case (Inr s)
    from w have "redis_laws rdb alive" by blast
    from refresh.get_value [OF this get [unfolded Inr]] refresh.now_get [of w rdb tok] get w
    show ?thesis by (simp add: revoked_def)
  qed simp
  ultimately show "stays_revoked rdb alive tok w (after (GetUserIDByRefreshToken rdb tok) w) \<and>
      (\<exists>e. result (GetUserIDByRefreshToken rdb tok) w = Inl e)" by (simp add: get)
qed (auto simp: sat_def)


lemma logout_ensures:
  assumes "redis_laws rdb alive" "never_drawn tok w"
  shows "ensures (stays_revoked rdb alive tok)
    (\<lambda>a w. a = AnswerNone (Inr ()) \<longrightarrow> redis_laws rdb alive \<and> never_drawn tok w \<and> revoked alive tok w)
    (auth_thread (auth_system getenv P J db rdb km cfg) rdb (CallLogout tok ip)) w"
  unfolding auth_thread.simps Logout_thread_def auth_system_simps session_simps seq_call seq.simps ensures_call ensures.simps
proof (intro allI impI)
  fix w1 w2
  let ?log = "audit_Log EventSessionRevoked ''anonymous'' ip ''session revoked''"
  assume R: "stays_revoked rdb alive tok w w1" "stays_revoked rdb alive tok (after ?log w1) w2"
    and ok: "AnswerNone (result (RevokeRefreshToken rdb tok) w2) = AnswerNone (Inr ())"
  let ?w3 = "after (RevokeRefreshToken rdb tok) w2"
  have rev: "run_state (RevokeRefreshToken rdb tok) w2 = (Inr (), ?w3)" by (rule run_of_result) (use ok in simp)
  have "alive t (w_redis ?w3) (refresh_key tok) = None" if "w_clock ?w3 \<le> t" for t
    using fun_cong [OF refresh.revoke_ok [OF assms(1) rev that], of tok] by simp
  moreover have "stays_revoked rdb alive tok w ?w3"
    by (rule stays.frame_trans [OF stays.frame_trans [OF stays.frame_trans [OF R(1) stays.frameD [OF stays_calls(9)]] R(2)]
          stays.frameD [OF stays_calls(11)]])
  ultimately show "redis_laws rdb alive \<and> never_drawn tok ?w3 \<and> revoked alive tok ?w3"
    using assms by (simp add: stays_revoked_def revoked_def)
qed

end
