(* ===== verification/Concurrency_Properties.thy ===== *)
theory Concurrency_Properties
  imports Thread_Laws
begin

text \<open>
  Properties of requests that run at once. A pool holds one thread for each authentication call in progress;
  a schedule says whose next step comes, so that a theorem about every schedule is one about every
  interleaving of any number of requests.
\<close>

abbreviation auth_pool :: "('r, 'd) auth_use_case \<Rightarrow> 'r redis_client \<Rightarrow> auth_call list \<Rightarrow> ('r, 'd) world \<Rightarrow>
    (('r, 'd) world, auth_answer) pool" where
  "auth_pool u rdb cs w \<equiv> (map (auth_thread u rdb) cs, w)"

section \<open>Threads and sequential calls\<close>

primrec auth_results :: "('r, 'd) auth_use_case \<Rightarrow> auth_call list \<Rightarrow> ('r, 'd) world \<Rightarrow> auth_answer list" where
  "auth_results u [] w = []"
| "auth_results u (c # cs) w = auth_result u c w # auth_results u cs (auth_do u c w)"

lemma serial_run:
  "run_serial (map (auth_thread (auth_system getenv P J db rdb km cfg) rdb) cs) w =
     (auth_results (auth_system getenv P J db rdb km cfg) cs w, fold (auth_do (auth_system getenv P J db rdb km cfg)) cs w)"
  by (induction cs arbitrary: w) (simp_all add: auth_thread_alone)




section \<open>Accounts\<close>

text \<open>C7. Accounts under any interleaving of authentication calls: no account is removed or changes its identifier,
  tenant, address, role, activity or federated identity, and every account that comes into being has the
  least role; although a user is read in one step and written back whole in another.\<close>

theorem concurrent_accounts_safe:
  assumes inv: "pg_inv db tbl w"
    and run: "interleaved sch (auth_pool (auth_system getenv P J db rdb km cfg) rdb cs w) = (ts, w')"
  shows "pg_inv db tbl w' \<and> badge ` pg_users tbl w \<subseteq> badge ` pg_users tbl w' \<and>
    {badge v |v. v \<in> pg_users tbl w' \<and> u_Role v \<noteq> RoleUser} \<subseteq> badge ` pg_users tbl w"
proof -
  have "\<forall>i < length (map (auth_thread (auth_system getenv P J db rdb km cfg) rdb) cs).
      safe (keeps_badges (pg_inv db tbl) (pg_users tbl)) (\<lambda>a. True)
        (map (auth_thread (auth_system getenv P J db rdb km cfg) rdb) cs ! i) w"
    using auth.auth_thread_badges [unfolded sat_def, rule_format, OF inv] by simp
  from badges.pool_safe(1) [OF this run] inv show ?thesis unfolding keeps_badges_def by blast
qed

theorem concurrent_accounts_safe_witness:
  "badge ann \<in> badge ` pg_users mem_table (snd (interleaved [0, 1, 0, 1, 1, 0, 0] (auth_pool mem_system mem_client
     [CallRegister 1 ''eve@example.org'' ''secret99'' '''', CallSetupMFA 7] (mem_world Map.empty [ann]))))"
proof -
  let ?c = "interleaved [0, 1, 0, 1, 1, 0, 0] (auth_pool mem_system mem_client
     [CallRegister 1 ''eve@example.org'' ''secret99'' '''', CallSetupMFA 7] (mem_world Map.empty [ann]))"
  have "badge ` pg_users mem_table (mem_world Map.empty [ann]) \<subseteq> badge ` pg_users mem_table (snd ?c)"
    using concurrent_accounts_safe [OF ann_inv, of "[0, 1, 0, 1, 1, 0, 0]" mem_env mem_packages mem_jwt mem_client mem_km mem_cfg
      "[CallRegister 1 ''eve@example.org'' ''secret99'' '''', CallSetupMFA 7]" Map.empty "fst ?c" "snd ?c"] by simp
  then show ?thesis by (auto simp: mem_users)
qed

text \<open>C17. Of any number of registrations of one address of a tenant at once, among any other requests, at most one
  is answered with success: the unique constraint decides, and the check is part of the insertion.\<close>

theorem register_once:
  assumes inv: "pg_inv db tbl w" and addr: "ValidateAndCleanEmail e = Inr a" "ValidateAndCleanEmail e' = Inr a"
    and calls: "i < length cs" "cs ! i = CallRegister t e p ip" "j < length cs" "cs ! j = CallRegister t e' p' ip'"
    and run: "interleaved sch (auth_pool (auth_system getenv P J db rdb km cfg) rdb cs w) = (ts, w')"
    and both: "ts ! i = Done (AnswerNone (Inr ()))" "ts ! j = Done (AnswerNone (Inr ()))"
  shows "i = j"
proof -
  let ?u = "auth_system getenv P J db rdb km cfg"
  let ?A = "{k. \<exists>e p ip. cs ! k = CallRegister t e p ip \<and> ValidateAndCleanEmail e = Inr a}"
  have A: "once (keeps_badges (pg_inv db tbl) (pg_users tbl)) (auth_backend.address_taken (pg_inv db tbl) (pg_users tbl) t a)
      (\<lambda>b. b = AnswerNone (Inr ())) (map (auth_thread ?u rdb) cs ! k) w"
    if k: "k < length (map (auth_thread ?u rdb) cs)" "k \<in> ?A" for k
    using auth.register_contends [unfolded contends_def, rule_format, OF _ inv] k by auto
  have others: "safe (keeps_badges (pg_inv db tbl) (pg_users tbl)) (\<lambda>a. True) (map (auth_thread ?u rdb) cs ! k) w"
    if "k < length (map (auth_thread ?u rdb) cs)" for k
    using auth.auth_thread_badges [unfolded sat_def, rule_format, OF inv] that by simp
  show ?thesis
    by (rule badges.first_wins [where A = ?A, OF auth.taken_stable A others run _ _ both(1) _ _ _ both(2)])
      (use calls addr in auto)
qed


theorem register_once_witness:
  "\<exists>i \<in> {0, 1}. fst (interleaved (concat (replicate 11 [0, 1])) (auth_pool mem_system mem_client
      [CallRegister 1 ''eve@example.org'' ''secret99'' '''', CallRegister 1 ''Eve@example.org'' ''secret98'' '''']
      (mem_world Map.empty [ann]))) ! i \<noteq> Done (AnswerNone (Inr ()))"
proof -
  let ?cs = "[CallRegister 1 ''eve@example.org'' ''secret99'' '''', CallRegister 1 ''Eve@example.org'' ''secret98'' '''']"
  let ?c = "interleaved (concat (replicate 11 [0, 1])) (auth_pool mem_system mem_client ?cs (mem_world Map.empty [ann]))"
  have addr: "ValidateAndCleanEmail ''eve@example.org'' = Inr ''eve@example.org''" "ValidateAndCleanEmail ''Eve@example.org'' = Inr ''eve@example.org''"
    by code_simp+
  have "(0::nat) = 1" if both: "fst ?c ! 0 = Done (AnswerNone (Inr ()))" "fst ?c ! 1 = Done (AnswerNone (Inr ()))"
    by (rule register_once [OF ann_inv addr _ _ _ _ surjective_pairing both]) simp_all
  then show ?thesis by auto
qed

section \<open>Sessions\<close>

text \<open>C8. A logout holds against requests in flight: once it has been answered with success, no refresh with the
  token that starts after that is answered with a session, whatever other requests were in progress at
  the logout or come later, in every interleaving.\<close>

theorem logout_concurrent:
  assumes laws: "redis_laws rdb alive" "0 < cfg_RefreshTokenTTL cfg" "never_drawn tok w"
    and calls: "i < length cs" "cs ! i = CallLogout tok ip" "j < length cs" "cs ! j = CallRefresh tok ip'"
    and before: "interleaved sch (auth_pool (auth_system getenv P J db rdb km cfg) rdb cs w) = (ts, w1)"
    and out: "ts ! i = Done (AnswerNone (Inr ()))" and idle: "j \<notin> set sch"
    and later: "interleaved sch' (ts, w1) = (ts', w2)" and answered: "ts' ! j = Done a"
  shows "\<exists>e. a = AnswerSession (Inl e)"
proof -
  let ?u = "auth_system getenv P J db rdb km cfg"
  let ?R = "stays_revoked rdb alive tok" and ?ts = "map (auth_thread ?u rdb) cs"
  let ?D = "\<lambda>w. redis_laws rdb alive \<and> never_drawn tok w \<and> revoked alive tok w"
  have safe: "\<forall>k < length ?ts. safe ?R (\<lambda>a. True) (?ts ! k) w"
    using auth_thread_stays [OF laws(2), unfolded sat_def, rule_format, OF laws(3)] by simp
  have len: "length ts = length cs" "length ts' = length cs"
    using interleaved_length [of sch "(?ts, w)"] interleaved_length [of sch' "(ts, w1)"] before later by simp_all
  have "ensures ?R (\<lambda>a w. a = AnswerNone (Inr ()) \<longrightarrow> ?D w) (ts ! i) w1"
  proof (rule stays.pool_ensures [OF _ _ _ safe before])
    show "stable ?R (\<lambda>w. a = AnswerNone (Inr ()) \<longrightarrow> ?D w)" for a
      using dead_stable(2) [of rdb alive tok] unfolding stable_def by blast
  qed (use calls logout_ensures [OF laws(1,3)] in simp_all)
  then have dead: "?D w1" using out by simp
  have "ts ! j = ?ts ! j" using interleaved_idle [OF idle, of ?ts w] before by simp
  then have "safe ?R (\<lambda>a. \<exists>e. a = AnswerSession (Inl e)) (ts ! j) w1"
    using refresh_dead [unfolded sat_def, rule_format, OF dead] calls(3,4) by simp
  then have "safe ?R (\<lambda>a. k = j \<longrightarrow> (\<exists>e. a = AnswerSession (Inl e))) (ts ! k) w1" if "k < length ts" for k
    using stays.pool_safe(2) [OF safe before] that by (cases "k = j") simp_all
  then have all: "\<forall>k < length ts. safe ?R (\<lambda>a. k = j \<longrightarrow> (\<exists>e. a = AnswerSession (Inl e))) (ts ! k) w1" by blast
  have "safe ?R (\<lambda>a. j = j \<longrightarrow> (\<exists>e. a = AnswerSession (Inl e))) (ts' ! j) w2"
    using stays.pool_safe(2) [OF all later, rule_format, of j] calls(3) len by simp
  then show ?thesis using answered by simp
qed

theorem logout_concurrent_witness:
  "\<exists>e. fst (interleaved ([0, 0] @ replicate 11 1) (auth_pool mem_system mem_client [CallLogout ''t'' '''', CallRefresh ''t'' '''']
     (mem_world (mem_with (refresh_key ''t'') ''7'') [ann]))) ! 1 = Done (AnswerSession (Inl e))"
proof -
  let ?w = "mem_world (mem_with (refresh_key ''t'') ''7'') [ann]"
  let ?p = "auth_pool mem_system mem_client [CallLogout ''t'' '''', CallRefresh ''t'' ''''] ?w"
  let ?c = "interleaved [0, 0] ?p"
  obtain ts w1 where c: "?c = (ts, w1)" by fastforce
  obtain ts' w2 where d: "interleaved (replicate 11 1) (ts, w1) = (ts', w2)" by fastforce
  have out: "ts ! 0 = Done (AnswerNone (Inr ()))"
    using c by (auto simp: Logout_thread_def call_def)
  have "\<exists>a. fst (interleaved ([0, 0] @ replicate 11 1) ?p) ! 1 = Done a"
  proof (rule within_pool [where n = 11])
    show "11 \<le> count_list ([0, 0] @ replicate 11 1) (1 :: nat)" by (simp add: eval_nat_numeral)
  qed (simp_all add: auth_thread_ends del: auth_thread.simps)
  then obtain a where a: "ts' ! 1 = Done a" using c d by auto
  have "0 < cfg_RefreshTokenTTL mem_cfg" by (simp add: duration_defs)
  then have "\<exists>e. a = AnswerSession (Inl e)"
    by (rule logout_concurrent [OF mem_redis_laws _ short_never_drawn _ _ _ _ c out _ d a]) simp_all
  with a c d show ?thesis by simp
qed

section \<open>What the interleaving of a read and a write loses\<close>

text \<open>A password reset can be lost: there is an interleaving of the confirmation of an address and of a reset
  for one account in which both are answered with success and the old password is the one that still
  opens the account, because each writes back the whole row that it read.\<close>

lemma lost_password_reset:
  "\<exists>sch w'. interleaved sch (auth_pool mem_system mem_client [CallConfirmVerification ''v'', CallConfirmReset ''r'' ''newsecret'']
       (mem_world ((mem_with (email_verify_key ''v'') ''7'')(pwd_reset_key ''r'' \<mapsto> (''7'', None))) [ann])) =
     ([Done (AnswerNone (Inr ())), Done (AnswerNone (Inr ()))], w') \<and>
     (\<exists>user. pg_users mem_table w' = {user} \<and> u_EmailVerified user \<and>
        bcrypt_CompareHashAndPassword mem_packages (u_Password user) ''secret99'' = None \<and>
        bcrypt_CompareHashAndPassword mem_packages (u_Password user) ''newsecret'' \<noteq> None)"
proof -
  let ?r = "(mem_with (email_verify_key ''v'') ''7'')(pwd_reset_key ''r'' \<mapsto> (''7'', None))"
  let ?p = "auth_pool mem_system mem_client [CallConfirmVerification ''v'', CallConfirmReset ''r'' ''newsecret''] (mem_world ?r [ann])"
  have alive: "mem_alive t (r(k \<mapsto> (x, None))) k' = (if k' = k then Some x else mem_alive t r k')"
    "mem_alive t (r(k := None)) k' = (if k' = k then None else mem_alive t r k')" for t r k x k'
    by (simp_all add: mem_alive_def)
  note runs = ConfirmEmailVerification_thread_def ConfirmPasswordReset_thread_def new_password call_def mem_tokens mem_ByID
    mem_seven alive mem_hashes mem_Update_one
  have "\<exists>w' t v. interleaved ([0, 0] @ [1, 1, 1, 1, 1, 1] @ [0, 0, 0]) ?p =
      ([Done (AnswerNone (Inr ())), Done (AnswerNone (Inr ()))], w') \<and>
      w_db w' = [updated_user (ann\<lparr>u_EmailVerified := True, u_UpdatedAt := t\<rparr>) v]"
    by (simp add: runs; blast)
  then obtain w' t v where w': "interleaved ([0, 0] @ [1, 1, 1, 1, 1, 1] @ [0, 0, 0]) ?p =
      ([Done (AnswerNone (Inr ())), Done (AnswerNone (Inr ()))], w')"
      "w_db w' = [updated_user (ann\<lparr>u_EmailVerified := True, u_UpdatedAt := t\<rparr>) v]" by blast
  have users: "pg_users mem_table w' = {updated_user (ann\<lparr>u_EmailVerified := True, u_UpdatedAt := t\<rparr>) v}"
    using w'(2) by (auto simp: pg_users_def users_in_def mem_table_def)
  have opens: "bcrypt_CompareHashAndPassword mem_packages ''hsecret99'' ''secret99'' = None"
    "bcrypt_CompareHashAndPassword mem_packages ''hsecret99'' ''newsecret'' \<noteq> None" by (simp_all add: mem_packages_def)
  show ?thesis
    by (rule exI, rule exI [of _ w'], rule conjI [OF w'(1)], rule exI, rule conjI [OF users]) (simp add: opens)
qed

text \<open>C27. A deactivation can be undone by accident: there is an interleaving of a provisioning request that
  deactivates an account and of the confirmation of its address in which the provisioning client is told that
  the account is inactive and the account is active afterwards.\<close>

theorem deactivation_undone:
  "\<exists>sch res w'. interleaved sch ([seq (ConfirmEmailVerification_thread mem_system ''v'') (\<lambda>r. Done (Inl r)),
       seq (scim_UpdateUser_thread mem_packages (NewUserRepository mem_pool) 7 zero_scim_user) (\<lambda>r. Done (Inr r))],
       mem_world (mem_with (email_verify_key ''v'') ''7'') [ann]) =
     ([Done (Inl (Inr ())), Done (Inr (Inr res))], w') \<and>
     \<not> su_Active res \<and> (\<exists>user. pg_users mem_table w' = {user} \<and> u_IsActive user)"
proof -
  let ?p = "([seq (ConfirmEmailVerification_thread mem_system ''v'') (\<lambda>r. Done (Inl r)),
       seq (scim_UpdateUser_thread mem_packages (NewUserRepository mem_pool) 7 zero_scim_user) (\<lambda>r. Done (Inr r))],
       mem_world (mem_with (email_verify_key ''v'') ''7'') [ann])"
  note runs = ConfirmEmailVerification_thread_def scim_UpdateUser_thread_def call_def mem_tokens mem_ByID
    mem_seven mem_Update_one first_email_def zero_scim_user_def Let_def
  have "\<exists>w' t v x s. interleaved ([0, 0] @ [1, 1, 1] @ [0, 0, 0]) ?p =
      ([Done (Inl (Inr ())), Done (Inr (Inr (toSCIM mem_packages (ann\<lparr>u_IsActive := False, u_ExternalID := x, u_UpdatedAt := s\<rparr>))))], w') \<and>
      w_db w' = [updated_user (ann\<lparr>u_EmailVerified := True, u_UpdatedAt := t\<rparr>) v]"
    by (simp add: runs; blast)
  then obtain w' t v x s where w': "interleaved ([0, 0] @ [1, 1, 1] @ [0, 0, 0]) ?p =
      ([Done (Inl (Inr ())), Done (Inr (Inr (toSCIM mem_packages (ann\<lparr>u_IsActive := False, u_ExternalID := x, u_UpdatedAt := s\<rparr>))))], w')"
      "w_db w' = [updated_user (ann\<lparr>u_EmailVerified := True, u_UpdatedAt := t\<rparr>) v]" by blast
  have users: "pg_users mem_table w' = {updated_user (ann\<lparr>u_EmailVerified := True, u_UpdatedAt := t\<rparr>) v}"
    using w'(2) by (auto simp: pg_users_def users_in_def mem_table_def)
  show ?thesis
    by (rule exI, rule exI, rule exI [of _ w'], rule conjI [OF w'(1)], rule conjI, simp add: toSCIM_def,
      rule exI, rule conjI [OF users]) simp
qed

end
