(* ===== verification/Middleware.thy ===== *)
theory Middleware
  imports Http
begin

text \<open>
  The middlewares of \<open>delivery/http/middleware\<close>, in the order the router applies them, each a function
  from a handler to a handler.
\<close>

section \<open>Request and trace identifiers\<close>

definition RequestIDMiddleware :: "packages \<Rightarrow> ('r, 'd) handler \<Rightarrow> ('r, 'd) handler" where
  "RequestIDMiddleware P next rq = do {
     let reqID = rq_Header rq ''X-Request-ID'';
     reqID \<leftarrow> (if reqID = '''' then do { i \<leftarrow> in_world uuid_New; State_Monad.return (uuid_String P i) }
               else State_Monad.return reqID);
     Header_Set ''X-Request-ID'' reqID;
     next (rq\<lparr>rq_RequestID := Some reqID\<rparr>) }"

definition TracingMiddleware :: "packages \<Rightarrow> ('r, 'd) handler \<Rightarrow> ('r, 'd) handler" where
  "TracingMiddleware P next rq = do {
     let traceID = rq_Header rq ''X-Trace-ID'';
     traceID \<leftarrow> (if traceID = '''' then do { i \<leftarrow> in_world uuid_New; State_Monad.return (uuid_String P i) }
                 else State_Monad.return traceID);
     Header_Set ''X-Trace-ID'' traceID;
     next (rq\<lparr>rq_TraceID := Some traceID\<rparr>) }"

section \<open>CORS\<close>

definition CORSMiddleware :: "('r, 'd) handler \<Rightarrow> ('r, 'd) handler" where
  "CORSMiddleware next rq = do {
     Header_Set ''Access-Control-Allow-Origin'' ''*'';
     Header_Set ''Access-Control-Allow-Methods'' ''GET, POST, PUT, PATCH, DELETE, OPTIONS'';
     Header_Set ''Access-Control-Allow-Headers'' ''Content-Type, Authorization, X-Request-ID, X-Trace-ID'';
     Header_Set ''Access-Control-Expose-Headers'' ''X-Request-ID, X-Trace-ID'';
     Header_Set ''Access-Control-Max-Age'' ''86400'';
     if rq_Method rq = ''OPTIONS'' then do {
       WriteHeader 204;
       ok () }
     else next rq }"

section \<open>Rate limit\<close>

text \<open>
  The Lua script: Redis runs it as one command, so its three calls see the same time. An error of a
  call ends it.
\<close>

definition lua_tonumber :: "string \<Rightarrow> int option" where
  "lua_tonumber s = (case ParseInt 64 s of (n, err) \<Rightarrow> if err then None else Some n)"

definition rateLimitScript :: "'r redis_client \<Rightarrow> string \<Rightarrow> int \<Rightarrow> int \<Rightarrow> time \<Rightarrow> 'r \<Rightarrow> (go_error + int) \<times> 'r" where
  "rateLimitScript rdb key limit windowSecs t r =
     (case rd_Get rdb key t r of
        (g, r1) \<Rightarrow>
          (case (case g of
                   Inr v \<Rightarrow> (case lua_tonumber v of Some n \<Rightarrow> Inr n | None \<Rightarrow> Inl (ErrText ''attempt to perform arithmetic on a nil value''))
                 | Inl e \<Rightarrow> if errors_Is e RedisNil then Inr 0 else Inl e) of
             Inl e \<Rightarrow> (Inl e, r1)
           | Inr current \<Rightarrow>
               if limit < current + 1 then (Inr 0, r1)
               else (case rd_IncrBy rdb key 1 t r1 of
                       (Inl e, r2) \<Rightarrow> (Inl e, r2)
                     | (Inr _, r2) \<Rightarrow>
                         if current = 0 then
                           (case rd_Expire rdb key (windowSecs * second) t r2 of
                              (Some e, r3) \<Rightarrow> (Inl e, r3)
                            | (None, r3) \<Rightarrow> (Inr 1, r3))
                         else (Inr 1, r2))))"

record 'r rate_limiter =
  rl_rdb :: "'r redis_client"
  rl_limit :: int
  rl_windowSecs :: int

definition NewRedisRateLimiter :: "'r redis_client \<Rightarrow> int \<Rightarrow> 'r rate_limiter" where
  "NewRedisRateLimiter rdb requestsPerMinute =
     \<lparr>rl_rdb = rdb, rl_limit = requestsPerMinute, rl_windowSecs = 60\<rparr>"

text \<open>\<open>net.SplitHostPort\<close>: the host, \<open>None\<close> for an error.\<close>

definition SplitHostPort_host :: "string \<Rightarrow> string option" where
  "SplitHostPort_host hp =
     (let parts = Split CHR '':'' hp in
      if length parts < 2 then None
      else if hp \<noteq> '''' \<and> hd hp = CHR ''['' then
        (let host = takeWhile (\<lambda>c. c \<noteq> CHR '']'') (tl hp);
             rest = drop (Suc (length host) + 1) hp
         in if CHR '']'' \<notin> set hp then None
            else if rest = [] \<or> hd rest \<noteq> CHR '':'' then None
            else if CHR '':'' \<in> set (tl rest) then None
            else if CHR ''['' \<in> set (tl hp) \<or> CHR '']'' \<in> set rest then None
            else Some host)
      else if length parts \<noteq> 2 then None
      else if CHR ''['' \<in> set hp \<or> CHR '']'' \<in> set hp then None
      else Some (hd parts))"

definition extractClientIP :: "request \<Rightarrow> string" where
  "extractClientIP rq =
     (let xff = rq_Header rq ''X-Forwarded-For''; xrip = rq_Header rq ''X-Real-IP'' in
      if xff \<noteq> '''' then TrimSpace (hd (Split CHR '','' xff))
      else if xrip \<noteq> '''' then TrimSpace xrip
      else (case SplitHostPort_host (rq_RemoteAddr rq) of
              None \<Rightarrow> rq_RemoteAddr rq
            | Some ip \<Rightarrow> ip))"

definition ratelimit_key :: "string \<Rightarrow> string" where
  "ratelimit_key ip = ''ratelimit:'' @ ip"

definition RateLimiter_Middleware :: "'r rate_limiter \<Rightarrow> ('r, 'd) handler \<Rightarrow> ('r, 'd) handler" where
  "RateLimiter_Middleware rl next rq = do {
     let key = ratelimit_key (extractClientIP rq);
     r \<leftarrow> in_world (redis_do (rateLimitScript (rl_rdb rl) key (rl_limit rl) (rl_windowSecs rl)));
     if r = Inr 0 then WriteError 429 ''rate limit exceeded: please try again later''
     else next rq }"

section \<open>Access log and metrics\<close>

text \<open>Both wrap the writer; the status starts at 200. A panic unwinds past the log line.\<close>

definition LoggerMiddleware :: "('r, 'd) handler \<Rightarrow> ('r, 'd) handler" where
  "LoggerMiddleware next rq = do {
     start \<leftarrow> in_world time_Now;
     writes (\<lambda>s. s\<lparr>sv_Status := 200\<rparr>);
     r \<leftarrow> next rq;
     case r of
       Inl p \<Rightarrow> fail p
     | Inr _ \<Rightarrow> do {
         t \<leftarrow> in_world time_Now;
         writes (\<lambda>s. s\<lparr>sv_Log := sv_Log s @ [\<lparr>ac_Method = rq_Method rq, ac_Path = pathUnescape (rq_Path rq),
           ac_Status = sv_Status s, ac_Latency = t - start,
           ac_RequestID = (case rq_RequestID rq of Some i \<Rightarrow> i | None \<Rightarrow> ''''),
           ac_TraceID = (case rq_TraceID rq of Some i \<Rightarrow> i | None \<Rightarrow> '''')\<rparr>]\<rparr>);
         ok () } }"

text \<open>The deferred \<open>ActiveRequests.Dec()\<close> runs after a panic too.\<close>

definition MetricsMiddleware :: "('r, 'd) handler \<Rightarrow> ('r, 'd) handler" where
  "MetricsMiddleware next rq = do {
     writes (\<lambda>s. s\<lparr>sv_Metrics := Active_Add 1 (sv_Metrics s)\<rparr>);
     start \<leftarrow> in_world time_Now;
     writes (\<lambda>s. s\<lparr>sv_Status := 200\<rparr>);
     r \<leftarrow> next rq;
     case r of
       Inl p \<Rightarrow> do {
         writes (\<lambda>s. s\<lparr>sv_Metrics := Active_Add (-1) (sv_Metrics s)\<rparr>);
         fail p }
     | Inr _ \<Rightarrow> do {
         t \<leftarrow> in_world time_Now;
         writes (\<lambda>s. s\<lparr>sv_Metrics := Active_Add (-1)
           (TrackRequest (rq_Method rq) (pathUnescape (rq_Path rq)) (sv_Status s) (t - start) (sv_Metrics s))\<rparr>);
         ok () } }"

section \<open>Tenant, authentication, permission\<close>

definition tenant_of :: "packages \<Rightarrow> string \<Rightarrow> uuid" where
  "tenant_of P tenantHeader =
     (if tenantHeader \<noteq> '''' then
        (case uuid_Parse P tenantHeader of (parsed, None) \<Rightarrow> parsed | (_, Some err) \<Rightarrow> DefaultTenantID P)
      else DefaultTenantID P)"

definition TenantMiddleware :: "packages \<Rightarrow> ('r, 'd) handler \<Rightarrow> ('r, 'd) handler" where
  "TenantMiddleware P next rq = next (rq\<lparr>rq_Tenant := Some (tenant_of P (rq_Header rq ''X-Tenant-ID''))\<rparr>)"

definition AuthMiddleware :: "jwt_lib \<Rightarrow> key_manager \<Rightarrow> ('r, 'd) handler \<Rightarrow> ('r, 'd) handler" where
  "AuthMiddleware J km next rq =
     (let authHeader = rq_Header rq ''Authorization'' in
      if authHeader = '''' then WriteError 401 ''missing authorization header''
      else (case SplitN2 CHR '' '' authHeader of
          [scheme, token] \<Rightarrow>
            if scheme \<noteq> ''Bearer'' then
              WriteError 401 ''invalid authorization header format: must be Bearer <token>''
            else do {
              r \<leftarrow> in_world (ValidateAccessToken J km token);
              case r of
                Inl err \<Rightarrow> WriteError 401 ''invalid or expired token''
              | Inr claims \<Rightarrow> next (rq\<lparr>rq_User := Some claims\<rparr>) }
        | _ \<Rightarrow> WriteError 401 ''invalid authorization header format: must be Bearer <token>''))"

definition RequirePermission :: "permission \<Rightarrow> ('r, 'd) handler \<Rightarrow> ('r, 'd) handler" where
  "RequirePermission p next rq =
     (case rq_User rq of
        None \<Rightarrow> WriteError 401 ''unauthorized: context claims missing''
      | Some claims \<Rightarrow>
          if \<not> HasPermission (cl_Role claims) p then WriteError 403 ''forbidden: insufficient permissions''
          else next rq)"

end
