(* ===== verification/Handlers.thy ===== *)
theory Handlers
  imports Middleware Auth_Usecase User_Usecase
begin

text \<open>
  \<open>delivery/http/handler\<close> and \<open>delivery/http/router.go\<close>: what each endpoint decodes, which use case it
  calls, how it maps the error to a status; and the routes with the pipeline around them.
\<close>

section \<open>auth_handler.go\<close>

record ('r, 'd) auth_handler =
  ah_authUC :: "('r, 'd) auth_use_case"
  ah_keyManager :: key_manager

definition NewAuthHandler :: "('r, 'd) auth_use_case \<Rightarrow> key_manager \<Rightarrow> ('r, 'd) auth_handler" where
  [simp]: "NewAuthHandler authUC keyManager = \<lparr>ah_authUC = authUC, ah_keyManager = keyManager\<rparr>"

text \<open>\<open>tenantID, _ := ctx.Value(TenantContextKey).(uuid.UUID)\<close>: the zero value when absent.\<close>

definition ctx_tenant :: "request \<Rightarrow> uuid" where
  "ctx_tenant rq = (case rq_Tenant rq of Some t \<Rightarrow> t | None \<Rightarrow> 0)"

definition nil_dereference :: go_error where
  "nil_dereference = ErrText ''runtime error: invalid memory address or nil pointer dereference''"

definition h_Register :: "('r, 'd) auth_handler \<Rightarrow> ('r, 'd) handler" where
  "h_Register h rq =
     (let req = MaxBytesReader (2 ^ 20) (rq_Body rq) in
      if jb_Err req \<noteq> None then WriteError 400 ''invalid request body''
      else do {
        r \<leftarrow> in_world (Register (ah_authUC h) (ctx_tenant rq) (jb_Str req ''email'') (jb_Str req ''password'')
               (rq_RemoteAddr rq));
        case r of
          Inl err \<Rightarrow>
            if errors_Is err ErrConflict then WriteError 409 ''user with this email already exists''
            else WriteError 400 (Error err)
        | Inr _ \<Rightarrow> WriteJSON 201 None ''user registered; please check your email for verification'' })"

definition h_Login :: "('r, 'd) auth_handler \<Rightarrow> ('r, 'd) handler" where
  "h_Login h rq =
     (let req = MaxBytesReader (2 ^ 20) (rq_Body rq) in
      if jb_Err req \<noteq> None then WriteError 400 ''invalid request body''
      else do {
        r \<leftarrow> in_world (Login (ah_authUC h) (ctx_tenant rq) (jb_Str req ''email'') (jb_Str req ''password'')
               (rq_RemoteAddr rq));
        case r of
          Inl err \<Rightarrow>
            if errors_Is err ErrUnauthorized then WriteError 401 ''invalid credentials''
            else WriteError 500 ''internal server error''
        | Inr tokens \<Rightarrow> WriteJSON 200 (Some (json_tokens tokens)) ''authentication response'' })"

definition h_VerifyMFA :: "('r, 'd) auth_handler \<Rightarrow> ('r, 'd) handler" where
  "h_VerifyMFA h rq =
     (let req = MaxBytesReader (2 ^ 20) (rq_Body rq) in
      if jb_Err req \<noteq> None \<or> jb_Str req ''mfa_token'' = '''' \<or> jb_Str req ''code'' = ''''
      then WriteError 400 ''mfa_token and code are required''
      else do {
        r \<leftarrow> in_world (VerifyMFAChallenge (ah_authUC h) (jb_Str req ''mfa_token'') (jb_Str req ''code'')
               (rq_RemoteAddr rq));
        case r of
          Inl err \<Rightarrow> WriteError 401 (Error err)
        | Inr tokens \<Rightarrow> WriteJSON 200 (Some (json_tokens tokens)) ''two-factor authentication verified'' })"

definition h_SetupMFA :: "('r, 'd) auth_handler \<Rightarrow> ('r, 'd) handler" where
  "h_SetupMFA h rq =
     (case rq_User rq of
        None \<Rightarrow> fail nil_dereference
      | Some claims \<Rightarrow> do {
          r \<leftarrow> in_world (SetupMFA (ah_authUC h) (cl_UserID claims));
          case r of
            Inl err \<Rightarrow> WriteError 500 (Error err)
          | Inr p \<Rightarrow> WriteJSON 200 (Some (JObj [(''secret'', JStr (fst p)), (''uri'', JStr (snd p))]))
              ''scan the URI into your authenticator app'' })"

definition h_ConfirmMFASetup :: "('r, 'd) auth_handler \<Rightarrow> ('r, 'd) handler" where
  "h_ConfirmMFASetup h rq =
     (case rq_User rq of
        None \<Rightarrow> fail nil_dereference
      | Some claims \<Rightarrow> do {
          r \<leftarrow> in_world (ConfirmMFASetup (ah_authUC h) (cl_UserID claims) (jb_Str (rq_Body rq) ''code''));
          case r of
            Inl err \<Rightarrow> WriteError 400 ''invalid confirmation code''
          | Inr _ \<Rightarrow> WriteJSON 200 None ''mfa successfully enrolled and activated'' })"

definition h_VerifyEmail :: "('r, 'd) auth_handler \<Rightarrow> ('r, 'd) handler" where
  "h_VerifyEmail h rq =
     (let token = rq_Query rq ''token'' in
      if token = '''' then WriteError 400 ''token query parameter required''
      else do {
        r \<leftarrow> in_world (ConfirmEmailVerification (ah_authUC h) token);
        case r of
          Inl err \<Rightarrow> WriteError 400 ''invalid or expired token''
        | Inr _ \<Rightarrow> WriteJSON 200 None ''email address successfully verified'' })"

definition h_PasswordResetRequest :: "('r, 'd) auth_handler \<Rightarrow> ('r, 'd) handler" where
  "h_PasswordResetRequest h rq = do {
     _ \<leftarrow> in_world (RequestPasswordReset (ah_authUC h) (ctx_tenant rq) (jb_Str (rq_Body rq) ''email''));
     WriteJSON 200 None ''if the email exists, a password reset link has been dispatched'' }"

definition h_PasswordResetConfirm :: "('r, 'd) auth_handler \<Rightarrow> ('r, 'd) handler" where
  "h_PasswordResetConfirm h rq = do {
     r \<leftarrow> in_world (ConfirmPasswordReset (ah_authUC h) (jb_Str (rq_Body rq) ''token'')
            (jb_Str (rq_Body rq) ''new_password''));
     case r of
       Inl err \<Rightarrow> WriteError 400 (Error err)
     | Inr _ \<Rightarrow> WriteJSON 200 None ''password has been updated successfully'' }"

definition h_OAuthURL :: "('r, 'd) auth_handler \<Rightarrow> ('r, 'd) handler" where
  "h_OAuthURL h rq = do {
     r \<leftarrow> in_world (OAuthLoginURL (ah_authUC h) (rq_Query rq ''provider''));
     case r of
       Inl err \<Rightarrow> WriteError 400 (Error err)
     | Inr p \<Rightarrow> WriteJSON 200 (Some (JObj [(''state'', JStr (snd p)), (''url'', JStr (fst p))]))
         ''oauth authorization url generated successfully'' }"

definition h_OAuthCallback :: "('r, 'd) auth_handler \<Rightarrow> ('r, 'd) handler" where
  "h_OAuthCallback h rq = do {
     r \<leftarrow> in_world (HandleOAuthCallback (ah_authUC h) (ctx_tenant rq) (rq_Query rq ''provider'')
            (rq_Query rq ''code'') (rq_Query rq ''state'') (rq_RemoteAddr rq));
     case r of
       Inl err \<Rightarrow> WriteError 401 (Error err)
     | Inr tokens \<Rightarrow> WriteJSON 200 (Some (json_tokens tokens)) ''oauth authentication successful'' }"

definition h_Refresh :: "('r, 'd) auth_handler \<Rightarrow> ('r, 'd) handler" where
  "h_Refresh h rq = do {
     let req = MaxBytesReader (2 ^ 20) (rq_Body rq);
     r \<leftarrow> in_world (RefreshToken (ah_authUC h) (jb_Str req ''refresh_token'') (rq_RemoteAddr rq));
     case r of
       Inl err \<Rightarrow> WriteError 401 ''invalid or expired refresh token''
     | Inr tokens \<Rightarrow> WriteJSON 200 (Some (json_tokens tokens)) ''token refreshed'' }"

definition h_Logout :: "('r, 'd) auth_handler \<Rightarrow> ('r, 'd) handler" where
  "h_Logout h rq = do {
     _ \<leftarrow> in_world (Logout (ah_authUC h) (jb_Str (rq_Body rq) ''refresh_token'') (rq_RemoteAddr rq));
     WriteJSON 200 None ''session revoked'' }"

definition h_JWKS :: "('r, 'd) auth_handler \<Rightarrow> ('r, 'd) handler" where
  "h_JWKS h rq = do {
     Header_Set ''Content-Type'' ''application/json; charset=utf-8'';
     Encode (json_jwks (GetJWKS (ah_keyManager h)));
     ok () }"

section \<open>user_handler.go\<close>

record ('r, 'd) user_handler =
  uh_userRepo :: "('r, 'd) user_repository"
  uh_packages :: packages

definition NewUserHandler :: "('r, 'd) user_repository \<Rightarrow> packages \<Rightarrow> ('r, 'd) user_handler" where
  [simp]: "NewUserHandler userRepo P = \<lparr>uh_userRepo = userRepo, uh_packages = P\<rparr>"

definition h_GetProfile :: "('r, 'd) user_handler \<Rightarrow> ('r, 'd) handler" where
  "h_GetProfile h rq =
     (case rq_User rq of
        None \<Rightarrow> WriteError 401 ''unauthorized: missing or invalid context claims''
      | Some claims \<Rightarrow> do {
          r \<leftarrow> in_world (GetProfile (uh_userRepo h) (cl_UserID claims));
          case r of
            Inl err \<Rightarrow>
              if errors_Is err ErrNotFound then WriteError 404 ''user profile not found''
              else WriteError 500 ''failed to retrieve profile''
          | Inr user \<Rightarrow> WriteJSON 200 (Some (json_user (uh_packages h) user)) ''profile fetched successfully'' })"

definition h_ListUsers :: "('r, 'd) user_handler \<Rightarrow> ('r, 'd) handler" where
  "h_ListUsers h rq = do {
     let page = (case Atoi (rq_Query rq ''page'') of (p, err) \<Rightarrow> if \<not> err \<and> 0 < sint p then p else 1);
     let limit = (case Atoi (rq_Query rq ''limit'') of (l, err) \<Rightarrow>
       if \<not> err \<and> 0 < sint l then (if 100 < sint l then 100 else l) else 10);
     let pq = \<lparr>pq_Page = page, pq_Limit = limit, pq_Sort = '''', pq_Order = ''''\<rparr>;
     let tenantID = (case rq_Tenant rq of Some t \<Rightarrow> t | None \<Rightarrow> DefaultTenantID (uh_packages h));
     r \<leftarrow> in_world (ListUsers (uh_userRepo h) tenantID pq);
     case r of
       Inl err \<Rightarrow> WriteError 500 ''failed to retrieve user list''
     | Inr res \<Rightarrow> WriteJSON 200 (Some (json_page (uh_packages h) res)) ''users list fetched successfully'' }"

section \<open>scim_handler.go\<close>

record ('r, 'd) scim_handler =
  sh_userRepo :: "('r, 'd) user_repository"
  sh_packages :: packages

definition NewSCIMHandler :: "('r, 'd) user_repository \<Rightarrow> packages \<Rightarrow> ('r, 'd) scim_handler" where
  [simp]: "NewSCIMHandler userRepo P = \<lparr>sh_userRepo = userRepo, sh_packages = P\<rparr>"

definition h_ServiceProviderConfig :: "('r, 'd) scim_handler \<Rightarrow> ('r, 'd) handler" where
  "h_ServiceProviderConfig h rq = do {
     let cfg = \<lparr>sc_Schemas = [''urn:ietf:params:scim:schemas:core:2.0:ServiceProviderConfig''],
       sc_Patch = False, sc_Bulk = False, sc_Filter = False, sc_ChangePassword = False, sc_Sort = False,
       sc_Etag = False, sc_AuthenticationSchemes = [\<lparr>as_Name = ''OAuth Bearer Token'',
         as_Description = ''Standard OAuth Bearer Token'', as_Type = ''oauthbearertoken''\<rparr>]\<rparr>;
     Header_Set ''Content-Type'' ''application/scim+json; charset=utf-8'';
     Encode (json_scim_config cfg);
     ok () }"

definition h_scim_ListUsers :: "('r, 'd) scim_handler \<Rightarrow> ('r, 'd) handler" where
  "h_scim_ListUsers h rq = do {
     let page = fst (Atoi (rq_Query rq ''startIndex''));
     let limit = fst (Atoi (rq_Query rq ''count''));
     let limit = (if sint limit < 1 then 10 else limit);
     let page = (if sint page < 1 then 1 else page);
     let pq = \<lparr>pq_Page = page, pq_Limit = limit, pq_Sort = '''', pq_Order = ''''\<rparr>;
     r \<leftarrow> in_world (scim_ListUsers (sh_packages h) (sh_userRepo h) (ctx_tenant rq) pq);
     case r of
       Inl err \<Rightarrow> http_Error (Error err) 500
     | Inr res \<Rightarrow> do {
         Header_Set ''Content-Type'' ''application/scim+json; charset=utf-8'';
         Encode (json_scim_list res);
         ok () } }"

definition h_scim_CreateUser :: "('r, 'd) scim_handler \<Rightarrow> ('r, 'd) handler" where
  "h_scim_CreateUser h rq =
     (case jb_Err (rq_Body rq) of
        Some err \<Rightarrow> http_Error (Error err) 400
      | None \<Rightarrow> do {
          r \<leftarrow> in_world (scim_CreateUser (sh_packages h) (sh_userRepo h) (ctx_tenant rq) (jb_SCIMUser (rq_Body rq)));
          case r of
            Inl err \<Rightarrow> http_Error (Error err) 500
          | Inr res \<Rightarrow> do {
              Header_Set ''Content-Type'' ''application/scim+json; charset=utf-8'';
              WriteHeader 201;
              Encode (json_scim_user res);
              ok () } })"

definition h_scim_GetUserByID :: "('r, 'd) scim_handler \<Rightarrow> ('r, 'd) handler" where
  "h_scim_GetUserByID h rq =
     (case uuid_Parse (sh_packages h) (rq_PathValue rq ''id'') of
        (_, Some err) \<Rightarrow> http_Error ''invalid user id format'' 400
      | (i, None) \<Rightarrow> do {
          r \<leftarrow> in_world (scim_GetUser (sh_packages h) (sh_userRepo h) i);
          case r of
            Inl err \<Rightarrow> http_Error ''scim user not found'' 404
          | Inr u \<Rightarrow> do {
              Header_Set ''Content-Type'' ''application/scim+json; charset=utf-8'';
              Encode (json_scim_user u);
              ok () } })"

definition h_scim_UpdateUserByID :: "('r, 'd) scim_handler \<Rightarrow> ('r, 'd) handler" where
  "h_scim_UpdateUserByID h rq =
     (case uuid_Parse (sh_packages h) (rq_PathValue rq ''id'') of
        (_, Some err) \<Rightarrow> http_Error ''invalid user id format'' 400
      | (i, None) \<Rightarrow>
          (case jb_Err (rq_Body rq) of
             Some err \<Rightarrow> http_Error (Error err) 400
           | None \<Rightarrow> do {
               r \<leftarrow> in_world (scim_UpdateUser (sh_packages h) (sh_userRepo h) i (jb_SCIMUser (rq_Body rq)));
               case r of
                 Inl err \<Rightarrow> http_Error (Error err) 500
               | Inr u \<Rightarrow> do {
                   Header_Set ''Content-Type'' ''application/scim+json; charset=utf-8'';
                   Encode (json_scim_user u);
                   ok () } }))"

definition h_scim_DeleteUserByID :: "('r, 'd) scim_handler \<Rightarrow> ('r, 'd) handler" where
  "h_scim_DeleteUserByID h rq =
     (case uuid_Parse (sh_packages h) (rq_PathValue rq ''id'') of
        (_, Some err) \<Rightarrow> http_Error ''invalid user id format'' 400
      | (i, None) \<Rightarrow> do {
          r \<leftarrow> in_world (scim_DeleteUser (sh_userRepo h) i);
          case r of
            Inl err \<Rightarrow> http_Error (Error err) 500
          | Inr _ \<Rightarrow> do {
              WriteHeader 204;
              ok () } })"

section \<open>health_handler.go\<close>

record ('r, 'd) health_handler =
  hh_db :: "'d pgx_pool"
  hh_rdb :: "'r redis_client"

definition NewHealthHandler :: "'d pgx_pool \<Rightarrow> 'r redis_client \<Rightarrow> ('r, 'd) health_handler" where
  [simp]: "NewHealthHandler db rdb = \<lparr>hh_db = db, hh_rdb = rdb\<rparr>"

definition h_Healthz :: "('r, 'd) health_handler \<Rightarrow> ('r, 'd) handler" where
  "h_Healthz h rq = WriteJSON 200 (Some (JObj [(''status'', JStr ''UP'')])) ''service is alive''"

definition h_Readyz :: "('r, 'd) health_handler \<Rightarrow> ('r, 'd) handler" where
  "h_Readyz h rq = do {
     e \<leftarrow> in_world (reads (\<lambda>w. pg_Ping (hh_db h) (w_db w)));
     case e of
       Some err \<Rightarrow> WriteError 503 ''database connection pool unreachable''
     | None \<Rightarrow> do {
         e \<leftarrow> in_world (redis_do (\<lambda>t r. (rd_Ping (hh_rdb h) t r, r)));
         case e of
           Some err \<Rightarrow> WriteError 503 ''redis cache unreachable''
         | None \<Rightarrow> WriteJSON 200 (Some (JObj [(''status'', JStr ''READY'')])) ''all dependencies operational'' } }"

section \<open>router.go\<close>

definition route :: "string \<Rightarrow> segment list \<Rightarrow> ('r, 'd) handler \<Rightarrow> ('r, 'd) route" where
  "route m p h = \<lparr>rt_Method = Some m, rt_Pattern = p, rt_Handler = h\<rparr>"

definition subtree :: "segment list \<Rightarrow> ('r, 'd) handler \<Rightarrow> ('r, 'd) route" where
  "subtree p h = \<lparr>rt_Method = None, rt_Pattern = p @ [Multi], rt_Handler = h\<rparr>"

definition api :: "string list \<Rightarrow> segment list" where
  "api ss = map Lit ([''api'', ''v1''] @ ss)"

definition scim :: "string list \<Rightarrow> segment list" where
  "scim ss = map Lit ([''scim'', ''v2''] @ ss)"

definition profileMux :: "('r, 'd) auth_handler \<Rightarrow> ('r, 'd) user_handler \<Rightarrow> ('r, 'd) route list" where
  "profileMux ah uh = [
     route ''GET'' (api [''users'', ''profile'']) (h_GetProfile uh),
     route ''POST'' (api [''users'', ''mfa'', ''setup'']) (h_SetupMFA ah),
     route ''POST'' (api [''users'', ''mfa'', ''confirm'']) (h_ConfirmMFASetup ah)]"

definition adminMux :: "('r, 'd) user_handler \<Rightarrow> ('r, 'd) route list" where
  "adminMux uh = [route ''GET'' (api [''admin'', ''users'']) (h_ListUsers uh)]"

definition scimMux :: "('r, 'd) scim_handler \<Rightarrow> ('r, 'd) route list" where
  "scimMux sh = [
     route ''GET'' (scim [''ServiceProviderConfig'']) (h_ServiceProviderConfig sh),
     route ''GET'' (scim [''Users'']) (h_scim_ListUsers sh),
     route ''POST'' (scim [''Users'']) (h_scim_CreateUser sh),
     route ''GET'' (scim [''Users''] @ [Wild ''id'']) (h_scim_GetUserByID sh),
     route ''PUT'' (scim [''Users''] @ [Wild ''id'']) (h_scim_UpdateUserByID sh),
     route ''DELETE'' (scim [''Users''] @ [Wild ''id'']) (h_scim_DeleteUserByID sh)]"

text \<open>\<open>promhttp.Handler()\<close> is a parameter.\<close>

definition public_routes :: "('r, 'd) auth_handler \<Rightarrow> ('r, 'd) health_handler \<Rightarrow> ('r, 'd) handler \<Rightarrow> ('r, 'd) route list" where
  "public_routes ah hh prom = [
     route ''GET'' [Lit ''healthz''] (h_Healthz hh),
     route ''GET'' [Lit ''readyz''] (h_Readyz hh),
     route ''GET'' [Lit ''metrics''] prom,
     route ''GET'' [Lit ''.well-known'', Lit ''jwks.json''] (h_JWKS ah),
     route ''POST'' (api [''auth'', ''register'']) (h_Register ah),
     route ''POST'' (api [''auth'', ''login'']) (h_Login ah),
     route ''POST'' (api [''auth'', ''refresh'']) (h_Refresh ah),
     route ''POST'' (api [''auth'', ''logout'']) (h_Logout ah),
     route ''POST'' (api [''auth'', ''mfa'', ''challenge'']) (h_VerifyMFA ah),
     route ''GET'' (api [''auth'', ''verify-email'']) (h_VerifyEmail ah),
     route ''POST'' (api [''auth'', ''password'', ''reset-request'']) (h_PasswordResetRequest ah),
     route ''POST'' (api [''auth'', ''password'', ''reset-confirm'']) (h_PasswordResetConfirm ah),
     route ''GET'' (api [''auth'', ''oauth'', ''url'']) (h_OAuthURL ah),
     route ''GET'' (api [''auth'', ''oauth'', ''callback'']) (h_OAuthCallback ah)]"

definition router_mux :: "jwt_lib \<Rightarrow> key_manager \<Rightarrow> ('r, 'd) auth_handler \<Rightarrow> ('r, 'd) user_handler \<Rightarrow>
    ('r, 'd) health_handler \<Rightarrow> ('r, 'd) scim_handler \<Rightarrow> ('r, 'd) handler \<Rightarrow> ('r, 'd) route list" where
  "router_mux J km ah uh hh sh prom =
     public_routes ah hh prom @
     [subtree (api [''users''])
        (AuthMiddleware J km (RequirePermission PermissionReadProfile (mux (profileMux ah uh)))),
      subtree (api [''admin''])
        (AuthMiddleware J km (RequirePermission PermissionManageSystem (mux (adminMux uh)))),
      subtree (scim [])
        (AuthMiddleware J km (RequirePermission PermissionManageSystem (mux (scimMux sh))))]"

text \<open>The pipeline around a handler, the outermost middleware first.\<close>

definition pipeline :: "packages \<Rightarrow> 'r redis_client \<Rightarrow> ('r, 'd) handler \<Rightarrow> ('r, 'd) handler" where
  "pipeline P rdb h =
     RequestIDMiddleware P
      (TracingMiddleware P
       (CORSMiddleware
        (RateLimiter_Middleware (NewRedisRateLimiter rdb 100)
         (LoggerMiddleware
          (MetricsMiddleware
           (TenantMiddleware P h))))))"

definition NewRouter :: "packages \<Rightarrow> jwt_lib \<Rightarrow> 'r redis_client \<Rightarrow> key_manager \<Rightarrow> ('r, 'd) auth_handler \<Rightarrow>
    ('r, 'd) user_handler \<Rightarrow> ('r, 'd) health_handler \<Rightarrow> ('r, 'd) scim_handler \<Rightarrow> ('r, 'd) handler \<Rightarrow> ('r, 'd) handler" where
  "NewRouter P J rdb km ah uh hh sh prom = pipeline P rdb (mux (router_mux J km ah uh hh sh prom))"

end
