(* ===== verification/Reference_Http.thy ===== *)
theory Reference_Http
  imports Reference_Runs Handlers
begin

text \<open>Servers, requests and handlers over the in-memory instances, on which the witnesses about HTTP run.\<close>

definition mem_server :: "('r, 'd) world \<Rightarrow> ('r, 'd) server" where
  "mem_server w = \<lparr>sv_World = w, sv_Writer = new_writer, sv_Status = 200, sv_Log = [],
     sv_Metrics = NewMetrics\<rparr>"

definition mem_request :: "string \<Rightarrow> string \<Rightarrow> request" where
  "mem_request m p = \<lparr>rq_Method = m, rq_Path = p, rq_Query = (\<lambda>k. ''''), rq_Header = (\<lambda>k. ''''),
     rq_RemoteAddr = ''192.0.2.1:5000'', rq_Body = \<lparr>jb_Size = 2, jb_Err = None, jb_Str = (\<lambda>k. ''''), jb_Int = (\<lambda>k. 0),
       jb_SCIMUser = zero_scim_user\<rparr>, rq_PathValue = (\<lambda>k. ''''), rq_Tenant = None, rq_User = None,
     rq_RequestID = None, rq_TraceID = None\<rparr>"

definition mem_users_handler :: "(mem_redis, mem_db) user_handler" where
  "mem_users_handler = \<lparr>uh_userRepo = NewUserRepository mem_pool, uh_packages = mem_packages\<rparr>"

end
