(* ===== verification/Rate_Limit.thy ===== *)
theory Rate_Limit
  imports Middleware
begin

text \<open>
  The request limit of \<open>ratelimit_middleware.go\<close> as a counter: what Redis promises of the three
  commands of the script, and what a run of requests with one key gets. The script counts in a window
  that the first request opens and that closes 60 seconds later, whatever happens in between.
\<close>

section \<open>What the commands of the script do\<close>

text \<open>The number a key stands for: an absent key counts as zero.\<close>

definition counter_value :: "string option \<Rightarrow> int option" where
  "counter_value v = (case v of None \<Rightarrow> Some 0 | Some s \<Rightarrow> lua_tonumber s)"

definition incr_effect :: "'r alive \<Rightarrow> string \<Rightarrow> int \<Rightarrow> time \<Rightarrow> 'r \<Rightarrow> 'r \<Rightarrow> bool" where
  "incr_effect alive k m t r r' \<longleftrightarrow>
     (\<forall>t' \<ge> t. alive t' r' = (alive t' r)(k := if alive t r k \<noteq> None \<and> alive t' r k = None then None else Some (Itoa m)))"

definition expire_effect :: "'r alive \<Rightarrow> string \<Rightarrow> duration \<Rightarrow> time \<Rightarrow> 'r \<Rightarrow> 'r \<Rightarrow> bool" where
  "expire_effect alive k d t r r' \<longleftrightarrow>
     (\<forall>t' \<ge> t. alive t' r' = (alive t' r)(k := if t' < t + d then alive t r k else None))"

text \<open>
  A server in operation: \<open>GET\<close> shows what is alive, \<open>INCRBY k 1\<close> counts and keeps the expiry, a key
  it creates has none, and \<open>EXPIRE\<close> sets the expiry of a key that is alive.
\<close>

definition redis_counter_laws :: "'r redis_client \<Rightarrow> 'r alive \<Rightarrow> bool" where
  "redis_counter_laws c alive \<longleftrightarrow>
     (\<forall>k t r. same_from alive t r (snd (rd_Get c k t r)) \<and>
        fst (rd_Get c k t r) = (case alive t r k of None \<Rightarrow> Inl RedisNil | Some v \<Rightarrow> Inr v)) \<and>
     (\<forall>k t r m. counter_value (alive t r k) = Some m \<longrightarrow> m + 1 < 2 ^ 63 \<longrightarrow>
        fst (rd_IncrBy c k 1 t r) = Inr (m + 1) \<and> incr_effect alive k (m + 1) t r (snd (rd_IncrBy c k 1 t r))) \<and>
     (\<forall>k d t r. alive t r k \<noteq> None \<longrightarrow>
        fst (rd_Expire c k d t r) = None \<and> expire_effect alive k d t r (snd (rd_Expire c k d t r)))"

lemma counter_laws:
  assumes "redis_counter_laws c alive"
  shows "t \<le> t' \<Longrightarrow> alive t' (snd (rd_Get c k t r)) = alive t' r"
    and "fst (rd_Get c k t r) = (case alive t r k of None \<Rightarrow> Inl RedisNil | Some v \<Rightarrow> Inr v)"
    and "counter_value (alive t r k) = Some m \<Longrightarrow> m + 1 < 2 ^ 63 \<Longrightarrow>
      fst (rd_IncrBy c k 1 t r) = Inr (m + 1) \<and> incr_effect alive k (m + 1) t r (snd (rd_IncrBy c k 1 t r))"
    and "alive t r k \<noteq> None \<Longrightarrow>
      fst (rd_Expire c k d t r) = None \<and> expire_effect alive k d t r (snd (rd_Expire c k d t r))"
  using assms unfolding redis_counter_laws_def same_from_def by blast+

section \<open>One request\<close>

text \<open>The window that the first request opened at \<open>t0\<close>, after \<open>n\<close> admissions.\<close>

definition window :: "'r alive \<Rightarrow> string \<Rightarrow> time \<Rightarrow> duration \<Rightarrow> nat \<Rightarrow> time \<Rightarrow> 'r \<Rightarrow> bool" where
  "window alive k t0 d n t r \<longleftrightarrow> (\<forall>t' \<ge> t. alive t' r k = (if t' < t0 + d then Some (Itoa (int n)) else None))"

definition no_window :: "'r alive \<Rightarrow> string \<Rightarrow> time \<Rightarrow> 'r \<Rightarrow> bool" where
  "no_window alive k t r \<longleftrightarrow> (\<forall>t' \<ge> t. alive t' r k = None)"

lemma lua_tonumber_Itoa: "int n < 2 ^ 63 \<Longrightarrow> lua_tonumber (Itoa (int n)) = Some (int n)"
  by (simp add: lua_tonumber_def ParseInt_Itoa)

lemma script_opens:
  assumes laws: "redis_counter_laws c alive" and "no_window alive k t r" and "1 \<le> limit" "0 < win"
  shows "fst (rateLimitScript c k limit win t r) = Inr 1"
    and "window alive k t (win * second) 1 t (snd (rateLimitScript c k limit win t r))"
    and "k' \<noteq> k \<Longrightarrow> t \<le> t' \<Longrightarrow> alive t' (snd (rateLimitScript c k limit win t r)) k' = alive t' r k'"
proof -
  let ?r1 = "snd (rd_Get c k t r)"
  let ?r2 = "snd (rd_IncrBy c k 1 t ?r1)"
  let ?r3 = "snd (rd_Expire c k (win * second) t ?r2)"
  have none: "alive t' r k = None" if "t \<le> t'" for t' using assms(2) that by (simp add: no_window_def)
  have n1: "alive t' ?r1 k = None" if "t \<le> t'" for t' using none counter_laws(1) [OF laws] that by simp
  have get: "fst (rd_Get c k t r) = Inl RedisNil" using none counter_laws(2) [OF laws] by simp
  have "counter_value (alive t ?r1 k) = Some 0" using n1 by (simp add: counter_value_def)
  from counter_laws(3) [OF laws this]
  have inc: "fst (rd_IncrBy c k 1 t ?r1) = Inr 1" "incr_effect alive k 1 t ?r1 ?r2" by simp_all
  have a2: "alive t' ?r2 k = Some (Itoa 1)" if "t \<le> t'" for t' using inc(2) n1 that by (simp add: incr_effect_def)
  from counter_laws(4) [OF laws, where k = k and t = t and r = ?r2 and d = "win * second"]
  have exp: "fst (rd_Expire c k (win * second) t ?r2) = None" "expire_effect alive k (win * second) t ?r2 ?r3"
    using a2 by simp_all
  have run: "rateLimitScript c k limit win t r = (Inr 1, ?r3)"
    using get inc(1) exp(1) assms(3) by (simp add: rateLimitScript_def split_beta)
  show "fst (rateLimitScript c k limit win t r) = Inr 1" using run by simp
  show "window alive k t (win * second) 1 t (snd (rateLimitScript c k limit win t r))"
    using exp(2) a2 unfolding run window_def expire_effect_def by simp
  show "alive t' (snd (rateLimitScript c k limit win t r)) k' = alive t' r k'" if "k' \<noteq> k" "t \<le> t'"
    using exp(2) inc(2) counter_laws(1) [OF laws that(2), of k r] that unfolding run expire_effect_def incr_effect_def by simp
qed

lemma script_counts:
  assumes laws: "redis_counter_laws c alive" and win: "window alive k t0 (w * second) n t r"
    and n: "0 < n" "int n < 2 ^ 62" and now: "t < t0 + w * second"
  shows "fst (rateLimitScript c k limit w t r) = Inr (if int n < limit then 1 else 0)"
    and "window alive k t0 (w * second) (if int n < limit then Suc n else n) t (snd (rateLimitScript c k limit w t r))"
proof -
  let ?r1 = "snd (rd_Get c k t r)"
  let ?r2 = "snd (rd_IncrBy c k 1 t ?r1)"
  have w1: "window alive k t0 (w * second) n t ?r1"
    using win counter_laws(1) [OF laws] by (simp add: window_def)
  have val: "lua_tonumber (Itoa (int n)) = Some (int n)" using n by (intro lua_tonumber_Itoa) simp
  have get: "fst (rd_Get c k t r) = Inr (Itoa (int n))"
    using win now counter_laws(2) [OF laws] by (simp add: window_def)
  have a1: "alive t ?r1 k = Some (Itoa (int n))" using w1 now by (simp add: window_def)
  then have "counter_value (alive t ?r1 k) = Some (int n)" by (simp add: counter_value_def val)
  from counter_laws(3) [OF laws this] n
  have inc: "fst (rd_IncrBy c k 1 t ?r1) = Inr (int n + 1)" "incr_effect alive k (int n + 1) t ?r1 ?r2" by simp_all
  have w2: "window alive k t0 (w * second) (Suc n) t ?r2"
    unfolding window_def
  proof (intro allI impI)
    fix t' assume t': "t \<le> t'"
    have "alive t' ?r2 k = (if alive t' ?r1 k = None then None else Some (Itoa (int n + 1)))"
      using inc(2) a1 t' by (simp add: incr_effect_def)
    then show "alive t' ?r2 k = (if t' < t0 + w * second then Some (Itoa (int (Suc n))) else None)"
      using w1 t' by (simp add: window_def add.commute)
  qed
  have run: "rateLimitScript c k limit w t r = (if int n < limit then (Inr 1, ?r2) else (Inr 0, ?r1))"
    using get inc(1) n val by (simp add: rateLimitScript_def split_beta)
  show "fst (rateLimitScript c k limit w t r) = Inr (if int n < limit then 1 else 0)" using run by simp
  show "window alive k t0 (w * second) (if int n < limit then Suc n else n) t (snd (rateLimitScript c k limit w t r))"
    using run w1 w2 by simp
qed

section \<open>A run of requests\<close>

text \<open>The answers of the script to requests with one key at the given times.\<close>

fun admissions :: "'r redis_client \<Rightarrow> string \<Rightarrow> int \<Rightarrow> int \<Rightarrow> time list \<Rightarrow> 'r \<Rightarrow> (go_error + int) list" where
  "admissions c k limit win [] r = []"
| "admissions c k limit win (t # ts) r =
     (case rateLimitScript c k limit win t r of (a, r') \<Rightarrow> a # admissions c k limit win ts r')"

fun server_after :: "'r redis_client \<Rightarrow> string \<Rightarrow> int \<Rightarrow> int \<Rightarrow> time list \<Rightarrow> 'r \<Rightarrow> 'r" where
  "server_after c k limit win [] r = r"
| "server_after c k limit win (t # ts) r = server_after c k limit win ts (snd (rateLimitScript c k limit win t r))"

lemma window_later: "window alive k t0 d n t r \<Longrightarrow> t \<le> t' \<Longrightarrow> window alive k t0 d n t' r"
  by (auto simp: window_def)

lemma admissions_in_window:
  assumes laws: "redis_counter_laws c alive" and lim: "limit < 2 ^ 62"
    and "window alive k t0 (w * second) n t r" "0 < n" "int n \<le> limit" "sorted (t # ts)" "\<forall>t' \<in> set ts. t' < t0 + w * second"
  shows "admissions c k limit w ts r =
      replicate (min (length ts) (nat limit - n)) (Inr 1) @ replicate (length ts - (nat limit - n)) (Inr 0) \<and>
    (\<exists>m \<ge> n. int m \<le> limit \<and> window alive k t0 (w * second) m (last (t # ts)) (server_after c k limit w ts r))"
  using assms(3-)
proof (induction ts arbitrary: n t r)
  case Nil
  then show ?case by auto
next
  case (Cons t' ts)
  let ?s = "rateLimitScript c k limit w t' r" and ?n = "if int n < limit then Suc n else n"
  have small: "int n < 2 ^ 62" using Cons.prems(3) lim by simp
  have win: "window alive k t0 (w * second) n t' r" using Cons.prems(1,4) window_later by fastforce
  have "t' < t0 + w * second" using Cons.prems(5) by simp
  note S = script_counts [OF laws win Cons.prems(2) small this, of limit]
  have "0 < ?n" "int ?n \<le> limit" "sorted (t' # ts)" "\<forall>t' \<in> set ts. t' < t0 + w * second"
    using Cons.prems by auto
  from Cons.IH [OF S(2) this]
  have IH: "admissions c k limit w ts (snd ?s) =
      replicate (min (length ts) (nat limit - ?n)) (Inr 1) @ replicate (length ts - (nat limit - ?n)) (Inr 0)"
    and post: "\<exists>m \<ge> n. int m \<le> limit \<and> window alive k t0 (w * second) m (last (t' # ts)) (server_after c k limit w ts (snd ?s))"
    by (auto split: if_splits dest: Suc_leD)
  have "admissions c k limit w (t' # ts) r = Inr (if int n < limit then 1 else 0) # admissions c k limit w ts (snd ?s)"
    using S(1) by (simp add: split_beta)
  also have "\<dots> = replicate (min (length (t' # ts)) (nat limit - n)) (Inr 1) @ replicate (length (t' # ts) - (nat limit - n)) (Inr 0)"
  proof (cases "int n < limit")
    case True
    then have "nat limit - n = Suc (nat limit - Suc n)" by linarith
    with True IH show ?thesis by simp
  next
    case False
    then have "nat limit - n = 0" by simp
    with False IH show ?thesis by simp
  qed
  finally show ?case using post by simp
qed

lemma admissions_fresh:
  assumes laws: "redis_counter_laws c alive" and lim: "1 \<le> limit" "limit < 2 ^ 62" "0 < w"
    and "no_window alive k t r" "sorted (t # ts)" "\<forall>t' \<in> set ts. t' < t + w * second"
  shows "admissions c k limit w (t # ts) r =
      replicate (min (Suc (length ts)) (nat limit)) (Inr 1) @ replicate (Suc (length ts) - nat limit) (Inr 0)"
    and "no_window alive k (max (t + w * second) (last (t # ts))) (server_after c k limit w (t # ts) r)"
proof -
  let ?s = "rateLimitScript c k limit w t r"
  note S = script_opens [OF laws assms(5) lim(1,3)]
  have "window alive k t (w * second) 1 t (snd ?s)" using S(2) .
  from admissions_in_window [OF laws lim(2) this _ _ assms(6,7)] lim(1)
  have A: "admissions c k limit w ts (snd ?s) =
      replicate (min (length ts) (nat limit - 1)) (Inr 1) @ replicate (length ts - (nat limit - 1)) (Inr 0)"
    and B: "\<exists>m. window alive k t (w * second) m (last (t # ts)) (server_after c k limit w ts (snd ?s))"
    by auto
  obtain l where l: "nat limit = Suc l" using lim(1) by (cases "nat limit") auto
  show "admissions c k limit w (t # ts) r =
      replicate (min (Suc (length ts)) (nat limit)) (Inr 1) @ replicate (Suc (length ts) - nat limit) (Inr 0)"
    using S(1) A l by (simp add: split_beta)
  show "no_window alive k (max (t + w * second) (last (t # ts))) (server_after c k limit w (t # ts) r)"
    using B by (auto simp: no_window_def window_def simp del: last.simps)
qed

end
