(* ===== verification/Store_Properties.thy ===== *)
theory Store_Properties
  imports Reference_Http Rate_Limit
begin

text \<open>
  Properties of the two stores and of the request limit: what the token operations, the user
  repository and the script of the limiter guarantee over runs of calls, for any Redis and any
  PostgreSQL that keep their documented laws.
\<close>

section \<open>Tokens\<close>


lemma mem_oauth_accepted:
  "run_state (ValidateAndConsumeOAuthState mem_client ''s'' ''google'') (mem_world (mem_with ''oauth_state:s'' ''google'') d) =
     (True, after (ValidateAndConsumeOAuthState mem_client ''s'' ''google'') (mem_world (mem_with ''oauth_state:s'' ''google'') d))"
  by (simp add: ValidateAndConsumeOAuthState_def oauth_state_key_def mem_get Let_def split_beta)


section \<open>Users\<close>

text \<open>The repository as an abstract data type: what a call does to the set of users.\<close>

fun spec_call :: "user_call \<Rightarrow> user set \<Rightarrow> user set" where
  "spec_call (UCreate u) S = insert (stored_user u) S"
| "spec_call (UByEmail t e) S = S"
| "spec_call (UByID i) S = S"
| "spec_call (UUpdate u) S = (\<lambda>v. if u_ID v = u_ID u then updated_user u v else v) ` S"
| "spec_call (UDelete i) S = {v \<in> S. u_ID v \<noteq> i}"

fun repo_call :: "'d pgx_pool \<Rightarrow> user_call \<Rightarrow> ('r, 'd) world \<Rightarrow> ('r, 'd) world" where
  "repo_call db (UCreate u) w = after (Create db u) w"
| "repo_call db (UByEmail t e) w = after (GetByEmail db t e) w"
| "repo_call db (UByID i) w = after (GetByID db i) w"
| "repo_call db (UUpdate u) w = after (Update db u) w"
| "repo_call db (UDelete i) w = after (Delete db i) w"

fun call_ok :: "'d pgx_pool \<Rightarrow> user_call \<Rightarrow> ('r, 'd) world \<Rightarrow> bool" where
  "call_ok db (UCreate u) w \<longleftrightarrow> result (Create db u) w = Inr ()"
| "call_ok db (UUpdate u) w \<longleftrightarrow> result (Update db u) w = Inr ()"
| "call_ok db (UDelete i) w \<longleftrightarrow> result (Delete db i) w = Inr ()"
| "call_ok db c w \<longleftrightarrow> True"

fun succeeded :: "'d pgx_pool \<Rightarrow> user_call list \<Rightarrow> ('r, 'd) world \<Rightarrow> user_call list" where
  "succeeded db [] w = []"
| "succeeded db (c # cs) w = (if call_ok db c w then [c] else []) @ succeeded db cs (repo_call db c w)"

lemma repo_call_ucall: "repo_call db c w = pg.ucall db c w"
  by (cases c) simp_all

lemma repo_call_refines:
  assumes "pg_inv db tbl w"
  shows "pg_inv db tbl (repo_call db c w)"
    and "call_ok db c w \<Longrightarrow> pg_users tbl (repo_call db c w) = spec_call c (pg_users tbl w)"
    and "pg_users tbl (repo_call db c w) \<in> {pg_users tbl w, spec_call c (pg_users tbl w)}"
proof -
  show "pg_inv db tbl (repo_call db c w)" using pg.inv_ucall [OF assms] by (simp add: repo_call_ucall)
  show "call_ok db c w \<Longrightarrow> pg_users tbl (repo_call db c w) = spec_call c (pg_users tbl w)"
    using pg.create_ok [OF assms] pg.update_ok [OF assms] pg.delete_ok [OF assms]
    by (cases c) (simp_all add: pg.keep_email [OF assms] pg.keep_id [OF assms])
  show "pg_users tbl (repo_call db c w) \<in> {pg_users tbl w, spec_call c (pg_users tbl w)}"
    using pg.create_any [OF assms] pg.update_any [OF assms] pg.delete_any [OF assms]
    by (cases c) (auto simp: pg.keep_email [OF assms] pg.keep_id [OF assms])
qed

text \<open>C15. The repository refines a set of users: a run of calls leaves the table well formed and has the
  effect, call by call, of the abstract operations for every call that reported success, and for some of
  those that reported an error (a commit whose acknowledgement was lost), in the order of the calls.\<close>

theorem user_repo_refines:
  assumes "pg_inv db tbl w"
  shows "pg_inv db tbl (fold (repo_call db) cs w) \<and>
    (\<exists>ds. subseq (succeeded db cs w) ds \<and> subseq ds cs \<and>
       pg_users tbl (fold (repo_call db) cs w) = fold spec_call ds (pg_users tbl w))"
  using assms
proof (induction cs arbitrary: w)
  case Nil
  then show ?case by auto
next
  case (Cons c cs)
  let ?w' = "repo_call db c w"
  note R = repo_call_refines [OF Cons.prems, of c]
  from Cons.IH [OF R(1)] obtain ds where inv: "pg_inv db tbl (fold (repo_call db) cs ?w')"
    and ds: "subseq (succeeded db cs ?w') ds" "subseq ds cs"
      "pg_users tbl (fold (repo_call db) cs ?w') = fold spec_call ds (pg_users tbl ?w')" by blast
  show ?case
  proof (cases "pg_users tbl ?w' = spec_call c (pg_users tbl w)")
    case True
    then show ?thesis using inv ds by (intro conjI exI [of _ "c # ds"]) auto
  next
    case False
    with R have "\<not> call_ok db c w" "pg_users tbl ?w' = pg_users tbl w" by auto
    then show ?thesis using inv ds by (intro conjI exI [of _ ds]) auto
  qed
qed

theorem user_repo_refines_witness:
  "pg_inv mem_pool mem_table (fold (repo_call mem_pool) [UCreate ann, UDelete 7] (mem_world Map.empty []))"
  using user_repo_refines [OF mem_inv [of "[]" Map.empty], of "[UCreate ann, UDelete 7]"] by simp

text \<open>Who a user is never changes: whatever calls follow, until a call deletes him there is a user in
  the table with his identifier, tenant, provider, provider subject and creation time.\<close>

lemma user_identity_kept:
  assumes "pg_inv db tbl w" "u \<in> pg_users tbl w" "UDelete (u_ID u) \<notin> set cs"
  shows "\<exists>v \<in> pg_users tbl (fold (repo_call db) cs w). identity_of v = identity_of u"
proof -
  have "fold (repo_call db) cs w = fold (pg.ucall db) cs w"
    by (rule fold_cong) (simp_all add: fun_eq_iff repo_call_ucall)
  moreover have "\<forall>c \<in> set cs. c \<noteq> UDelete (u_ID u)" using assms(3) by auto
  ultimately show ?thesis using pg.identity_kept [OF assms(1,2)] by simp
qed

lemma user_identity_kept_witness:
  "\<exists>v \<in> pg_users mem_table (fold (repo_call mem_pool) [UUpdate (ann\<lparr>u_TenantID := 9, u_Email := ''a@b.c''\<rparr>)]
     (mem_world Map.empty [ann])). identity_of v = identity_of ann"
  by (rule user_identity_kept [OF mem_inv]) (simp_all add: mem_users)

text \<open>C32. A page of the listing: the query is brought within bounds (a page of 1 to 100 users, pages counted
  from 1), the page holds at most that many users of the tenant and no user twice, the total is the number
  of users of the tenant, and the number of pages is its exact quotient rounded up, although the code
  computes it in floating point.\<close>

theorem list_users_page:
  assumes inv: "pg_inv db tbl w"
    and run: "run_state (ListUsers (NewUserRepository db) tenantID pq) w = (Inr res, w')"
    and few: "card {u \<in> pg_users tbl w. u_TenantID u = tenantID} < 2 ^ 53"
  shows "1 \<le> sint (pr_Page res) \<and> 1 \<le> sint (pr_Limit res) \<and> sint (pr_Limit res) \<le> 100 \<and>
    distinct (pr_Data res) \<and> set (pr_Data res) \<subseteq> {u \<in> pg_users tbl w. u_TenantID u = tenantID} \<and>
    int (length (pr_Data res)) \<le> sint (pr_Limit res) \<and>
    sint (pr_TotalRows res) = int (card {u \<in> pg_users tbl w. u_TenantID u = tenantID}) \<and>
    sint (pr_TotalPages res) = (sint (pr_TotalRows res) + sint (pr_Limit res) - 1) div sint (pr_Limit res) \<and>
    pg_users tbl w' = pg_users tbl w"
proof -
  let ?pq = "clamp_query pq"
  obtain us cnt where list: "run_state (List db tenantID ?pq) w = (Inr (us, cnt), w')"
    and res: "res = \<lparr>pr_Data = us, pr_Page = pq_Page ?pq, pr_Limit = pq_Limit ?pq, pr_TotalRows = cnt,
         pr_TotalPages = total_pages cnt (pq_Limit ?pq)\<rparr>"
    using run by (auto simp: ListUsers_def Let_def split: sum.splits prod.splits)
  obtain all where "pg_inv db tbl w'" and keep: "pg_users tbl w' = pg_users tbl w" and "distinct all"
      and members: "set all = {u \<in> pg_users tbl w. u_TenantID u = tenantID}"
      and "sint cnt = int (length all)" "0 \<le> sint (list_offset ?pq)"
      "sorted_wrt (\<lambda>u v. u_CreatedAt v \<le> u_CreatedAt u) all"
      "prefix us (take (nat (sint (list_limit ?pq))) (drop (nat (sint (list_offset ?pq))) all))"
    by (rule List_law [OF inv list])
  note all = this(3) members this(5) keep this(8)
  from all(5) obtain vs where vs: "take (nat (sint (list_limit ?pq))) (drop (nat (sint (list_offset ?pq))) all) = us @ vs"
    by (auto elim: prefixE)
  have lim: "list_limit ?pq = pq_Limit ?pq" using clamp_query_bounds [of pq] by (simp add: list_limit_def)
  have tot: "sint cnt = int (card {u \<in> pg_users tbl w. u_TenantID u = tenantID})"
    using all(1,2,3) distinct_card by metis
  then have "0 \<le> sint cnt" by linarith
  moreover have "sint cnt < 2 ^ 53" unfolding tot using few by (metis of_nat_less_numeral_power_cancel_iff)
  ultimately have "sint (total_pages cnt (pq_Limit ?pq)) = (sint cnt + sint (pq_Limit ?pq) - 1) div sint (pq_Limit ?pq)"
    using total_pages_exact clamp_query_bounds [of pq] by blast
  moreover have "distinct (us @ vs)" unfolding vs [symmetric] using all(1) by simp
  moreover have "set (us @ vs) \<subseteq> set all"
    unfolding vs [symmetric] by (meson order_trans set_drop_subset set_take_subset)
  moreover have "length (us @ vs) \<le> nat (sint (list_limit ?pq))" unfolding vs [symmetric] by simp
  then have "length us \<le> nat (sint (pq_Limit ?pq))" unfolding lim by simp
  then have "int (length us) \<le> sint (pq_Limit ?pq)" using clamp_query_bounds [of pq] by (simp add: le_nat_iff)
  ultimately show ?thesis using clamp_query_bounds [of pq] all(2,4) lim tot by (simp add: res)
qed

theorem list_users_page_witness:
  "\<exists>res. result (ListUsers (NewUserRepository mem_pool) 1 \<lparr>pq_Page = 0, pq_Limit = 500, pq_Sort = '''', pq_Order = ''''\<rparr>)
       (mem_world Map.empty [ann]) = Inr res \<and> sint (pr_Limit res) \<le> 100 \<and> sint (pr_TotalRows res) = 1"
proof -
  let ?pq = "\<lparr>pq_Page = 0, pq_Limit = 500, pq_Sort = '''', pq_Order = ''''\<rparr>" and ?w = "mem_world Map.empty [ann]"
  obtain r w' where run: "run_state (ListUsers (NewUserRepository mem_pool) 1 ?pq) ?w = (r, w')" by fastforce
  then obtain res where r: "r = Inr res"
    by (auto simp: ListUsers_def clamp_query_def List_def db_do_def mem_pool_def mem_listing_def Let_def
        pg_matches_def ann_def scan_user_def scan_fields_def user_columns_def split: if_splits)
  have one: "{u \<in> pg_users mem_table ?w. u_TenantID u = 1} = {ann}" by (auto simp: mem_users ann_def)
  from list_users_page [OF mem_inv [of "[ann]" Map.empty] run [unfolded r]] run r show ?thesis
    unfolding one by simp
qed

section \<open>The request limit\<close>

lemma mem_counter_laws: "redis_counter_laws mem_client mem_alive"
  unfolding redis_counter_laws_def
proof (intro conjI allI impI)
  fix k t r
  show "same_from mem_alive t r (snd (rd_Get mem_client k t r))" by (simp add: same_from_def)
  show "fst (rd_Get mem_client k t r) = (case mem_alive t r k of None \<Rightarrow> Inl RedisNil | Some v \<Rightarrow> Inr v)" by simp
next
  fix k t r and m :: int
  assume m: "counter_value (mem_alive t r k) = Some m" "m + 1 < 2 ^ 63"
  have "(fst (rd_IncrBy mem_client k 1 t r) = Inr (m + 1)) \<and>
    incr_effect mem_alive k (m + 1) t r (snd (rd_IncrBy mem_client k 1 t r))"
  proof (cases "mem_alive t r k")
    case None
    with m show ?thesis by (auto simp: mem_client_def counter_value_def incr_effect_def mem_alive_def fun_eq_iff)
  next
    case (Some v)
    then obtain e where e: "r k = Some (v, e)" by (cases "(t, r k)" rule: mem_entry.cases) (auto simp: mem_alive_def split: if_splits)
    from m Some have "ParseInt 64 v = (m, False)"
      by (auto simp: counter_value_def lua_tonumber_def split: prod.splits if_splits)
    then show ?thesis using Some e
      by (cases e) (auto simp: mem_client_def incr_effect_def mem_alive_def fun_eq_iff)
  qed
  then show "fst (rd_IncrBy mem_client k 1 t r) = Inr (m + 1)"
    "incr_effect mem_alive k (m + 1) t r (snd (rd_IncrBy mem_client k 1 t r))" by blast+
next
  fix k d t r
  assume "mem_alive t r k \<noteq> None"
  then obtain v where "mem_alive t r k = Some v" by blast
  then show "fst (rd_Expire mem_client k d t r) = None" "expire_effect mem_alive k d t r (snd (rd_Expire mem_client k d t r))"
    by (auto simp: mem_client_def expire_effect_def mem_alive_def fun_eq_iff)
qed

text \<open>C31. The limit: of any number of requests with one key in the window that the first one opens, exactly
  the first \<open>limit\<close> are admitted and every later one is refused; when the window closes the count is
  forgotten.\<close>

theorem rate_limit_window:
  assumes "redis_counter_laws rdb alive" and "1 \<le> limit" "limit < 2 ^ 62" "0 < win"
    and "no_window alive key t r" "sorted (t # ts)" "\<forall>t' \<in> set ts. t' < t + win * second"
  shows "admissions rdb key limit win (t # ts) r =
      replicate (min (Suc (length ts)) (nat limit)) (Inr 1) @ replicate (Suc (length ts) - nat limit) (Inr 0) \<and>
    no_window alive key (max (t + win * second) (last (t # ts))) (server_after rdb key limit win (t # ts) r)"
  using admissions_fresh [OF assms] by blast

theorem rate_limit_window_witness:
  "admissions mem_client ''ratelimit:192.0.2.1'' 2 60 [mem_now, mem_now, mem_now + 1] Map.empty = [Inr 1, Inr 1, Inr 0]"
  using rate_limit_window [OF mem_counter_laws, of 2 60 "''ratelimit:192.0.2.1''" mem_now Map.empty "[mem_now, mem_now + 1]"]
  by (simp add: no_window_def mem_alive_def duration_defs numeral_2_eq_2)

lemma admissions_append:
  "admissions c k limit win (ts @ us) r = admissions c k limit win ts r @ admissions c k limit win us (server_after c k limit win ts r)"
  by (induction ts arbitrary: r) (simp_all add: split_beta)

text \<open>The window is fixed, not sliding: a client who sends one request, waits, and sends \<open>limit - 1\<close> more
  just before the window closes and \<open>limit\<close> more at the instant it does has all of them admitted, twice the
  limit but one within a moment.\<close>

lemma rate_limit_burst:
  assumes laws: "redis_counter_laws rdb alive" and lim: "1 \<le> limit" "limit < 2 ^ 62" "0 < win"
    and fresh: "no_window alive key t r"
  shows "admissions rdb key limit win
      (t # replicate (nat limit - 1) (t + win * second - 1) @ replicate (nat limit) (t + win * second)) r =
    replicate (2 * nat limit) (Inr 1)"
proof -
  let ?e = "t + win * second"
  let ?ts = "replicate (nat limit - 1) (?e - 1)" and ?us = "replicate (nat limit - 1) ?e"
  have pos: "t \<le> ?e - 1" using lim(3) by (simp add: second_def)
  obtain l where l: "nat limit = Suc l" using lim(1) by (cases "nat limit") auto
  have s: "sorted (t # ?ts)" "\<forall>t' \<in> set ?ts. t' < t + win * second" using pos by auto
  note A = admissions_fresh [OF laws lim fresh s]
  let ?r' = "server_after rdb key limit win (t # ?ts) r"
  have "no_window alive key ?e ?r'"
    using A(2) pos by (auto simp: no_window_def l)
  moreover have "sorted (?e # ?us)" "\<forall>t' \<in> set ?us. t' < ?e + win * second" using lim(3) by (auto simp: second_def)
  ultimately have B: "admissions rdb key limit win (?e # ?us) ?r' = replicate (nat limit) (Inr 1)"
    using admissions_fresh(1) [OF laws lim] l by simp
  have "t # ?ts @ replicate (nat limit) ?e = (t # ?ts) @ (?e # ?us)" by (simp add: l)
  then have "admissions rdb key limit win (t # ?ts @ replicate (nat limit) ?e) r =
      replicate (nat limit) (Inr 1) @ replicate (nat limit) (Inr 1)"
    unfolding admissions_append using A(1) B by (simp only: admissions_append) (simp add: l)
  then show ?thesis by (simp add: replicate_add [symmetric] mult_2)
qed

lemma rate_limit_burst_witness:
  "admissions mem_client ''ratelimit:192.0.2.1'' 2 60 [mem_now, mem_now + 60 * second - 1, mem_now + 60 * second, mem_now + 60 * second]
     Map.empty = [Inr 1, Inr 1, Inr 1, Inr 1]"
  using rate_limit_burst [OF mem_counter_laws, of 2 60 "''ratelimit:192.0.2.1''" mem_now Map.empty]
  by (simp add: no_window_def mem_alive_def numeral_2_eq_2)

text \<open>Only an answer of 0 refuses; when the script fails the request is served as if there were no limit.\<close>

lemma rate_limit_answer:
  "run_state (RateLimiter_Middleware rl next rq) s =
     (let script = redis_do (rateLimitScript (rl_rdb rl) (ratelimit_key (extractClientIP rq)) (rl_limit rl) (rl_windowSecs rl));
          s' = s\<lparr>sv_World := after script (sv_World s)\<rparr>
      in if result script (sv_World s) = Inr 0
         then run_state (WriteError 429 ''rate limit exceeded: please try again later'') s' else run_state (next rq) s')"
  by (simp add: RateLimiter_Middleware_def in_world_def Let_def split_beta)

text \<open>A request that names its own client address.\<close>

definition forwarded :: "request \<Rightarrow> string \<Rightarrow> request" where
  "forwarded rq ip = rq\<lparr>rq_Header := (rq_Header rq)(''X-Forwarded-For'' := ip)\<rparr>"

definition plain_address :: "string \<Rightarrow> bool" where
  "plain_address ip \<longleftrightarrow> ip \<noteq> '''' \<and> CHR '','' \<notin> set ip \<and> TrimSpace ip = ip"

lemma Split_absent: "c \<notin> set s \<Longrightarrow> Split c s = [s]"
  by (induction s) auto

lemma client_of_forwarded: "plain_address ip \<Longrightarrow> extractClientIP (forwarded rq ip) = ip"
  by (simp add: extractClientIP_def forwarded_def plain_address_def Split_absent)

lemma ratelimit_key_inject [simp]: "ratelimit_key a = ratelimit_key b \<longleftrightarrow> a = b"
  by (simp add: ratelimit_key_def)

text \<open>No request was counted for an address so far.\<close>

definition uncounted :: "'r alive \<Rightarrow> ('r, 'd) server \<Rightarrow> string \<Rightarrow> bool" where
  "uncounted alive s ip \<longleftrightarrow> no_window alive (ratelimit_key ip) (w_clock (sv_World s)) (w_redis (sv_World s))"

lemma limiter_serves:
  fixes s :: "('r, 'd) server"
  assumes laws: "redis_counter_laws (rl_rdb rl) alive" "1 \<le> rl_limit rl" "0 < rl_windowSecs rl"
    and ip: "plain_address ip" "uncounted alive s ip"
  obtains w where "run_state (RateLimiter_Middleware rl next (forwarded rq ip)) s =
      run_state (next (forwarded rq ip)) (s\<lparr>sv_World := w\<rparr>)"
    and "\<And>ip'. ip' \<noteq> ip \<Longrightarrow> uncounted alive s ip' \<Longrightarrow> uncounted alive (s\<lparr>sv_World := w\<rparr>) ip'"
proof -
  let ?w = "sv_World s" and ?f = "rateLimitScript (rl_rdb rl) (ratelimit_key ip) (rl_limit rl) (rl_windowSecs rl)"
  let ?t = "w_clock ?w + int (w_elapse ?w 0)"
  have "no_window alive (ratelimit_key ip) ?t (w_redis ?w)" using ip(2) by (simp add: uncounted_def no_window_def)
  note S = script_opens [OF laws(1) this laws(2,3)]
  have "result (redis_do ?f) ?w = Inr 1" using S(1) by (simp add: run_redis_do Let_def)
  then have "run_state (RateLimiter_Middleware rl next (forwarded rq ip)) s =
      run_state (next (forwarded rq ip)) (s\<lparr>sv_World := after (redis_do ?f) ?w\<rparr>)"
    by (simp add: rate_limit_answer client_of_forwarded [OF ip(1)] Let_def)
  moreover have "uncounted alive (s\<lparr>sv_World := after (redis_do ?f) ?w\<rparr>) ip'" if "ip' \<noteq> ip" "uncounted alive s ip'" for ip'
    using that S(3) [of "ratelimit_key ip'"] by (simp add: uncounted_def no_window_def run_redis_do Let_def)
  ultimately show thesis by (rule that)
qed

text \<open>C40. The limit binds only clients who do not name themselves: a client who puts another address into
  \<open>X-Forwarded-For\<close> with every request has every request served, however many there are and however
  fast they come, as long as no counter of these addresses is open when he starts and the handler
  behind the limiter leaves the counters alone.\<close>

theorem rate_limit_evaded:
  fixes s :: "('r, 'd) server"
  assumes laws: "redis_counter_laws (rl_rdb rl) alive" "1 \<le> rl_limit rl" "0 < rl_windowSecs rl"
    and apart: "\<And>rq ip s. uncounted alive s ip \<Longrightarrow> uncounted alive (after (next rq) s) ip"
    and ips: "distinct ips" "\<forall>ip \<in> set ips. plain_address ip \<and> uncounted alive s ip" and n: "n < length ips"
  shows "\<exists>w. run_state (RateLimiter_Middleware rl next (forwarded rq (ips ! n)))
      (fold (\<lambda>ip. after (RateLimiter_Middleware rl next (forwarded rq ip))) (take n ips) s) =
    run_state (next (forwarded rq (ips ! n)))
      ((fold (\<lambda>ip. after (RateLimiter_Middleware rl next (forwarded rq ip))) (take n ips) s)\<lparr>sv_World := w\<rparr>)"
  using ips n
proof (induction ips arbitrary: s n)
  case (Cons ip ips)
  obtain w where w: "run_state (RateLimiter_Middleware rl next (forwarded rq ip)) s =
      run_state (next (forwarded rq ip)) (s\<lparr>sv_World := w\<rparr>)"
    "\<And>ip'. ip' \<noteq> ip \<Longrightarrow> uncounted alive s ip' \<Longrightarrow> uncounted alive (s\<lparr>sv_World := w\<rparr>) ip'"
    using limiter_serves [OF laws, of ip s "next" rq] Cons.prems(2) by auto
  show ?case
  proof (cases n)
    case 0
    with w(1) show ?thesis by auto
  next
    case (Suc m)
    let ?s = "after (RateLimiter_Middleware rl next (forwarded rq ip)) s"
    have "uncounted alive ?s ip'" if "ip' \<in> set ips" for ip'
    proof -
      have "ip' \<noteq> ip" "uncounted alive s ip'" using Cons.prems(1,2) that by auto
      then show ?thesis using apart [OF w(2)] w(1) by simp
    qed
    then have "\<forall>ip' \<in> set ips. plain_address ip' \<and> uncounted alive ?s ip'" using Cons.prems(2) by simp
    from Cons.IH [OF _ this, of m] Cons.prems(1,3) Suc show ?thesis by simp
  qed
qed simp

theorem rate_limit_evaded_witness:
  "\<exists>w. run_state (RateLimiter_Middleware (NewRedisRateLimiter mem_client 1) (\<lambda>rq. WriteJSON 200 None ''ok'')
        (forwarded (mem_request ''GET'' ''/'') ''203.0.113.2''))
      (after (RateLimiter_Middleware (NewRedisRateLimiter mem_client 1) (\<lambda>rq. WriteJSON 200 None ''ok'')
        (forwarded (mem_request ''GET'' ''/'') ''203.0.113.1'')) (mem_server (mem_world Map.empty []))) =
    run_state (WriteJSON 200 None ''ok'')
      ((after (RateLimiter_Middleware (NewRedisRateLimiter mem_client 1) (\<lambda>rq. WriteJSON 200 None ''ok'')
        (forwarded (mem_request ''GET'' ''/'') ''203.0.113.1'')) (mem_server (mem_world Map.empty [])))\<lparr>sv_World := w\<rparr>)"
proof -
  have a: "uncounted mem_alive (after (WriteJSON 200 None ''ok'') s) ip" if "uncounted mem_alive s ip"
    for ip and s :: "(mem_redis, mem_db) server"
    using that by (simp add: uncounted_def WriteJSON_def Header_Set_def WriteHeader_def Encode_def respond_def)
  have p: "\<forall>ip \<in> set [''203.0.113.1'', ''203.0.113.2'']. plain_address ip \<and> uncounted mem_alive (mem_server (mem_world Map.empty [])) ip"
    by (simp add: plain_address_def TrimSpace_def is_space_def uncounted_def no_window_def mem_server_def mem_world_def mem_alive_def)
  have l: "redis_counter_laws (rl_rdb (NewRedisRateLimiter mem_client 1)) mem_alive"
    "1 \<le> rl_limit (NewRedisRateLimiter mem_client 1)" "0 < rl_windowSecs (NewRedisRateLimiter mem_client 1)"
    using mem_counter_laws by (simp_all add: NewRedisRateLimiter_def)
  show ?thesis
    using rate_limit_evaded [of "NewRedisRateLimiter mem_client 1" mem_alive "\<lambda>rq. WriteJSON 200 None ''ok''"
        "[''203.0.113.1'', ''203.0.113.2'']" "mem_server (mem_world Map.empty [])" 1, OF l a _ p]
    by simp
qed

end
