(* ===== verification/Startup.thy ===== *)
theory Startup
  imports Handlers Auth_Backend
begin

text \<open>
  \<open>cmd/server/main.go\<close>, \<open>cmd/migrate/main.go\<close> and the constructors of \<open>infrastructure\<close>: the order in
  which the process reads its configuration, loads its key, migrates, connects and wires the
  layers. A fatal error ends the process; here it is the error value. The drivers that connect are
  parameters. What follows, listening, signals and shutdown, is in theory Lifecycle.
\<close>

text \<open>\<open>pgxpool.Config\<close>: what \<open>NewPostgresPool\<close> sets in it.\<close>

record pool_config =
  po_ConnString :: string
  po_MaxConns :: "32 word"
  po_MinConns :: "32 word"
  po_MaxConnIdleTime :: duration
  po_MaxConnLifetime :: duration

record redis_options =
  ro_Addr :: string
  ro_Password :: string
  ro_DB :: int
  ro_PoolSize :: int

record ('r, 'd) drivers =
  migrate_New :: "string \<Rightarrow> string \<Rightarrow> go_error option"
  migrate_Up :: "string \<Rightarrow> string \<Rightarrow> go_error option"
  migrate_ErrNoChange :: go_error
  pgxpool_ParseConfig :: "string \<Rightarrow> go_error + pool_config"
  pgxpool_NewWithConfig :: "pool_config \<Rightarrow> go_error + 'd pgx_pool"
  redis_NewClient :: "redis_options \<Rightarrow> 'r redis_client"

definition RunMigrations :: "('r, 'd) drivers \<Rightarrow> config \<Rightarrow> go_error option" where
  "RunMigrations io cfg =
     (case migrate_New io ''file://migrations'' (PostgresDSN cfg) of
        Some err \<Rightarrow> Some err
      | None \<Rightarrow>
          (case migrate_Up io ''file://migrations'' (PostgresDSN cfg) of
             Some err \<Rightarrow> if \<not> errors_Is err (migrate_ErrNoChange io) then Some err else None
           | None \<Rightarrow> None))"

definition NewPostgresPool :: "('r, 'd) drivers \<Rightarrow> 'd \<Rightarrow> config \<Rightarrow> go_error + 'd pgx_pool" where
  "NewPostgresPool io d cfg =
     (case pgxpool_ParseConfig io (PostgresDSN cfg) of
        Inl err \<Rightarrow> Inl err
      | Inr poolConfig \<Rightarrow>
          (let poolConfig = poolConfig\<lparr>po_MaxConns := cfg_DBMaxConns cfg, po_MinConns := cfg_DBMinConns cfg,
             po_MaxConnIdleTime := cfg_DBMaxConnIdle cfg, po_MaxConnLifetime := cfg_DBMaxConnLife cfg\<rparr>
           in case pgxpool_NewWithConfig io poolConfig of
                Inl err \<Rightarrow> Inl err
              | Inr pool \<Rightarrow> (case pg_Ping pool d of Some err \<Rightarrow> Inl err | None \<Rightarrow> Inr pool)))"

definition NewRedisClient :: "('r, 'd) drivers \<Rightarrow> time \<Rightarrow> 'r \<Rightarrow> config \<Rightarrow> go_error + 'r redis_client" where
  "NewRedisClient io t r cfg =
     (let rdb = redis_NewClient io \<lparr>ro_Addr = cfg_RedisHost cfg @ '':'' @ cfg_RedisPort cfg,
        ro_Password = cfg_RedisPassword cfg, ro_DB = 0, ro_PoolSize = 50\<rparr>
      in case rd_Ping rdb t r of Some err \<Rightarrow> Inl err | None \<Rightarrow> Inr rdb)"

text \<open>The layers, wired: repositories, use cases, handlers, router.\<close>

definition service :: "(string \<Rightarrow> string) \<Rightarrow> packages \<Rightarrow> jwt_lib \<Rightarrow> 'd pgx_pool \<Rightarrow> 'r redis_client \<Rightarrow> key_manager \<Rightarrow>
    config \<Rightarrow> ('r, 'd) handler \<Rightarrow> ('r, 'd) handler" where
  "service getenv P J db rdb km cfg prom =
     (let authUC = auth_system getenv P J db rdb km cfg;
          userRepo = NewUserRepository db;
          authHandler = NewAuthHandler authUC km;
          userHandler = NewUserHandler userRepo P;
          healthHandler = NewHealthHandler db rdb;
          scimHandler = NewSCIMHandler userRepo P
      in NewRouter P J rdb km authHandler userHandler healthHandler scimHandler prom)"

definition server_main :: "(string \<Rightarrow> string) \<Rightarrow> packages \<Rightarrow> jwt_lib \<Rightarrow> key_readers \<Rightarrow> ('r, 'd) drivers \<Rightarrow>
    ('r, 'd) handler \<Rightarrow> time \<Rightarrow> 'r \<Rightarrow> 'd \<Rightarrow> go_error + ('r, 'd) handler" where
  "server_main getenv P J keys io prom t r d =
     (case config_Load getenv of
        Inl err \<Rightarrow> Inl err
      | Inr cfg \<Rightarrow>
          (case NewKeyManager keys (cfg_RSAPrivateKeyPath cfg) of
             Inl err \<Rightarrow> Inl err
           | Inr km \<Rightarrow>
               (case RunMigrations io cfg of
                  Some err \<Rightarrow> Inl err
                | None \<Rightarrow>
                    (case NewPostgresPool io d cfg of
                       Inl err \<Rightarrow> Inl err
                     | Inr db \<Rightarrow>
                         (case NewRedisClient io t r cfg of
                            Inl err \<Rightarrow> Inl err
                          | Inr rdb \<Rightarrow> Inr (service getenv P J db rdb km cfg prom))))))"

definition migrate_main :: "(string \<Rightarrow> string) \<Rightarrow> ('r, 'd) drivers \<Rightarrow> go_error option" where
  "migrate_main getenv io =
     (case config_Load getenv of
        Inl err \<Rightarrow> Some err
      | Inr cfg \<Rightarrow> RunMigrations io cfg)"

text \<open>A server that starts has a configuration, a key that belongs to it, and both stores.\<close>

lemma server_main_Inr:
  assumes "server_main getenv P J keys io prom t r d = Inr h"
  obtains cfg km db rdb where "config_Load getenv = Inr cfg" and "NewKeyManager keys (cfg_RSAPrivateKeyPath cfg) = Inr km"
    and "RunMigrations io cfg = None" and "NewPostgresPool io d cfg = Inr db" and "NewRedisClient io t r cfg = Inr rdb"
    and "h = service getenv P J db rdb km cfg prom"
  using assms by (auto simp: server_main_def split: sum.splits option.splits)

end
