(* ===== verification/Http_Laws.thy ===== *)
theory Http_Laws
  imports Startup
begin

text \<open>
  What the delivery layer guarantees: guarded handlers run only behind a valid token with the
  permission, no request makes the service panic, the pipeline keeps its books.
\<close>

section \<open>Handlers that always return\<close>

definition returns :: "('r, 'd, go_error + unit) serving \<Rightarrow> bool" where
  "returns m \<longleftrightarrow> (\<forall>s. result m s = Inr ())"

definition safe :: "('r, 'd) handler \<Rightarrow> bool" where
  "safe h \<longleftrightarrow> (\<forall>rq. returns (h rq))"

named_theorems returns_rules

lemma returns_ok [returns_rules]: "returns (ok ())"
  by (simp add: returns_def)

lemma returns_bind [returns_rules]: "(\<And>x. returns (f x)) \<Longrightarrow> returns (State_Monad.bind m f)"
  by (simp add: returns_def case_prod_unfold)

lemma returns_if [returns_rules]: "(b \<Longrightarrow> returns m) \<Longrightarrow> (\<not> b \<Longrightarrow> returns n) \<Longrightarrow> returns (if b then m else n)"
  by simp

lemma returns_sum [returns_rules]:
  "(\<And>e. x = Inl e \<Longrightarrow> returns (f e)) \<Longrightarrow> (\<And>a. x = Inr a \<Longrightarrow> returns (g a)) \<Longrightarrow>
     returns (case x of Inl e \<Rightarrow> f e | Inr a \<Rightarrow> g a)"
  by (simp split: sum.split)

lemma returns_option [returns_rules]:
  "(x = None \<Longrightarrow> returns f) \<Longrightarrow> (\<And>a. x = Some a \<Longrightarrow> returns (g a)) \<Longrightarrow>
     returns (case x of None \<Rightarrow> f | Some a \<Rightarrow> g a)"
  by (simp split: option.split)

lemma returns_prod [returns_rules]: "(\<And>a b. x = (a, b) \<Longrightarrow> returns (f a b)) \<Longrightarrow> returns (case x of (a, b) \<Rightarrow> f a b)"
  by (simp split: prod.split)

lemma returns_write [returns_rules]:
  "returns (WriteJSON c d m)" "returns (WriteError c t)" "returns (http_Error t c)" "returns (redirect_to p)"
  by (simp_all add: returns_def WriteJSON_def WriteError_def http_Error_def redirect_to_def case_prod_unfold)

lemma safeD: "safe h \<Longrightarrow> returns (h rq)"
  by (simp add: safe_def)

text \<open>Handlers that never look at the user of the context, or check that it is there.\<close>

lemma handlers_safe:
  "safe (h_Register ah)" "safe (h_Login ah)" "safe (h_VerifyMFA ah)" "safe (h_VerifyEmail ah)"
  "safe (h_PasswordResetRequest ah)" "safe (h_PasswordResetConfirm ah)" "safe (h_OAuthURL ah)"
  "safe (h_OAuthCallback ah)" "safe (h_Refresh ah)" "safe (h_Logout ah)" "safe (h_JWKS ah)"
  "safe (h_GetProfile uh)" "safe (h_ListUsers uh)" "safe (h_Healthz hh)" "safe (h_Readyz hh)"
  "safe (h_ServiceProviderConfig sh)" "safe (h_scim_ListUsers sh)" "safe (h_scim_CreateUser sh)"
  "safe (h_scim_GetUserByID sh)" "safe (h_scim_UpdateUserByID sh)" "safe (h_scim_DeleteUserByID sh)"
  unfolding safe_def h_Register_def h_Login_def h_VerifyMFA_def h_VerifyEmail_def
    h_PasswordResetRequest_def h_PasswordResetConfirm_def h_OAuthURL_def h_OAuthCallback_def h_Refresh_def
    h_Logout_def h_JWKS_def h_GetProfile_def h_ListUsers_def h_Healthz_def h_Readyz_def
    h_ServiceProviderConfig_def h_scim_ListUsers_def h_scim_CreateUser_def h_scim_GetUserByID_def
    h_scim_UpdateUserByID_def h_scim_DeleteUserByID_def Let_def
  by (intro allI returns_rules)+

lemma mfa_handlers_return:
  "rq_User rq \<noteq> None \<Longrightarrow> returns (h_SetupMFA ah rq)"
  "rq_User rq \<noteq> None \<Longrightarrow> returns (h_ConfirmMFASetup ah rq)"
  unfolding h_SetupMFA_def h_ConfirmMFASetup_def by (auto intro!: returns_rules)

text \<open>The mux returns when every route does, on the requests it passes on.\<close>

lemma find_route_set: "find_route m p rs = Some (r, vs) \<Longrightarrow> r \<in> set rs"
  by (induction rs) (auto split: if_splits option.splits)

lemma find_method_set: "find_method m p rs = Some (r, vs) \<Longrightarrow> r \<in> set rs"
  by (auto simp: find_method_def dest: find_route_set split: option.splits if_splits)

lemma mux_returns:
  assumes "\<And>r f. r \<in> set rs \<Longrightarrow> returns (rt_Handler r (rq\<lparr>rq_PathValue := f\<rparr>))"
  shows "returns (mux rs rq)"
  unfolding mux_def Let_def
  by (intro returns_rules) (auto intro: assms dest: find_method_set)

lemma guarded_returns:
  assumes "\<And>rq c. rq_User rq = Some c \<Longrightarrow> returns (h rq)"
  shows "returns (AuthMiddleware J km (RequirePermission p h) rq)"
  unfolding AuthMiddleware_def RequirePermission_def Let_def
  by (auto intro!: returns_rules assms split: list.split option.split)

lemma router_mux_returns:
  assumes "safe prom"
  shows "safe (mux (router_mux J km ah uh hh sh prom))"
  unfolding safe_def
proof (intro allI mux_returns)
  fix rq r f assume r: "r \<in> set (router_mux J km ah uh hh sh prom)"
  have p: "returns (AuthMiddleware J km (RequirePermission q (mux (profileMux ah uh))) rq')" for q rq'
    by (intro guarded_returns mux_returns)
      (auto simp: profileMux_def route_def safeD [OF handlers_safe(12)] mfa_handlers_return)
  have a: "returns (AuthMiddleware J km (RequirePermission q (mux (adminMux uh))) rq')" for q rq'
    by (intro guarded_returns mux_returns) (auto simp: adminMux_def route_def safeD [OF handlers_safe(13)])
  have s: "returns (AuthMiddleware J km (RequirePermission q (mux (scimMux sh))) rq')" for q rq'
    by (intro guarded_returns mux_returns) (auto simp: scimMux_def route_def handlers_safe safeD)
  from r p a s show "returns (rt_Handler r (rq\<lparr>rq_PathValue := f\<rparr>))"
    by (auto simp: router_mux_def public_routes_def route_def subtree_def handlers_safe assms safeD)
qed

text \<open>Logging and metrics pass a panic on, and cause none.\<close>

lemma returns_then:
  "returns m \<Longrightarrow> (\<And>x. returns (g x)) \<Longrightarrow>
     returns (do { r \<leftarrow> m; case r of Inl e \<Rightarrow> f e | Inr x \<Rightarrow> g x })"
  by (simp add: returns_def case_prod_unfold)

lemma middleware_safe:
  "safe h \<Longrightarrow> safe (TenantMiddleware P h)" "safe h \<Longrightarrow> safe (RateLimiter_Middleware rl h)"
  "safe h \<Longrightarrow> safe (CORSMiddleware h)" "safe h \<Longrightarrow> safe (TracingMiddleware P h)"
  "safe h \<Longrightarrow> safe (RequestIDMiddleware P h)"
  unfolding safe_def TenantMiddleware_def RateLimiter_Middleware_def CORSMiddleware_def
    TracingMiddleware_def RequestIDMiddleware_def Let_def
  by (auto intro!: returns_rules)

lemma logger_safe: "safe h \<Longrightarrow> safe (LoggerMiddleware h)"
  unfolding safe_def LoggerMiddleware_def
  by (intro allI returns_bind returns_then [of "h _"]) (auto intro!: returns_rules)

lemma metrics_safe: "safe h \<Longrightarrow> safe (MetricsMiddleware h)"
  unfolding safe_def MetricsMiddleware_def
  by (intro allI returns_bind returns_then [of "h _"]) (auto intro!: returns_rules)

lemma pipeline_safe: "safe h \<Longrightarrow> safe (pipeline P rdb h)"
  unfolding pipeline_def by (intro middleware_safe logger_safe metrics_safe)

section \<open>The guard\<close>

lemma run_in_world: "run_state (in_world m) s = (case run_state m (sv_World s) of (x, w') \<Rightarrow> (x, s\<lparr>sv_World := w'\<rparr>))"
  by (simp add: in_world_def)

lemma run_WriteError:
  "run_state (WriteError code msg) s = (Inr (), s\<lparr>sv_Status := code, sv_Writer :=
     wr_Write (JsonBody (json_envelope \<lparr>re_Success = False, re_Message = '''', re_Data = None, re_Error = msg\<rparr>))
       (wr_WriteHeader code (wr_Set ''Content-Type'' ''application/json; charset=utf-8'' (sv_Writer s)))\<rparr>)"
  by (simp add: WriteError_def Header_Set_def WriteHeader_def Encode_def respond_def)

lemma run_WriteJSON:
  "run_state (WriteJSON code d msg) s = (Inr (), s\<lparr>sv_Status := code, sv_Writer :=
     wr_Write (JsonBody (json_envelope \<lparr>re_Success = (200 \<le> code \<and> code < 300), re_Message = msg, re_Data = d, re_Error = ''''\<rparr>))
       (wr_WriteHeader code (wr_Set ''Content-Type'' ''application/json; charset=utf-8'' (sv_Writer s)))\<rparr>)"
  by (simp add: WriteJSON_def Header_Set_def WriteHeader_def Encode_def respond_def)

text \<open>The status a response went out with, if it has.\<close>

definition sent_status :: "('r, 'd) server \<Rightarrow> int option" where
  "sent_status s = map_option fst (wr_Sent (sv_Writer s))"

lemma sent_status_write:
  "wr_Sent (sv_Writer s) = None \<Longrightarrow> sent_status (after (WriteError code msg) s) = Some code"
  "wr_Sent (sv_Writer s) = None \<Longrightarrow> sent_status (after (WriteJSON code d msg) s) = Some code"
  by (simp_all add: run_WriteError run_WriteJSON sent_status_def wr_Write_def wr_WriteHeader_def wr_Set_def Let_def)

text \<open>The token that a request presents: the header \<open>Authorization: Bearer token\<close>.\<close>

definition bearer :: "request \<Rightarrow> string \<Rightarrow> bool" where
  "bearer rq tok \<longleftrightarrow> SplitN2 CHR '' '' (rq_Header rq ''Authorization'') = [''Bearer'', tok]"

text \<open>A request is refused, or it carries a valid token whose role has the permission.\<close>

definition refused :: "('r, 'd) server \<Rightarrow> ('r, 'd) server \<Rightarrow> bool" where
  "refused s s' \<longleftrightarrow> sent_status s' \<in> {Some 401, Some 403} \<and> w_db (sv_World s') = w_db (sv_World s) \<and>
     w_redis (sv_World s') = w_redis (sv_World s) \<and> w_mails (sv_World s') = w_mails (sv_World s)"

definition authorized :: "jwt_lib \<Rightarrow> key_manager \<Rightarrow> request \<Rightarrow> permission \<Rightarrow> ('r, 'd) server \<Rightarrow> bool" where
  "authorized J km rq p s \<longleftrightarrow> (\<exists>tok claims w1. bearer rq tok \<and>
     run_state (ValidateAccessToken J km tok) (sv_World s) = (Inr claims, w1) \<and> HasPermission (cl_Role claims) p)"

lemma refused_write:
  assumes "wr_Sent (sv_Writer s) = None" "code = 401 \<or> code = 403" "w_db w0 = w_db (sv_World s)"
    "w_redis w0 = w_redis (sv_World s)" "w_mails w0 = w_mails (sv_World s)"
  shows "refused s (after (WriteError code msg) (s\<lparr>sv_World := w0\<rparr>))"
proof -
  have "wr_Sent (sv_Writer (s\<lparr>sv_World := w0\<rparr>)) = None" using assms(1) by simp
  from sent_status_write(1) [OF this, of code msg] assms(2-) show ?thesis
    by (auto simp: refused_def run_WriteError)
qed

lemma guarded_cases:
  assumes unsent: "wr_Sent (sv_Writer s) = None"
    and run: "run_state (AuthMiddleware J km (RequirePermission p h) rq) s = (r, s')"
  shows "refused s s' \<or> authorized J km rq p s"
proof (cases "\<exists>tok. bearer rq tok")
  case False
  define a where "a = rq_Header rq ''Authorization''"
  have "\<exists>msg. run_state (AuthMiddleware J km (RequirePermission p h) rq) s = run_state (WriteError 401 msg) (s\<lparr>sv_World := sv_World s\<rparr>)"
    using False unfolding AuthMiddleware_def bearer_def a_def [symmetric] Let_def
    by (auto split: list.split)
  then show ?thesis using refused_write [OF unsent, of 401 "sv_World s"] run by (metis snd_conv)
next
  case True
  then obtain tok where tok: "bearer rq tok" ..
  obtain v w1 where val: "run_state (ValidateAccessToken J km tok) (sv_World s) = (v, w1)" by fastforce
  have ne: "rq_Header rq ''Authorization'' \<noteq> ''''" using tok by (auto simp: bearer_def)
  have same: "w_db w1 = w_db (sv_World s)" "w_redis w1 = w_redis (sv_World s)" "w_mails w1 = w_mails (sv_World s)"
    using db_frame.frame_runD [OF ValidateAccessToken_frames(1) val] redis_frame.frame_runD [OF ValidateAccessToken_frames(2) val]
      mail_frame.frame_runD [OF ValidateAccessToken_frames(4) val] .
  have step: "run_state (AuthMiddleware J km (RequirePermission p h) rq) s =
      (case v of Inl err \<Rightarrow> run_state (WriteError 401 ''invalid or expired token'') (s\<lparr>sv_World := w1\<rparr>)
       | Inr claims \<Rightarrow> run_state (RequirePermission p h (rq\<lparr>rq_User := Some claims\<rparr>)) (s\<lparr>sv_World := w1\<rparr>))"
    using tok ne val by (simp add: AuthMiddleware_def bearer_def run_in_world Let_def split: sum.split)
  show ?thesis
  proof (cases v)
    case (Inl err)
    with step run refused_write [OF unsent, of 401 w1] same show ?thesis by (metis old.sum.simps(5) snd_conv)
  next
    case (Inr claims)
    show ?thesis
    proof (cases "HasPermission (cl_Role claims) p")
      case True
      with tok val Inr show ?thesis by (auto simp: authorized_def)
    next
      case False
      with step run Inr refused_write [OF unsent, of 403 w1] same show ?thesis
        by (simp add: RequirePermission_def) (metis snd_conv)
    qed
  qed
qed

text \<open>Only administrators manage the system.\<close>

lemma HasPermission_manage: "HasPermission r PermissionManageSystem \<longleftrightarrow> r = RoleAdmin"
  by (auto simp: HasPermission_def RolePermissions_def permission_defs RoleAdmin_def RoleUser_def)

section \<open>Where the mux sends the protected paths\<close>

lemma length_Split: "length (Split c s) = Suc (length (filter (\<lambda>d. d = c) s))"
  by (induction c s rule: Split.induct) (auto simp: neq_Nil_conv split: list.splits)

text \<open>Paths below \<open>/api/v1/admin/\<close> and \<open>/scim/v2/\<close>.\<close>

definition admin_path :: "string \<Rightarrow> bool" where
  "admin_path p \<longleftrightarrow> match_segments (api [''admin''] @ [Multi]) (path_segments p) \<noteq> None"

definition scim_path :: "string \<Rightarrow> bool" where
  "scim_path p \<longleftrightarrow> match_segments (scim [] @ [Multi]) (path_segments p) \<noteq> None"

lemma match_Lit:
  "match_segments (Lit l # ps) ss \<noteq> None \<longleftrightarrow>
     (\<exists>s ss'. ss = s # ss' \<and> pathUnescape s = l \<and> match_segments ps ss' \<noteq> None)"
  by (cases ss) auto

lemma match_Multi: "match_segments [Multi] ss \<noteq> None \<longleftrightarrow> (\<exists>s ss'. ss = s # ss')"
  by (cases ss) auto

lemma admin_path_segments:
  "admin_path p \<Longrightarrow> \<exists>a b c d ss. path_segments p = a # b # c # d # ss \<and> pathUnescape a = ''api'' \<and>
     pathUnescape b = ''v1'' \<and> pathUnescape c = ''admin''"
  unfolding admin_path_def api_def append_Cons append_Nil list.map match_Lit match_Multi by metis

lemma scim_path_segments:
  "scim_path p \<Longrightarrow> \<exists>a b c ss. path_segments p = a # b # c # ss \<and> pathUnescape a = ''scim'' \<and> pathUnescape b = ''v2''"
  unfolding scim_path_def scim_def append_Cons append_Nil list.map match_Lit match_Multi by metis

lemma Split_snoc: "Split c (s @ [c]) = Split c s @ [[]]"
  by (induction c s rule: Split.induct) (auto split: list.splits)

lemma path_segments_snoc: "path_segments (p @ ''/'') = path_segments p @ ['''']"
  by (simp add: path_segments_def Split_snoc)

lemma length_path_segments: "length (filter (\<lambda>c. c = CHR ''/'') p) = length (path_segments p)"
  by (simp add: path_segments_def length_Split)

text \<open>No other route takes them, whatever the method, and they are not redirected.\<close>

lemma find_admin:
  assumes "path_segments p = a # b # c # d # ss" "pathUnescape a = ''api''" "pathUnescape b = ''v1''" "pathUnescape c = ''admin''"
  shows "find_method m p (router_mux J km ah uh hh sh prom) = Some (subtree (api [''admin''])
        (AuthMiddleware J km (RequirePermission PermissionManageSystem (mux (adminMux uh)))), [])"
  using assms by (simp add: find_method_def router_mux_def public_routes_def route_def subtree_def api_def scim_def)

lemma find_scim:
  assumes "path_segments p = a # b # c # ss" "pathUnescape a = ''scim''" "pathUnescape b = ''v2''"
  shows "find_method m p (router_mux J km ah uh hh sh prom) = Some (subtree (scim [])
        (AuthMiddleware J km (RequirePermission PermissionManageSystem (mux (scimMux sh)))), [])"
  using assms by (simp add: find_method_def router_mux_def public_routes_def route_def subtree_def api_def scim_def)

lemma mux_protected:
  assumes "cleanPath (rq_Path rq) = rq_Path rq"
  shows "admin_path (rq_Path rq) \<Longrightarrow> mux (router_mux J km ah uh hh sh prom) rq =
      AuthMiddleware J km (RequirePermission PermissionManageSystem (mux (adminMux uh))) (rq\<lparr>rq_PathValue := \<lambda>k. ''''\<rparr>)"
    and "scim_path (rq_Path rq) \<Longrightarrow> mux (router_mux J km ah uh hh sh prom) rq =
      AuthMiddleware J km (RequirePermission PermissionManageSystem (mux (scimMux sh))) (rq\<lparr>rq_PathValue := \<lambda>k. ''''\<rparr>)"
proof -
  let ?p = "rq_Path rq" and ?rs = "router_mux J km ah uh hh sh prom"
  have path: "(if rq_Method rq = ''CONNECT'' then rq_Path rq else cleanPath (rq_Path rq)) = ?p" using assms by simp
  show "mux ?rs rq = AuthMiddleware J km (RequirePermission PermissionManageSystem (mux (adminMux uh))) (rq\<lparr>rq_PathValue := \<lambda>k. ''''\<rparr>)"
    if "admin_path ?p"
  proof -
    from admin_path_segments [OF that] obtain a b c d ss where s: "path_segments ?p = a # b # c # d # ss"
      "pathUnescape a = ''api''" "pathUnescape b = ''v1''" "pathUnescape c = ''admin''" by blast
    have snoc: "path_segments (?p @ ''/'') = a # b # c # d # (ss @ [''''])" by (simp only: path_segments_snoc s append_Cons)
    have n: "\<not> exactMatch (Some (subtree (api [''admin'']) h)) (?p @ ''/'')" for h :: "('a, 'b) handler"
      unfolding exactMatch_def length_path_segments snoc by (simp add: subtree_def api_def)
    show ?thesis
      unfolding mux_def Let_def path find_admin [OF s] find_admin [OF snoc s(2-)] option.map fst_conv
      using n by (simp add: subtree_def)
  qed
  show "mux ?rs rq = AuthMiddleware J km (RequirePermission PermissionManageSystem (mux (scimMux sh))) (rq\<lparr>rq_PathValue := \<lambda>k. ''''\<rparr>)"
    if "scim_path ?p"
  proof -
    from scim_path_segments [OF that] obtain a b c ss where s: "path_segments ?p = a # b # c # ss"
      "pathUnescape a = ''scim''" "pathUnescape b = ''v2''" by blast
    have snoc: "path_segments (?p @ ''/'') = a # b # c # (ss @ [''''])" by (simp only: path_segments_snoc s append_Cons)
    have n: "\<not> exactMatch (Some (subtree (scim []) h)) (?p @ ''/'')" for h :: "('a, 'b) handler"
      unfolding exactMatch_def length_path_segments snoc by (simp add: subtree_def scim_def)
    show ?thesis
      unfolding mux_def Let_def path find_scim [OF s] find_scim [OF snoc s(2-)] option.map fst_conv
      using n by (simp add: subtree_def)
  qed
qed

lemma protected_needs_admin:
  assumes "cleanPath (rq_Path rq) = rq_Path rq" "admin_path (rq_Path rq) \<or> scim_path (rq_Path rq)"
    and "wr_Sent (sv_Writer s) = None" "run_state (mux (router_mux J km ah uh hh sh prom) rq) s = (r, s')"
  shows "refused s s' \<or> authorized J km rq PermissionManageSystem s"
proof -
  have "authorized J km (rq\<lparr>rq_PathValue := f\<rparr>) q s = authorized J km rq q s" for f q
    by (simp add: authorized_def bearer_def)
  then show ?thesis
    using assms(2,4) guarded_cases [OF assms(3), of J km PermissionManageSystem] mux_protected [OF assms(1)] by metis
qed

lemma service_safe: "safe prom \<Longrightarrow> safe (service getenv P J db rdb km cfg prom)"
  unfolding service_def NewRouter_def Let_def by (intro pipeline_safe router_mux_returns)

end
