(* ===== verification/Service_Frames.thy ===== *)
theory Service_Frames
  imports Http_Laws
begin

text \<open>
  From the calls of the use cases to the whole service. A frame relation on worlds that every call of a
  use case respects is respected by every handler, every route and every middleware, so by a request to
  the service; the steps that concern the response only do not touch the world.
\<close>

section \<open>A relation on worlds, seen from the server\<close>

definition on_world :: "(('r, 'd) world \<Rightarrow> ('r, 'd) world \<Rightarrow> bool) \<Rightarrow> ('r, 'd) server \<Rightarrow> ('r, 'd) server \<Rightarrow> bool" where
  "on_world R s s' \<longleftrightarrow> R (sv_World s) (sv_World s')"

lemma on_world_in: "state_io_rel R m \<Longrightarrow> state_io_rel (on_world R) (in_world m)"
  by (simp add: state_io_rel_def on_world_def in_world_def case_prod_unfold)

section \<open>The interface\<close>

locale service_frame = frame R for R :: "('r, 'd) world \<Rightarrow> ('r, 'd) world \<Rightarrow> bool" +
  fixes getenv :: "string \<Rightarrow> string" and P :: packages and J :: jwt_lib and db :: "'d pgx_pool"
    and rdb :: "'r redis_client" and km :: key_manager and cfg :: config
  assumes prims: "state_io_rel R time_Now" "state_io_rel R uuid_New" "state_io_rel R (redis_do (rateLimitScript c k n s))"
      "state_io_rel R (redis_do (\<lambda>t r. (rd_Ping c t r, r)))"
      "state_io_rel R (ValidateAccessToken J km t)"
    and auth_calls:
      "state_io_rel R (Register (auth_system getenv P J db rdb km cfg) i e p ip)"
      "state_io_rel R (Login (auth_system getenv P J db rdb km cfg) i e p ip)"
      "state_io_rel R (VerifyMFAChallenge (auth_system getenv P J db rdb km cfg) tok code ip)"
      "state_io_rel R (SetupMFA (auth_system getenv P J db rdb km cfg) i)"
      "state_io_rel R (ConfirmMFASetup (auth_system getenv P J db rdb km cfg) i code)"
      "state_io_rel R (ConfirmEmailVerification (auth_system getenv P J db rdb km cfg) tok)"
      "state_io_rel R (RequestPasswordReset (auth_system getenv P J db rdb km cfg) i e)"
      "state_io_rel R (ConfirmPasswordReset (auth_system getenv P J db rdb km cfg) tok p)"
      "state_io_rel R (OAuthLoginURL (auth_system getenv P J db rdb km cfg) prov)"
      "state_io_rel R (HandleOAuthCallback (auth_system getenv P J db rdb km cfg) i prov code st ip)"
      "state_io_rel R (RefreshToken (auth_system getenv P J db rdb km cfg) tok ip)"
      "state_io_rel R (Logout (auth_system getenv P J db rdb km cfg) tok ip)"
    and user_calls:
      "state_io_rel R (GetProfile (NewUserRepository db) i)" "state_io_rel R (ListUsers (NewUserRepository db) i pq)"
      "state_io_rel R (scim_ListUsers P (NewUserRepository db) i pq)"
      "state_io_rel R (scim_CreateUser P (NewUserRepository db) i q)"
      "state_io_rel R (scim_GetUser P (NewUserRepository db) i)"
      "state_io_rel R (scim_UpdateUser P (NewUserRepository db) i q)"
      "state_io_rel R (scim_DeleteUser (NewUserRepository db) i)"

sublocale service_frame \<subseteq> server: frame "on_world R"
  by unfold_locales (auto simp: on_world_def intro: frame_refl frame_trans)

section \<open>Handlers, routes and middlewares\<close>

context service_frame
begin

lemma writes_ok: "(\<And>s. sv_World (f s) = sv_World s) \<Longrightarrow> state_io_rel (on_world R) (writes f)"
  by (simp add: state_io_rel_def on_world_def frame_refl)

lemma respond_ok:
  "state_io_rel (on_world R) (Header_Set k v)" "state_io_rel (on_world R) (WriteHeader c)" "state_io_rel (on_world R) (Encode j)"
  "state_io_rel (on_world R) (WriteError c t)" "state_io_rel (on_world R) (WriteJSON c d t)"
  "state_io_rel (on_world R) (http_Error t c)" "state_io_rel (on_world R) (redirect_to p)"
  unfolding WriteError_def WriteJSON_def http_Error_def redirect_to_def Header_Set_def WriteHeader_def Encode_def respond_def
  by (intro server.frame_rules writes_ok; simp)+

lemmas call_rules = server.frame_rules respond_ok on_world_in prims reads_frame auth_calls user_calls

lemma handlers_ok:
  assumes "ah = \<lparr>ah_authUC = auth_system getenv P J db rdb km cfg, ah_keyManager = km\<rparr>"
    "uh = \<lparr>uh_userRepo = NewUserRepository db, uh_packages = P\<rparr>" "sh = \<lparr>sh_userRepo = NewUserRepository db, sh_packages = P\<rparr>"
  shows "state_io_rel (on_world R) (h_Register ah rq)" "state_io_rel (on_world R) (h_Login ah rq)"
    "state_io_rel (on_world R) (h_VerifyMFA ah rq)" "state_io_rel (on_world R) (h_VerifyEmail ah rq)"
    "state_io_rel (on_world R) (h_SetupMFA ah rq)" "state_io_rel (on_world R) (h_ConfirmMFASetup ah rq)"
    "state_io_rel (on_world R) (h_PasswordResetRequest ah rq)" "state_io_rel (on_world R) (h_PasswordResetConfirm ah rq)"
    "state_io_rel (on_world R) (h_OAuthURL ah rq)" "state_io_rel (on_world R) (h_OAuthCallback ah rq)"
    "state_io_rel (on_world R) (h_Refresh ah rq)" "state_io_rel (on_world R) (h_Logout ah rq)"
    "state_io_rel (on_world R) (h_JWKS ah rq)" "state_io_rel (on_world R) (h_GetProfile uh rq)"
    "state_io_rel (on_world R) (h_ListUsers uh rq)" "state_io_rel (on_world R) (h_Healthz hh rq)"
    "state_io_rel (on_world R) (h_Readyz hh rq)" "state_io_rel (on_world R) (h_ServiceProviderConfig sh rq)"
    "state_io_rel (on_world R) (h_scim_ListUsers sh rq)" "state_io_rel (on_world R) (h_scim_CreateUser sh rq)"
    "state_io_rel (on_world R) (h_scim_GetUserByID sh rq)" "state_io_rel (on_world R) (h_scim_UpdateUserByID sh rq)"
    "state_io_rel (on_world R) (h_scim_DeleteUserByID sh rq)"
  unfolding assms h_Register_def h_Login_def h_VerifyMFA_def h_VerifyEmail_def h_SetupMFA_def h_ConfirmMFASetup_def
    h_PasswordResetRequest_def h_PasswordResetConfirm_def h_OAuthURL_def h_OAuthCallback_def h_Refresh_def
    h_Logout_def h_JWKS_def h_GetProfile_def h_ListUsers_def h_Healthz_def h_Readyz_def
    h_ServiceProviderConfig_def h_scim_ListUsers_def h_scim_CreateUser_def h_scim_GetUserByID_def
    h_scim_UpdateUserByID_def h_scim_DeleteUserByID_def Let_def auth_handler.simps user_handler.simps scim_handler.simps
  by (intro call_rules)+

lemma mux_ok:
  assumes "\<And>r rq. r \<in> set rs \<Longrightarrow> state_io_rel (on_world R) (rt_Handler r rq)"
  shows "state_io_rel (on_world R) (mux rs rq)"
  unfolding mux_def Let_def
  by (intro call_rules) (auto intro: assms dest: find_method_set)

lemma guard_ok:
  assumes "\<And>rq. state_io_rel (on_world R) (h rq)"
  shows "state_io_rel (on_world R) (AuthMiddleware J km (RequirePermission p h) rq)"
  unfolding AuthMiddleware_def RequirePermission_def Let_def
  by (auto intro!: call_rules assms split: list.split option.split)

lemma middleware_ok:
  assumes "\<And>rq. state_io_rel (on_world R) (h rq)"
  shows "state_io_rel (on_world R) (TenantMiddleware P h rq)" "state_io_rel (on_world R) (RateLimiter_Middleware rl h rq)"
    "state_io_rel (on_world R) (CORSMiddleware h rq)" "state_io_rel (on_world R) (TracingMiddleware P h rq)"
    "state_io_rel (on_world R) (RequestIDMiddleware P h rq)" "state_io_rel (on_world R) (LoggerMiddleware h rq)"
    "state_io_rel (on_world R) (MetricsMiddleware h rq)"
  unfolding TenantMiddleware_def RateLimiter_Middleware_def CORSMiddleware_def TracingMiddleware_def
    RequestIDMiddleware_def LoggerMiddleware_def MetricsMiddleware_def Let_def
  by (intro call_rules writes_ok assms; simp)+

lemma service_ok:
  assumes prom: "\<And>rq. state_io_rel (on_world R) (prom rq)"
  shows "state_io_rel (on_world R) (service getenv P J db rdb km cfg prom rq)"
proof -
  let ?ah = "\<lparr>ah_authUC = auth_system getenv P J db rdb km cfg, ah_keyManager = km\<rparr>"
  let ?uh = "\<lparr>uh_userRepo = NewUserRepository db, uh_packages = P\<rparr>" and ?hh = "\<lparr>hh_db = db, hh_rdb = rdb\<rparr>"
  let ?sh = "\<lparr>sh_userRepo = NewUserRepository db, sh_packages = P\<rparr>"
  note H = handlers_ok [OF refl refl refl]
  have p: "state_io_rel (on_world R) (AuthMiddleware J km (RequirePermission q (mux (profileMux ?ah ?uh))) rq)" for q rq
    by (intro guard_ok mux_ok) (auto simp: profileMux_def route_def H)
  have a: "state_io_rel (on_world R) (AuthMiddleware J km (RequirePermission q (mux (adminMux ?uh))) rq)" for q rq
    by (intro guard_ok mux_ok) (auto simp: adminMux_def route_def H)
  have s: "state_io_rel (on_world R) (AuthMiddleware J km (RequirePermission q (mux (scimMux ?sh))) rq)" for q rq
    by (intro guard_ok mux_ok) (auto simp: scimMux_def route_def H)
  have "state_io_rel (on_world R) (mux (router_mux J km ?ah ?uh ?hh ?sh prom) rq)" for rq
    by (rule mux_ok) (auto simp: router_mux_def public_routes_def route_def subtree_def H p a s prom)
  then show ?thesis
    unfolding service_def NewRouter_def pipeline_def Let_def NewAuthHandler_def NewUserHandler_def NewHealthHandler_def NewSCIMHandler_def
    by (intro middleware_ok)
qed

text \<open>Any number of requests.\<close>

lemma requests_ok:
  assumes "\<And>rq. state_io_rel (on_world R) (prom rq)"
  shows "R (sv_World s) (sv_World (fold (\<lambda>rq s. after (service getenv P J db rdb km cfg prom rq) s) rqs s))"
proof (induction rqs arbitrary: s)
  case (Cons rq rqs)
  have "R (sv_World s) (sv_World (after (service getenv P J db rdb km cfg prom rq) s))"
    using server.frameD [OF service_ok [OF assms]] by (simp add: on_world_def)
  then show ?case using Cons [of "after (service getenv P J db rdb km cfg prom rq) s"] frame_trans by simp
qed (simp add: frame_refl)

end

end
