(* ===== verification/Service_Laws.thy ===== *)
theory Service_Laws
  imports Service_Frames
begin

text \<open>
  The whole service, from the outermost middleware to the stores: what a request on a protected path can
  change, how each request is answered, logged and counted, and what is never taken back. Each law is a
  predicate on handlers that every middleware preserves.
\<close>

section \<open>Protected paths\<close>

definition protected_path :: "request \<Rightarrow> bool" where
  "protected_path rq \<longleftrightarrow> cleanPath (rq_Path rq) = rq_Path rq \<and> (admin_path (rq_Path rq) \<or> scim_path (rq_Path rq))"

text \<open>The request carries a token that is valid at some moment of the call, of a role with the permission.\<close>

definition admitted :: "jwt_lib \<Rightarrow> key_manager \<Rightarrow> request \<Rightarrow> permission \<Rightarrow> ('r, 'd) server \<Rightarrow> bool" where
  "admitted J km rq p s \<longleftrightarrow> (\<exists>tok claims w0 w1. bearer rq tok \<and> w_clock (sv_World s) \<le> w_clock w0 \<and>
     run_state (ValidateAccessToken J km tok) w0 = (Inr claims, w1 :: ('r, 'd) world) \<and> HasPermission (cl_Role claims) p)"

text \<open>Nothing is changed or told: no user, no mail, and whatever is written is an error message.\<close>

definition error_body :: "body \<Rightarrow> bool" where
  "error_body b \<longleftrightarrow> (\<exists>msg. b = JsonBody (json_envelope \<lparr>re_Success = False, re_Message = '''', re_Data = None, re_Error = msg\<rparr>))"

definition untouched :: "('r, 'd) server \<Rightarrow> ('r, 'd) server \<Rightarrow> bool" where
  "untouched s s' \<longleftrightarrow> w_db (sv_World s') = w_db (sv_World s) \<and> w_mails (sv_World s') = w_mails (sv_World s) \<and>
     w_clock (sv_World s) \<le> w_clock (sv_World s') \<and>
     (\<exists>bs. wr_Body (sv_Writer s') = wr_Body (sv_Writer s) @ bs \<and> (\<forall>b \<in> set bs. error_body b))"

interpretation untouched: frame untouched
proof (unfold_locales, goal_cases)
  case (2 s t u)
  then obtain bs cs where "wr_Body (sv_Writer t) = wr_Body (sv_Writer s) @ bs" "\<forall>b \<in> set bs. error_body b"
    "wr_Body (sv_Writer u) = wr_Body (sv_Writer t) @ cs" "\<forall>b \<in> set cs. error_body b"
    unfolding untouched_def by blast
  then have "wr_Body (sv_Writer u) = wr_Body (sv_Writer s) @ (bs @ cs)" "\<forall>b \<in> set (bs @ cs). error_body b" by auto
  then have "\<exists>bs. wr_Body (sv_Writer u) = wr_Body (sv_Writer s) @ bs \<and> (\<forall>b \<in> set bs. error_body b)" by blast
  moreover have "w_db (sv_World u) = w_db (sv_World s) \<and> w_mails (sv_World u) = w_mails (sv_World s) \<and>
      w_clock (sv_World s) \<le> w_clock (sv_World u)" using 2 by (auto simp: untouched_def)
  ultimately show ?case unfolding untouched_def by blast
qed (simp add: untouched_def)

lemmas [frames] = untouched.frame_rules

lemma untouched_world:
  assumes "state_io_rel (\<lambda>w w'. w_db w' = w_db w) m" "state_io_rel (\<lambda>w w'. w_mails w' = w_mails w) m"
    "state_io_rel (\<lambda>w w'. w_clock w \<le> w_clock w') m"
  shows "state_io_rel untouched (in_world m)"
  using assms by (simp add: state_io_rel_def untouched_def in_world_def case_prod_unfold)

lemma redis_do_mails: "state_io_rel (\<lambda>w w'. w_mails w' = w_mails w) (redis_do f)"
  by (simp add: state_io_rel_def redis_do_def time_Now_def Let_def split_beta)

lemma untouched_prims [frames]:
  "state_io_rel untouched (in_world uuid_New)" "state_io_rel untouched (in_world time_Now)"
  "state_io_rel untouched (in_world (redis_do f))" "state_io_rel untouched (in_world (ValidateAccessToken J km t))"
  by (rule untouched_world; intro frames redis_do_mails)+

lemma untouched_writes [frames]:
  "(\<And>s. sv_World (f s) = sv_World s \<and> wr_Body (sv_Writer (f s)) = wr_Body (sv_Writer s)) \<Longrightarrow>
     state_io_rel untouched (writes f)"
  by (simp add: state_io_rel_def untouched_def)

lemma wr_Body_steps [simp]: "wr_Body (wr_Set k v wr) = wr_Body wr" "wr_Body (wr_WriteHeader c wr) = wr_Body wr"
  "wr_Body (wr_Write b wr) = wr_Body wr @ [b]"
  by (simp_all add: wr_Set_def wr_WriteHeader_def wr_Write_def Let_def split: option.split)

lemma untouched_respond [frames]:
  "state_io_rel untouched (Header_Set k v)" "state_io_rel untouched (WriteHeader c)"
  "state_io_rel untouched (WriteError c t)"
  by (auto simp: Header_Set_def WriteHeader_def WriteError_def Encode_def respond_def state_io_rel_def untouched_def error_body_def)

text \<open>A step that touches nothing, then a guarded rest.\<close>

definition shut_run :: "jwt_lib \<Rightarrow> key_manager \<Rightarrow> request \<Rightarrow> ('r, 'd, 'a) serving \<Rightarrow> bool" where
  "shut_run J km rq m \<longleftrightarrow> (\<forall>s. untouched s (after m s) \<or> admitted J km rq PermissionManageSystem s)"

definition shut :: "jwt_lib \<Rightarrow> key_manager \<Rightarrow> ('r, 'd) handler \<Rightarrow> bool" where
  "shut J km h \<longleftrightarrow> (\<forall>rq. protected_path rq \<longrightarrow> shut_run J km rq (h rq))"

lemma admitted_later: "admitted J km rq p s' \<Longrightarrow> untouched s s' \<Longrightarrow> admitted J km rq p s"
  unfolding admitted_def untouched_def by (meson order_trans)

lemma shut_step:
  assumes "state_io_rel untouched m" "\<And>x. shut_run J km rq (k x)"
  shows "shut_run J km rq (State_Monad.bind m k)"
  unfolding shut_run_def
proof
  fix s
  have 1: "untouched s (after m s)" using assms(1) by (simp add: state_io_rel_def)
  from assms(2) [of "result m s"] have "untouched (after m s) (after (k (result m s)) (after m s)) \<or>
      admitted J km rq PermissionManageSystem (after m s)" by (simp add: shut_run_def)
  then show "untouched s (after (State_Monad.bind m k) s) \<or> admitted J km rq PermissionManageSystem s"
    using 1 untouched.frame_trans admitted_later unfolding after_bind by blast
qed

lemma shut_rest:
  assumes "shut_run J km rq m" "\<And>x. state_io_rel untouched (k x)"
  shows "shut_run J km rq (State_Monad.bind m k)"
  unfolding shut_run_def
proof
  fix s
  have "untouched (after m s) (after (k (result m s)) (after m s))" using assms(2) by (simp add: state_io_rel_def)
  with assms(1) show "untouched s (after (State_Monad.bind m k) s) \<or> admitted J km rq PermissionManageSystem s"
    unfolding after_bind shut_run_def using untouched.frame_trans by blast
qed

lemma shut_still: "state_io_rel untouched m \<Longrightarrow> shut_run J km rq m"
  by (simp add: shut_run_def state_io_rel_def)

lemma shut_if: "(b \<Longrightarrow> shut_run J km rq m) \<Longrightarrow> (\<not> b \<Longrightarrow> shut_run J km rq n) \<Longrightarrow> shut_run J km rq (if b then m else n)"
  by simp

text \<open>The context that the middlewares add does not matter to the guard.\<close>

lemma protected_context [simp]:
  "protected_path (rq\<lparr>rq_RequestID := a\<rparr>) = protected_path rq" "protected_path (rq\<lparr>rq_TraceID := a\<rparr>) = protected_path rq"
  "protected_path (rq\<lparr>rq_Tenant := t\<rparr>) = protected_path rq" "protected_path (rq\<lparr>rq_PathValue := f\<rparr>) = protected_path rq"
  by (simp_all add: protected_path_def)

lemma shut_context [simp]:
  "shut_run J km (rq\<lparr>rq_RequestID := a\<rparr>) m = shut_run J km rq m" "shut_run J km (rq\<lparr>rq_TraceID := a\<rparr>) m = shut_run J km rq m"
  "shut_run J km (rq\<lparr>rq_Tenant := t\<rparr>) m = shut_run J km rq m" "shut_run J km (rq\<lparr>rq_PathValue := f\<rparr>) m = shut_run J km rq m"
  by (simp_all add: shut_run_def admitted_def bearer_def)

lemma quiet_error: "untouched s (after (WriteError c t) s)"
  using untouched.frameD [OF untouched_respond(3)] .

lemma shut_guard: "shut_run J km rq (AuthMiddleware J km (RequirePermission PermissionManageSystem h) rq)"
  unfolding shut_run_def
proof
  fix s
  show "untouched s (after (AuthMiddleware J km (RequirePermission PermissionManageSystem h) rq) s) \<or>
      admitted J km rq PermissionManageSystem s"
  proof (cases "\<exists>tok. bearer rq tok")
    case False
    then have "\<exists>msg. AuthMiddleware J km (RequirePermission PermissionManageSystem h) rq = WriteError 401 msg"
      unfolding AuthMiddleware_def bearer_def Let_def by (auto split: list.split)
    then show ?thesis using quiet_error by metis
  next
    case True
    then obtain tok where tok: "bearer rq tok" ..
    then have ne: "rq_Header rq ''Authorization'' \<noteq> ''''" by (auto simp: bearer_def)
    let ?v = "in_world (ValidateAccessToken J km tok)"
    obtain v w1 where val: "run_state (ValidateAccessToken J km tok) (sv_World s) = (v, w1)" by fastforce
    have 1: "untouched s (after ?v s)" by (rule untouched.frameD [OF untouched_prims(4)])
    have step: "after (AuthMiddleware J km (RequirePermission PermissionManageSystem h) rq) s =
        after (case v of Inl err \<Rightarrow> WriteError 401 ''invalid or expired token''
          | Inr claims \<Rightarrow> RequirePermission PermissionManageSystem h (rq\<lparr>rq_User := Some claims\<rparr>)) (after ?v s)"
      using tok ne val by (simp add: AuthMiddleware_def bearer_def in_world_def Let_def)
    have quiet: "untouched s (after (WriteError c m) (after ?v s))" for c m
      using 1 quiet_error by (rule untouched.frame_trans)
    show ?thesis
    proof (cases v)
      case (Inl err)
      then show ?thesis unfolding step using quiet by simp
    next
      case (Inr claims)
      show ?thesis
      proof (cases "HasPermission (cl_Role claims) PermissionManageSystem")
        case True
        with tok val Inr show ?thesis by (auto simp: admitted_def)
      next
        case False
        then show ?thesis unfolding step using Inr quiet by (simp add: RequirePermission_def)
      qed
    qed
  qed
qed

lemma shut_mux: "shut J km (mux (router_mux J km ah uh hh sh prom))"
  unfolding shut_def protected_path_def
proof (intro allI impI)
  fix rq :: request assume p: "cleanPath (rq_Path rq) = rq_Path rq \<and> (admin_path (rq_Path rq) \<or> scim_path (rq_Path rq))"
  let ?rq = "rq\<lparr>rq_PathValue := \<lambda>k. ''''\<rparr>"
  have "shut_run J km rq (AuthMiddleware J km (RequirePermission PermissionManageSystem h) ?rq)" for h :: "('a, 'b) handler"
    using shut_guard [of J km ?rq h] by simp
  then show "shut_run J km rq (mux (router_mux J km ah uh hh sh prom) rq)"
    using p mux_protected [of rq J km ah uh hh sh prom] by auto
qed

lemma shut_middleware:
  assumes "shut J km h"
  shows "shut J km (TenantMiddleware P h)" "shut J km (RateLimiter_Middleware rl h)" "shut J km (CORSMiddleware h)"
    "shut J km (TracingMiddleware P h)" "shut J km (RequestIDMiddleware P h)"
    "shut J km (LoggerMiddleware h)" "shut J km (MetricsMiddleware h)"
proof -
  have *: "protected_path rq' \<Longrightarrow> (\<And>m :: ('a, 'b, go_error + unit) serving. shut_run J km rq' m = shut_run J km rq m) \<Longrightarrow>
      shut_run J km rq (h rq')" for rq rq'
    using assms unfolding shut_def by blast
  have still: "shut_run J km rq (WriteError c t)" "shut_run J km rq (do { WriteHeader c; ok () })" for rq c t
    by (rule shut_still; intro frames)+
  show "shut J km (TenantMiddleware P h)" "shut J km (RateLimiter_Middleware rl h)" "shut J km (CORSMiddleware h)"
    "shut J km (TracingMiddleware P h)" "shut J km (RequestIDMiddleware P h)"
    unfolding shut_def TenantMiddleware_def RateLimiter_Middleware_def CORSMiddleware_def TracingMiddleware_def
      RequestIDMiddleware_def Let_def
    by (intro allI impI still shut_step shut_if * frames; simp)+
  show "shut J km (LoggerMiddleware h)" "shut J km (MetricsMiddleware h)"
    unfolding shut_def LoggerMiddleware_def MetricsMiddleware_def
    by (intro allI impI, (rule shut_step, intro frames, simp?)+, rule shut_rest, rule *, simp_all,
        (intro frames; simp))+
qed

lemma shut_service: "shut J km (service getenv P J db rdb km cfg prom)"
  unfolding service_def NewRouter_def pipeline_def Let_def by (intro shut_middleware shut_mux)

section \<open>Each request is answered once\<close>

text \<open>
  A handler behind the wrappers starts with nothing sent and the remembered status 200. It is proper
  when it returns with a response sent under the status the wrapper remembers, and leaves the log and
  the metrics to the middlewares.
\<close>

definition fresh :: "('r, 'd) server \<Rightarrow> bool" where
  "fresh s \<longleftrightarrow> wr_Sent (sv_Writer s) = None \<and> sv_Status s = 200"

definition same_books :: "('r, 'd) server \<Rightarrow> ('r, 'd) server \<Rightarrow> bool" where
  "same_books s s' \<longleftrightarrow> sv_Metrics s' = sv_Metrics s \<and> sv_Log s' = sv_Log s"

definition settled :: "('r, 'd) server \<Rightarrow> ('r, 'd) server \<Rightarrow> bool" where
  "settled s s' \<longleftrightarrow> (\<exists>hd. wr_Sent (sv_Writer s') = Some (sv_Status s', hd)) \<and> same_books s s'"

definition proper :: "('r, 'd, go_error + unit) serving \<Rightarrow> bool" where
  "proper m \<longleftrightarrow> (\<forall>s. fresh s \<longrightarrow> result m s = Inr () \<and> settled s (after m s))"

definition prepares :: "('r, 'd, 'a) serving \<Rightarrow> bool" where
  "prepares m \<longleftrightarrow> (\<forall>s. fresh s \<longrightarrow> fresh (after m s) \<and> same_books s (after m s))"

named_theorems proper_rules

lemma proper_bind [proper_rules]:
  assumes "prepares m" "\<And>x. proper (f x)"
  shows "proper (State_Monad.bind m f)"
  unfolding proper_def
proof (intro allI impI)
  fix s :: "('a, 'b) server" assume s: "fresh s"
  have 1: "fresh (after m s)" "same_books s (after m s)" using assms(1) s by (simp_all add: prepares_def)
  have "result (f (result m s)) (after m s) = Inr () \<and> settled (after m s) (after (f (result m s)) (after m s))"
    using assms(2) 1(1) by (simp add: proper_def)
  with 1(2) show "result (State_Monad.bind m f) s = Inr () \<and> settled s (after (State_Monad.bind m f) s)"
    unfolding after_bind result_bind by (auto simp: settled_def same_books_def)
qed

lemma prepares_steps [proper_rules]: "prepares (in_world m)" "prepares (Header_Set k v)"
  by (simp_all add: prepares_def fresh_def same_books_def in_world_def Header_Set_def respond_def wr_Set_def case_prod_unfold)

lemma proper_branch [proper_rules]:
  "(b \<Longrightarrow> proper m) \<Longrightarrow> (\<not> b \<Longrightarrow> proper n) \<Longrightarrow> proper (if b then m else n)"
  "(\<And>e. x = Inl e \<Longrightarrow> proper (f e)) \<Longrightarrow> (\<And>a. x = Inr a \<Longrightarrow> proper (g a)) \<Longrightarrow>
     proper (case x of Inl e \<Rightarrow> f e | Inr a \<Rightarrow> g a)"
  "(y = None \<Longrightarrow> proper k) \<Longrightarrow> (\<And>a. y = Some a \<Longrightarrow> proper (l a)) \<Longrightarrow>
     proper (case y of None \<Rightarrow> k | Some a \<Rightarrow> l a)"
  "(\<And>a b. z = (a, b) \<Longrightarrow> proper (j a b)) \<Longrightarrow> proper (case z of (a, b) \<Rightarrow> j a b)"
  by (simp_all split: sum.split option.split prod.split)

lemma proper_write [proper_rules]:
  "proper (WriteJSON c d m)" "proper (WriteError c t)" "proper (http_Error t c)" "proper (redirect_to p)"
  "proper (do { Encode j; ok () })" "proper (do { WriteHeader c; ok () })" "proper (do { WriteHeader c; Encode j; ok () })"
  by (simp_all add: proper_def fresh_def settled_def same_books_def WriteJSON_def WriteError_def http_Error_def redirect_to_def
      Header_Set_def WriteHeader_def Encode_def respond_def wr_Write_def wr_WriteHeader_def wr_Set_def Let_def)

lemma handlers_proper:
  "proper (h_Register ah rq)" "proper (h_Login ah rq)" "proper (h_VerifyMFA ah rq)" "proper (h_VerifyEmail ah rq)"
  "proper (h_PasswordResetRequest ah rq)" "proper (h_PasswordResetConfirm ah rq)" "proper (h_OAuthURL ah rq)"
  "proper (h_OAuthCallback ah rq)" "proper (h_Refresh ah rq)" "proper (h_Logout ah rq)" "proper (h_JWKS ah rq)"
  "proper (h_GetProfile uh rq)" "proper (h_ListUsers uh rq)" "proper (h_Healthz hh rq)" "proper (h_Readyz hh rq)"
  "proper (h_ServiceProviderConfig sh rq)" "proper (h_scim_ListUsers sh rq)" "proper (h_scim_CreateUser sh rq)"
  "proper (h_scim_GetUserByID sh rq)" "proper (h_scim_UpdateUserByID sh rq)" "proper (h_scim_DeleteUserByID sh rq)"
  unfolding h_Register_def h_Login_def h_VerifyMFA_def h_VerifyEmail_def
    h_PasswordResetRequest_def h_PasswordResetConfirm_def h_OAuthURL_def h_OAuthCallback_def h_Refresh_def
    h_Logout_def h_JWKS_def h_GetProfile_def h_ListUsers_def h_Healthz_def h_Readyz_def
    h_ServiceProviderConfig_def h_scim_ListUsers_def h_scim_CreateUser_def h_scim_GetUserByID_def
    h_scim_UpdateUserByID_def h_scim_DeleteUserByID_def Let_def
  by (intro proper_write(5-7) proper_rules)+

lemma mfa_handlers_proper:
  "rq_User rq \<noteq> None \<Longrightarrow> proper (h_SetupMFA ah rq)"
  "rq_User rq \<noteq> None \<Longrightarrow> proper (h_ConfirmMFASetup ah rq)"
  unfolding h_SetupMFA_def h_ConfirmMFASetup_def by (auto intro!: proper_rules)

lemma mux_proper:
  assumes "\<And>r f. r \<in> set rs \<Longrightarrow> proper (rt_Handler r (rq\<lparr>rq_PathValue := f\<rparr>))"
  shows "proper (mux rs rq)"
  unfolding mux_def Let_def
  by (intro proper_rules) (auto intro: assms dest: find_method_set)

lemma guarded_proper:
  assumes "\<And>rq c. rq_User rq = Some c \<Longrightarrow> proper (h rq)"
  shows "proper (AuthMiddleware J km (RequirePermission p h) rq)"
  unfolding AuthMiddleware_def RequirePermission_def Let_def
  by (auto intro!: proper_rules assms split: list.split option.split)

lemma router_mux_proper:
  assumes "\<And>rq. proper (prom rq)"
  shows "proper (mux (router_mux J km ah uh hh sh prom) rq)"
proof (rule mux_proper)
  fix r f assume r: "r \<in> set (router_mux J km ah uh hh sh prom)"
  have p: "proper (AuthMiddleware J km (RequirePermission q (mux (profileMux ah uh))) rq')" for q rq'
    by (intro guarded_proper mux_proper)
      (auto simp: profileMux_def route_def handlers_proper(12) mfa_handlers_proper)
  have a: "proper (AuthMiddleware J km (RequirePermission q (mux (adminMux uh))) rq')" for q rq'
    by (intro guarded_proper mux_proper) (auto simp: adminMux_def route_def handlers_proper(13))
  have s: "proper (AuthMiddleware J km (RequirePermission q (mux (scimMux sh))) rq')" for q rq'
    by (intro guarded_proper mux_proper) (auto simp: scimMux_def route_def handlers_proper)
  from r p a s show "proper (rt_Handler r (rq\<lparr>rq_PathValue := f\<rparr>))"
    by (auto simp: router_mux_def public_routes_def route_def subtree_def handlers_proper assms)
qed

text \<open>What the log and the metrics say of a served request.\<close>

definition booked :: "request \<Rightarrow> ('r, 'd) server \<Rightarrow> ('r, 'd) server \<Rightarrow> bool" where
  "booked rq s s' \<longleftrightarrow> (\<exists>code hd d rec. wr_Sent (sv_Writer s') = Some (code, hd) \<and>
     sv_Log s' = sv_Log s @ [rec] \<and> ac_Method rec = rq_Method rq \<and> ac_Path rec = pathUnescape (rq_Path rq) \<and>
     ac_Status rec = code \<and>
     sv_Metrics s' = TrackRequest (rq_Method rq) (pathUnescape (rq_Path rq)) code d (sv_Metrics s))"

lemma logged_and_counted:
  assumes h: "\<And>rq. proper (h rq)" and s: "wr_Sent (sv_Writer s) = None"
  shows "result (LoggerMiddleware (MetricsMiddleware h) rq) s = Inr () \<and>
    booked rq s (after (LoggerMiddleware (MetricsMiddleware h) rq) s)"
proof -
  obtain t1 w1 where t1: "run_state time_Now (sv_World s) = (t1, w1)" by fastforce
  obtain t2 w2 where t2: "run_state time_Now w1 = (t2, w2)" by fastforce
  let ?s = "s\<lparr>sv_Metrics := Active_Add 1 (sv_Metrics s), sv_World := w2, sv_Status := 200\<rparr>"
  have "fresh ?s" using s by (simp add: fresh_def)
  with h [of rq] have "result (h rq) ?s = Inr ()" "settled ?s (after (h rq) ?s)" by (simp_all add: proper_def)
  then obtain s3 hd where s3: "run_state (h rq) ?s = (Inr (), s3)" "wr_Sent (sv_Writer s3) = Some (sv_Status s3, hd)"
    "sv_Metrics s3 = Active_Add 1 (sv_Metrics s)" "sv_Log s3 = sv_Log s"
    by (auto simp: settled_def same_books_def prod_eq_iff)
  obtain t4 w4 where t4: "run_state time_Now (sv_World s3) = (t4, w4)" by fastforce
  obtain t5 w5 where t5: "run_state time_Now w4 = (t5, w5)" by fastforce
  have gauge: "Active_Add (-1) (TrackRequest m p c d (Active_Add 1 me)) = TrackRequest m p c d me" for m p c d me
    by (simp add: Active_Add_def TrackRequest_def)
  show ?thesis
    using t1 t2 s3 t4 t5
    by (simp add: LoggerMiddleware_def MetricsMiddleware_def in_world_def gauge booked_def) blast
qed

text \<open>A request that the limiter or the CORS preflight answers is neither logged nor counted.\<close>

definition turned_away :: "request \<Rightarrow> ('r, 'd) server \<Rightarrow> ('r, 'd) server \<Rightarrow> bool" where
  "turned_away rq s s' \<longleftrightarrow> same_books s s' \<and>
     (\<exists>hd. wr_Sent (sv_Writer s') = Some (429, hd) \<or> rq_Method rq = ''OPTIONS'' \<and> wr_Sent (sv_Writer s') = Some (204, hd))"

definition answers :: "request \<Rightarrow> ('r, 'd, go_error + unit) serving \<Rightarrow> bool" where
  "answers rq m \<longleftrightarrow> (\<forall>s. wr_Sent (sv_Writer s) = None \<longrightarrow>
     result m s = Inr () \<and> (booked rq s (after m s) \<or> turned_away rq s (after m s)))"

definition unsent_step :: "('r, 'd, 'a) serving \<Rightarrow> bool" where
  "unsent_step m \<longleftrightarrow> (\<forall>s. wr_Sent (sv_Writer (after m s)) = wr_Sent (sv_Writer s) \<and> same_books s (after m s))"

lemma answers_step:
  assumes "unsent_step m" "\<And>x. answers rq (k x)"
  shows "answers rq (State_Monad.bind m k)"
  unfolding answers_def
proof (intro allI impI)
  fix s :: "('a, 'b) server" assume s: "wr_Sent (sv_Writer s) = None"
  have 1: "wr_Sent (sv_Writer (after m s)) = None" "same_books s (after m s)"
    using assms(1) s by (simp_all add: unsent_step_def)
  with assms(2) [of "result m s"] have "result (k (result m s)) (after m s) = Inr () \<and>
      (booked rq (after m s) (after (k (result m s)) (after m s)) \<or> turned_away rq (after m s) (after (k (result m s)) (after m s)))"
    by (simp add: answers_def)
  then show "result (State_Monad.bind m k) s = Inr () \<and>
      (booked rq s (after (State_Monad.bind m k) s) \<or> turned_away rq s (after (State_Monad.bind m k) s))"
    using 1(2) unfolding after_bind result_bind by (simp add: booked_def turned_away_def same_books_def)
qed

lemma unsent_steps:
  "unsent_step (in_world m)" "unsent_step (Header_Set k v)" "unsent_step (State_Monad.return x)"
  by (simp_all add: unsent_step_def same_books_def in_world_def Header_Set_def respond_def wr_Set_def case_prod_unfold)

lemma unsent_fresh_id:
  "unsent_step (if b then do { i \<leftarrow> in_world uuid_New; State_Monad.return (f i) } else State_Monad.return y)"
  by (simp add: unsent_step_def same_books_def in_world_def case_prod_unfold)

lemma answers_context [simp]:
  "answers (rq\<lparr>rq_RequestID := a\<rparr>) m = answers rq m" "answers (rq\<lparr>rq_TraceID := a\<rparr>) m = answers rq m"
  by (simp_all add: answers_def booked_def turned_away_def)

lemma answers_refusal:
  "answers rq (WriteError 429 t)" "rq_Method rq = ''OPTIONS'' \<Longrightarrow> answers rq (do { WriteHeader 204; ok () })"
  by (simp_all add: answers_def turned_away_def same_books_def WriteError_def Header_Set_def WriteHeader_def Encode_def
      respond_def wr_Write_def wr_WriteHeader_def wr_Set_def Let_def)

lemma answers_if: "(b \<Longrightarrow> answers rq m) \<Longrightarrow> (\<not> b \<Longrightarrow> answers rq n) \<Longrightarrow> answers rq (if b then m else n)"
  by simp

lemma pipeline_answers:
  assumes "\<And>rq. proper (h rq)"
  shows "answers rq (pipeline P rdb h rq)"
proof -
  have "proper (TenantMiddleware P h rq)" for rq using assms by (simp add: TenantMiddleware_def)
  from logged_and_counted [OF this] have core: "answers rq (LoggerMiddleware (MetricsMiddleware (TenantMiddleware P h)) rq)" for rq
    by (simp add: answers_def)
  have rate: "answers rq (RateLimiter_Middleware rl (LoggerMiddleware (MetricsMiddleware (TenantMiddleware P h))) rq)" for rl rq
    unfolding RateLimiter_Middleware_def Let_def by (intro answers_step answers_if unsent_steps answers_refusal core)
  have cors: "answers rq (CORSMiddleware (RateLimiter_Middleware rl (LoggerMiddleware (MetricsMiddleware (TenantMiddleware P h)))) rq)" for rl rq
    unfolding CORSMiddleware_def by (intro answers_step answers_if unsent_steps answers_refusal rate)
  have "answers rq (CORSMiddleware (RateLimiter_Middleware rl (LoggerMiddleware (MetricsMiddleware (TenantMiddleware P h))))
      (rq\<lparr>rq_RequestID := a, rq_TraceID := b\<rparr>))" for rl rq a b
    using cors [of "rq\<lparr>rq_RequestID := a, rq_TraceID := b\<rparr>" rl] by simp
  then show ?thesis
    unfolding pipeline_def RequestIDMiddleware_def [of _ "TracingMiddleware _ _"] TracingMiddleware_def Let_def
    by (intro answers_step unsent_steps unsent_fresh_id)
qed

lemma service_answers:
  "(\<And>rq. proper (prom rq)) \<Longrightarrow> answers rq (service getenv P J db rdb km cfg prom rq)"
  unfolding service_def NewRouter_def Let_def by (intro pipeline_answers router_mux_proper)

section \<open>The audit log only grows\<close>

abbreviation grows :: "('r, 'd) world \<Rightarrow> ('r, 'd) world \<Rightarrow> bool" where
  "grows \<equiv> (\<lambda>w w'. prefix (w_audit w) (w_audit w'))"

abbreviation audited :: "('r, 'd) server \<Rightarrow> ('r, 'd) server \<Rightarrow> bool" where
  "audited \<equiv> on_world grows"

text \<open>The calls that the handlers make.\<close>

lemma grows_prims [frames]:
  "state_io_rel grows (reads f)" "state_io_rel grows (redis_do g)"
  by (simp_all add: state_io_rel_def redis_do_def time_Now_def Let_def split_beta)

lemma grows_provider:
  assumes "(if prov = ''google'' then Some (NewGoogleProvider getenv)
     else if prov = ''github'' then Some (NewGitHubProvider getenv) else None) = Some pv"
  shows "state_io_rel grows (pv_ExchangeCode pv code)"
  using assms by (auto simp: outside_defs intro: google_ExchangeCode_frames(5) github_ExchangeCode_frames(5) split: if_splits)

lemma grows_session [frames]: "state_io_rel grows (generateSession (auth_system getenv P J db rdb km cfg) user)"
  unfolding generateSession_def auth_system_simps session_simps by (intro frames)

lemma grows_calls [frames]:
  "state_io_rel grows (Register (auth_system getenv P J db rdb km cfg) t e p ip)"
  "state_io_rel grows (Login (auth_system getenv P J db rdb km cfg) t e p ip)"
  "state_io_rel grows (VerifyMFAChallenge (auth_system getenv P J db rdb km cfg) tok code ip)"
  "state_io_rel grows (SetupMFA (auth_system getenv P J db rdb km cfg) i)"
  "state_io_rel grows (ConfirmMFASetup (auth_system getenv P J db rdb km cfg) i code)"
  "state_io_rel grows (ConfirmEmailVerification (auth_system getenv P J db rdb km cfg) tok)"
  "state_io_rel grows (RequestPasswordReset (auth_system getenv P J db rdb km cfg) t e)"
  "state_io_rel grows (ConfirmPasswordReset (auth_system getenv P J db rdb km cfg) tok p)"
  "state_io_rel grows (OAuthLoginURL (auth_system getenv P J db rdb km cfg) prov)"
  "state_io_rel grows (RefreshToken (auth_system getenv P J db rdb km cfg) tok ip)"
  "state_io_rel grows (Logout (auth_system getenv P J db rdb km cfg) tok ip)"
  unfolding Register_def Login_def VerifyMFAChallenge_def SetupMFA_def ConfirmMFASetup_def ConfirmEmailVerification_def
    RequestPasswordReset_def ConfirmPasswordReset_def OAuthLoginURL_def RefreshToken_def Logout_def
    auth_system_simps session_simps repository_simps outside_defs
  by (intro frames)+

lemma grows_callback [frames]:
  "state_io_rel grows (HandleOAuthCallback (auth_system getenv P J db rdb km cfg) t prov code st ip)"
  unfolding HandleOAuthCallback_def random_password_hash_def auth_system_simps session_simps repository_simps Let_def
  by (intro frames grows_provider; simp?)

lemma grows_List [frames]: "state_io_rel grows (List db t pq)"
  unfolding List_def Let_def by (rule audit_grows.bind_frame, intro frames) (auto intro!: frames split: sum.split list.split sqlval.split)

lemma grows_users [frames]:
  "state_io_rel grows (GetProfile (NewUserRepository db) i)" "state_io_rel grows (ListUsers (NewUserRepository db) t pq)"
  "state_io_rel grows (scim_ListUsers P (NewUserRepository db) t pq)" "state_io_rel grows (scim_CreateUser P (NewUserRepository db) t q)"
  "state_io_rel grows (scim_GetUser P (NewUserRepository db) i)" "state_io_rel grows (scim_UpdateUser P (NewUserRepository db) i q)"
  "state_io_rel grows (scim_DeleteUser (NewUserRepository db) i)"
  unfolding GetProfile_def ListUsers_def scim_ListUsers_def scim_CreateUser_def scim_GetUser_def scim_UpdateUser_def
    scim_DeleteUser_def repository_simps Let_def
  by (intro frames)+

interpretation log: service_frame grows getenv P J db rdb km cfg for getenv P J db rdb km cfg
  by unfold_locales (intro frames)+

end
