(* ===== verification/Rfc6238.thy ===== *)
theory Rfc6238
  imports Totp
begin

text \<open>
  One-time passwords as RFC 4226 and RFC 6238 define them, over natural numbers and without reference to
  the code: the counter as eight octets, dynamic truncation, the code as decimal digits. The words, masks
  and slices of \<open>GenerateCode\<close> compute this.
\<close>

section \<open>The reference\<close>

text \<open>RFC 4226, 5.1 and 5.2: the counter, most significant octet first.\<close>

definition hotp_counter :: "nat \<Rightarrow> bytes" where
  "hotp_counter c = map (\<lambda>i. word_of_nat (c div 256 ^ i mod 256)) (rev [0..<8])"

text \<open>RFC 4226, 5.3: the last four bits of the last octet select four octets, of which 31 bits count.\<close>

definition hotp_truncate :: "bytes \<Rightarrow> nat" where
  "hotp_truncate hs = (let off = unat (hs ! 19) mod 16
     in (unat (hs ! off) * 256 ^ 3 + unat (hs ! (off + 1)) * 256 ^ 2 + unat (hs ! (off + 2)) * 256 + unat (hs ! (off + 3))) mod 2 ^ 31)"

definition hotp :: "bytes \<Rightarrow> nat \<Rightarrow> nat" where
  "hotp key c = hotp_truncate (hmac_sha1 key (hotp_counter c)) mod 10 ^ 6"

text \<open>RFC 6238, 4.2: time steps of thirty seconds since the epoch.\<close>

definition totp :: "bytes \<Rightarrow> nat \<Rightarrow> nat" where
  "totp key unix = hotp key (unix div 30)"

text \<open>Six decimal digits, leading zeros kept.\<close>

definition six_digits :: "nat \<Rightarrow> string" where
  "six_digits n = map (\<lambda>i. digit_char (n div 10 ^ i mod 10)) (rev [0..<6])"

section \<open>The code computes it\<close>

lemma counter_octets: "PutUint64 (word_of_nat c) = hotp_counter c"
proof -
  have octet: "ucast (drop_bit (8 * i) (word_of_nat c :: 64 word)) = (word_of_nat (c div 256 ^ i mod 256) :: byte)" if "i < 8" for i
  proof (rule word_unat_eq_iff [THEN iffD2])
    have "unat (ucast (drop_bit (8 * i) (word_of_nat c :: 64 word)) :: byte) = take_bit 8 (drop_bit (8 * i) (take_bit 64 c))"
      by (simp add: unsigned_ucast_eq unsigned_drop_bit_eq unsigned_of_nat)
    also have "\<dots> = take_bit 8 (drop_bit (8 * i) c)" using that by (simp add: drop_bit_take_bit)
    also have "\<dots> = unat (word_of_nat (c div 256 ^ i mod 256) :: byte)"
      by (simp add: unsigned_of_nat drop_bit_eq_div take_bit_eq_mod power_mult)
    finally show "unat (ucast (drop_bit (8 * i) (word_of_nat c :: 64 word)) :: byte) =
      unat (word_of_nat (c div 256 ^ i mod 256) :: byte)" .
  qed
  have octets: "[7, 6, 5, 4, 3, 2, 1, 0 :: nat] = rev [0..<8]" by (simp add: upt_rec)
  show ?thesis unfolding PutUint64_def hotp_counter_def octets by (rule map_cong [OF refl octet]) simp
qed

lemma Uint32_octets:
  "unat (Uint32 [a, b, c, d]) = unat a * 256 ^ 3 + unat b * 256 ^ 2 + unat c * 256 + unat d"
proof -
  let ?n = "unat a * 256 ^ 3 + unat b * 256 ^ 2 + unat c * 256 + unat d"
  have "Uint32 [a, b, c, d] = (word_of_nat ?n :: word32)"
    by (simp add: Uint32_def push_bit_eq_mult algebra_simps)
  moreover have "?n < 2 ^ 32"
    using unsigned_less [of a, where 'a = nat] unsigned_less [of b, where 'a = nat] unsigned_less [of c, where 'a = nat]
      unsigned_less [of d, where 'a = nat] by simp
  ultimately show ?thesis using unat_of_nat [of ?n, where 'a = 32] by (simp only: len_num1 len_bit0 len_num0) simp
qed

lemma unat_low_bits: "unat ((w :: 'a :: len word) AND mask n) = unat w mod 2 ^ n"
  unfolding take_bit_eq_mask [symmetric] unsigned_take_bit_eq by (simp add: take_bit_eq_mod)

lemma truncate_words:
  assumes "length hs = 20"
  shows "\<exists>bs. go_slice (totp_offset hs) (totp_offset hs + 4) hs = Some bs \<and> unat (Uint32 bs AND 0x7FFFFFFF) = hotp_truncate hs"
proof -
  let ?o = "totp_offset hs"
  have off: "?o = unat (hs ! 19) mod 16"
    using unat_low_bits [of "last hs" 4] assms by (simp add: totp_offset_def mask_eq_exp_minus_1 last_conv_nth length_0_conv [symmetric] del: length_0_conv)
  then have "?o + 4 \<le> length hs" using assms by simp
  then have slice: "take 4 (drop ?o hs) = [hs ! ?o, hs ! (?o + 1), hs ! (?o + 2), hs ! (?o + 3)]"
    by (intro nth_equalityI) (auto simp: nth_Cons less_Suc_eq numeral_eq_Suc split: nat.split)
  have "unat (Uint32 (take 4 (drop ?o hs)) AND 0x7FFFFFFF) = hotp_truncate hs"
    using unat_low_bits [of "Uint32 (take 4 (drop ?o hs))" 31]
    by (simp add: slice Uint32_octets hotp_truncate_def off [symmetric] mask_eq_exp_minus_1 Let_def)
  with \<open>?o + 4 \<le> length hs\<close> show ?thesis by (simp add: go_slice_def)
qed

lemma pad_dec_Suc: "0 < w \<Longrightarrow> pad_dec (Suc w) n = pad_dec w (n div 10) @ [digit_char (n mod 10)]"
proof (cases "n < 10")
  case True
  have "CHR ''0'' = digit_char 0" by (simp add: digit_char_def char_of_def bit_0)
  moreover assume "0 < w"
  ultimately show ?thesis using True
    by (simp add: pad_dec_def Let_def dec_nat.simps [of n] dec_nat.simps [of 0] replicate_append_same flip: replicate_Suc)
qed (simp add: pad_dec_def Let_def dec_nat.simps [of n])

lemma pad_dec_digits: "n < 10 ^ w \<Longrightarrow> 0 < w \<Longrightarrow> pad_dec w n = map (\<lambda>i. digit_char (n div 10 ^ i mod 10)) (rev [0..<w])"
proof (induction w arbitrary: n)
  case (Suc w)
  show ?case
  proof (cases "w = 0")
    case True
    then show ?thesis using Suc.prems by (simp add: pad_dec_def Let_def dec_nat.simps [of n])
  next
    case False
    then have "pad_dec w (n div 10) = map (\<lambda>i. digit_char (n div 10 div 10 ^ i mod 10)) (rev [0..<w])"
      using Suc by (intro Suc.IH) auto
    moreover have "rev [0..<Suc w] = map Suc (rev [0..<w]) @ [0]" by (simp add: rev_map [symmetric] map_Suc_upt upt_conv_Cons del: upt_Suc)
    ultimately show ?thesis using False by (simp add: pad_dec_Suc div_mult2_eq comp_def del: upt_Suc)
  qed
qed simp

lemma pad_dec_six: "n < 10 ^ 6 \<Longrightarrow> pad_dec 6 n = six_digits n"
  unfolding six_digits_def by (rule pad_dec_digits) simp_all

lemma GenerateCode_totp:
  assumes "base32_DecodeString (ToUpper (TrimSpace secret)) = Some key" "0 \<le> timestamp"
  shows "GenerateCode (NewTOTPManager issuer) secret timestamp = Inr (six_digits (totp key (nat (Unix timestamp))))"
proof -
  let ?u = "nat (Unix timestamp)"
  have "0 \<le> Unix timestamp" using assms(2) by (simp add: Unix_def pos_imp_zdiv_nonneg_iff duration_defs)
  then have "Unix timestamp sdiv 30 = int (?u div 30)" by (simp add: signed_divide_int_def sgn_if zdiv_int)
  then have c: "PutUint64 (totp_counter (NewTOTPManager issuer) timestamp) = hotp_counter (?u div 30)"
    by (simp add: totp_counter_def NewTOTPManager_def counter_octets)
  let ?h = "hmac_sha1 key (hotp_counter (?u div 30))"
  obtain bs where bs: "go_slice (totp_offset ?h) (totp_offset ?h + 4) ?h = Some bs"
    "unat (Uint32 bs AND 0x7FFFFFFF) = hotp_truncate ?h"
    using truncate_words [of ?h] by auto
  have "unat ((Uint32 bs AND 0x7FFFFFFF) mod word_of_nat (10 ^ 6)) = totp key ?u"
    using bs(2) by (simp add: unat_mod totp_def hotp_def)
  moreover have "totp key ?u < 10 ^ 6" by (simp add: totp_def hotp_def)
  ultimately show ?thesis
    using assms(1) bs(1) c by (simp add: GenerateCode_def Let_def pad_dec_six NewTOTPManager_def)
qed

end
