(* ===== verification/Component_Properties.thy ===== *)
theory Component_Properties
  imports Reference_Http Rfc6238
begin

text \<open>
  Properties of the components that keep no state of their own: the one-time-password engine, the
  address validator, the key set and the access tokens, the documents sent out and
  the settings read from the environment.
\<close>

section \<open>One-time passwords\<close>

text \<open>A code is always six decimal digits; the only failure is a secret that is not base32, and the
  truncation of the MAC never slices out of range.\<close>

lemma totp_digits:
  "case GenerateCode (NewTOTPManager issuer) secret ts of
     Inl e \<Rightarrow> e = ErrText ''illegal base32 data'' \<and> base32_DecodeString (ToUpper (TrimSpace secret)) = None
   | Inr code \<Rightarrow> length code = 6 \<and> set code \<subseteq> digit_char ` {0..9}"
  using GenerateCode_cases [of secret "NewTOTPManager issuer" ts] GenerateCode_six [of issuer secret ts]
  by (auto split: sum.split)

text \<open>A secret that the service generates decodes back to the 20 random bytes it was made of, so a
  code exists for it at every instant.\<close>

lemma totp_secret_roundtrip:
  assumes "run_state GenerateSecret w = (Inr secret, w')"
  shows "base32_DecodeString (ToUpper (TrimSpace secret)) = Some (map (w_entropy w) [0..<20]) \<and>
    (\<exists>code. GenerateCode (NewTOTPManager issuer) secret ts = Inr code)"
proof -
  have "secret = base32_EncodeToString (map (w_entropy w) [0..<20])"
    using assms by (auto simp: GenerateSecret_def rand_Read_def split: if_splits)
  then have "base32_DecodeString (ToUpper (TrimSpace secret)) = Some (map (w_entropy w) [0..<20])"
    by (simp only: TrimSpace_base32 ToUpper_base32 base32_roundtrip)
  then show ?thesis using GenerateCode_cases [of secret "NewTOTPManager issuer" ts] by auto
qed

lemma mem_secret:
  "run_state GenerateSecret (mem_world r d) =
     (Inr (base32_EncodeToString (map word_of_nat [0..<20])), after (rand_Read 20) (mem_world r d))"
  by (simp add: GenerateSecret_def rand_Read_def mem_world_def)

lemma totp_secret_roundtrip_witness:
  "\<exists>code. GenerateCode (NewTOTPManager ''Enterprise Auth'')
     (base32_EncodeToString (map word_of_nat [0..<20])) mem_now = Inr code"
  using totp_secret_roundtrip [OF mem_secret] by blast

text \<open>Neighbouring time steps.\<close>

lemma steps_apart:
  fixes a b p :: int
  assumes "\<bar>a - b\<bar> \<le> p" "0 < p"
  shows "\<exists>k \<in> {-1, 0, 1}. (a + k * p) div p = b div p"
proof -
  have "a div p + -1 = b div p \<or> a div p = b div p \<or> a div p + 1 = b div p"
  proof -
    have "a - p \<le> b" "b \<le> a + p" using assms(1) by auto
    then have "(a - p) div p \<le> b div p" "b div p \<le> (a + p) div p"
      using assms(2) by (blast intro: zdiv_mono1)+
    moreover have "(a - p) div p = a div p - 1" "(a + p) div p = a div p + 1"
      using assms(2) div_mult_self1 [of p a "-1"] by auto
    ultimately show ?thesis by linarith
  qed
  moreover have "(a + k * p) div p = a div p + k" for k using assms(2) by simp
  ultimately show ?thesis by force
qed

text \<open>C23. The engine is the one of the standards: for every secret and every instant since the epoch \<open>GenerateCode\<close> gives
  the six digits of RFC 6238 for the key that the secret encodes in base 32, capitals or not and whatever blanks surround it, and
  an error when it encodes none; words, masks, slices and format strings compute what the RFC says in
  numbers.\<close>

theorem totp_rfc6238:
  assumes "0 \<le> ts"
  shows "GenerateCode (NewTOTPManager issuer) secret ts = (case base32_DecodeString (ToUpper (TrimSpace secret)) of
      None \<Rightarrow> Inl (ErrText ''illegal base32 data'')
    | Some key \<Rightarrow> Inr (six_digits (totp key (nat (Unix ts)))))"
proof (cases "base32_DecodeString (ToUpper (TrimSpace secret))")
  case None
  then show ?thesis by (simp add: GenerateCode_def)
next
  case (Some key)
  with GenerateCode_totp [OF Some assms] show ?thesis by simp
qed

theorem totp_rfc6238_witness:
  "GenerateCode (NewTOTPManager ''Enterprise Auth'') (base32_EncodeToString (map word_of_nat [49..<69])) (59 * second) =
     Inr (six_digits (hotp (map word_of_nat [49..<69]) 1))"
  using totp_rfc6238 [of "59 * second" "''Enterprise Auth''" "base32_EncodeToString (map word_of_nat [49..<69])"]
  by (simp add: base32_roundtrip totp_def Unix_def second_def)

text \<open>Clock drift: a code made for an instant at most 30 seconds before or after the validation is
  accepted.\<close>

lemma totp_drift:
  assumes code: "GenerateCode (NewTOTPManager issuer) secret ts = Inr code"
    and times: "0 \<le> ts" "30 * second \<le> w_clock w'" "\<bar>w_clock w' - ts\<bar> \<le> 30 * second"
    and run: "run_state (ValidateCode (NewTOTPManager issuer) secret code) w = (ok', w')"
  shows ok'
proof -
  let ?t = "NewTOTPManager issuer" and ?p = "30 * second"
  have pos: "0 < ?p" by (simp add: second_def)
  obtain k where k: "k \<in> {-1, 0, 1}" "(w_clock w' + k * ?p) div ?p = ts div ?p"
    using steps_apart [OF times(3) pos] by blast
  have per: "tm_Period ?t = 30" by (simp add: NewTOTPManager_def)
  have "0 \<le> w_clock w' + k * ?p" using k(1) times(2) pos by auto
  then have "totp_counter ?t (w_clock w' + k * ?p) = totp_counter ?t ts"
    using k(2) times(1) per by (simp add: totp_counter_step)
  then have "GenerateCode ?t secret (w_clock w' + k * 30 * second) = Inr code"
    using code GenerateCode_counter by (metis mult.assoc)
  then show ?thesis
    unfolding ValidateCode_result [OF run] validate_loop_iff per using k(1) by auto
qed

lemma totp_drift_witness:
  "\<exists>code. result (ValidateCode (NewTOTPManager ''Enterprise Auth'')
     (base32_EncodeToString (map word_of_nat [0..<20])) code) (mem_world Map.empty []) \<and>
   GenerateCode (NewTOTPManager ''Enterprise Auth'')
     (base32_EncodeToString (map word_of_nat [0..<20])) (mem_now - 29 * second) = Inr code"
proof -
  let ?s = "base32_EncodeToString (map word_of_nat [0..<20])"
  obtain code where code: "GenerateCode (NewTOTPManager ''Enterprise Auth'') ?s (mem_now - 29 * second) = Inr code"
    using GenerateCode_cases [of ?s "NewTOTPManager ''Enterprise Auth''" "mem_now - 29 * second"]
    by (auto simp: base32_roundtrip)
  obtain b w' where run: "run_state (ValidateCode (NewTOTPManager ''Enterprise Auth'') ?s code) (mem_world Map.empty []) = (b, w')"
    by fastforce
  then have "w_clock w' = mem_now" by (auto simp: ValidateCode_run time_Now_def Let_def)
  with totp_drift [OF code _ _ _ run] run code show ?thesis by (auto simp: mem_now_def second_def)
qed

section \<open>Addresses\<close>

text \<open>Cleaning an address is idempotent and blind to case and surrounding space: the cleaned form is
  accepted unchanged, every spelling of it in capitals or behind blanks leads to it, and it has exactly
  the shape \<open>local@domain\<close> with no second \<open>@\<close> before the domain.\<close>

lemma email_canonical:
  assumes "ValidateAndCleanEmail email = Inr cleaned"
  shows "ValidateAndCleanEmail cleaned = Inr cleaned \<and> ValidateAndCleanEmail (ToUpper cleaned) = Inr cleaned \<and>
    ValidateAndCleanEmail (ToUpper email) = Inr cleaned \<and>
    (\<exists>local domain. cleaned = local @ CHR ''@'' # domain \<and> CHR ''@'' \<notin> set local \<and> local \<noteq> '''' \<and> domain \<noteq> '''')"
proof -
  from assms have c: "cleaned = TrimSpace (ToLower email)" "cleaned \<noteq> ''''" "mail_ParseAddress cleaned = Some cleaned"
    unfolding ValidateAndCleanEmail_Inr by blast+
  have low: "ToLower cleaned = cleaned" "TrimSpace cleaned = cleaned" unfolding c(1) by simp_all
  from c(3) obtain l d where "cleaned = l @ CHR ''@'' # d" "CHR ''@'' \<notin> set l" "dot_atom l"
      "dot_atom d \<or> domain_literal d"
    unfolding mail_ParseAddress_Some by blast
  then have "\<exists>local domain. cleaned = local @ CHR ''@'' # domain \<and> CHR ''@'' \<notin> set local \<and> local \<noteq> '''' \<and> domain \<noteq> ''''"
    by (intro exI [of _ l] exI [of _ d]) (auto simp: dot_atom_def domain_literal_def)
  moreover have "ToLower (ToUpper cleaned) = cleaned" using low by simp
  ultimately show ?thesis using c low unfolding ValidateAndCleanEmail_Inr by (simp only: ToLower_ToUpper) simp
qed

lemma email_canonical_witness:
  "ValidateAndCleanEmail ''ann@example.org'' = Inr ''ann@example.org'' \<and>
   ValidateAndCleanEmail '' Ann@Example.ORG '' = Inr ''ann@example.org''"
proof -
  have "ValidateAndCleanEmail '' Ann@Example.ORG '' = Inr ''ann@example.org''" by code_simp
  from email_canonical [OF this] this show ?thesis by blast
qed

section \<open>Keys and access tokens\<close>

text \<open>The key manager holds one key pair: its public key is the private key's, and its identifier is
  sixteen characters that only the modulus determines.\<close>

lemma key_manager_consistent:
  assumes "NewKeyManager io path = Inr km"
  shows "km_PublicKey km = rk_PublicKey (km_PrivateKey km) \<and> length (km_KeyID km) = 16 \<and>
    km_KeyID km = hex_EncodeToString (take 8 (sha256_Sum256 (big_Bytes (pk_N (km_PublicKey km))))) \<and>
    load_private_key io path = Inr (km_PrivateKey km)"
  using assms by (auto simp: NewKeyManager_def Let_def split: sum.splits)

text \<open>Publishing the key set loses nothing: two key managers publish the same set exactly when they have
  the same identifier, modulus and exponent up to sign, so a client can rebuild the public key.\<close>

lemma jwks_faithful:
  "GetJWKS km = GetJWKS km' \<longleftrightarrow> km_KeyID km = km_KeyID km' \<and>
     pk_N (km_PublicKey km) = pk_N (km_PublicKey km') \<and>
     \<bar>sint (pk_E (km_PublicKey km))\<bar> = \<bar>sint (pk_E (km_PublicKey km'))\<bar>"
proof -
  have "big_Bytes m = big_Bytes n \<longleftrightarrow> m = n" for m n by (metis big_Bytes_roundtrip)
  moreover have "nat \<bar>a\<bar> = nat \<bar>b\<bar> \<longleftrightarrow> \<bar>a\<bar> = \<bar>b\<bar>" for a b :: int by arith
  ultimately show ?thesis
    by (auto simp: GetJWKS_def Let_def dest: base64_RawURL_inj)
qed

text \<open>An access token that the service issues validates to the user it was issued for, with his
  address and role, until the whole second of its expiry, and is rejected from then on.\<close>

lemma access_token_roundtrip:
  assumes laws: "jwt_laws J verifies" and key: "km_PublicKey km = rk_PublicKey (km_PrivateKey km)"
    and plain: "ascii email" "ascii r" "ascii (uuid_String P i)"
    and gen: "run_state (GenerateAccessToken P J km i email r ttl) w = (Inr tok, w1)"
    and val: "run_state (ValidateAccessToken J km tok) w2 = (res, w3)"
  shows "if w_clock w3 < (w_clock w + int (w_elapse w 0) + ttl) div second * second
    then \<exists>c. res = Inr c \<and> cl_UserID c = i \<and> cl_Email c = email \<and> cl_Role c = r
    else \<exists>e. res = Inl e"
proof -
  let ?e = "w_clock w + int (w_elapse w 0) + ttl"
  define c where "c = access_claims P i email r ?e (w_clock w + int (w_elapse w 0) + int (w_elapse w 1))"
  note S = generated_signed [OF laws gen, folded c_def]
  have cp: "claims_plain c" unfolding c_def by (intro access_claims_plain plain)
  have exp: "cl_ExpiresAt c = Some (?e div second * second)" by (simp add: c_def access_claims_def)
  show ?thesis
  proof (cases "w_clock w3 < ?e div second * second")
    case True
    moreover have "w_clock w3 = w_clock w2 + int (w_elapse w2 0)" using val by (auto simp: ValidateAccessToken_run)
    ultimately have "run_state (ValidateAccessToken J km tok) w2 = (Inr c, after time_Now w2)"
      unfolding c_def by (intro generated_validates [OF laws key plain gen]) simp
    then have "res = Inr c" using val by simp
    with True show ?thesis by (simp add: c_def access_claims_def)
  next
    case False
    have "\<not> (\<exists>c'. res = Inr c')"
    proof
      assume "\<exists>c'. res = Inr c'"
      then obtain c' where "run_state (ValidateAccessToken J km tok) w2 = (Inr c', w3)" using val by auto
      note V = ValidateAccessToken_Inr [OF laws this]
      from V(2) have "c' = c" using jwt_payload [OF laws] jwt_sign_verifies [OF laws S cp] by blast
      with V(1) False exp show False by (auto simp: unexpired_def)
    qed
    with False show ?thesis by (cases res) auto
  qed
qed

lemma access_token_roundtrip_witness:
  "\<exists>tok c. result (GenerateAccessToken mem_packages mem_jwt mem_km 7 ''ann@example.org'' ''USER'' (15 * minute))
       (mem_world Map.empty []) = Inr tok \<and>
     result (ValidateAccessToken mem_jwt mem_km tok) (mem_world Map.empty []) = Inr c \<and> cl_UserID c = 7"
proof -
  let ?w = "mem_world Map.empty []"
  obtain r w1 where gen: "run_state (GenerateAccessToken mem_packages mem_jwt mem_km 7 ''ann@example.org'' ''USER'' (15 * minute)) ?w = (r, w1)"
    by fastforce
  then obtain tok where r: "r = Inr tok" by (auto simp: GenerateAccessToken_run [OF mem_jwt_laws])
  obtain res w3 where val: "run_state (ValidateAccessToken mem_jwt mem_km tok) ?w = (res, w3)" by fastforce
  then have "w_clock w3 = mem_now" by (auto simp: ValidateAccessToken_run)
  with access_token_roundtrip [OF mem_jwt_laws _ _ _ mem_uuid_ascii gen [unfolded r] val] gen r val show ?thesis
    by (auto simp: ascii_def mem_now_def duration_defs)
qed

text \<open>C6. A token is accepted only if it has not expired and carries a signature by an RSA method that
  verifies under the service's own public key; no other method, and no other key, is ever consulted.\<close>

theorem access_token_sound:
  assumes "jwt_laws J verifies" and "run_state (ValidateAccessToken J km s) w = (Inr c, w')"
  shows "unexpired (w_clock w') c \<and> (\<exists>alg. verifies (SigningMethodRSA alg) (km_PublicKey km) s c)"
  using ValidateAccessToken_Inr [OF assms] by blast

lemma mem_token_accepted:
  "run_state (ValidateAccessToken mem_jwt mem_km (token_text (SigningMethodRSA ''RS256'') (rk_PublicKey mem_key)
       (access_claims P i e r (mem_now + 15 * minute) mem_now))) (mem_world rd d) =
     (Inr (access_claims P i e r (mem_now + 15 * minute) mem_now), after time_Now (mem_world rd d))"
  by (simp add: ValidateAccessToken_run mem_jwt_def access_claims_def mem_now_def duration_defs)

theorem access_token_sound_witness:
  "\<exists>c. \<exists>w' :: (mem_redis, mem_db) world. unexpired (w_clock w') c \<and> cl_UserID c = 7 \<and> w_clock w' = mem_now \<and>
     (\<exists>s alg. mem_verifies (SigningMethodRSA alg) (km_PublicKey mem_km) s c)"
proof -
  let ?c = "access_claims mem_packages 7 ''ann@example.org'' ''USER'' (mem_now + 15 * minute) mem_now"
  have "cl_UserID ?c = 7" by (simp add: access_claims_def)
  moreover have "w_clock (after time_Now (mem_world Map.empty [])) = mem_now" by simp
  moreover note access_token_sound [OF mem_jwt_laws
    mem_token_accepted [where P = mem_packages and i = 7 and e = "''ann@example.org''" and r = "''USER''" and rd = Map.empty and d = "[]"]]
  ultimately show ?thesis by blast
qed

section \<open>What is sent out\<close>

text \<open>Secrets do not leave: the answer to a profile request, and the state it leaves the server in,
  are the same whatever the password hash and the second-factor secret of the user are; so are his SCIM
  resource and his entry in a listing.\<close>

lemma profile_hides_secrets:
  assumes "run_state (ur_GetByID R i) (sv_World s) = (Inr u, w1)"
    and "run_state (ur_GetByID R' i) (sv_World s) = (Inr (u\<lparr>u_Password := pw, u_MFASecret := secret\<rparr>), w1)"
    and "rq_User rq = Some claims" and "cl_UserID claims = i"
  shows "run_state (h_GetProfile \<lparr>uh_userRepo = R', uh_packages = P\<rparr> rq) s =
      run_state (h_GetProfile \<lparr>uh_userRepo = R, uh_packages = P\<rparr> rq) s \<and>
    toSCIM P (u\<lparr>u_Password := pw, u_MFASecret := secret\<rparr>) = toSCIM P u \<and>
    json_user P (u\<lparr>u_Password := pw, u_MFASecret := secret\<rparr>) = json_user P u"
  using assms by (simp add: h_GetProfile_def GetProfile_def in_world_def json_user_secret toSCIM_def)

section \<open>Settings\<close>

text \<open>The scanning loop of \<open>time.ParseDuration\<close> as a relation, without fuel.\<close>

inductive duration_loop :: "string \<Rightarrow> nat \<Rightarrow> nat option \<Rightarrow> bool" where
  loop_done: "duration_loop [] d (Some d)"
| loop_bad: "duration_term (c # s) = None \<Longrightarrow> duration_loop (c # s) d None"
| loop_over: "duration_term (c # s) = Some (v, s') \<Longrightarrow> 2 ^ 63 < d + v \<Longrightarrow> duration_loop (c # s) d None"
| loop_step: "duration_term (c # s) = Some (v, s') \<Longrightarrow> d + v \<le> 2 ^ 63 \<Longrightarrow> duration_loop s' (d + v) r \<Longrightarrow>
    duration_loop (c # s) d r"

inductive_simps duration_loop_Nil: "duration_loop [] d r"
inductive_simps duration_loop_Cons: "duration_loop (c # s) d r"

lemma duration_loop_terms: "length s \<le> f \<Longrightarrow> duration_loop s d r \<longleftrightarrow> r = duration_terms f s d"
proof (induction f s d arbitrary: r rule: duration_terms.induct)
  case (1 fuel d)
  then show ?case by (auto simp: duration_loop_Nil)
next
  case (2 c s d)
  then show ?case by simp
next
  case (3 f c s d)
  show ?case
  proof (cases "duration_term (c # s)")
    case None
    then show ?thesis by (auto simp: duration_loop_Cons)
  next
    case (Some p)
    then obtain v s' where p: "duration_term (c # s) = Some (v, s')" by (cases p) auto
    from duration_term_shrinks [OF p] 3 p show ?thesis by (auto simp: duration_loop_Cons not_le)
  qed
qed

definition duration_reads :: "string \<Rightarrow> duration option \<Rightarrow> bool" where
  "duration_reads s r \<longleftrightarrow>
     (let neg = (s \<noteq> [] \<and> hd s = CHR ''-'');
          body = (if s \<noteq> [] \<and> (hd s = CHR ''-'' \<or> hd s = CHR ''+'') then tl s else s)
      in if body = ''0'' then r = Some 0
         else if body = [] then r = None
         else \<exists>d. duration_loop body 0 d \<and>
           r = (case d of None \<Rightarrow> None
                | Some n \<Rightarrow> if neg then Some (- int n) else if 2 ^ 63 - 1 < n then None else Some (int n)))"

text \<open>Reading a duration from the environment always ends: the scanning loop without fuel has exactly
  one outcome, and the setting is the value read, or the default when it reads none.\<close>

lemma env_duration_total:
  "getEnvAsDuration getenv key dflt = v \<longleftrightarrow>
     duration_reads (getenv key) (Some v) \<or> duration_reads (getenv key) None \<and> v = dflt"
proof -
  have "duration_reads s r \<longleftrightarrow> r = ParseDuration s" for s r
    by (auto simp: duration_reads_def ParseDuration_def Let_def duration_loop_terms [OF order_refl]
        simp del: duration_terms.simps split: option.splits)
  then show ?thesis by (auto simp: getEnvAsDuration_def split: option.splits)
qed

text \<open>The configuration loads unless the database password is missing; then the access token lives for
  15 minutes and the refresh token for seven days, whatever else the environment says.\<close>

lemma config_lifetimes:
  "case config_Load getenv of
     Inl e \<Rightarrow> getenv ''DB_PASSWORD'' = '''' \<and> e = ErrText ''DB_PASSWORD environment variable is required''
   | Inr cfg \<Rightarrow> getenv ''DB_PASSWORD'' \<noteq> '''' \<and> cfg_DBPassword cfg = getenv ''DB_PASSWORD'' \<and>
       cfg_AccessTokenTTL cfg = 15 * minute \<and> cfg_RefreshTokenTTL cfg = 7 * 24 * hour"
  by (simp add: config_Load_def Let_def)

end
