(* ===== verification/Stored_Types.thy ===== *)
theory Stored_Types
  imports Service_Frames Auth_Laws
begin

text \<open>
  What the columns of the users table hold, by type: a password column only ever holds the output of the
  hash, a secret column only seeds of the generator, a role column a role of the service, a provider
  column a provider of the service. The invariant holds for each user by himself, so a call that reads
  a user and writes him back needs to know nothing else about the table.
\<close>

section \<open>The type of an account\<close>

definition hashed :: "packages \<Rightarrow> string \<Rightarrow> bool" where
  "hashed P h \<longleftrightarrow> h = '''' \<or> (\<exists>salt pw. bcrypt_Hash P salt pw = Inr h)"

definition seeded :: "string \<Rightarrow> bool" where
  "seeded s \<longleftrightarrow> s = '''' \<or> (\<exists>b. length b = 20 \<and> s = base32_EncodeToString b)"

definition typed_user :: "packages \<Rightarrow> user \<Rightarrow> bool" where
  "typed_user P u \<longleftrightarrow> hashed P (u_Password u) \<and> seeded (u_MFASecret u) \<and> Role_IsValid (u_Role u) \<and>
     u_OAuthProvider u \<in> {'''', ''google'', ''github''}"

definition typed_table :: "packages \<Rightarrow> 'd pgx_pool \<Rightarrow> 'd table \<Rightarrow> ('r, 'd) world \<Rightarrow> bool" where
  "typed_table P db tbl w \<longleftrightarrow> pg_inv db tbl w \<and> (\<forall>u \<in> pg_users tbl w. typed_user P u)"

definition keeps_types :: "packages \<Rightarrow> 'd pgx_pool \<Rightarrow> 'd table \<Rightarrow> ('r, 'd) world \<Rightarrow> ('r, 'd) world \<Rightarrow> bool" where
  "keeps_types P db tbl w w' \<longleftrightarrow> (typed_table P db tbl w \<longrightarrow> typed_table P db tbl w')"

interpretation types: frame "keeps_types P db tbl" for P db tbl
  by unfold_locales (auto simp: keeps_types_def)

lemma hashed_simps [simp]: "hashed P ''''" "bcrypt_Hash P salt pw = Inr h \<Longrightarrow> hashed P h"
  by (auto simp: hashed_def)

lemma seeded_simps [simp]: "seeded ''''" "length b = 20 \<Longrightarrow> seeded (base32_EncodeToString b)"
  by (auto simp: seeded_def)

lemma typed_updates [simp]:
  "typed_user P u \<Longrightarrow> hashed P h \<Longrightarrow> typed_user P (u\<lparr>u_Password := h\<rparr>)"
  "typed_user P u \<Longrightarrow> seeded s \<Longrightarrow> typed_user P (u\<lparr>u_MFASecret := s\<rparr>)"
  "typed_user P (u\<lparr>u_UpdatedAt := t\<rparr>) = typed_user P u" "typed_user P (u\<lparr>u_MFAEnabled := b\<rparr>) = typed_user P u"
  "typed_user P (u\<lparr>u_EmailVerified := b\<rparr>) = typed_user P u" "typed_user P (u\<lparr>u_Email := e\<rparr>) = typed_user P u"
  "typed_user P (u\<lparr>u_IsActive := b\<rparr>) = typed_user P u" "typed_user P (u\<lparr>u_ExternalID := x\<rparr>) = typed_user P u"
  by (simp_all add: typed_user_def)

section \<open>Calls of the repository\<close>

lemma types_of_db: "state_io_rel (\<lambda>w w'. w_db w' = w_db w) m \<Longrightarrow> state_io_rel (keeps_types P db tbl) m"
  by (simp add: state_io_rel_def keeps_types_def typed_table_def pg_inv_def pg_users_def)

lemma types_lookups:
  "state_io_rel (keeps_types P db tbl) (GetByEmail db i e)" "state_io_rel (keeps_types P db tbl) (GetByID db i)"
  "state_io_rel (keeps_types P db tbl) (GetByOAuth db i p s)"
  by (simp_all add: state_io_rel_def keeps_types_def typed_table_def pg.inv_email pg.keep_email pg.inv_id pg.keep_id
      pg.inv_oauth pg.keep_oauth)

lemma types_Create:
  fixes tbl :: "'d table"
  assumes "typed_user P x"
  shows "state_io_rel (keeps_types P db tbl) (Create db x :: ('r, 'd, unit) go)"
  unfolding state_io_rel_def keeps_types_def
proof (intro allI impI)
  fix w :: "('r, 'd) world"
  assume "typed_table P db tbl w"
  then have w: "pg_inv db tbl w" "\<forall>u \<in> pg_users tbl w. typed_user P u" by (simp_all add: typed_table_def)
  have "typed_user P (stored_user x)" using assms by (simp add: typed_user_def)
  then have "\<forall>u \<in> pg_users tbl (after (Create db x) w). typed_user P u"
    using pg.create_any [OF w(1), of x] w(2) by auto
  then show "typed_table P db tbl (after (Create db x) w)" using pg.inv_create [OF w(1), of x] by (simp add: typed_table_def)
qed

lemma types_Update:
  fixes tbl :: "'d table"
  assumes "typed_user P x"
  shows "state_io_rel (keeps_types P db tbl) (Update db x :: ('r, 'd, unit) go)"
  unfolding state_io_rel_def keeps_types_def
proof (intro allI impI)
  fix w :: "('r, 'd) world"
  assume "typed_table P db tbl w"
  then have w: "pg_inv db tbl w" "\<forall>u \<in> pg_users tbl w. typed_user P u" by (simp_all add: typed_table_def)
  have "typed_user P (updated_user x v)" if "v \<in> pg_users tbl w" for v
    using assms w(2) that by (auto simp: typed_user_def updated_user_def)
  then have "\<forall>u \<in> pg_users tbl (after (Update db x) w). typed_user P u"
    using pg.update_any [OF w(1), of x] w(2) by auto
  then show "typed_table P db tbl (after (Update db x) w)" using pg.inv_update [OF w(1), of x] by (simp add: typed_table_def)
qed

lemma types_Delete: "state_io_rel (keeps_types P db tbl) (Delete db i)"
  unfolding state_io_rel_def keeps_types_def typed_table_def
  using pg.inv_delete pg.delete_any by fastforce

lemma types_List: "state_io_rel (keeps_types P db tbl) (List db t pq :: ('r, 'd, user list \<times> int64) go)"
proof -
  have query: "state_io_rel (keeps_types P db tbl) (db_do f :: ('r, 'd, 'x) prog)"
    if "\<And>d. pg_laws db tbl \<Longrightarrow> table_ok (tbl d) \<Longrightarrow> tbl (snd (f d)) = tbl d" for f :: "'d \<Rightarrow> 'x \<times> 'd"
    using that by (simp add: state_io_rel_def keeps_types_def typed_table_def pg_inv_def pg_users_def db_do_def split_beta)
  show ?thesis unfolding List_def Let_def
    by (rule types.bind_frame, rule query)
      (auto simp: pg_laws_def pg_count_law_def pg_page_law_def intro!: types.frame_rules query split: sum.split list.split sqlval.split)
qed

section \<open>What a result is\<close>

text \<open>A call's result has a property whenever the table is typed, so the rest may use it.\<close>

lemma types_learn:
  fixes m :: "('r, 'd, 'a) prog"
  assumes "state_io_rel (keeps_types P db tbl) m" and "\<And>w. typed_table P db tbl w \<Longrightarrow> Q (result m w)"
    and "\<And>x. Q x \<Longrightarrow> state_io_rel (keeps_types P db tbl) (k x)"
  shows "state_io_rel (keeps_types P db tbl) (State_Monad.bind m k)"
  unfolding state_io_rel_def keeps_types_def after_bind
proof (intro allI impI)
  fix w :: "('r, 'd) world" assume w: "typed_table P db tbl w"
  have "typed_table P db tbl (after m w)" using types.frameD [OF assms(1), of w] w by (simp add: keeps_types_def)
  then show "typed_table P db tbl (after (k (result m w)) (after m w))"
    using types.frameD [OF assms(3) [OF assms(2) [OF w]], of "after m w"] by (simp add: keeps_types_def)
qed

lemma types_read:
  fixes k :: "go_error + user \<Rightarrow> ('r, 'd, 'a) prog"
  assumes "\<And>e. state_io_rel (keeps_types P db tbl) (k (Inl e))"
    and "\<And>v. typed_user P v \<Longrightarrow> state_io_rel (keeps_types P db tbl) (k (Inr v))"
  shows "state_io_rel (keeps_types P db tbl) (State_Monad.bind (GetByID db i) k)"
proof (rule types_learn [OF types_lookups(2), where Q = "\<lambda>r. \<forall>v. r = Inr v \<longrightarrow> typed_user P v"])
  show "\<forall>v. result (GetByID db i) w = Inr v \<longrightarrow> typed_user P v" if "typed_table P db tbl w" for w :: "('r, 'd) world"
    using that pg.id_found [of db tbl w i] by (auto simp: typed_table_def)
  show "state_io_rel (keeps_types P db tbl) (k r)" if "\<forall>v. r = Inr v \<longrightarrow> typed_user P v" for r
    using assms that by (cases r) simp_all
qed

lemma types_hash:
  assumes "\<And>e. state_io_rel (keeps_types P db tbl) (k (Inl e))"
    and "\<And>h. hashed P h \<Longrightarrow> state_io_rel (keeps_types P db tbl) (k (Inr h))"
  shows "state_io_rel (keeps_types P db tbl) (State_Monad.bind (bcrypt_GenerateFromPassword P pw) k)"
proof (rule types_learn [OF types_of_db [OF bcrypt_frames(1)], where Q = "\<lambda>r. \<forall>h. r = Inr h \<longrightarrow> hashed P h"])
  show "state_io_rel (keeps_types P db tbl) (k r)" if "\<forall>h. r = Inr h \<longrightarrow> hashed P h" for r
    using assms that by (cases r) simp_all
qed (simp add: bcrypt_GenerateFromPassword_def)

lemma types_hash_ignored:
  assumes "\<And>h. hashed P h \<Longrightarrow> state_io_rel (keeps_types P db tbl) (k h)"
  shows "state_io_rel (keeps_types P db tbl)
    (State_Monad.bind (ignore_error '''' (bcrypt_GenerateFromPassword P pw)) k)"
  by (rule types_learn [where Q = "hashed P", OF types_of_db [OF ignore_error_frame [OF bcrypt_frames(1)]] _ assms])
    (simp_all add: ignore_error_def bcrypt_GenerateFromPassword_def split: sum.split)

lemma types_seed:
  assumes "\<And>e. state_io_rel (keeps_types P db tbl) (k (Inl e))"
    and "\<And>s. seeded s \<Longrightarrow> state_io_rel (keeps_types P db tbl) (k (Inr s))"
  shows "state_io_rel (keeps_types P db tbl) (State_Monad.bind GenerateSecret k)"
proof (rule types_learn [OF types_of_db [OF GenerateSecret_frames(1)], where Q = "\<lambda>r. \<forall>s. r = Inr s \<longrightarrow> seeded s"])
  show "state_io_rel (keeps_types P db tbl) (k r)" if "\<forall>s. r = Inr s \<longrightarrow> seeded s" for r
    using assms that by (cases r) simp_all
qed (simp add: GenerateSecret_def rand_Read_def)

section \<open>Calls of the use cases\<close>

lemma types_of_users:
  "state_io_rel (keeps_users (pg_inv db tbl) (pg_users tbl)) m \<Longrightarrow> state_io_rel (keeps_types P db tbl) m"
  by (simp add: state_io_rel_def keeps_users_def keeps_types_def typed_table_def)

lemmas types_prims =
  types_lookups types_Create types_Update types_Delete types_List
  time_Now_frames(1) [THEN types_of_db] rand_Read_frames(1) [THEN types_of_db] uuid_New_frames(1) [THEN types_of_db]
  http_Do_frames(1) [THEN types_of_db] GenerateSecureToken_frames(1) [THEN types_of_db]
  ignore_error_frame [OF GenerateSecureToken_frames(1), THEN types_of_db] audit_Log_frames(1) [THEN types_of_db]
  ValidateCode_frames(1) [THEN types_of_db] redis_do_frames(1) [THEN types_of_db]
  session_db_frames [THEN types_of_db]

lemmas types_reads = types_read types_hash types_hash_ignored types_seed

lemmas types_repository = auth_system_simps repository_simps session_simps

lemma types_edits:
  "state_io_rel (keeps_types P db tbl) (SetupMFA (auth_system getenv P J db rdb km cfg) i)"
  "state_io_rel (keeps_types P db tbl) (ConfirmMFASetup (auth_system getenv P J db rdb km cfg) i code)"
  "state_io_rel (keeps_types P db tbl) (ConfirmEmailVerification (auth_system getenv P J db rdb km cfg) tok)"
  "state_io_rel (keeps_types P db tbl) (ConfirmPasswordReset (auth_system getenv P J db rdb km cfg) tok p)"
  unfolding SetupMFA_def ConfirmMFASetup_def ConfirmEmailVerification_def ConfirmPasswordReset_def Let_def types_repository
  by (rule types_reads | rule types.frame_rules types_prims | simp only: sum.case option.case | (simp; fail))+

lemma types_looks:
  "state_io_rel (keeps_types P db tbl) (Login (auth_system getenv P J db rdb km cfg) t e p ip)"
  "state_io_rel (keeps_types P db tbl) (VerifyMFAChallenge (auth_system getenv P J db rdb km cfg) tok code ip)"
  "state_io_rel (keeps_types P db tbl) (RequestPasswordReset (auth_system getenv P J db rdb km cfg) t e)"
  "state_io_rel (keeps_types P db tbl) (RefreshToken (auth_system getenv P J db rdb km cfg) tok ip)"
  "state_io_rel (keeps_types P db tbl) (Logout (auth_system getenv P J db rdb km cfg) tok ip)"
  "state_io_rel (keeps_types P db tbl) (generateSession (auth_system getenv P J db rdb km cfg) user)"
  by (rule types_of_users; rule auth.Login_users auth.VerifyMFAChallenge_users auth.Request_users auth.RefreshToken_users
      auth.Logout_users auth.generateSession_users)+

lemma types_OAuthLoginURL:
  "state_io_rel (keeps_types P db tbl) (OAuthLoginURL (auth_system getenv P J db rdb km cfg) prov)"
  unfolding OAuthLoginURL_def types_repository by (intro types.frame_rules types_prims)

text \<open>The accounts that registration, the federated login and provisioning add.\<close>

lemma roles_valid: "Role_IsValid RoleUser"
  by (simp add: Role_IsValid_def)

lemma types_Register:
  "state_io_rel (keeps_types P db tbl) (Register (auth_system getenv P J db rdb km cfg) t e p ip)"
  unfolding Register_def Let_def types_repository outside_defs
  by (rule types_reads | rule types.frame_rules types_prims mail_frames(1) [THEN types_of_db] |
      (simp add: typed_user_def zero_user_def roles_valid; fail))+

lemma types_callback:
  "state_io_rel (keeps_types P db tbl) (HandleOAuthCallback (auth_system getenv P J db rdb km cfg) t prov code st ip)"
proof -
  have ex: "state_io_rel (keeps_types P db tbl) (pv_ExchangeCode pv c)"
    if "(if prov = ''google'' then Some (NewGoogleProvider getenv)
         else if prov = ''github'' then Some (NewGitHubProvider getenv) else None) = Some pv" for pv c
    using that by (auto simp: outside_defs intro: google_ExchangeCode_frames(1) [THEN types_of_db]
        github_ExchangeCode_frames(1) [THEN types_of_db] split: if_splits)
  show ?thesis
    unfolding HandleOAuthCallback_def random_password_hash_def Let_def types_repository State_Monad.bind_assoc
    by (rule types_reads | rule types.frame_rules types_prims types_looks ex |
        assumption | (auto simp: typed_user_def zero_user_def roles_valid split: if_splits; fail))+
qed

lemma types_users:
  "state_io_rel (keeps_types P db tbl) (GetProfile (NewUserRepository db) i)"
  "state_io_rel (keeps_types P db tbl) (ListUsers (NewUserRepository db) t pq)"
  "state_io_rel (keeps_types P db tbl) (scim_ListUsers P (NewUserRepository db) t pq)"
  "state_io_rel (keeps_types P db tbl) (scim_CreateUser P (NewUserRepository db) t q)"
  "state_io_rel (keeps_types P db tbl) (scim_GetUser P (NewUserRepository db) i)"
  "state_io_rel (keeps_types P db tbl) (scim_UpdateUser P (NewUserRepository db) i q)"
  "state_io_rel (keeps_types P db tbl) (scim_DeleteUser (NewUserRepository db) i)"
  unfolding GetProfile_def ListUsers_def scim_ListUsers_def scim_CreateUser_def scim_GetUser_def scim_UpdateUser_def
    scim_DeleteUser_def types_repository Let_def
  by (rule types_reads | rule types.frame_rules types_prims |
      (simp add: typed_user_def zero_user_def roles_valid split: option.split; fail))+

interpretation types_service: service_frame "keeps_types P db tbl" getenv P J db rdb km cfg
  for P db tbl getenv J rdb km cfg
  by unfold_locales (rule types_edits types_looks types_OAuthLoginURL types_Register types_callback types_users types_prims
      ValidateAccessToken_frames(1) [THEN types_of_db])+

end
