(* ===== verification/Service_Properties.thy ===== *)
theory Service_Properties
  imports Service_Laws Session_Properties Component_Properties Stored_Types
begin

text \<open>
  Properties of the whole service, as \<open>main.go\<close> assembles it: from a login to the guarded handlers, the
  protected paths, the bookkeeping of every request, the audit log, and the provisioning interface.
\<close>

section \<open>From login to the guarded handlers\<close>

lemma access_token_later:
  assumes "w_clock w \<le> w_clock w0" "t < (w_clock w + ttl) div second * second"
  shows "t < (w_clock w0 + int (w_elapse w0 0) + ttl) div second * second"
proof -
  have "(w_clock w + ttl) div second \<le> (w_clock w0 + int (w_elapse w0 0) + ttl) div second"
    using assms(1) by (intro zdiv_mono1) (simp_all add: duration_defs)
  then have "(w_clock w + ttl) div second * second \<le> (w_clock w0 + int (w_elapse w0 0) + ttl) div second * second"
    by (simp add: duration_defs)
  with assms(2) show ?thesis by linarith
qed

text \<open>C5. The access token of a login opens the guarded handlers: until its lifetime is over, a request that
  presents it passes the authentication, and the handler behind it sees the identifier, the address and
  the role of the user whose credentials were given.\<close>

theorem login_token_accepted:
  fixes w :: "('r, 'd) world"
  assumes inv: "pg_inv db tbl w" "redis_laws rdb alive" "0 < cfg_RefreshTokenTTL cfg"
    and laws: "jwt_laws J verifies" "NewKeyManager keys path = Inr km"
    and plain: "\<And>i. ascii (uuid_String P i)" "\<forall>u \<in> pg_users tbl w. ascii (u_Email u) \<and> ascii (u_Role u)"
    and run: "run_state (Login (auth_system getenv P J db rdb km cfg) tenantID email password ip) w = (Inr res, w')"
    and "\<not> at_RequiresMFA res" and tok: "bearer rq (at_AccessToken res)"
    and time: "w_clock (sv_World s) + int (w_elapse (sv_World s) 0) < (w_clock w + cfg_AccessTokenTTL cfg) div second * second"
  shows "\<exists>user c. credentials_of P (pg_users tbl w) tenantID email password user \<and>
    cl_UserID c = u_ID user \<and> cl_Email c = u_Email user \<and> cl_Role c = u_Role user \<and>
    run_state (AuthMiddleware J km next rq) s =
      run_state (next (rq\<lparr>rq_User := Some c\<rparr>)) (s\<lparr>sv_World := after time_Now (sv_World s)\<rparr>)"
proof -
  let ?A = "auth_system getenv P J db rdb km cfg"
  obtain user where user: "credentials_of (au_packages ?A) (pg_users tbl w) tenantID email password user"
    and "u_MFAEnabled user \<Longrightarrow> challenge_only res \<and> (\<forall>t \<ge> w_clock w'. refresh_tok alive t w' = refresh_tok alive t w)"
    and "\<not> u_MFAEnabled user \<Longrightarrow> session_opened ?A (refresh_tok alive) user w res w'"
    by (rule auth.Login_Inr [OF inv(1,2) _ run]) (use inv(3) in simp_all)
  then have "session_opened ?A (refresh_tok alive) user w res w'" using assms(9) by (auto simp: challenge_only_def)
  then obtain w0 w1 :: "('r, 'd) world" where later: "w_clock w \<le> w_clock w0"
    and gen: "run_state (GenerateAccessToken P J km (u_ID user) (u_Email user) (u_Role user) (cfg_AccessTokenTTL cfg)) w0 =
      (Inr (at_AccessToken res), w1)"
    unfolding session_opened_def access_token_for_def by auto
  have asc: "ascii (u_Email user)" "ascii (u_Role user)" using plain(2) user by (auto simp: credentials_of_def)
  obtain c where val: "run_state (ValidateAccessToken J km (at_AccessToken res)) (sv_World s) = (Inr c, after time_Now (sv_World s))"
    and c: "cl_UserID c = u_ID user" "cl_Email c = u_Email user" "cl_Role c = u_Role user"
    using generated_validates [OF laws(1) NewKeyManager_Inr [OF laws(2)] asc plain(1) gen access_token_later [OF later time]]
    by (auto simp: access_claims_def)
  have ne: "rq_Header rq ''Authorization'' \<noteq> ''''" using tok by (auto simp: bearer_def)
  have "run_state (AuthMiddleware J km next rq) s =
      run_state (next (rq\<lparr>rq_User := Some c\<rparr>)) (s\<lparr>sv_World := after time_Now (sv_World s)\<rparr>)"
    using tok ne val by (simp add: AuthMiddleware_def bearer_def run_in_world Let_def)
  with user c show ?thesis by (intro exI [of _ user] exI [of _ c]) simp
qed

definition with_token :: "string \<Rightarrow> request \<Rightarrow> request" where
  "with_token tok rq = rq\<lparr>rq_Header := \<lambda>k. if k = ''Authorization'' then ''Bearer '' @ tok else ''''\<rparr>"

lemma bearer_with_token [simp]: "bearer (with_token tok rq) tok"
  by (simp add: bearer_def with_token_def)

theorem login_token_accepted_witness:
  "\<exists>res w' c. run_state (Login mem_system 1 ''ann@example.org'' ''secret99'' '''') (mem_world Map.empty [ann]) = (Inr res, w') \<and>
    cl_UserID c = 7 \<and> run_state (AuthMiddleware mem_jwt mem_km (h_GetProfile mem_users_handler)
      (with_token (at_AccessToken res) (mem_request ''GET'' ''/''))) (mem_server (mem_world Map.empty [ann])) =
      run_state (h_GetProfile mem_users_handler (with_token (at_AccessToken res) (mem_request ''GET'' ''/'')\<lparr>rq_User := Some c\<rparr>))
        ((mem_server (mem_world Map.empty [ann]))\<lparr>sv_World := after time_Now (mem_world Map.empty [ann])\<rparr>)"
proof -
  let ?w = "mem_world Map.empty [ann]" and ?s = "mem_server (mem_world Map.empty [ann])"
  obtain res w' where run: "run_state (Login mem_system 1 ''ann@example.org'' ''secret99'' '''') ?w = (Inr res, w')"
    using ann_logs_in by blast
  have "\<exists>res' w''. run_state (Login mem_system 1 ''ann@example.org'' ''secret99'' '''') ?w = (Inr res', w'') \<and> \<not> at_RequiresMFA res'"
  proof -
    obtain res w2 where "run_state (generateSession mem_system ann) ?w = (Inr res, w2)" "\<not> at_RequiresMFA res"
      using session_answers [OF mem_jwt_laws entropy_ok_mem mem_signs mem_stores] by blast
    then show ?thesis by (simp add: Login_def ann_email mem_ByEmail mem_packages_def split: prod.split)
  qed
  then have plain: "\<not> at_RequiresMFA res" using run by auto
  have a: "\<forall>u \<in> pg_users mem_table ?w. ascii (u_Email u) \<and> ascii (u_Role u)"
    by (simp add: mem_users ascii_def RoleUser_def)
  have t: "w_clock (sv_World ?s) + int (w_elapse (sv_World ?s) 0) < (w_clock ?w + cfg_AccessTokenTTL mem_cfg) div second * second"
    by (simp add: mem_server_def mem_now_def duration_defs)
  have r: "0 < cfg_RefreshTokenTTL mem_cfg" by (simp add: duration_defs)
  from login_token_accepted [OF ann_inv mem_redis_laws r mem_jwt_laws mem_km_loaded mem_uuid_ascii a run plain bearer_with_token t,
      of "h_GetProfile mem_users_handler" "mem_request ''GET'' ''/''"] run
  show ?thesis by (auto simp: credentials_of_def mem_users mem_server_def)
qed

section \<open>Protected paths\<close>

text \<open>C4. The administration and provisioning paths are closed: whatever the method and the state, a request on a
  clean path below \<open>/api/v1/admin/\<close> or \<open>/scim/v2/\<close> changes no user, sends no mail and gets nothing but error
  messages, unless it presents a token that is valid during the call and names the role of an administrator.\<close>

theorem admin_paths_guarded:
  fixes s :: "('r, 'd) server"
  assumes path: "cleanPath (rq_Path rq) = rq_Path rq" "admin_path (rq_Path rq) \<or> scim_path (rq_Path rq)"
    and run: "run_state (service getenv P J db rdb km cfg prom rq) s = (r, s')"
  shows "(w_db (sv_World s') = w_db (sv_World s) \<and> w_mails (sv_World s') = w_mails (sv_World s) \<and>
      (\<exists>bs. wr_Body (sv_Writer s') = wr_Body (sv_Writer s) @ bs \<and> (\<forall>b \<in> set bs. error_body b))) \<or>
    (\<exists>tok claims w0 w1. bearer rq tok \<and> w_clock (sv_World s) \<le> w_clock w0 \<and>
      run_state (ValidateAccessToken J km tok) w0 = (Inr claims, w1 :: ('r, 'd) world) \<and> cl_Role claims = RoleAdmin)"
proof -
  have "protected_path rq" using path by (simp add: protected_path_def)
  then have "shut_run J km rq (service getenv P J db rdb km cfg prom rq)"
    using shut_service unfolding shut_def by blast
  then have "untouched s s' \<or> admitted J km rq PermissionManageSystem s"
    using run by (simp add: shut_run_def) (metis snd_conv)
  then show ?thesis unfolding untouched_def admitted_def HasPermission_manage by blast
qed

definition mem_metrics :: "(mem_redis, mem_db) handler" where
  "mem_metrics rq = WriteJSON 200 None ''metrics''"

abbreviation mem_service :: "(mem_redis, mem_db) handler" where
  "mem_service \<equiv> service mem_env mem_packages mem_jwt mem_pool mem_client mem_km mem_cfg mem_metrics"

theorem admin_paths_guarded_witness:
  "w_db (sv_World (after (mem_service (mem_request ''DELETE'' ''/scim/v2/Users/7'')) (mem_server (mem_world Map.empty [ann])))) = [ann]"
proof -
  let ?rq = "mem_request ''DELETE'' ''/scim/v2/Users/7''" and ?s = "mem_server (mem_world Map.empty [ann])"
  have c: "cleanPath (rq_Path ?rq) = rq_Path ?rq" "admin_path (rq_Path ?rq) \<or> scim_path (rq_Path ?rq)"
    unfolding mem_request_def request.simps by code_simp+
  have "\<not> bearer ?rq tok" for tok by (simp add: bearer_def mem_request_def)
  with admin_paths_guarded [OF c run_of_result [OF refl], of mem_env mem_packages mem_jwt mem_pool mem_client mem_km mem_cfg mem_metrics ?s]
  show ?thesis by (auto simp: mem_server_def)
qed

section \<open>Every request is answered\<close>

text \<open>C20. Every request is answered and none makes the service panic: a response is sent, and either the request
  is in the access log once and in the request counter once, both under the status that was sent, with
  the gauge of active requests back where it was, or it was turned away by the limiter or as a preflight,
  and then it is in neither.\<close>

theorem every_request_answered:
  assumes "\<And>rq. proper (prom rq)" and "wr_Sent (sv_Writer s) = None"
    and "run_state (service getenv P J db rdb km cfg prom rq) s = (r, s')"
  shows "r = Inr () \<and> (\<exists>code hd. wr_Sent (sv_Writer s') = Some (code, hd) \<and>
    ((\<exists>d rec. sv_Log s' = sv_Log s @ [rec] \<and> ac_Method rec = rq_Method rq \<and> ac_Path rec = pathUnescape (rq_Path rq) \<and>
        ac_Status rec = code \<and>
        sv_Metrics s' = TrackRequest (rq_Method rq) (pathUnescape (rq_Path rq)) code d (sv_Metrics s)) \<or>
     (sv_Log s' = sv_Log s \<and> sv_Metrics s' = sv_Metrics s \<and> (code = 429 \<or> code = 204 \<and> rq_Method rq = ''OPTIONS''))))"
proof -
  have "answers rq (service getenv P J db rdb km cfg prom rq)" by (rule service_answers) (rule assms(1))
  from this [unfolded answers_def, rule_format, OF assms(2)]
  have "r = Inr () \<and> (booked rq s s' \<or> turned_away rq s s')" unfolding assms(3) by simp
  then show ?thesis unfolding booked_def turned_away_def same_books_def by blast
qed

theorem every_request_answered_witness:
  "\<exists>code hd. wr_Sent (sv_Writer (after (mem_service (mem_request ''GET'' ''/healthz'')) (mem_server (mem_world Map.empty [])))) = Some (code, hd)"
proof -
  have "proper (mem_metrics rq)" for rq by (simp add: mem_metrics_def proper_rules)
  moreover have "wr_Sent (sv_Writer (mem_server (mem_world Map.empty []))) = None" by (simp add: mem_server_def new_writer_def)
  ultimately show ?thesis using every_request_answered [OF _ _ run_of_result [OF refl]] by blast
qed

section \<open>The audit log\<close>



section \<open>What the table holds\<close>



section \<open>Startup\<close>


definition mem_drivers :: "(mem_redis, mem_db) drivers" where
  "mem_drivers = \<lparr>migrate_New = (\<lambda>src url. None), migrate_Up = (\<lambda>src url. None), migrate_ErrNoChange = ErrText ''no change'',
     pgxpool_ParseConfig = (\<lambda>url. Inr \<lparr>po_ConnString = url, po_MaxConns = 4, po_MinConns = 0, po_MaxConnIdleTime = 0, po_MaxConnLifetime = 0\<rparr>),
     pgxpool_NewWithConfig = (\<lambda>pc. Inr mem_pool), redis_NewClient = (\<lambda>opts. mem_client)\<rparr>"


end
