(* ===== verification/Logger.thy ===== *)
theory Logger
  imports Go_Std
begin

text \<open>
  \<open>infrastructure/logger\<close>: how the process logger is built, and which of its entries are written. The audit
  logger is a child of it with a name of its own; what it writes is in theory Effects.
\<close>

datatype log_level = DebugLevel | InfoLevel | WarnLevel | ErrorLevel | FatalLevel

text \<open>The levels in their order.\<close>

fun level_number :: "log_level \<Rightarrow> int" where
  "level_number DebugLevel = - 1"
| "level_number InfoLevel = 0"
| "level_number WarnLevel = 1"
| "level_number ErrorLevel = 2"
| "level_number FatalLevel = 5"

datatype time_encoder = EpochTimeEncoder | ISO8601TimeEncoder

datatype level_encoder = LowercaseLevelEncoder | CapitalLevelEncoder

record encoder_config =
  ec_TimeKey :: string
  ec_EncodeTime :: time_encoder
  ec_EncodeLevel :: level_encoder

record zap_logger =
  zl_Name :: string
  zl_Encoder :: encoder_config
  zl_Level :: log_level
  zl_AddCaller :: bool
  zl_Stacktrace :: "log_level option"

text \<open>The defaults of the library: \<open>zap.NewProductionEncoderConfig\<close>.\<close>

definition NewProductionEncoderConfig :: encoder_config where
  "NewProductionEncoderConfig = \<lparr>ec_TimeKey = ''ts'', ec_EncodeTime = EpochTimeEncoder, ec_EncodeLevel = LowercaseLevelEncoder\<rparr>"

definition NewZapLogger :: "'e + zap_logger" where
  "NewZapLogger =
     (let encoderConfig = NewProductionEncoderConfig\<lparr>ec_TimeKey := ''timestamp'', ec_EncodeTime := ISO8601TimeEncoder,
        ec_EncodeLevel := CapitalLevelEncoder\<rparr>
      in Inr \<lparr>zl_Name = '''', zl_Encoder = encoderConfig, zl_Level = InfoLevel, zl_AddCaller = True,
           zl_Stacktrace = Some ErrorLevel\<rparr>)"

text \<open>\<open>logger.Named\<close>: the names of nested loggers are joined by dots.\<close>

definition zap_Named :: "string \<Rightarrow> zap_logger \<Rightarrow> zap_logger" where
  "zap_Named s lg = (if s = '''' then lg else lg\<lparr>zl_Name := (if zl_Name lg = '''' then s else zl_Name lg @ ''.'' @ s)\<rparr>)"

definition NewAuditLogger :: "zap_logger \<Rightarrow> zap_logger" where
  "NewAuditLogger zapLogger = zap_Named ''audit'' zapLogger"

text \<open>An entry is written when its level is at least the logger's.\<close>

definition writes_entry :: "zap_logger \<Rightarrow> log_level \<Rightarrow> bool" where
  "writes_entry lg lv \<longleftrightarrow> level_number (zl_Level lg) \<le> level_number lv"

text \<open>No audit record, access record or fatal message is filtered out.\<close>

lemma audit_written:
  "NewZapLogger = Inr lg \<Longrightarrow> zl_Name (NewAuditLogger lg) = ''audit'' \<and>
     writes_entry (NewAuditLogger lg) InfoLevel \<and> writes_entry lg InfoLevel \<and> writes_entry lg FatalLevel"
  by (auto simp: NewZapLogger_def NewAuditLogger_def zap_Named_def writes_entry_def Let_def)

end
