(* ===== verification/Lifecycle.thy ===== *)
theory Lifecycle
  imports Startup Logger
begin

text \<open>
  The life of the process of \<open>cmd/server/main.go\<close>: the stages up to the server, each of which may end it with
  \<open>zapLogger.Fatal\<close>; then two goroutines, one in \<open>ListenAndServe\<close>, one waiting for a signal and
  shutting the server down. \<open>Fatal\<close> is \<open>os.Exit(1)\<close> and runs no deferred call; a return from \<open>main\<close> runs them,
  last deferred first. The steps of \<open>net/http\<close>'s server and of the signals are an inductive relation.
\<close>

section \<open>The state of the process\<close>

datatype os_signal = SIGINT | SIGTERM

text \<open>The deferred calls.\<close>

datatype resource = ZapSync | StartCancel | PoolClose | RedisClose | ShutdownCancel

datatype main_goroutine =
    MainServing
  | MainWaiting
  | MainDraining time
  | MainKilled os_signal
  | MainExited int

datatype serve_goroutine = ServeCreated | ServeStarting | ServeAccepting | ServeReturned

record http_server =
  hs_Addr :: string
  hs_ReadTimeout :: duration
  hs_WriteTimeout :: duration
  hs_IdleTimeout :: duration

text \<open>
  \<open>ps_Quit\<close> is the channel of capacity one; \<open>ps_Accepted\<close> counts the requests that were accepted,
  which are numbered from zero.
\<close>

record ('r, 'd) process =
  ps_Main :: main_goroutine
  ps_Serve :: serve_goroutine
  ps_Quit :: "os_signal option"
  ps_Http :: "(http_server \<times> ('r, 'd) handler) option"
  ps_Accepted :: nat
  ps_Inflight :: "(nat \<times> request) list"
  ps_Responses :: "(nat \<times> response_writer) list"
  ps_Server :: "('r, 'd) server"
  ps_Deferred :: "resource list"
  ps_Ran :: "resource list"
  ps_Messages :: "string list"

definition http_server_of :: "config \<Rightarrow> http_server" where
  "http_server_of cfg = \<lparr>hs_Addr = '':'' @ cfg_AppPort cfg, hs_ReadTimeout = 15 * second,
     hs_WriteTimeout = 15 * second, hs_IdleTimeout = 60 * second\<rparr>"

section \<open>The stages of main\<close>

definition zap_Fatal :: "string \<Rightarrow> ('r, 'd) process \<Rightarrow> ('r, 'd) process" where
  "zap_Fatal msg p = p\<lparr>ps_Messages := ps_Messages p @ [msg], ps_Main := MainExited 1\<rparr>"

definition zap_Info :: "string \<Rightarrow> ('r, 'd) process \<Rightarrow> ('r, 'd) process" where
  "zap_Info msg p = p\<lparr>ps_Messages := ps_Messages p @ [msg]\<rparr>"

definition go_defer :: "resource \<Rightarrow> ('r, 'd) process \<Rightarrow> ('r, 'd) process" where
  "go_defer c p = p\<lparr>ps_Deferred := c # ps_Deferred p\<rparr>"

definition main_returns :: "('r, 'd) process \<Rightarrow> ('r, 'd) process" where
  "main_returns p = p\<lparr>ps_Ran := ps_Ran p @ ps_Deferred p, ps_Deferred := [], ps_Main := MainExited 0\<rparr>"

definition new_process :: "('r, 'd) server \<Rightarrow> ('r, 'd) process" where
  "new_process s = \<lparr>ps_Main = MainServing, ps_Serve = ServeCreated, ps_Quit = None, ps_Http = None, ps_Accepted = 0,
     ps_Inflight = [], ps_Responses = [], ps_Server = s, ps_Deferred = [], ps_Ran = [], ps_Messages = []\<rparr>"

text \<open>From the first line of \<open>main\<close> to the goroutine that serves.\<close>

definition main_start :: "(string \<Rightarrow> string) \<Rightarrow> packages \<Rightarrow> jwt_lib \<Rightarrow> key_readers \<Rightarrow> ('r, 'd) drivers \<Rightarrow>
    ('r, 'd) handler \<Rightarrow> ('r, 'd) server \<Rightarrow> ('r, 'd) process" where
  "main_start getenv P J keys io prom s =
     (case NewZapLogger of
        Inl (err :: go_error) \<Rightarrow> zap_Fatal ''failed to initialize logger'' (new_process s)
      | Inr zapLogger \<Rightarrow>
     (let p = go_defer ZapSync (new_process s); w = sv_World s
      in case config_Load getenv of
        Inl err \<Rightarrow> zap_Fatal ''configuration error'' p
      | Inr cfg \<Rightarrow>
          (case NewKeyManager keys (cfg_RSAPrivateKeyPath cfg) of
             Inl err \<Rightarrow> zap_Fatal ''failed to initialize RSA Key Manager'' p
           | Inr km \<Rightarrow>
               (let p = go_defer StartCancel (p\<lparr>ps_Server := s\<lparr>sv_Metrics := NewMetrics\<rparr>\<rparr>)
                in case RunMigrations io cfg of
                  Some err \<Rightarrow> zap_Fatal ''database migration failure'' p
                | None \<Rightarrow>
                    (let p = zap_Info ''database migrations verified and applied'' p
                     in case NewPostgresPool io (w_db w) cfg of
                       Inl err \<Rightarrow> zap_Fatal ''failed to connect to postgres pool'' p
                     | Inr db \<Rightarrow>
                         (let p = go_defer PoolClose p
                          in case NewRedisClient io (w_clock w) (w_redis w) cfg of
                            Inl err \<Rightarrow> zap_Fatal ''failed to connect to redis'' p
                          | Inr rdb \<Rightarrow> (go_defer RedisClose p)
                              \<lparr>ps_Http := Some (http_server_of cfg, service getenv P J db rdb km cfg prom)\<rparr>))))))"

lemmas process_defs = zap_Fatal_def zap_Info_def go_defer_def main_returns_def

lemmas start_defs = main_start_def NewZapLogger_def process_defs new_process_def Let_def

section \<open>The goroutines\<close>

definition ErrServerClosed :: go_error where
  "ErrServerClosed = ErrText ''http: Server closed''"

text \<open>What the serving goroutine does when \<open>ListenAndServe\<close> returns.\<close>

definition serve_returned :: "go_error option \<Rightarrow> ('r, 'd) process \<Rightarrow> ('r, 'd) process" where
  "serve_returned err p =
     (let p = p\<lparr>ps_Serve := ServeReturned\<rparr>
      in if err \<noteq> None \<and> err \<noteq> Some ErrServerClosed then zap_Fatal ''server crashed unexpectedly'' p else p)"

text \<open>\<open>signal.Notify\<close>: before it a signal kills the process, after it a full channel drops the signal.\<close>

definition deliver :: "os_signal \<Rightarrow> ('r, 'd) process \<Rightarrow> ('r, 'd) process" where
  "deliver sig p =
     (if ps_Main p = MainServing then p\<lparr>ps_Main := MainKilled sig\<rparr>
      else if ps_Quit p = None then p\<lparr>ps_Quit := Some sig\<rparr> else p)"

text \<open>\<open>sig := <-quit\<close> and the start of \<open>srv.Shutdown\<close> with its fifteen seconds.\<close>

definition begin_shutdown :: "('r, 'd) process \<Rightarrow> ('r, 'd) process" where
  "begin_shutdown p = (go_defer ShutdownCancel (zap_Info ''initiating graceful shutdown'' p))
     \<lparr>ps_Quit := None, ps_Main := MainDraining (w_clock (sv_World (ps_Server p)) + 15 * second)\<rparr>"

text \<open>What follows \<open>srv.Shutdown\<close>.\<close>

definition end_shutdown :: "go_error option \<Rightarrow> ('r, 'd) process \<Rightarrow> ('r, 'd) process" where
  "end_shutdown err p =
     (case err of
        Some err \<Rightarrow> zap_Fatal ''forced shutdown error'' p
      | None \<Rightarrow> main_returns (zap_Info ''server exited safely'' p))"

text \<open>A connection goroutine runs the handler on a request and sends what it wrote.\<close>

definition answer :: "('r, 'd) handler \<Rightarrow> nat \<times> request \<Rightarrow> ('r, 'd) process \<Rightarrow> ('r, 'd) process" where
  "answer h q p =
     (let s = after (h (snd q)) ((ps_Server p)\<lparr>sv_Writer := new_writer\<rparr>)
      in p\<lparr>ps_Server := s, ps_Responses := ps_Responses p @ [(fst q, sv_Writer s)], ps_Inflight := remove1 q (ps_Inflight p)\<rparr>)"

definition elapse :: "nat \<Rightarrow> ('r, 'd) process \<Rightarrow> ('r, 'd) process" where
  "elapse d p = p\<lparr>ps_Server := (ps_Server p)\<lparr>sv_World := (sv_World (ps_Server p))
     \<lparr>w_clock := w_clock (sv_World (ps_Server p)) + int d\<rparr>\<rparr>\<rparr>"

abbreviation exited :: "('r, 'd) process \<Rightarrow> bool" where
  "exited p \<equiv> (\<exists>code. ps_Main p = MainExited code) \<or> (\<exists>sig. ps_Main p = MainKilled sig)"

abbreviation draining :: "('r, 'd) process \<Rightarrow> bool" where
  "draining p \<equiv> \<exists>d. ps_Main p = MainDraining d"

text \<open>
  \<open>Shutdown\<close> closes the listener first, so that nothing is accepted while it waits, and a serving
  goroutine that has not come to listen yet returns at once. It ends well when no connection is active, and with
  the error of its context from the deadline on.
\<close>

inductive process_step :: "('r, 'd) process \<Rightarrow> ('r, 'd) process \<Rightarrow> bool" where
  notify: "ps_Main p = MainServing \<Longrightarrow> process_step p (p\<lparr>ps_Main := MainWaiting\<rparr>)"
| announce: "ps_Serve p = ServeCreated \<Longrightarrow> \<not> exited p \<Longrightarrow>
    process_step p ((zap_Info ''enterprise auth-service running'' p)\<lparr>ps_Serve := ServeStarting\<rparr>)"
| listen: "ps_Serve p = ServeStarting \<Longrightarrow> \<not> exited p \<Longrightarrow> \<not> draining p \<Longrightarrow> process_step p (p\<lparr>ps_Serve := ServeAccepting\<rparr>)"
| crash: "ps_Serve p \<in> {ServeStarting, ServeAccepting} \<Longrightarrow> \<not> exited p \<Longrightarrow> \<not> draining p \<Longrightarrow> err \<noteq> ErrServerClosed \<Longrightarrow>
    process_step p (serve_returned (Some err) p)"
| closed: "ps_Serve p \<in> {ServeStarting, ServeAccepting} \<Longrightarrow> draining p \<Longrightarrow> process_step p (serve_returned (Some ErrServerClosed) p)"
| accept: "ps_Serve p = ServeAccepting \<Longrightarrow> \<not> exited p \<Longrightarrow> \<not> draining p \<Longrightarrow>
    process_step p (p\<lparr>ps_Inflight := ps_Inflight p @ [(ps_Accepted p, rq)], ps_Accepted := Suc (ps_Accepted p)\<rparr>)"
| respond: "ps_Http p = Some (srv, h) \<Longrightarrow> q \<in> set (ps_Inflight p) \<Longrightarrow> \<not> exited p \<Longrightarrow> process_step p (answer h q p)"
| signal: "\<not> exited p \<Longrightarrow> process_step p (deliver sig p)"
| shutdown: "ps_Main p = MainWaiting \<Longrightarrow> ps_Quit p = Some sig \<Longrightarrow> process_step p (begin_shutdown p)"
| drained: "draining p \<Longrightarrow> ps_Inflight p = [] \<Longrightarrow> process_step p (end_shutdown None p)"
| expired: "ps_Main p = MainDraining d \<Longrightarrow> d \<le> w_clock (sv_World (ps_Server p)) \<Longrightarrow>
    process_step p (end_shutdown (Some err) p)"
| time: "\<not> exited p \<Longrightarrow> process_step p (elapse d p)"

inductive reached :: "('r, 'd) process \<Rightarrow> ('r, 'd) process \<Rightarrow> bool" for start where
  start: "reached start start"
| step: "reached start p \<Longrightarrow> process_step p p' \<Longrightarrow> reached start p'"

inductive_cases process_stepE: "process_step p p'"

lemmas step_defs = process_defs serve_returned_def deliver_def begin_shutdown_def end_shutdown_def answer_def elapse_def Let_def

lemma nothing_after_exit: "exited p \<Longrightarrow> \<not> process_step p p'"
  by (auto elim: process_stepE)

lemma reached_trans: "reached q r \<Longrightarrow> reached p q \<Longrightarrow> reached p r"
  by (induction rule: reached.induct) (auto intro: reached.intros)

text \<open>The server that \<open>main\<close> starts is the one of the stages.\<close>

lemma main_start_server:
  "ps_Http (main_start getenv P J keys io prom s) =
     (case server_main getenv P J keys io prom (w_clock (sv_World s)) (w_redis (sv_World s)) (w_db (sv_World s)) of
        Inl err \<Rightarrow> None
      | Inr h \<Rightarrow> Some (http_server_of (projr (config_Load getenv)), h))"
  by (simp add: start_defs server_main_def split: sum.split option.split)

section \<open>Invariants\<close>

abbreviation main_deferred :: "resource list" where
  "main_deferred \<equiv> [RedisClose, PoolClose, StartCancel, ZapSync]"

text \<open>Which deferred calls are pending, and which have run, where \<open>main\<close> stands.\<close>

definition defers_ok :: "('r, 'd) process \<Rightarrow> bool" where
  "defers_ok p \<longleftrightarrow> (case ps_Main p of
       MainServing \<Rightarrow> ps_Deferred p = main_deferred \<and> ps_Ran p = []
     | MainWaiting \<Rightarrow> ps_Deferred p = main_deferred \<and> ps_Ran p = []
     | MainDraining d \<Rightarrow> ps_Deferred p = ShutdownCancel # main_deferred \<and> ps_Ran p = []
     | MainKilled sig \<Rightarrow> ps_Ran p = []
     | MainExited code \<Rightarrow> code = 0 \<and> ps_Inflight p = [] \<and> ps_Ran p = ShutdownCancel # main_deferred \<or> code = 1 \<and> ps_Ran p = [])"

text \<open>Every request that was accepted is in flight or answered, and not both.\<close>

definition accounted :: "('r, 'd) process \<Rightarrow> bool" where
  "accounted p \<longleftrightarrow> distinct (map fst (ps_Inflight p) @ map fst (ps_Responses p)) \<and>
     set (map fst (ps_Inflight p) @ map fst (ps_Responses p)) = {..<ps_Accepted p}"

lemma defers_step: "process_step p p' \<Longrightarrow> defers_ok p \<Longrightarrow> defers_ok p'"
  by (cases rule: process_step.cases, assumption)
    (auto simp: defers_ok_def step_defs split: main_goroutine.splits if_splits)

lemma accounted_answer:
  assumes "q \<in> set (ps_Inflight p)" "accounted p"
  shows "accounted (answer h q p)"
proof -
  obtain xs ys where q: "ps_Inflight p = xs @ q # ys" "q \<notin> set xs" using assms(1) split_list_first by metis
  then have "remove1 q (ps_Inflight p) = xs @ ys" by (simp add: remove1_append)
  with q(1) assms(2) show ?thesis unfolding accounted_def answer_def Let_def by auto
qed

lemma accounted_step: "process_step p p' \<Longrightarrow> accounted p \<Longrightarrow> accounted p'"
proof (induction rule: process_step.induct)
  case (respond p srv h q)
  then show ?case by (simp add: accounted_answer)
qed (auto simp: accounted_def step_defs lessThan_Suc)

lemma http_step: "process_step p p' \<Longrightarrow> ps_Http p' = ps_Http p"
  by (induction rule: process_step.induct) (simp_all add: step_defs)

end
