(* ===== verification/Lifecycle_Properties.thy ===== *)
theory Lifecycle_Properties
  imports Lifecycle Service_Properties
begin

text \<open>
  Properties of the life of the process: how it ends, what has become of the requests by then, and that a
  shutdown comes to an end.
\<close>

section \<open>How the process ends\<close>

text \<open>Every response that was sent has a status.\<close>

definition responses_sent :: "('r, 'd) process \<Rightarrow> bool" where
  "responses_sent p \<longleftrightarrow> (\<forall>(i, wr) \<in> set (ps_Responses p). \<exists>code hd. wr_Sent wr = Some (code, hd))"

lemma responses_step:
  assumes "process_step p p'" and h: "\<And>srv h. ps_Http p = Some (srv, h) \<Longrightarrow> \<forall>rq. answers rq (h rq)"
    and "responses_sent p"
  shows "responses_sent p'"
  using assms(1)
proof (cases rule: process_step.cases)
  case (respond srv h q)
  let ?s = "(ps_Server p)\<lparr>sv_Writer := new_writer\<rparr>"
  have "answers (snd q) (h (snd q))" using assms(2) respond by blast
  moreover have "wr_Sent (sv_Writer ?s) = None" by (simp add: new_writer_def)
  ultimately have "booked (snd q) ?s (after (h (snd q)) ?s) \<or> turned_away (snd q) ?s (after (h (snd q)) ?s)"
    unfolding answers_def by blast
  then have "\<exists>code hd. wr_Sent (sv_Writer (after (h (snd q)) ?s)) = Some (code, hd)"
    unfolding booked_def turned_away_def by blast
  with assms(3) respond show ?thesis by (auto simp: responses_sent_def answer_def Let_def)
qed (use assms(3) in \<open>auto simp: responses_sent_def step_defs\<close>)

lemma main_start_ok:
  fixes prom :: "('r, 'd) handler"
  assumes "\<And>rq. proper (prom rq)" and p: "p = main_start getenv P J keys io prom s"
  shows "defers_ok p \<and> accounted p \<and> responses_sent p"
    and "ps_Http p = Some (srv, h) \<Longrightarrow> \<forall>rq. answers rq (h rq)"
proof -
  show "defers_ok p \<and> accounted p \<and> responses_sent p"
    by (simp add: p start_defs defers_ok_def accounted_def responses_sent_def
        split: sum.split option.split)
  show "\<forall>rq. answers rq (h rq)" if "ps_Http p = Some (srv, h)"
    using that service_answers [of prom, OF assms(1)] unfolding p main_start_server
    by (auto elim!: server_main_Inr split: sum.splits)
qed

lemma reached_ok:
  assumes "reached p0 p" and "defers_ok p0 \<and> accounted p0 \<and> responses_sent p0"
    and "\<And>srv h. ps_Http p0 = Some (srv, h) \<Longrightarrow> \<forall>rq. answers rq (h rq)"
  shows "ps_Http p = ps_Http p0 \<and> defers_ok p \<and> accounted p \<and> responses_sent p"
  using assms(1)
proof induction
  case (step p p')
  then have http: "ps_Http p = ps_Http p0" by blast
  show ?case
    using step http_step [OF step.hyps(2)] defers_step [OF step.hyps(2)] accounted_step [OF step.hyps(2)]
      responses_step [OF step.hyps(2)] assms(3) by (metis http)
qed (use assms in simp)

abbreviation mem_process :: "(mem_redis, mem_db) process" where
  "mem_process \<equiv> main_start mem_env mem_packages mem_jwt mem_readers mem_drivers mem_metrics (mem_server (mem_world Map.empty [ann]))"

lemma mem_process_runs:
  "ps_Main mem_process = MainServing" "ps_Serve mem_process = ServeCreated" "ps_Inflight mem_process = []"
  "ps_Responses mem_process = []" "\<exists>srv. ps_Http mem_process = Some (srv, mem_service)"
proof -
  have cfg: "cfg_RSAPrivateKeyPath mem_cfg = ''''" by (simp add: mem_cfg_def config_Load_def mem_env_def Let_def getEnv_def)
  note run = start_defs mem_cfg_loaded mem_km_loaded RunMigrations_def NewPostgresPool_def NewRedisClient_def
    mem_drivers_def mem_pool_def mem_client_def cfg
  show "ps_Main mem_process = MainServing" "ps_Serve mem_process = ServeCreated" "ps_Inflight mem_process = []"
    "ps_Responses mem_process = []" "\<exists>srv. ps_Http mem_process = Some (srv, mem_service)"
    by (simp_all add: run)
qed

lemma mem_prom: "proper (mem_metrics rq)"
  by (simp add: mem_metrics_def proper_rules)

text \<open>C18. How the process ends: at every moment each request that was accepted is either in flight or answered, once,
  with a status; when the process exits with status 0 all of them have been answered and the deferred calls have
  run, the shutdown's own first, then Redis, PostgreSQL, the context and the logger; and every other end, a
  \<open>Fatal\<close> at the start, in the server or at the deadline, or a signal before \<open>Notify\<close>, has run none of them.\<close>

theorem process_ends:
  assumes prom: "\<And>rq. proper (prom rq)" and run: "reached (main_start getenv P J keys io prom s) p"
  shows "distinct (map fst (ps_Inflight p) @ map fst (ps_Responses p)) \<and>
    set (map fst (ps_Inflight p) @ map fst (ps_Responses p)) = {..<ps_Accepted p} \<and>
    (\<forall>(i, wr) \<in> set (ps_Responses p). \<exists>code hd. wr_Sent wr = Some (code, hd)) \<and>
    (ps_Main p = MainExited 0 \<longrightarrow> set (map fst (ps_Responses p)) = {..<ps_Accepted p} \<and>
       ps_Ran p = [ShutdownCancel, RedisClose, PoolClose, StartCancel, ZapSync]) \<and>
    (ps_Main p \<noteq> MainExited 0 \<longrightarrow> ps_Ran p = [])"
proof -
  note start = main_start_ok [where prom = prom, OF prom refl]
  have "defers_ok p" "accounted p" "responses_sent p"
    using reached_ok [OF run start(1)] start(2) by blast+
  then show ?thesis unfolding defers_ok_def accounted_def responses_sent_def
    by (auto split: main_goroutine.splits)
qed

theorem process_ends_witness:
  "ps_Ran (deliver SIGTERM mem_process) = []"
proof -
  have "process_step mem_process (deliver SIGTERM mem_process)" using mem_process_runs(1) by (intro process_step.signal) simp
  then have "reached mem_process (deliver SIGTERM mem_process)" by (intro reached.step [OF reached.start])
  from process_ends [OF mem_prom this] show ?thesis by (simp add: deliver_def mem_process_runs(1))
qed

section \<open>A shutdown ends\<close>

lemma draining_step:
  assumes "process_step p p'" "ps_Main p = MainDraining d \<or> exited p"
  shows "ps_Accepted p' = ps_Accepted p \<and> prefix (ps_Responses p) (ps_Responses p') \<and> ps_Http p' = ps_Http p \<and>
    (ps_Main p' = MainDraining d \<or> exited p')"
  using assms(1) by (cases rule: process_step.cases) (use assms(2) in \<open>auto simp: step_defs\<close>)

lemma draining_reached:
  assumes "reached p p'" "ps_Main p = MainDraining d \<or> exited p"
  shows "ps_Accepted p' = ps_Accepted p \<and> prefix (ps_Responses p) (ps_Responses p') \<and> ps_Http p' = ps_Http p \<and>
    (ps_Main p' = MainDraining d \<or> exited p')"
  using assms(1)
proof induction
  case (step q q')
  then have "ps_Main q = MainDraining d \<or> exited q" by blast
  from draining_step [OF step.hyps(2) this] step.IH show ?case by (auto intro: prefix_order.trans)
qed (use assms(2) in simp)

lemma answer_all:
  assumes "ps_Http p = Some (srv, h)" "ps_Main p = MainDraining d"
  shows "\<exists>p'. reached p p' \<and> ps_Main p' = MainDraining d \<and> ps_Inflight p' = []"
  using assms
proof (induction "length (ps_Inflight p)" arbitrary: p)
  case 0
  then show ?case using reached.start by fastforce
next
  case (Suc n)
  then obtain q where q: "q \<in> set (ps_Inflight p)" by (cases "ps_Inflight p") auto
  then have "length (ps_Inflight (answer h q p)) = n" using Suc.hyps(2) by (simp add: answer_def Let_def length_remove1)
  moreover have "ps_Http (answer h q p) = Some (srv, h)" "ps_Main (answer h q p) = MainDraining d"
    using Suc.prems by (simp_all add: answer_def Let_def)
  ultimately obtain p' where "reached (answer h q p) p'" "ps_Main p' = MainDraining d" "ps_Inflight p' = []"
    using Suc.hyps(1) [of "answer h q p"] by auto
  moreover have "reached p (answer h q p)"
    using process_step.respond [OF Suc.prems(1) q] Suc.prems(2) by (auto intro: reached.intros)
  ultimately show ?case using reached_trans by blast
qed



section \<open>The metrics and the access log\<close>

abbreviation of_request :: "string \<Rightarrow> string \<Rightarrow> access_record \<Rightarrow> bool" where
  "of_request m path rec \<equiv> ac_Method rec = m \<and> ac_Path rec = path"

text \<open>The collectors count what the access log records.\<close>

definition books_agree :: "('r, 'd) server \<Rightarrow> bool" where
  "books_agree s \<longleftrightarrow> me_ActiveRequests (sv_Metrics s) = 0 \<and>
     me_DurationOpts (sv_Metrics s) = me_DurationOpts NewMetrics \<and>
     (\<forall>m path code. me_RequestsTotal (sv_Metrics s) (m, path, Itoa code) =
        length (filter (\<lambda>rec. of_request m path rec \<and> ac_Status rec = code) (sv_Log s))) \<and>
     (\<forall>m path. length (me_Durations (sv_Metrics s) (m, path)) = length (filter (of_request m path) (sv_Log s)))"

lemma books_answer:
  assumes "answers rq (h rq)" "books_agree s"
  shows "books_agree (after (h rq) (s\<lparr>sv_Writer := new_writer\<rparr>))"
proof -
  let ?s = "s\<lparr>sv_Writer := new_writer\<rparr>"
  have "wr_Sent (sv_Writer ?s) = None" by (simp add: new_writer_def)
  then consider "booked rq ?s (after (h rq) ?s)" | "turned_away rq ?s (after (h rq) ?s)"
    using assms(1) unfolding answers_def by blast
  then show ?thesis
  proof cases
    case 1
    then show ?thesis using assms(2) by (auto simp: booked_def books_agree_def TrackRequest_def Itoa_inj)
  next
    case 2
    then show ?thesis using assms(2) by (auto simp: turned_away_def same_books_def books_agree_def)
  qed
qed

lemma books_step:
  assumes "process_step p p'" and h: "\<And>srv h. ps_Http p = Some (srv, h) \<Longrightarrow> \<forall>rq. answers rq (h rq)"
    and "books_agree (ps_Server p)"
  shows "books_agree (ps_Server p')"
  using assms(1)
proof (cases rule: process_step.cases)
  case (respond srv h q)
  then show ?thesis using books_answer [of "snd q" h "ps_Server p"] assms(2,3) by (simp add: answer_def Let_def)
qed (use assms(3) in \<open>auto simp: books_agree_def step_defs\<close>)



end
