(* ===== verification/Provisioning.thy ===== *)
theory Provisioning
  imports Reference_Http
begin

text \<open>
  Provisioning, \<open>scim_usecase.go\<close> with the endpoints of \<open>scim_handler.go\<close>: what a creation and an update
  leave in the table and answer, and whose accounts they reach.
\<close>

section \<open>Provisioning\<close>

text \<open>PostgreSQL keeps microseconds, the documents show seconds.\<close>

lemma RFC3339_micros: "RFC3339 (micros t) = RFC3339 t"
proof -
  have "t div 1000 * 1000 div (1000 * 1000000) = t div (1000 * 1000000)"
    by (simp only: zdiv_zmult2_eq)
  then have "micros t div second = t div second" by (simp add: micros_def second_def)
  then show ?thesis by (simp add: RFC3339_def date_time_def)
qed

lemma toSCIM_stored [simp]: "toSCIM P (stored_user u) = toSCIM P u"
  by (simp add: toSCIM_def RFC3339_micros stored_user_def)

text \<open>The account that a creation request asks for.\<close>

definition scim_account :: "uuid \<Rightarrow> scim_user \<Rightarrow> string \<Rightarrow> time \<Rightarrow> uuid \<Rightarrow> user" where
  "scim_account tenantID rq h now j = zero_user\<lparr>u_ID := j, u_TenantID := tenantID,
     u_Email := (case first_email rq of Some v \<Rightarrow> v | None \<Rightarrow> su_UserName rq), u_Password := h,
     u_Role := RoleUser, u_IsActive := su_Active rq, u_ExternalID := su_ExternalID rq,
     u_EmailVerified := True, u_CreatedAt := now, u_UpdatedAt := now\<rparr>"

lemma scim_account_simps [simp]:
  "u_ID (scim_account t rq h now j) = j" "u_TenantID (scim_account t rq h now j) = t"
  "u_Role (scim_account t rq h now j) = RoleUser" "u_IsActive (scim_account t rq h now j) = su_Active rq"
  "u_ExternalID (scim_account t rq h now j) = su_ExternalID rq"
  by (simp_all add: scim_account_def)

lemma scim_CreateUser_Inr:
  assumes "run_state (scim_CreateUser P (NewUserRepository db) t rq) w = (Inr res, w1)"
  obtains h now j wa where "w_db wa = w_db w"
    and "run_state (Create db (scim_account t rq h now j)) wa = (Inr (), w1)" and "res = toSCIM P (scim_account t rq h now j)"
proof -
  obtain b w2 where b: "run_state (rand_Read 16) w = (b, w2)" by fastforce
  obtain h w3 where h: "run_state (ignore_error '''' (bcrypt_GenerateFromPassword P (string_of (fst b)))) w2 = (h, w3)" by fastforce
  obtain now w4 where now: "run_state time_Now w3 = (now, w4)" by fastforce
  obtain j w5 where j: "run_state uuid_New w4 = (j, w5)" by fastforce
  obtain r w6 where r: "run_state (Create db (scim_account t rq h now j)) w5 = (r, w6)" by fastforce
  have "w_db w5 = w_db w"
    using db_frame.frame_runD [OF rand_Read_frames(1) b] db_frame.frame_runD [OF ignore_error_frame [OF bcrypt_frames(1)] h]
      db_frame.frame_runD [OF time_Now_frames(1) now] db_frame.frame_runD [OF uuid_New_frames(1) j] by simp
  moreover have "r = Inr () \<and> w6 = w1 \<and> res = toSCIM P (scim_account t rq h now j)"
    using assms b h now j r by (cases r) (simp_all add: scim_CreateUser_def scim_account_def Let_def)
  ultimately show thesis using that r by blast
qed



section \<open>Changing an account\<close>

text \<open>The account as an update request leaves it.\<close>

definition scim_edited :: "scim_user \<Rightarrow> time \<Rightarrow> user \<Rightarrow> user" where
  "scim_edited rq now u = u\<lparr>u_Email := (case first_email rq of Some v \<Rightarrow> v | None \<Rightarrow> u_Email u),
     u_IsActive := su_Active rq, u_ExternalID := su_ExternalID rq, u_UpdatedAt := now\<rparr>"

lemma scim_edited_simps [simp]:
  "u_ID (scim_edited rq now u) = u_ID u" "u_TenantID (scim_edited rq now u) = u_TenantID u"
  "updated_user (scim_edited rq now u) u = scim_edited rq (micros now) u"
  "toSCIM P (scim_edited rq (micros now) u) = toSCIM P (scim_edited rq now u)"
  by (simp_all add: scim_edited_def updated_user_def toSCIM_def RFC3339_micros)

lemma scim_UpdateUser_run:
  "run_state (scim_UpdateUser P (NewUserRepository db) i rq) w =
     (case run_state (GetByID db i) w of
        (Inl e, w1) \<Rightarrow> (Inl e, w1)
      | (Inr u, w1) \<Rightarrow> (case run_state time_Now w1 of
          (now, w2) \<Rightarrow> (case run_state (Update db (scim_edited rq now u)) w2 of
            (Inl e, w3) \<Rightarrow> (Inl e, w3)
          | (Inr _, w3) \<Rightarrow> (Inr (toSCIM P (scim_edited rq now u)), w3))))"
  by (simp add: scim_UpdateUser_def scim_edited_def Let_def split: prod.split sum.split option.split)

text \<open>C34. An update by provisioning changes one account, the one with the identifier in the path, in its address,
  its activity, its external identifier and its time stamp and in nothing else, and the answer is the
  account as it then is. The tenant of the request has no part in it: the account may be any tenant's.\<close>

theorem scim_update:
  assumes inv: "pg_inv db tbl (sv_World s)"
    and rq: "uuid_Parse P (rq_PathValue rq ''id'') = (i, None)" "jb_Err (rq_Body rq) = None"
    and run: "run_state (scim_UpdateUser P (NewUserRepository db) i (jb_SCIMUser (rq_Body rq))) (sv_World s) = (Inr res, w')"
  shows "(\<exists>old now. old \<in> pg_users tbl (sv_World s) \<and> u_ID old = i \<and>
      w_clock (sv_World s) \<le> now \<and> now \<le> w_clock w' \<and>
      pg_users tbl w' = insert (scim_edited (jb_SCIMUser (rq_Body rq)) (micros now) old) (pg_users tbl (sv_World s) - {old}) \<and>
      res = toSCIM P (scim_edited (jb_SCIMUser (rq_Body rq)) (micros now) old)) \<and>
    (\<forall>t. run_state (h_scim_UpdateUserByID \<lparr>sh_userRepo = NewUserRepository db, sh_packages = P\<rparr> (rq\<lparr>rq_Tenant := t\<rparr>)) s =
      (Inr (), after (do { Header_Set ''Content-Type'' ''application/scim+json; charset=utf-8''; Encode (json_scim_user res) })
        (s\<lparr>sv_World := w'\<rparr>)))"
proof -
  let ?rq = "jb_SCIMUser (rq_Body rq)" and ?w = "sv_World s"
  obtain r1 w1 where get: "run_state (GetByID db i) ?w = (r1, w1)" by fastforce
  with run obtain u where r1: "r1 = Inr u" by (cases r1) (simp_all add: scim_UpdateUser_run)
  obtain now w2 where now: "run_state time_Now w1 = (now, w2)" by fastforce
  obtain r3 where up: "run_state (Update db (scim_edited ?rq now u)) w2 = (r3, w')" and r3: "r3 = Inr ()"
    and res: "res = toSCIM P (scim_edited ?rq now u)"
    using run get r1 now by (auto simp: scim_UpdateUser_run split: prod.splits sum.splits)
  have u: "u \<in> pg_users tbl ?w" "u_ID u = i" using pg.id_found [OF inv, of i u] get r1 by simp_all
  have i1: "pg_inv db tbl w1" "pg_users tbl w1 = pg_users tbl ?w"
    using pg.inv_id [OF inv, of i] pg.keep_id [OF inv, of i] get by simp_all
  have d2: "w_db w2 = w_db w1" using db_frame.frame_runD [OF time_Now_frames(1) now] .
  then have i2: "pg_inv db tbl w2" "pg_users tbl w2 = pg_users tbl ?w" using i1 by (simp_all add: pg_inv_def pg_users_def)
  have "pg_users tbl w' = insert (scim_edited ?rq (micros now) u) (pg_users tbl ?w - {u})"
    using pg.update_replaces [OF i2(1), of u "scim_edited ?rq now u"] u(1) up r3 i2(2) by simp
  moreover have "w_clock ?w \<le> now" "now \<le> w_clock w'"
    using clock_grows.frame_runD [OF repository_clock_frames(3) get] now
      clock_grows.frame_runD [OF repository_clock_frames(6) up] by (auto simp: time_Now_def Let_def)
  moreover have "run_state (h_scim_UpdateUserByID \<lparr>sh_userRepo = NewUserRepository db, sh_packages = P\<rparr> (rq\<lparr>rq_Tenant := t\<rparr>)) s =
      (Inr (), after (do { Header_Set ''Content-Type'' ''application/scim+json; charset=utf-8''; Encode (json_scim_user res) })
        (s\<lparr>sv_World := w'\<rparr>))" for t
    using rq run by (simp add: h_scim_UpdateUserByID_def in_world_def split: prod.split)
  ultimately show ?thesis using u res by auto
qed

definition mem_scim_handler :: "(mem_redis, mem_db) scim_handler" where
  "mem_scim_handler = \<lparr>sh_userRepo = NewUserRepository mem_pool, sh_packages = mem_packages\<rparr>"

theorem scim_update_witness:
  "\<exists>res. u_TenantID ann = 1 \<and>
    run_state (h_scim_UpdateUserByID mem_scim_handler
        ((mem_request ''PUT'' ''/scim/v2/Users/7'')\<lparr>rq_PathValue := (\<lambda>k. ''7''), rq_Tenant := Some 2\<rparr>)) (mem_server (mem_world Map.empty [ann])) =
      (Inr (), after (do { Header_Set ''Content-Type'' ''application/scim+json; charset=utf-8''; Encode (json_scim_user res) })
        ((mem_server (mem_world Map.empty [ann]))\<lparr>sv_World :=
          (after time_Now (mem_world Map.empty [ann]))\<lparr>w_db := [scim_edited zero_scim_user (micros mem_now) ann]\<rparr>\<rparr>))"
proof -
  let ?w = "mem_world Map.empty [ann]" and ?rq = "(mem_request ''PUT'' ''/scim/v2/Users/7'')\<lparr>rq_PathValue := (\<lambda>k. ''7'')\<rparr>"
  have inv: "pg_inv mem_pool mem_table (sv_World (mem_server ?w))" using ann_inv by (simp add: mem_server_def)
  have rq: "uuid_Parse mem_packages (rq_PathValue ?rq ''id'') = (7, None)" "jb_Err (rq_Body ?rq) = None"
    "jb_SCIMUser (rq_Body ?rq) = zero_scim_user" by (simp_all add: mem_packages_def mem_request_def)
  have "run_state (scim_UpdateUser mem_packages (NewUserRepository mem_pool) 7 zero_scim_user) ?w =
    (Inr (toSCIM mem_packages (scim_edited zero_scim_user mem_now ann)),
      (after time_Now ?w)\<lparr>w_db := [scim_edited zero_scim_user (micros mem_now) ann]\<rparr>)"
    using mem_Update_one [of "after time_Now ?w" ann "scim_edited zero_scim_user mem_now ann"]
    by (simp add: scim_UpdateUser_run mem_ByID time_Now_def Let_def)
  then have run: "run_state (scim_UpdateUser mem_packages (NewUserRepository mem_pool) 7 (jb_SCIMUser (rq_Body ?rq))) (sv_World (mem_server ?w)) =
    (Inr (toSCIM mem_packages (scim_edited zero_scim_user mem_now ann)),
      (after time_Now ?w)\<lparr>w_db := [scim_edited zero_scim_user (micros mem_now) ann]\<rparr>)"
    unfolding rq(3) by (simp add: mem_server_def)
  show ?thesis unfolding mem_scim_handler_def
    using scim_update [OF inv rq(1,2) run] by (intro exI conjI) (simp, blast)
qed

section \<open>Deleting an account\<close>

lemma deleted_lookup:
  assumes "pg_inv db tbl w" "\<forall>v \<in> pg_users tbl w. u_ID v \<noteq> i" "w_db w' = w_db w"
  shows "\<exists>e. result (GetByID db i) w' = Inl e"
proof (cases "result (GetByID db i) w'")
  case (Inr v)
  have "pg_inv db tbl w'" "pg_users tbl w' = pg_users tbl w" using assms by (simp_all add: pg_inv_def pg_users_def)
  with pg.id_found [of db tbl w' i v] Inr assms(2) show ?thesis by blast
qed blast

text \<open>A token read in a world where it was its owner's before still names its owner.\<close>

lemma read_owner:
  assumes laws: "redis_laws rdb alive" and v: "alive (w_clock w) (w_redis w) k = Some v"
    and get: "run_state (cmd_Result (rd_Get rdb k)) w = (Inr s, w')"
  shows "s = v \<and> w_db w' = w_db w"
proof -
  let ?t = "w_clock w + int (w_elapse w 0)"
  have "fst (rd_Get rdb k ?t (w_redis w)) = Inr s" using get by (simp add: cmd_Result_Inr)
  then have "alive ?t (w_redis w) k = Some s" by (rule redis_getD(2) [OF laws])
  moreover have "alive ?t (w_redis w) k = None \<or> alive ?t (w_redis w) k = alive (w_clock w) (w_redis w) k"
    by (rule redis_expiryD [OF laws]) simp
  ultimately have "s = v" using v by simp
  moreover have "w_db w' = w_db w" using get by (auto simp: cmd_Result_Inr run_redis_do Let_def)
  ultimately show ?thesis by simp
qed



end
