(* ===== verification/Mail_Flows.thy ===== *)
theory Mail_Flows
  imports Account_Properties Reference_Http Http_Laws
begin

text \<open>
  The links sent by mail: a token is stored under a key of its own and sent to the address of the account, and the
  one who shows it acts on that account. Both requests, for a reset and for a verification, are one program
  with the key, the lifetime and the mail as parameters.
\<close>

section \<open>Sending a token\<close>

definition mail_token :: "packages \<Rightarrow> 'd pgx_pool \<Rightarrow> 'r redis_client \<Rightarrow> (string \<Rightarrow> string) \<Rightarrow> duration \<Rightarrow>
    (string \<Rightarrow> string \<Rightarrow> mail) \<Rightarrow> uuid \<Rightarrow> string \<Rightarrow> ('r, 'd, unit) go" where
  "mail_token P db rdb key ttl letter tenantID email = do {
     r \<leftarrow> GetByEmail db tenantID email;
     case r of
       Inl err \<Rightarrow> ok ()
     | Inr user \<Rightarrow> do {
         token \<leftarrow> ignore_error '''' (GenerateSecureToken 32);
         _ \<leftarrow> cmd_Err (rd_Set rdb (key token) (uuid_String P (u_ID user)) ttl);
         writes (\<lambda>w. w\<lparr>w_mails := w_mails w @ [letter (u_Email user) token]\<rparr>);
         ok () } }"

lemma requests_mail:
  "RequestPasswordReset (auth_system getenv P J db rdb km cfg) =
     mail_token P db rdb pwd_reset_key (1 * hour) (\<lambda>a tok. PasswordResetMail a (reset_link tok))"
  "RequestEmailVerification (auth_system getenv P J db rdb km cfg) =
     mail_token P db rdb email_verify_key (24 * hour) (\<lambda>a tok. VerificationMail a (verification_link tok))"
  unfolding fun_eq_iff RequestPasswordReset_def RequestEmailVerification_def mail_token_def auth_system_simps
    repository_simps session_simps StorePasswordResetToken_def StoreEmailVerifyToken_def NewConsoleEmailSender_def
    email_sender.simps SendPasswordResetEmail_def SendVerificationEmail_def
  by (intro allI refl)+

text \<open>The token shows a value from the call on, for its lifetime; or the store refused it, and nothing shows.\<close>

definition token_issued :: "'r alive \<Rightarrow> string \<Rightarrow> duration \<Rightarrow> string \<Rightarrow> ('r, 'd) world \<Rightarrow> ('r, 'd) world \<Rightarrow> bool" where
  "token_issued alive k ttl v w w' \<longleftrightarrow>
     (\<exists>ts. w_clock w \<le> ts \<and> ts \<le> w_clock w' \<and> (\<forall>t \<ge> w_clock w'. alive t (w_redis w') =
        (alive t (w_redis w))(k := if t < ts + ttl then Some v else None))) \<or>
     (\<forall>t \<ge> w_clock w'. alive t (w_redis w') = alive t (w_redis w))"

lemma set_issues:
  assumes "redis_laws rdb alive" "0 < ttl"
  shows "token_issued alive k ttl v w (after (redis_do (rd_Set rdb k v ttl)) w)"
proof -
  let ?t = "w_clock w + int (w_elapse w 0)"
  have "set_effect alive k v ttl ?t (w_redis w) (snd (rd_Set rdb k v ttl ?t (w_redis w))) \<or>
      same_from alive ?t (w_redis w) (snd (rd_Set rdb k v ttl ?t (w_redis w)))"
    using assms unfolding redis_laws_def redis_set_law_def by blast
  then show ?thesis unfolding token_issued_def set_effect_def same_from_def by (auto intro: exI [of _ ?t])
qed

lemma issued_later:
  "token_issued alive k ttl v w1 w2 \<Longrightarrow> w_redis w1 = w_redis w \<Longrightarrow> w_clock w \<le> w_clock w1 \<Longrightarrow>
     w_redis w3 = w_redis w2 \<Longrightarrow> w_clock w3 = w_clock w2 \<Longrightarrow> token_issued alive k ttl v w w3"
  unfolding token_issued_def by (elim disjE exE conjE) (auto intro: exI order_trans)

text \<open>What the request does: it is answered alike for every address, it changes no account and audits nothing.\<close>

lemma mail_token_effect:
  assumes inv: "pg_inv db tbl w" "redis_laws rdb alive" and ttl: "0 < ttl"
    and run: "run_state (mail_token P db rdb key ttl letter tenantID email) w = (r, w')"
  shows "r = Inr () \<and> pg_inv db tbl w' \<and> pg_users tbl w' = pg_users tbl w \<and> w_audit w' = w_audit w \<and>
    (w_mails w' = w_mails w \<and> w_redis w' = w_redis w \<or>
     (\<exists>user tok. user \<in> pg_users tbl w \<and> u_TenantID user = tenantID \<and> u_Email user = email \<and>
        w_mails w' = w_mails w @ [letter (u_Email user) tok] \<and>
        token_issued alive (key tok) ttl (uuid_String P (u_ID user)) w w'))"
proof -
  obtain r1 w1 where get: "run_state (GetByEmail db tenantID email) w = (r1, w1)" by fastforce
  have i1: "pg_inv db tbl w1" "pg_users tbl w1 = pg_users tbl w"
    using pg.inv_email [OF inv(1), of tenantID email] pg.keep_email [OF inv(1), of tenantID email] get by simp_all
  have s1: "w_redis w1 = w_redis w" "w_mails w1 = w_mails w" "w_audit w1 = w_audit w" "w_clock w \<le> w_clock w1"
    using redis_frame.frame_runD [OF _ get] mail_frame.frame_runD [OF _ get] audit_frame.frame_runD [OF _ get]
      clock_grows.frame_runD [OF _ get] unfolding GetByEmail_def select_user_def Let_def by (auto intro!: frames)
  show ?thesis
  proof (cases r1)
    case (Inl e)
    with run get have "r = Inr () \<and> w' = w1" by (simp add: mail_token_def)
    with i1 s1 show ?thesis by simp
  next
    case (Inr user)
    let ?gen = "ignore_error '''' (GenerateSecureToken 32)"
    obtain tok w2 where gen: "run_state ?gen w1 = (tok, w2)" by fastforce
    let ?st = "redis_do (rd_Set rdb (key tok) (uuid_String P (u_ID user)) ttl)"
    have "r = Inr () \<and> w' = (after ?st w2)\<lparr>w_mails := w_mails (after ?st w2) @ [letter (u_Email user) tok]\<rparr>"
      using run get Inr gen by (simp add: mail_token_def split_beta)
    then have r: "r = Inr ()" and w': "w' = (after ?st w2)\<lparr>w_mails := w_mails (after ?st w2) @ [letter (u_Email user) tok]\<rparr>"
      by blast+
    have s2: "w_redis w2 = w_redis w1" "w_mails w2 = w_mails w1" "w_audit w2 = w_audit w1" "w_clock w1 \<le> w_clock w2"
      "w_db w2 = w_db w1"
      using redis_frame.frame_runD [OF ignore_error_frame [OF GenerateSecureToken_frames(2)] gen]
        mail_frame.frame_runD [OF ignore_error_frame [OF GenerateSecureToken_frames(4)] gen]
        audit_frame.frame_runD [OF ignore_error_frame [OF GenerateSecureToken_frames(3)] gen]
        clock_grows.frame_runD [OF ignore_error_frame [OF GenerateSecureToken_frames(6)] gen]
        db_frame.frame_runD [OF ignore_error_frame [OF GenerateSecureToken_frames(1)] gen] .
    have s3: "w_mails (after ?st w2) = w_mails w2" "w_audit (after ?st w2) = w_audit w2" "w_db (after ?st w2) = w_db w2"
      by (simp_all add: run_redis_do Let_def)
    have found: "user \<in> pg_users tbl w" "u_TenantID user = tenantID" "u_Email user = email"
      using pg.email_found [OF inv(1), of tenantID email user] get Inr by simp_all
    have "token_issued alive (key tok) ttl (uuid_String P (u_ID user)) w2 (after ?st w2)"
      by (rule set_issues [OF inv(2) ttl])
    then have "token_issued alive (key tok) ttl (uuid_String P (u_ID user)) w w'"
      by (rule issued_later) (use s1 s2 w' in auto)
    moreover have "pg_inv db tbl w'" "pg_users tbl w' = pg_users tbl w"
      using i1 s2(5) s3(3) w' by (simp_all add: pg_inv_def pg_users_def)
    moreover have "w_mails w' = w_mails w @ [letter (u_Email user) tok]" "w_audit w' = w_audit w"
      using s1 s2 s3 w' by simp_all
    ultimately show ?thesis using r found by blast
  qed
qed

section \<open>Requesting a reset\<close>



section \<open>From the request to the new password\<close>


lemma mem_mail_token:
  "\<exists>tok. run_state (mail_token mem_packages mem_pool mem_client key ttl letter 1 ''ann@example.org'') (mem_world Map.empty [ann]) =
    (Inr (), (after time_Now (after (rand_Read 32) (mem_world Map.empty [ann])))
       \<lparr>w_redis := [key tok \<mapsto> (''7'', Some (mem_now + ttl))], w_mails := [letter ''ann@example.org'' tok]\<rparr>)"
proof -
  have seven: "uuid_String mem_packages 7 = ''7''" by (simp add: mem_packages_def dec_nat.simps digit_char_def char_of_eq_iff)
  show ?thesis
    by (simp add: mail_token_def mem_ByEmail ignore_error_def GenerateSecureToken_def rand_Read_def mem_set seven
        time_Now_def Let_def) (simp add: mem_world_def, blast)
qed


end
