(* ===== verification/Spec2Isabelle.thy ===== *)
theory Spec2Isabelle
  imports Account_Properties Session_Properties Refresh_Race Concurrency_Properties Store_Properties Service_Properties
    Lifecycle_Properties Component_Properties Provisioning Mail_Flows
begin

text \<open>
  The verification of the authentication service, \<open>src/auth-service\<close>.

  The program. \<open>cmd/server/main.go\<close> reads the settings, opens PostgreSQL and Redis, migrates the schema,
  loads or makes the RSA key, and wires repositories, use cases, handlers and middlewares into one HTTP
  server. A request passes the middlewares for its
  identifier, tracing, CORS, the rate limit, the access log, the metrics and the tenant, then the router
  gives it to a handler, which decodes it, calls a use case and maps its error to a status. The use
  cases keep accounts in PostgreSQL (\<open>user_repo.go\<close>) and refresh tokens, challenges, reset and
  verification tokens and OAuth states in Redis (\<open>session_repo.go\<close>), sign access tokens
  (\<open>utils/jwt.go\<close>), check one-time passwords (\<open>utils/totp.go\<close>), talk to Google and GitHub
  (\<open>oauth/provider.go\<close>) and write an audit log and mails.

  How it is modelled. Every operation is a state-monad program over one record \<open>world\<close> (theory
  Effects): the clock, the randomness that may fail, the two data stores, the answers of the identity
  providers, the audit log and the mails. Whatever the environment decides is a stream in the world, so a
  theorem about every world is one about every behaviour of the environment. A Go result \<open>(value,
  error)\<close> is a sum, an error first; the sentinel errors are constructors of \<open>go_error\<close>. Go's
  \<open>int\<close> is kept at 64 bits where its width can be met, \<open>float64\<close> is rounded (Go_Float), durations are
  in nanoseconds, strings are lists of bytes. Middlewares are functions from handlers to handlers over
  a record \<open>server\<close> that adds the access log and the metrics to the world.

  Which theory models what:
  \<^item> Prelude, Go_Std, Go_Encoding, Go_Crypto, Go_Float: frames and list lemmas; the parts of \<open>strings\<close>,
    \<open>strconv\<close>, \<open>time\<close> and \<open>encoding\<close>, SHA-1, SHA-256 and HMAC, and \<open>float64\<close>, all executable.
  \<^item> Domain, Json: \<open>internal/domain\<close>, and the JSON that its struct tags give.
  \<^item> Effects: the world, \<open>logger/audit.go\<close>, \<open>utils/email.go\<close>. Logger: how the process logger is set up.
  \<^item> Config: \<open>config/config.go\<close>. Validator, Totp, Keys: \<open>utils/validator.go\<close>, \<open>utils/totp.go\<close>,
    \<open>utils/jwt.go\<close>. Oauth: \<open>oauth/provider.go\<close>. Metrics: \<open>metrics/metrics.go\<close>. Rfc6238: the standard for one-time
    passwords, as a reference for Totp.
  \<^item> Session_Store, Session_Laws: \<open>redis/session_repo.go\<close>, and its contract.
  \<^item> User_Store, User_Laws, User_Contract: \<open>postgres/user_repo.go\<close>, the laws of SQL, and its contract.
  \<^item> Auth_Usecase, Auth_Backend, Auth_Laws: \<open>usecase/auth_usecase.go\<close>, the interface it needs, and what
    each method does over that interface. User_Usecase: \<open>user_usecase.go\<close> and \<open>scim_usecase.go\<close>.
  \<^item> Http, Middleware, Handlers, Http_Laws: requests, responses and \<open>ServeMux\<close>; \<open>http/middleware\<close>;
    \<open>http/handler\<close> and \<open>http/router.go\<close>; what guarded handlers require.
  \<^item> Startup: both \<open>main.go\<close>, \<open>infrastructure/database\<close> and \<open>infrastructure/cache\<close>; \<open>service\<close> is the
    handler that \<open>main\<close> serves. Lifecycle: the whole of \<open>cmd/server/main.go\<close> as a process, its deferred calls, the
    two goroutines, signals, requests in flight and the shutdown, as an inductive step relation.
  \<^item> Service_Runs, Privileges: sequences of authentication calls. Threads: programs cut at their calls to shared
    state, pools of them under a schedule, rely and guarantee. Auth_Threads: the methods of
    \<open>auth_usecase.go\<close> and the update of \<open>scim_usecase.go\<close> as threads. Thread_Laws: what they rely on and
    guarantee. Refresh_Race: two interleaved refreshes in phases.
    Rate_Limit: the Lua script as a counter. Service_Frames: what every call respects, the service respects.
    Service_Laws: the whole pipeline. Stored_Types: the types of the columns of the users table.
  \<^item> Reference, Reference_Runs, Reference_Http: in-memory stores and packages that meet every law assumed, on which
    the witnesses run the program.
\<close>

text \<open>
  Parameters and laws. Code that is not in the repository is an argument: a Redis client
  (\<open>redis_laws\<close>: GET after SET until the expiry, DEL, other keys untouched, every command may fail;
  \<open>redis_counter_laws\<close> for INCR and EXPIRE), a PostgreSQL pool (\<open>pg_laws\<close>: SELECT, INSERT, UPDATE and
  DELETE on a set of rows under the unique constraints of the migrations, any of which may fail), the packages (\<open>packages_ok\<close>: a bcrypt hash matches the password it
  was made from and identifiers are parsed back from their text) and golang-jwt (\<open>jwt_laws\<close>: the parser
  asks the key function for the key, accepts only what verifies under it, and reads back what was signed).
  Theory Reference shows that all of them can hold together.

  Interfaces. \<open>frame\<close> (Prelude) is a reflexive and transitive relation between the worlds before and
  after a call, interpreted for each part of the world that an operation leaves alone or only extends; in Threads
  the same relation is what a thread guarantees to the others and relies on.
  \<open>token_store\<close> (Session_Laws) is a store of expiring tokens, interpreted on the kinds of token in
  Redis. \<open>user_store\<close> (User_Contract) is a set of accounts with unique e-mail addresses and
  identities, interpreted on the SQL repository. \<open>auth_backend\<close> (Auth_Backend) puts a user store and four
  token stores that do not disturb each other together; the lemmas on the use cases are proved once in it
  and reach the service by its interpretation on the repositories as \<open>main.go\<close> wires them.
  \<open>service_frame\<close> (Service_Frames) is a frame that every call of a use case respects; handlers, routes
  and middlewares then respect it too. It is interpreted on the growth of the audit log and on the types of
  the stored accounts.

  What the theorems show.
  \<^item> Accounts (Account_Properties): who is let in by a password and by a second factor and with which
    session, in both directions; each refusal and its audit record; what a wrong code leaves alive; what registering, resetting the
    password, verifying the address and enrolling a second factor do to the account and to nothing
    else; that no sequence of authentication calls raises a role or removes an account.
  \<^item> Sessions (Session_Properties, Refresh_Race): rotation takes the old token out for good, logout as well,
    whatever is called afterwards; a callback of an identity provider only with a state that was issued and with
    the account of that identity; what two concurrent refreshes can do.
  \<^item> Concurrency (Concurrency_Properties): any number of authentication calls in progress under any schedule. The sequential
    model is one of the schedules; every call ends after at most eleven steps of its own; accounts keep
    their identity and role; an address is registered once; a logout that was answered holds for every refresh that
    starts later; and what is lost where a whole row is read and written back.
  \<^item> The service (Service_Properties): administration and provisioning only with a valid token of
    a role with the permission; a token from a login is accepted; every request gets one answer,
    one line in the access log and balanced gauges; the audit log only grows; the columns of the users table
    hold hashes, seeds, roles and providers only; a process that starts has all it needs
    and serves that guarded service.
  \<^item> The process (Lifecycle_Properties): each accepted request is answered once or in flight; an exit with status 0 has
    answered all and run the deferred calls in reverse order, any other end none; a shutdown accepts nothing more
    and comes to an end; the metrics count what the access log records.
  \<^item> Provisioning: a creation is read back as it was answered; an update changes one account, of any tenant; a
    deletion locks its owner out although his tokens stay in the store.
  \<^item> Mails (Mail_Flows): a reset request is answered alike for every address and mails at most one token, to the
    account of the address; that token sets the password of this account, within the hour and once.
  \<^item> Stores and limits (Store_Properties): every run of user-store operations refines a set of accounts; an
    account keeps its identity; listing pages; the limit of requests per window, its bursts, and how it is evaded.
  \<^item> Components (Component_Properties): access tokens, key sets, addresses, settings, and one-time passwords, which are
    those of RFC 6238.

  Bounds and termination. Loops of the source are structural recursions, or functions with a measure (the
  parsers of numbers and durations, base 32, hashing, path cleaning); all definitions are total. Only the
  scanner of durations (\<open>duration_terms\<close> in Config) counts fuel: each term consumes a character, so the length of the text is
  enough, which is proved there and against a relation without fuel. A Go
  panic (a slice out of range, a failed type assertion) is an outcome of its own, and no request to the
  service ends in one. A whole request runs in one step of the process in Lifecycle; the interleaving of requests
  is modelled below the handlers, for the authentication calls and the provisioning update, where a step is one call to a store, the clock, a
  random source, a provider, the mailer or the audit log. The bound of eleven steps is proved by counting the
  calls on every path.

  Not modelled: what the logging library and Prometheus print, the timeouts of single connections, context
  cancellation, the unit tests, and the SQL and container files; the unique constraints of the
  schema are in \<open>pg_laws\<close>. \<open>ParseAddress\<close> is modelled for the addresses the code lets through.

  Still to come: the listings of the provisioning interface, and the middlewares as threads.
\<close>

end
